(* ===== verification/Prelude.thy ===== *)
theory Prelude
  imports Main "HOL-Library.AList"
begin

section \<open>Prelude: errors, Go maps, and programs that may fail\<close>

text \<open>
  What every component shares: the errors of the Go code as values, Go's maps (with the
  difference between a nil map and an empty one), and stateful programs that return early
  with an error. A program is a function from a state to a result and a new state; the
  state itself is chosen later (theory \<open>Kube\<close>: the cluster and the list of the calls made
  so far). The last part is a small Hoare logic with one postcondition for normal returns
  and one for early returns.
\<close>

subsection \<open>Collections of the development\<close>

named_theorems emit_intros \<open>introduction rules: a program issues only allowed calls\<close>
named_theorems triple_intros \<open>rules of the Hoare logic, applied backwards\<close>
named_theorems prog_defs \<open>definitions of the program combinators\<close>
named_theorems run_simps \<open>one program combinator applied to a state\<close>

subsection \<open>Errors\<close>

text \<open>
  \<open>ApiErr\<close> is an error of the API server with its machine-readable reason, \<open>ErrText\<close> one made
  by \<open>fmt.Errorf\<close> or \<open>errors.New\<close>, \<open>Wrapped\<close> one made by \<open>fmt.Errorf\<close> with a prefix and
  \<open>%w\<close>. A run-time panic (index out of range, write to a nil map, negative length) is not an
  error value in Go: it is a constructor of its own, so that code which inspects an error
  cannot catch it.
\<close>

datatype reason = NotFound | AlreadyExists | Conflict | OtherReason

datatype goerr =
    ApiErr reason string
  | ErrText string
  | Wrapped string goerr
  | Panic string

fun err_text :: "goerr \<Rightarrow> string" where
  "err_text (ApiErr _ t) = t"
| "err_text (ErrText t) = t"
| "err_text (Wrapped p e) = p @ '': '' @ err_text e"
| "err_text (Panic t) = t"

fun is_panic :: "goerr \<Rightarrow> bool" where
  "is_panic (Panic _) = True"
| "is_panic _ = False"

fun is_not_found :: "goerr \<Rightarrow> bool" where
  "is_not_found (ApiErr NotFound _) = True"
| "is_not_found (Wrapped _ e) = is_not_found e"
| "is_not_found _ = False"

lemma not_found_no_panic: "is_not_found e \<Longrightarrow> \<not> is_panic e"
  by (cases e) auto

subsection \<open>Go maps\<close>

text \<open>
  A Go map is nil (\<open>None\<close>) or a finite map, kept as an association list with distinct keys.
  Reading a nil map gives the zero value, writing to one panics.
\<close>

type_synonym 'v gomap = "(string \<times> 'v) list option"

definition gm_entries :: "'v gomap \<Rightarrow> (string \<times> 'v) list" where
  "gm_entries m = (case m of None \<Rightarrow> [] | Some al \<Rightarrow> al)"

definition gm_get :: "'v gomap \<Rightarrow> string \<Rightarrow> 'v option" where
  "gm_get m k = map_of (gm_entries m) k"

definition gm_str :: "string gomap \<Rightarrow> string \<Rightarrow> string" where
  "gm_str m k = (case gm_get m k of None \<Rightarrow> '''' | Some v \<Rightarrow> v)"

definition gm_len :: "'v gomap \<Rightarrow> nat" where
  "gm_len m = length (gm_entries m)"

definition gm_put :: "'v gomap \<Rightarrow> string \<Rightarrow> 'v \<Rightarrow> goerr + 'v gomap" where
  "gm_put m k v =
     (case m of None \<Rightarrow> Inl (Panic ''assignment to entry in nil map'')
      | Some al \<Rightarrow> Inr (Some (AList.update k v al)))"

definition gm_wf :: "'v gomap \<Rightarrow> bool" where
  "gm_wf m \<longleftrightarrow> distinct (map fst (gm_entries m))"

lemma gm_simps [simp]:
  "gm_entries None = []" "gm_entries (Some al) = al"
  "gm_get None k = None" "gm_get (Some al) k = map_of al k"
  "gm_put (Some al) k v = Inr (Some (AList.update k v al))"
  "gm_len None = 0" "gm_len (Some al) = length al"
  by (simp_all add: gm_entries_def gm_get_def gm_put_def gm_len_def)

lemma gm_put_get: "gm_put m k v = Inr m' \<Longrightarrow> gm_get m' j = (if j = k then Some v else gm_get m j)"
  by (cases m) (auto simp: gm_put_def update_conv')

lemma map_of_update [simp]: "map_of (AList.update k v al) j = (if j = k then Some v else map_of al j)"
  by (simp add: update_conv')

lemma update_idem [simp]: "AList.update k v (AList.update k v al) = AList.update k v al"
  by (induction al) auto

lemma update_present: "map_of al k = Some v \<Longrightarrow> distinct (map fst al) \<Longrightarrow> AList.update k v al = al"
  by (induction al) (auto split: if_splits simp: weak_map_of_SomeI rev_image_eqI)

subsection \<open>Programs\<close>

type_synonym ('s, 'a) prog = "'s \<Rightarrow> (goerr + 'a) \<times> 's"

definition ret :: "'a \<Rightarrow> ('s, 'a) prog" where
  [prog_defs]: "ret x = (\<lambda>s. (Inr x, s))"

definition fail :: "goerr \<Rightarrow> ('s, 'a) prog" where
  [prog_defs]: "fail e = (\<lambda>s. (Inl e, s))"

text \<open>\<open>x, err := m(); if err != nil { return err }; f(x)\<close>\<close>

definition bindE :: "('s, 'a) prog \<Rightarrow> ('a \<Rightarrow> ('s, 'b) prog) \<Rightarrow> ('s, 'b) prog" where
  [prog_defs]: "bindE m f = (\<lambda>s. case m s of (Inl e, s') \<Rightarrow> (Inl e, s') | (Inr x, s') \<Rightarrow> f x s')"

text \<open>\<open>x, err := m()\<close> with \<open>err\<close> inspected (or ignored) by what follows. A panic goes on.\<close>

definition attempt :: "('s, 'a) prog \<Rightarrow> ('s, goerr + 'a) prog" where
  [prog_defs]: "attempt m = (\<lambda>s. case m s of
       (Inl e, s') \<Rightarrow> (if is_panic e then (Inl e, s') else (Inr (Inl e), s'))
     | (Inr x, s') \<Rightarrow> (Inr (Inr x), s'))"

definition liftE :: "goerr + 'a \<Rightarrow> ('s, 'a) prog" where
  [prog_defs]: "liftE r = (\<lambda>s. (r, s))"

text \<open>\<open>for _, x := range xs { if err := f(x); err != nil { return err } }\<close>\<close>

fun forE :: "'a list \<Rightarrow> ('a \<Rightarrow> ('s, unit) prog) \<Rightarrow> ('s, unit) prog" where
  "forE [] f = ret ()"
| "forE (x # xs) f = bindE (f x) (\<lambda>_. forE xs f)"

text \<open>\<open>if err := m(); err != nil { return fmt.Errorf("prefix: %w", err) }\<close>\<close>

definition wrap_err :: "string \<Rightarrow> ('s, 'a) prog \<Rightarrow> ('s, 'a) prog" where
  [prog_defs]: "wrap_err p m = (\<lambda>s. case m s of
       (Inl e, s') \<Rightarrow> (if is_panic e then (Inl e, s') else (Inl (Wrapped p e), s'))
     | (Inr x, s') \<Rightarrow> (Inr x, s'))"

text \<open>Sequencing for pure code that may fail.\<close>

definition bindR :: "goerr + 'a \<Rightarrow> ('a \<Rightarrow> goerr + 'b) \<Rightarrow> goerr + 'b" where
  "bindR r f = (case r of Inl e \<Rightarrow> Inl e | Inr x \<Rightarrow> f x)"

lemma bindR_simps [simp]: "bindR (Inl e) f = Inl e" "bindR (Inr x) f = f x"
  by (simp_all add: bindR_def)

lemma bindR_eq_Inr: "bindR r f = Inr y \<longleftrightarrow> (\<exists>x. r = Inr x \<and> f x = Inr y)"
  by (cases r) auto

lemma bindE_ret [simp]: "bindE (ret x) f = f x" "bindE m ret = m"
  by (auto simp: prog_defs fun_eq_iff split: prod.splits sum.splits)

lemma bindE_fail [simp]: "bindE (fail e) f = fail e"
  by (simp add: prog_defs)

lemma bindE_assoc [simp]: "bindE (bindE m f) g = bindE m (\<lambda>x. bindE (f x) g)"
  by (auto simp: prog_defs fun_eq_iff split: prod.splits sum.splits)

lemma run_ret [run_simps]: "ret x s = (Inr x, s)"
  by (simp add: ret_def)

lemma run_fail [run_simps]: "fail e s = (Inl e, s)"
  by (simp add: fail_def)

lemma run_liftE [run_simps]: "liftE r s = (r, s)"
  by (simp add: liftE_def)

lemma run_bindE [run_simps]:
  "bindE m f s = (case m s of (Inl e, s') \<Rightarrow> (Inl e, s') | (Inr x, s') \<Rightarrow> f x s')"
  by (simp add: bindE_def)

lemma forE_append: "forE (xs @ ys) f = bindE (forE xs f) (\<lambda>_. forE ys f)"
  by (induction xs) simp_all

subsection \<open>Triples with an error postcondition\<close>

text \<open>
  \<open>triple P m Q E\<close>: started in a state where \<open>P\<close> holds, \<open>m\<close> returns normally with \<open>Q\<close> or
  returns early with \<open>E\<close>. Programs are total functions, so this is total correctness.
\<close>

definition triple :: "('s \<Rightarrow> bool) \<Rightarrow> ('s, 'a) prog \<Rightarrow> ('a \<Rightarrow> 's \<Rightarrow> bool) \<Rightarrow> ('s \<Rightarrow> bool) \<Rightarrow> bool" where
  "triple P m Q E \<longleftrightarrow>
     (\<forall>s. P s \<longrightarrow> (case m s of (Inl e, s') \<Rightarrow> E s' | (Inr x, s') \<Rightarrow> Q x s'))"

lemma tripleD:
  "triple P m Q E \<Longrightarrow> P s \<Longrightarrow> m s = (Inr x, s') \<Longrightarrow> Q x s'"
  "triple P m Q E \<Longrightarrow> P s \<Longrightarrow> m s = (Inl e, s') \<Longrightarrow> E s'"
  by (force simp: triple_def)+

lemma triple_final: "triple P m (\<lambda>_. I) I \<Longrightarrow> P s \<Longrightarrow> I (snd (m s))"
  by (cases "m s"; cases "fst (m s)") (auto simp: triple_def dest: spec [of _ s])

lemma triple_pre: "triple P m Q E \<Longrightarrow> (\<And>s. P' s \<Longrightarrow> P s) \<Longrightarrow> triple P' m Q E"
  by (simp add: triple_def)

lemma triple_conseq:
  "triple P m Q E \<Longrightarrow> (\<And>s. P' s \<Longrightarrow> P s) \<Longrightarrow> (\<And>x s. Q x s \<Longrightarrow> Q' x s) \<Longrightarrow> (\<And>s. E s \<Longrightarrow> E' s)
    \<Longrightarrow> triple P' m Q' E'"
  by (fastforce simp: triple_def split: prod.splits sum.splits)

lemma triple_ret [triple_intros]: "(\<And>s. P s \<Longrightarrow> Q x s) \<Longrightarrow> triple P (ret x) Q E"
  by (simp add: triple_def run_simps)

lemma triple_fail [triple_intros]: "(\<And>s. P s \<Longrightarrow> E s) \<Longrightarrow> triple P (fail e) Q E"
  by (simp add: triple_def run_simps)

lemma triple_liftE [triple_intros]:
  "(\<And>s x. P s \<Longrightarrow> r = Inr x \<Longrightarrow> Q x s) \<Longrightarrow> (\<And>s. P s \<Longrightarrow> E s) \<Longrightarrow> triple P (liftE r) Q E"
  by (auto simp: triple_def run_simps split: sum.splits)

lemma triple_bind:
  "triple P m R E \<Longrightarrow> (\<And>x. triple (R x) (f x) Q E) \<Longrightarrow> triple P (bindE m f) Q E"
  by (fastforce simp: triple_def run_bindE split: prod.splits sum.splits)

lemma triple_attempt:
  "triple P m (\<lambda>x. Q (Inr x)) (\<lambda>s. E s \<and> (\<forall>e. Q (Inl e) s)) \<Longrightarrow> triple P (attempt m) Q E"
  by (fastforce simp: triple_def attempt_def split: prod.splits sum.splits)

lemma triple_wrap: "triple P m Q E \<Longrightarrow> triple P (wrap_err p m) Q E"
  by (fastforce simp: triple_def wrap_err_def split: prod.splits sum.splits)

lemma triple_forE:
  assumes "\<And>x. x \<in> set xs \<Longrightarrow> triple I (f x) (\<lambda>_. I) E"
  shows "triple I (forE xs f) (\<lambda>_. I) E"
  using assms
proof (induction xs)
  case Nil
  show ?case by (simp add: triple_ret)
next
  case (Cons x xs)
  then show ?case by (auto intro!: triple_bind)
qed

end
