(* ===== verification/KubeTypes.thy ===== *)
theory KubeTypes
  imports Prelude
begin

section \<open>The Kubernetes objects the controllers build and read\<close>

text \<open>
  The structs of \<open>k8s.io/api\<close> (package \<open>corev1\<close>, \<open>netv1\<close>), of the gateway API and of the
  unstructured CiliumNetworkPolicy, with the fields the controllers set or read. A pointer
  field is an \<open>option\<close> (\<open>None\<close> for nil), a map field a \<open>gomap\<close>, a field that is only passed
  through an opaque string. These are data declarations of the Kubernetes API; what the API
  server does with them is not defined here (see theory \<open>Kube\<close>).
\<close>

text \<open>
  \<open>resource.Quantity\<close>: the controllers only copy quantities and parse constants, so a quantity is
  the text \<open>resource.MustParse\<close> is given.
\<close>

type_synonym quantity = string
type_synonym resource_list = "quantity gomap"

subsection \<open>Object metadata\<close>

record meta =
  m_name :: string
  m_namespace :: string
  m_labels :: "string gomap"
  m_annotations :: "string gomap"
  m_finalizers :: "string list"
  m_owner_refs :: "string list"
  m_creation_ts :: "int option"
  m_deletion_ts :: "int option"

definition new_meta :: "string \<Rightarrow> string \<Rightarrow> meta" where
  "new_meta name ns = \<lparr>m_name = name, m_namespace = ns, m_labels = None, m_annotations = None,
     m_finalizers = [], m_owner_refs = [], m_creation_ts = None, m_deletion_ts = None\<rparr>"

lemma new_meta_simps [simp]:
  "m_name (new_meta n ns) = n" "m_namespace (new_meta n ns) = ns" "m_labels (new_meta n ns) = None"
  "m_annotations (new_meta n ns) = None" "m_finalizers (new_meta n ns) = []"
  "m_owner_refs (new_meta n ns) = []" "m_creation_ts (new_meta n ns) = None"
  "m_deletion_ts (new_meta n ns) = None"
  by (simp_all add: new_meta_def)

record label_selector =
  ls_match_labels :: "string gomap"
  ls_match_expressions :: "string list"

text \<open>A parsed \<open>labels.Selector\<close>, by its canonical text.\<close>

datatype selector = Selector string

subsection \<open>Pods\<close>

datatype int_or_string = IntVal int | StrVal string

datatype probe_handler = HTTPGet string int_or_string | OtherHandler string

record probe =
  pr_handler :: probe_handler
  pr_initial_delay :: int
  pr_period :: int
  pr_failure_threshold :: int
  pr_rest :: string

record env_var =
  ev_name :: string
  ev_value :: string

record container_port =
  cp_name :: string
  cp_port :: int
  cp_protocol :: string

record volume_mount =
  vm_name :: string
  vm_path :: string

datatype volume_source = EmptyDir "quantity option" | OtherVolume string

record volume =
  vol_name :: string
  vol_source :: volume_source

record resource_requirements =
  rr_requests :: resource_list
  rr_limits :: resource_list
  rr_claims :: "string list"

datatype seccomp_type = RuntimeDefault | Unconfined | Localhost string

record capabilities =
  cap_add :: "string list"
  cap_drop :: "string list"

record security_context =
  sc_allow_privilege_escalation :: "bool option"
  sc_read_only_root :: "bool option"
  sc_seccomp :: "seccomp_type option"
  sc_privileged :: "bool option"
  sc_capabilities :: "capabilities option"
  sc_run_as_non_root :: "bool option"
  sc_run_as_user :: "int option"

record container =
  co_name :: string
  co_image :: string
  co_pull_policy :: string
  co_working_dir :: string
  co_command :: "string list"
  co_args :: "string list"
  co_ports :: "container_port list"
  co_env :: "env_var list"
  co_resources :: resource_requirements
  co_mounts :: "volume_mount list"
  co_liveness :: "probe option"
  co_readiness :: "probe option"
  co_security :: "security_context option"

definition no_resources :: resource_requirements where
  "no_resources = \<lparr>rr_requests = None, rr_limits = None, rr_claims = []\<rparr>"

definition new_container :: "string \<Rightarrow> string \<Rightarrow> container" where
  "new_container name img = \<lparr>co_name = name, co_image = img, co_pull_policy = '''',
     co_working_dir = '''', co_command = [], co_args = [], co_ports = [], co_env = [],
     co_resources = no_resources, co_mounts = [], co_liveness = None, co_readiness = None,
     co_security = None\<rparr>"

record pod_security_context =
  psc_seccomp :: "seccomp_type option"
  psc_run_as_non_root :: "bool option"

record pod_spec =
  ps_volumes :: "volume list"
  ps_containers :: "container list"
  ps_pull_secrets :: "string list"
  ps_grace :: "int option"
  ps_automount :: "bool option"
  ps_security :: "pod_security_context option"
  ps_host_network :: bool
  ps_host_pid :: bool
  ps_host_ipc :: bool

definition new_pod_spec :: pod_spec where
  "new_pod_spec = \<lparr>ps_volumes = [], ps_containers = [], ps_pull_secrets = [], ps_grace = None,
     ps_automount = None, ps_security = None, ps_host_network = False, ps_host_pid = False,
     ps_host_ipc = False\<rparr>"

text \<open>A container state: the reason it waits for, if it waits, and whether it runs.\<close>

record container_state =
  cst_waiting :: "string option"
  cst_running :: bool

record container_status =
  cs_name :: string
  cs_state :: container_state
  cs_ready :: bool

record pod_condition =
  pc_type :: string
  pc_status :: string

record pod_status =
  pst_phase :: string
  pst_init :: "container_status list"
  pst_containers :: "container_status list"
  pst_conditions :: "pod_condition list"

definition new_pod_status :: pod_status where
  "new_pod_status = \<lparr>pst_phase = '''', pst_init = [], pst_containers = [], pst_conditions = []\<rparr>"

record pod =
  pod_meta :: meta
  pod_spec_of :: pod_spec
  pod_status_of :: pod_status

subsection \<open>Namespaces, secrets, quotas\<close>

record namespace_obj =
  nso_meta :: meta

record secret =
  sec_meta :: meta
  sec_type :: string
  sec_data :: "string gomap"

record resource_quota =
  qu_meta :: meta
  qu_hard :: resource_list

record limit_range_item =
  li_type :: string
  li_default :: resource_list
  li_default_request :: resource_list

record limit_range =
  lr_meta :: meta
  lr_limits :: "limit_range_item list"

subsection \<open>Networking\<close>

record service_port =
  svp_name :: string
  svp_protocol :: string
  svp_port :: int
  svp_target :: int_or_string

record service =
  svc_meta :: meta
  svc_selector :: "string gomap"
  svc_ports :: "service_port list"
  svc_cluster_ip :: string

definition new_service :: "string \<Rightarrow> string \<Rightarrow> service" where
  "new_service name ns = \<lparr>svc_meta = new_meta name ns, svc_selector = None, svc_ports = [],
     svc_cluster_ip = ''''\<rparr>"

record net_peer =
  pe_ip_block :: "(string \<times> string list) option"
  pe_ns_selector :: "string gomap option"
  pe_pod_selector :: "string gomap option"

text \<open>A rule of a \<open>NetworkPolicy\<close> without ports: its peers.\<close>

record network_policy =
  np_meta :: meta
  np_pod_selector :: "string gomap"
  np_types :: "string list"
  np_ingress :: "net_peer list list"
  np_egress :: "net_peer list list"

text \<open>The value of an unstructured object: strings, arrays and objects.\<close>

datatype json = JStr string | JArr "json list" | JObj "(string \<times> json) list"

record cilium_policy =
  cnp_meta :: meta
  cnp_spec :: "json option"

record parent_ref =
  pf_name :: string
  pf_namespace :: "string option"

record backend_ref =
  be_name :: string
  be_port :: "int option"

record http_route =
  hr_meta :: meta
  hr_parents :: "parent_ref list"
  hr_hostnames :: "string list"
  hr_rules :: "backend_ref list list"

definition new_route :: "string \<Rightarrow> string \<Rightarrow> http_route" where
  "new_route name ns = \<lparr>hr_meta = new_meta name ns, hr_parents = [], hr_hostnames = [], hr_rules = []\<rparr>"

end
