(* ===== verification/GoStd.thy ===== *)
theory GoStd
  imports Prelude "HOL-Library.Sublist"
begin

section \<open>Strings, formatting and durations of Go's standard library\<close>

text \<open>
  What the controllers use of \<open>strings\<close>, \<open>fmt\<close>, \<open>os\<close> and \<open>time\<close>. A Go string is a sequence
  of bytes, as a HOL \<open>string\<close> is. Five corners of the standard library stay open and are fields
  of the record \<open>go_env\<close>, an argument of every definition that uses them: the process
  environment, lower-casing of text that is not ASCII, what \<open>fmt\<close> prints from a directive
  other than \<open>%s\<close>, \<open>%v\<close> and \<open>%%\<close> on, the floating-point value of the fraction of a duration such
  as \<open>1.5h\<close>, and the length of the longest slice of runes that \<open>make\<close> allocates: beyond it, as for
  a negative length, \<open>make\<close> panics (on 64-bit machines \<open>2^46\<close>).
\<close>

record go_env =
  getenv :: "string \<Rightarrow> string"
  lower_other :: "string \<Rightarrow> string"
  fmt_other :: "string \<Rightarrow> string list \<Rightarrow> string"
  frac_ns :: "nat \<Rightarrow> nat \<Rightarrow> nat \<Rightarrow> nat"
  max_runes :: int

subsection \<open>strings\<close>

definition has_prefix :: "string \<Rightarrow> string \<Rightarrow> bool" where
  "has_prefix s p \<longleftrightarrow> take (length p) s = p"

definition trim_prefix :: "string \<Rightarrow> string \<Rightarrow> string" where
  "trim_prefix s p = (if has_prefix s p then drop (length p) s else s)"

fun str_contains :: "string \<Rightarrow> string \<Rightarrow> bool" where
  "str_contains [] t = (t = [])"
| "str_contains (c # s) t = (has_prefix (c # s) t \<or> str_contains s t)"

text \<open>\<open>strings.ReplaceAll\<close> of a one-byte string by a one-byte string.\<close>

definition replace_byte :: "char \<Rightarrow> char \<Rightarrow> string \<Rightarrow> string" where
  "replace_byte old new s = map (\<lambda>c. if c = old then new else c) s"

definition ascii :: "char \<Rightarrow> bool" where
  "ascii c \<longleftrightarrow> (of_char c :: nat) < 128"

definition lower_char :: "char \<Rightarrow> char" where
  "lower_char c = (let n = (of_char c :: nat) in if 65 \<le> n \<and> n \<le> 90 then char_of (n + 32) else c)"

definition to_lower :: "go_env \<Rightarrow> string \<Rightarrow> string" where
  "to_lower G s = (if list_all ascii s then map lower_char s else lower_other G s)"

text \<open>The three bytes of the character U+2026 in the status messages.\<close>

definition ellipsis :: string where
  "ellipsis = [CHR 0xE2, CHR 0x80, CHR 0xA6]"

lemma has_prefix_append [simp]: "has_prefix (p @ s) p"
  by (simp add: has_prefix_def)

lemma has_prefix_iff: "has_prefix s p \<longleftrightarrow> (\<exists>r. s = p @ r)"
  by (metis append_eq_conv_conj append_take_drop_id has_prefix_def)

lemma trim_prefix_append [simp]: "trim_prefix (p @ s) p = s"
  by (simp add: trim_prefix_def)

lemma str_contains_sublist: "str_contains s t \<longleftrightarrow> sublist t s"
  by (induction s) (auto simp: has_prefix_iff prefix_def sublist_Cons_right)

lemma str_contains_char: "str_contains s [c] \<longleftrightarrow> c \<in> set s"
  by (induction s) (auto simp: has_prefix_def)

lemma lower_char_range: "\<not> (65 \<le> (of_char (lower_char c) :: nat) \<and> (of_char (lower_char c) :: nat) \<le> 90)"
  by (auto simp: lower_char_def Let_def)

lemma lower_char_idem [simp]: "lower_char (lower_char c) = lower_char c"
proof -
  have "lower_char (lower_char c) = lower_char c" if "\<not> (65 \<le> (of_char (lower_char c) :: nat) \<and> (of_char (lower_char c) :: nat) \<le> 90)"
    using that unfolding lower_char_def [of "lower_char c"] by (simp only: Let_def if_False)
  then show ?thesis using lower_char_range by blast
qed

lemma lower_char_ascii [simp]: "ascii (lower_char c) = ascii c"
  by (auto simp: lower_char_def ascii_def Let_def)

subsection \<open>fmt\<close>

definition digit_char :: "nat \<Rightarrow> char" where
  "digit_char d = char_of (48 + d)"

text \<open>\<open>%d\<close>\<close>

fun show_nat :: "nat \<Rightarrow> string" where
  "show_nat n = (if n < 10 then [digit_char n] else show_nat (n div 10) @ [digit_char (n mod 10)])"

declare show_nat.simps [simp del]

definition show_int :: "int \<Rightarrow> string" where
  "show_int i = (if i < 0 then ''-'' @ show_nat (nat (- i)) else show_nat (nat i))"

lemma digit_char_inj: "a < 10 \<Longrightarrow> b < 10 \<Longrightarrow> digit_char a = digit_char b \<longleftrightarrow> a = b"
proof
  assume ab: "a < 10" "b < 10" and "digit_char a = digit_char b"
  then have "(of_char (digit_char a) :: nat) = of_char (digit_char b)" by simp
  with ab show "a = b" by (simp add: digit_char_def)
qed simp

lemma show_nat_not_Nil [simp]: "show_nat n \<noteq> []" "[] \<noteq> show_nat n"
  by (subst show_nat.simps; simp)+

lemma show_nat_inj [simp]: "show_nat m = show_nat n \<longleftrightarrow> m = n"
proof (induction m arbitrary: n rule: show_nat.induct)
  case (1 m)
  have eq: "m = n" if "\<not> m < 10" "m div 10 = n div 10" "m mod 10 = n mod 10" for n
    using that by (metis div_mod_decomp)
  show ?case
    by (subst (1 2) show_nat.simps) (auto simp: digit_char_inj 1 intro: eq)
qed

lemma hd_show_nat: "hd (show_nat n) \<noteq> CHR ''-''"
proof (induction n rule: show_nat.induct)
  case (1 n)
  have "digit_char d \<noteq> CHR ''-''" if "d < 10" for d
  proof
    assume "digit_char d = CHR ''-''"
    then have "(of_char (digit_char d) :: nat) = of_char (CHR ''-'')" by simp
    with that show False by (simp add: digit_char_def)
  qed
  with 1 show ?case by (subst show_nat.simps) (simp add: hd_append)
qed

lemma show_int_inj [simp]: "show_int i = show_int j \<longleftrightarrow> i = j"
proof -
  have "''-'' @ show_nat a \<noteq> show_nat b" for a b
    using hd_show_nat [of b] by (metis append_Cons list.sel(1))
  then have "''-'' @ show_nat a \<noteq> show_nat b" "show_nat b \<noteq> ''-'' @ show_nat a" for a b by metis+
  then show ?thesis by (auto simp: show_int_def)
qed

fun comma_sep :: "string list \<Rightarrow> string" where
  "comma_sep [] = ''''"
| "comma_sep [x] = x"
| "comma_sep (x # xs) = x @ '', '' @ comma_sep xs"

definition extra_args :: "string list \<Rightarrow> string" where
  "extra_args as = (if as = [] then ''''
     else ''%!(EXTRA '' @ comma_sep (map (\<lambda>a. ''string='' @ a) as) @ '')'')"

text \<open>\<open>fmt.Sprintf\<close> with a format known at run time only and string arguments.\<close>

fun sprintf :: "go_env \<Rightarrow> string \<Rightarrow> string list \<Rightarrow> string" where
  "sprintf G [] as = extra_args as"
| "sprintf G (c # s) as =
     (if c \<noteq> CHR ''%'' then c # sprintf G s as
      else case s of
          [] \<Rightarrow> ''%!(NOVERB)'' @ extra_args as
        | v # s' \<Rightarrow>
            if v = CHR ''%'' then CHR ''%'' # sprintf G s' as
            else if v = CHR ''s'' \<or> v = CHR ''v'' then
              (case as of
                 [] \<Rightarrow> ''%!'' @ [v] @ ''(MISSING)'' @ sprintf G s' []
               | a # as' \<Rightarrow> a @ sprintf G s' as')
            else fmt_other G (c # s) as)"

lemma sprintf_plain: "CHR ''%'' \<notin> set p \<Longrightarrow> sprintf G (p @ s) as = p @ sprintf G s as"
  by (induction p) auto

lemma sprintf_one_verb:
  assumes "CHR ''%'' \<notin> set p" "CHR ''%'' \<notin> set q"
  shows "sprintf G (p @ ''%s'' @ q) [a] = p @ a @ q"
  using sprintf_plain [OF assms(1)] sprintf_plain [OF assms(2), of G "[]" "[]"]
  by (simp add: extra_args_def)

subsection \<open>time.ParseDuration\<close>

text \<open>
  Durations are nanoseconds in an \<open>int64\<close>. The parser works in \<open>uint64\<close>: \<open>leadingInt\<close> and the
  unit check keep every intermediate value at most \<open>2^63 + 9\<close>, so only the sum of two pieces
  can wrap, which is written out.
\<close>

definition is_digit :: "char \<Rightarrow> bool" where
  "is_digit c \<longleftrightarrow> 48 \<le> (of_char c :: nat) \<and> (of_char c :: nat) \<le> 57"

definition digit_val :: "char \<Rightarrow> nat" where
  "digit_val c = of_char c - 48"

fun leading_int :: "nat \<Rightarrow> string \<Rightarrow> (nat \<times> string) option" where
  "leading_int x [] = Some (x, [])"
| "leading_int x (c # s) =
     (if \<not> is_digit c then Some (x, c # s)
      else if x > 2 ^ 63 div 10 then None
      else if x * 10 + digit_val c > 2 ^ 63 then None
      else leading_int (x * 10 + digit_val c) s)"

fun leading_fraction :: "nat \<Rightarrow> nat \<Rightarrow> bool \<Rightarrow> string \<Rightarrow> nat \<times> nat \<times> string" where
  "leading_fraction x scale overflow [] = (x, scale, [])"
| "leading_fraction x scale overflow (c # s) =
     (if \<not> is_digit c then (x, scale, c # s)
      else if overflow \<or> x > (2 ^ 63 - 1) div 10 \<or> x * 10 + digit_val c > 2 ^ 63
        then leading_fraction x scale True s
      else leading_fraction (x * 10 + digit_val c) (scale * 10) False s)"

definition duration_unit :: "string \<Rightarrow> nat option" where
  "duration_unit = map_of
     [(''ns'', 1), (''us'', 10 ^ 3), ([CHR 0xC2, CHR 0xB5, CHR ''s''], 10 ^ 3),
      ([CHR 0xCE, CHR 0xBC, CHR ''s''], 10 ^ 3), (''ms'', 10 ^ 6), (''s'', 10 ^ 9),
      (''m'', 60 * 10 ^ 9), (''h'', 3600 * 10 ^ 9)]"

definition unit_char :: "char \<Rightarrow> bool" where
  "unit_char c \<longleftrightarrow> \<not> is_digit c \<and> c \<noteq> CHR ''.''"

text \<open>One round of the loop: a number, an optional fraction, a unit.\<close>

definition duration_piece :: "go_env \<Rightarrow> string \<Rightarrow> (nat \<times> string) option" where
  "duration_piece G s =
     (if s = [] \<or> unit_char (hd s) then None
      else case leading_int 0 s of None \<Rightarrow> None
      | Some (v, s1) \<Rightarrow>
          let pre = (length s1 \<noteq> length s);
              (f, scale, s2) = (if s1 \<noteq> [] \<and> hd s1 = CHR ''.'' then leading_fraction 0 1 False (tl s1)
                                else (0, 1, s1));
              post = (s1 \<noteq> [] \<and> hd s1 = CHR ''.'' \<and> length s2 \<noteq> length (tl s1));
              u = takeWhile unit_char s2
          in if \<not> pre \<and> \<not> post \<or> u = [] then None
             else case duration_unit u of None \<Rightarrow> None
             | Some un \<Rightarrow>
                 if v > 2 ^ 63 div un then None
                 else let v' = (if f > 0 then (v * un + frac_ns G f un scale) mod 2 ^ 64 else v * un)
                      in if v' > 2 ^ 63 then None else Some (v', dropWhile unit_char s2))"

lemma leading_int_length: "leading_int x s = Some (v, s') \<Longrightarrow> length s' \<le> length s"
  by (induction x s rule: leading_int.induct) (auto split: if_splits)

lemma leading_fraction_length: "leading_fraction x sc b s = (f, sc', s') \<Longrightarrow> length s' \<le> length s"
  by (induction x sc b s rule: leading_fraction.induct) (auto split: if_splits)

lemma dropWhile_shorter: "takeWhile P xs \<noteq> [] \<Longrightarrow> length (dropWhile P xs) < length xs"
  by (metis length_append length_greater_0_conv less_add_same_cancel2 takeWhile_dropWhile_id)

lemma duration_piece_shorter:
  assumes "duration_piece G s = Some (v, s')" shows "length s' < length s"
proof -
  from assms obtain v1 s1 where li: "leading_int 0 s = Some (v1, s1)"
    by (auto simp: duration_piece_def split: if_splits option.splits)
  define s2 where "s2 = (if s1 \<noteq> [] \<and> hd s1 = CHR ''.''
                          then snd (snd (leading_fraction 0 1 False (tl s1))) else s1)"
  have "length s2 \<le> length s1"
    using leading_fraction_length [of 0 1 False "tl s1"] unfolding s2_def
    by (cases "leading_fraction 0 1 False (tl s1)") (fastforce intro: le_trans)
  moreover have "s' = dropWhile unit_char s2" "takeWhile unit_char s2 \<noteq> []"
    using assms li unfolding duration_piece_def s2_def
    by (auto simp: Let_def case_prod_beta split: if_splits option.splits)
  ultimately show ?thesis
    using dropWhile_shorter [of unit_char s2] leading_int_length [OF li] by simp
qed

function duration_sum :: "go_env \<Rightarrow> nat \<Rightarrow> string \<Rightarrow> nat option" where
  "duration_sum G d s =
     (if s = [] then Some d
      else case duration_piece G s of None \<Rightarrow> None
      | Some (v, s') \<Rightarrow>
          let d' = (d + v) mod 2 ^ 64 in if d' > 2 ^ 63 then None else duration_sum G d' s')"
  by pat_completeness auto
termination
  by (relation "measure (\<lambda>(G, d, s). length s)") (auto dest: duration_piece_shorter)

declare duration_sum.simps [simp del]

definition parse_duration :: "go_env \<Rightarrow> string \<Rightarrow> int option" where
  "parse_duration G orig =
     (let signed = (orig \<noteq> [] \<and> (hd orig = CHR ''-'' \<or> hd orig = CHR ''+''));
          neg = (orig \<noteq> [] \<and> hd orig = CHR ''-'');
          s = (if signed then tl orig else orig)
      in if s = ''0'' then Some 0
         else if s = [] then None
         else case duration_sum G 0 s of None \<Rightarrow> None
         | Some d \<Rightarrow> if neg then Some (- int d)
                    else if d > 2 ^ 63 - 1 then None else Some (int d))"

subsection \<open>Durations written in hours, minutes and seconds\<close>

lemma is_digit_char: "d < 10 \<Longrightarrow> is_digit (digit_char d) \<and> digit_val (digit_char d) = d"
  by (simp add: is_digit_def digit_val_def digit_char_def)

lemma show_nat_digits: "list_all is_digit (show_nat n)"
proof (induction n rule: show_nat.induct)
  case (1 n)
  then show ?case by (subst show_nat.simps) (simp add: is_digit_char)
qed

lemma leading_int_show: "n \<le> 2 ^ 63 \<Longrightarrow> leading_int 0 (show_nat n @ t) = leading_int n t"
proof (induction n arbitrary: t rule: show_nat.induct)
  case (1 n)
  show ?case
  proof (cases "n < 10")
    case True
    then show ?thesis by (subst show_nat.simps) (simp add: is_digit_char)
  next
    case False
    have "show_nat n @ t = show_nat (n div 10) @ (digit_char (n mod 10) # t)"
      using False by (subst show_nat.simps) simp
    moreover have "\<not> n div 10 > 2 ^ 63 div 10" "n div 10 * 10 + n mod 10 = n" "n div 10 \<le> 2 ^ 63"
      using 1(2) by (simp_all add: div_le_mono leD)
    ultimately show ?thesis
      using 1(1) [OF False, of "digit_char (n mod 10) # t"] 1(2) by (simp add: is_digit_char)
  qed
qed

definition starts_with_digit :: "string \<Rightarrow> bool" where
  "starts_with_digit s \<longleftrightarrow> s = [] \<or> is_digit (hd s)"

lemma show_nat_starts: "starts_with_digit (show_nat n @ t)"
  using show_nat_digits [of n] by (cases "show_nat n") (auto simp: starts_with_digit_def)

lemma duration_piece_unit:
  assumes "duration_unit [u] = Some un" "n * un \<le> 2 ^ 63" "n \<le> 2 ^ 63" "starts_with_digit rest"
    and "unit_char u" "0 < un"
  shows "duration_piece G (show_nat n @ u # rest) = Some (n * un, rest)"
proof -
  have u: "\<not> is_digit u" "u \<noteq> CHR ''.''" using assms(5) by (simp_all add: unit_char_def)
  have li: "leading_int 0 (show_nat n @ u # rest) = Some (n, u # rest)"
    using u by (simp add: leading_int_show [OF assms(3)])
  have hd: "\<not> unit_char (hd (show_nat n @ u # rest))"
    using show_nat_digits [of n] by (cases "show_nat n") (auto simp: unit_char_def)
  have tw: "takeWhile unit_char (u # rest) = [u]" "dropWhile unit_char (u # rest) = rest"
    using assms(4,5) by (cases rest; simp add: starts_with_digit_def unit_char_def)+
  have len: "length (u # rest) \<noteq> length (show_nat n @ u # rest)" by simp
  have "n \<le> 2 ^ 63 div un" using assms(2,6) by (simp add: less_eq_div_iff_mult_less_eq)
  then show ?thesis
    unfolding duration_piece_def li using hd u tw len assms(1,2) by simp
qed

definition hms :: "nat \<Rightarrow> nat \<Rightarrow> nat \<Rightarrow> string" where
  "hms h m s = show_nat h @ ''h'' @ show_nat m @ ''m'' @ show_nat s @ ''s''"

lemma parse_duration_hms:
  assumes "(h * 3600 + m * 60 + s) * 10 ^ 9 < 2 ^ 63"
  shows "parse_duration G (hms h m s) = Some (int ((h * 3600 + m * 60 + s) * 10 ^ 9))"
proof -
  have unit: "unit_char (CHR ''h'')" "unit_char (CHR ''m'')" "unit_char (CHR ''s'')"
    by (simp_all add: unit_char_def is_digit_def)
  have p1: "duration_piece G (show_nat h @ CHR ''h'' # show_nat m @ CHR ''m'' # show_nat s @ [CHR ''s'']) =
      Some (h * (3600 * 10 ^ 9), show_nat m @ CHR ''m'' # show_nat s @ [CHR ''s''])"
    using assms by (intro duration_piece_unit show_nat_starts unit) (simp_all add: duration_unit_def)
  have p2: "duration_piece G (show_nat m @ CHR ''m'' # show_nat s @ [CHR ''s'']) =
      Some (m * (60 * 10 ^ 9), show_nat s @ [CHR ''s''])"
    using assms by (intro duration_piece_unit show_nat_starts unit) (simp_all add: duration_unit_def)
  have p3: "duration_piece G (show_nat s @ CHR ''s'' # []) = Some (s * 10 ^ 9, [])"
    using assms by (intro duration_piece_unit unit) (simp_all add: duration_unit_def starts_with_digit_def)
  have "duration_sum G 0 (hms h m s) = Some ((h * 3600 + m * 60 + s) * 10 ^ 9)"
    using assms p1 p2 p3 unfolding hms_def
    by (subst duration_sum.simps, simp, subst duration_sum.simps, simp, subst duration_sum.simps, simp,
        subst duration_sum.simps, simp add: algebra_simps)
  moreover obtain c cs where c: "hms h m s = c # cs" "is_digit c" "cs \<noteq> []"
  proof -
    obtain c cs where "show_nat h = c # cs" by (cases "show_nat h") auto
    with show_nat_digits [of h] show thesis
      by (intro that [of c "cs @ ''h'' @ show_nat m @ ''m'' @ show_nat s @ ''s''"]) (auto simp: hms_def)
  qed
  moreover have "c \<noteq> CHR ''-''" "c \<noteq> CHR ''+''" using c(2) by (auto simp: is_digit_def)
  ultimately show ?thesis
    using assms by (simp add: parse_duration_def Let_def)
qed

end
