(* ===== verification/ApiTypes.thy ===== *)
theory ApiTypes
  imports KubeTypes GoStd
begin

section \<open>The custom resources of the controllers\<close>

text \<open>
  The Go types under \<open>src/api\<close>: LabSession (\<open>api/core/v1\<close>), LabSpace, LabService and Task
  (\<open>api/infra/v1\<close>), CTFTask (\<open>api/v1\<close>), one record per struct, field by field, and the
  validation markers (\<open>+kubebuilder:validation\<close>) that the code relies on, as executable
  predicates: enumerations as lists, patterns as functions on strings. Instants are
  nanoseconds since the epoch. The conditions of a status are never read or written: opaque.
\<close>

subsection \<open>LabSession\<close>

record lab_session_spec =
  ss_user_id :: string
  ss_lab_space_ref :: string

record endpoint =
  ep_service_name :: string
  ep_type :: string
  ep_address :: string

record session_summary =
  sum_active :: int
  sum_total :: int
  sum_namespace :: string

record lab_session_status =
  st_phase :: string
  st_conditions :: "string list"
  st_message :: string
  st_summary :: session_summary
  st_endpoints :: "endpoint list"
  st_start_time :: "int option"
  st_expired_time :: "int option"

record lab_session =
  se_meta :: meta
  se_spec :: lab_session_spec
  se_status :: lab_session_status

text \<open>The enumeration of the phases a LabSession may report.\<close>

definition session_phases :: "string list" where
  "session_phases = [''Pending'', ''Running'', ''Failed'', ''Terminating'', ''Expired'']"

definition endpoint_types :: "string list" where
  "endpoint_types = [''HTTP'', ''Terminal'', ''GRPC'', ''VNC'']"

subsection \<open>LabService\<close>

record dynamic_value =
  dv_type :: string
  dv_length :: int
  dv_template :: string

record api_env_var =
  en_name :: string
  en_value :: string
  en_dynamic :: "dynamic_value option"

record exposure =
  ex_type :: string
  ex_target_port :: string

record egress_port =
  eg_protocol :: string
  eg_port :: int

record egress_rule =
  er_fqdns :: "string list"
  er_cidrs :: "string list"
  er_ports :: "egress_port list"

record security_profile =
  sp_run_as_root :: bool
  sp_run_as_user :: "int option"
  sp_privilege_escalation :: bool
  sp_privileged :: bool
  sp_writable_root :: bool
  sp_keep_capabilities :: bool
  sp_add_capabilities :: "string list"
  sp_seccomp_unconfined :: bool

text \<open>\<open>infrav1.SecurityProfile{}\<close>: every field its zero value.\<close>

definition empty_profile :: security_profile where
  "empty_profile = \<lparr>sp_run_as_root = False, sp_run_as_user = None, sp_privilege_escalation = False,
     sp_privileged = False, sp_writable_root = False, sp_keep_capabilities = False,
     sp_add_capabilities = [], sp_seccomp_unconfined = False\<rparr>"

record lab_service_spec =
  ls_image :: string
  ls_pull_policy :: string
  ls_ports :: "container_port list"
  ls_liveness :: "probe option"
  ls_readiness :: "probe option"
  ls_exposure :: "exposure option"
  ls_env :: "api_env_var list"
  ls_command :: "string list"
  ls_args :: "string list"
  ls_resources :: resource_requirements
  ls_storage_limit :: "quantity option"
  ls_egress :: "egress_rule list"
  ls_security :: "security_profile option"

record lab_service =
  sv_meta :: meta
  sv_spec :: lab_service_spec

abbreviation sv_name :: "lab_service \<Rightarrow> string" where
  "sv_name v \<equiv> m_name (sv_meta v)"

abbreviation se_name :: "lab_session \<Rightarrow> string" where
  "se_name s \<equiv> m_name (se_meta s)"

subsection \<open>LabSpace\<close>

definition workspace_types :: "string list" where
  "workspace_types = [''Terminal'', ''VSCode'', ''VNC'']"

definition WorkspaceNoVNC :: string where
  "WorkspaceNoVNC = ''VNC''"

record workspace_config =
  wc_type :: string
  wc_image :: string
  wc_tasks :: string
  wc_port :: int
  wc_security :: "security_profile option"
  wc_resources :: "resource_requirements option"
  wc_storage_limit :: "quantity option"

record network_config =
  nc_allow_internet :: bool
  nc_internal_only :: bool

record resource_quota_config =
  qc_requests :: resource_list
  qc_limits :: resource_list

record lab_space_spec =
  sp_service_selector :: label_selector
  sp_network :: network_config
  sp_resources :: resource_quota_config
  sp_workspace :: workspace_config
  sp_default_ttl :: string

record lab_space =
  sp_meta :: meta
  sp_spec :: lab_space_spec

abbreviation workspace :: "lab_space \<Rightarrow> workspace_config" where
  "workspace s \<equiv> sp_workspace (sp_spec s)"

abbreviation network :: "lab_space \<Rightarrow> network_config" where
  "network s \<equiv> sp_network (sp_spec s)"

abbreviation quota_config :: "lab_space \<Rightarrow> resource_quota_config" where
  "quota_config s \<equiv> sp_resources (sp_spec s)"

subsection \<open>Task\<close>

record task_spec =
  tk_files :: "string list"
  tk_checks :: "string list"
  tk_env :: "api_env_var list"

record task =
  tk_meta :: meta
  tk_spec :: task_spec
  tk_conditions :: "string list"

subsection \<open>CTFTask\<close>

record flag_config =
  fc_format :: string
  fc_scope :: string
  fc_length :: int

record ctf_task_spec =
  ct_image :: string
  ct_port :: int
  ct_student_id :: string
  ct_duration :: string
  ct_flag_config :: flag_config

record ctf_task_status =
  ts_phase :: string
  ts_message :: string
  ts_endpoint :: string
  ts_expiry_time :: "int option"
  ts_solved_at :: "int option"
  ts_conditions :: "string list"

record ctf_task =
  ct_meta :: meta
  ct_spec :: ctf_task_spec
  ct_status :: ctf_task_status

abbreviation ct_name :: "ctf_task \<Rightarrow> string" where
  "ct_name t \<equiv> m_name (ct_meta t)"

definition ctf_phases :: "string list" where
  "ctf_phases =
     [''Provisioning'', ''Pending'', ''Active'', ''Ready'', ''Solved'', ''Expired'', ''Failed'']"

text \<open>\<open>Minimum=8\<close>, \<open>Maximum=64\<close>, and 0 where the optional field is left out.\<close>

definition flag_length_ok :: "int \<Rightarrow> bool" where
  "flag_length_ok n \<longleftrightarrow> n = 0 \<or> (8 \<le> n \<and> n \<le> 64)"

text \<open>\<open>^.*%s.*$\<close> on one line of text.\<close>

definition flag_format_ok :: "string \<Rightarrow> bool" where
  "flag_format_ok f \<longleftrightarrow> str_contains f ''%s''"

subsection \<open>Patterns of durations\<close>

text \<open>The optional groups \<open>([0-9]+h)?([0-9]+m)?([0-9]+s)?\<close>, and \<open>([0-9]+(h|m|s))+\<close>.\<close>

definition strip_group :: "char \<Rightarrow> string \<Rightarrow> string" where
  "strip_group u s =
     (let ds = takeWhile is_digit s; r = dropWhile is_digit s
      in if ds \<noteq> [] \<and> r \<noteq> [] \<and> hd r = u then tl r else s)"

definition ttl_pattern :: "string \<Rightarrow> bool" where
  "ttl_pattern s \<longleftrightarrow> strip_group (CHR ''s'') (strip_group (CHR ''m'') (strip_group (CHR ''h'') s)) = []"

end
