(* ===== verification/Kube.thy ===== *)
theory Kube
  imports ApiTypes
begin

section \<open>The API server and the libraries, as parameters\<close>

text \<open>
  The controllers reach the cluster through \<open>client.Client\<close> of controller-runtime. Neither the
  client nor the API server is part of the repository, so they are parameters: the record
  \<open>'w kube\<close> holds one function per kind of call, each taking the state \<open>'w\<close> of everything
  outside the controller to a result and a new state. A call may fail in any way and the
  outside may change at every call, so a theorem over an arbitrary \<open>'w kube\<close> holds whatever the
  cluster, the caches and the other controllers do. The clock and the random source are read
  the same way. The record \<open>lib\<close> holds the pure library functions (finalizers, owner
  references, label selectors, nested fields of unstructured objects).

  The state of a reconciler run is the outside state together with the list of the calls made
  so far, each with its outcome: what the controller did is what it asked for, in this order.
\<close>

subsection \<open>Objects and keys\<close>

datatype kobj =
    KSession lab_session
  | KNamespace namespace_obj
  | KSecret secret
  | KQuota resource_quota
  | KLimitRange limit_range
  | KNetworkPolicy network_policy
  | KCilium cilium_policy
  | KPod pod
  | KService service
  | KRoute http_route
  | KCTFTask ctf_task

fun obj_meta :: "kobj \<Rightarrow> meta" where
  "obj_meta (KSession x) = se_meta x"
| "obj_meta (KNamespace x) = nso_meta x"
| "obj_meta (KSecret x) = sec_meta x"
| "obj_meta (KQuota x) = qu_meta x"
| "obj_meta (KLimitRange x) = lr_meta x"
| "obj_meta (KNetworkPolicy x) = np_meta x"
| "obj_meta (KCilium x) = cnp_meta x"
| "obj_meta (KPod x) = pod_meta x"
| "obj_meta (KService x) = svc_meta x"
| "obj_meta (KRoute x) = hr_meta x"
| "obj_meta (KCTFTask x) = ct_meta x"

datatype kind = SessionKind | SpaceKind | ServiceTemplateKind | TaskKind | NamespaceKind | SecretKind
  | QuotaKind | LimitRangeKind | NetworkPolicyKind | CiliumKind | PodKind | ServiceKind | RouteKind
  | CTFTaskKind

fun obj_kind :: "kobj \<Rightarrow> kind" where
  "obj_kind (KSession _) = SessionKind"
| "obj_kind (KNamespace _) = NamespaceKind"
| "obj_kind (KSecret _) = SecretKind"
| "obj_kind (KQuota _) = QuotaKind"
| "obj_kind (KLimitRange _) = LimitRangeKind"
| "obj_kind (KNetworkPolicy _) = NetworkPolicyKind"
| "obj_kind (KCilium _) = CiliumKind"
| "obj_kind (KPod _) = PodKind"
| "obj_kind (KService _) = ServiceKind"
| "obj_kind (KRoute _) = RouteKind"
| "obj_kind (KCTFTask _) = CTFTaskKind"

abbreviation obj_name :: "kobj \<Rightarrow> string" where
  "obj_name k \<equiv> m_name (obj_meta k)"

abbreviation obj_ns :: "kobj \<Rightarrow> string" where
  "obj_ns k \<equiv> m_namespace (obj_meta k)"

text \<open>What a \<open>MutateFn\<close> does to the object it is given: it sets fields, or fails.\<close>

type_synonym mutate = "kobj \<Rightarrow> goerr + kobj"

subsection \<open>Library functions\<close>

record lib =
  contains_finalizer :: "meta \<Rightarrow> string \<Rightarrow> bool"
  add_finalizer :: "meta \<Rightarrow> string \<Rightarrow> meta"
  remove_finalizer :: "meta \<Rightarrow> string \<Rightarrow> meta"
  set_controller_ref :: "kind \<Rightarrow> meta \<Rightarrow> meta \<Rightarrow> goerr + meta"
  as_selector :: "label_selector \<Rightarrow> goerr + selector"
  set_nested_field :: "json option \<Rightarrow> json \<Rightarrow> goerr + json option"

text \<open>
  The documented behaviour the controllers rely on. \<open>AddFinalizer\<close>, \<open>RemoveFinalizer\<close> and
  \<open>ContainsFinalizer\<close> manage one entry of the list; \<open>SetControllerReference\<close> only touches the
  owner references and is idempotent; \<open>SetNestedField\<close> stores a copy of the value.
\<close>

definition lib_ok :: "lib \<Rightarrow> bool" where
  "lib_ok L \<longleftrightarrow>
     (\<forall>m f. contains_finalizer L m f \<longleftrightarrow> f \<in> set (m_finalizers m)) \<and>
     (\<forall>m f. add_finalizer L m f =
        (if f \<in> set (m_finalizers m) then m else m\<lparr>m_finalizers := m_finalizers m @ [f]\<rparr>)) \<and>
     (\<forall>m f. remove_finalizer L m f = m\<lparr>m_finalizers := removeAll f (m_finalizers m)\<rparr>) \<and>
     (\<forall>k o' m m'. set_controller_ref L k o' m = Inr m' \<longrightarrow>
        (\<exists>refs. m' = m\<lparr>m_owner_refs := refs\<rparr>) \<and> set_controller_ref L k o' m' = Inr m') \<and>
     (\<forall>j v. set_nested_field L j v = Inr (Some v))"

text \<open>A concrete library, for witnesses.\<close>

definition sample_lib :: lib where
  "sample_lib = \<lparr>
     contains_finalizer = (\<lambda>m f. f \<in> set (m_finalizers m)),
     add_finalizer = (\<lambda>m f. if f \<in> set (m_finalizers m) then m
                             else m\<lparr>m_finalizers := m_finalizers m @ [f]\<rparr>),
     remove_finalizer = (\<lambda>m f. m\<lparr>m_finalizers := removeAll f (m_finalizers m)\<rparr>),
     set_controller_ref = (\<lambda>k o' m.
        if m_owner_refs m = [] \<or> m_owner_refs m = [m_name o'] then Inr (m\<lparr>m_owner_refs := [m_name o']\<rparr>)
        else Inl (ErrText ''already owned'')),
     as_selector = (\<lambda>s. if ls_match_expressions s = [] then Inr (Selector ''labels'')
                        else Inl (ErrText ''invalid selector'')),
     set_nested_field = (\<lambda>j v. Inr (Some v))\<rparr>"

lemma sample_lib_ok: "lib_ok sample_lib"
  by (auto simp: lib_ok_def sample_lib_def split: if_splits)

lemma lib_okD:
  assumes "lib_ok L"
  shows "contains_finalizer L m f \<longleftrightarrow> f \<in> set (m_finalizers m)"
    and "add_finalizer L m f = (if f \<in> set (m_finalizers m) then m else m\<lparr>m_finalizers := m_finalizers m @ [f]\<rparr>)"
    and "remove_finalizer L m f = m\<lparr>m_finalizers := removeAll f (m_finalizers m)\<rparr>"
    and "set_controller_ref L k o' m = Inr m' \<Longrightarrow> \<exists>refs. m' = m\<lparr>m_owner_refs := refs\<rparr>"
    and "set_controller_ref L k o' m = Inr m' \<Longrightarrow> set_controller_ref L k o' m' = Inr m'"
    and "set_nested_field L j v = Inr (Some v)"
  using assms unfolding lib_ok_def by blast+

lemma set_controller_ref_meta:
  assumes "lib_ok L" "set_controller_ref L k o' m = Inr m'"
  shows "m_name m' = m_name m" "m_namespace m' = m_namespace m" "m_labels m' = m_labels m"
    "m_creation_ts m' = m_creation_ts m"
  using lib_okD(4) [OF assms] by auto

subsection \<open>The client\<close>

record 'w kube =
  k_get_session :: "string \<Rightarrow> 'w \<Rightarrow> (goerr + lab_session) \<times> 'w"
  k_get_space :: "string \<Rightarrow> 'w \<Rightarrow> (goerr + lab_space) \<times> 'w"
  k_get_namespace :: "string \<Rightarrow> 'w \<Rightarrow> (goerr + namespace_obj) \<times> 'w"
  k_get_secret :: "string \<Rightarrow> string \<Rightarrow> 'w \<Rightarrow> (goerr + secret) \<times> 'w"
  k_get_pod :: "string \<Rightarrow> string \<Rightarrow> 'w \<Rightarrow> (goerr + pod) \<times> 'w"
  k_get_ctf_task :: "string \<Rightarrow> string \<Rightarrow> 'w \<Rightarrow> (goerr + ctf_task) \<times> 'w"
  k_list_pods :: "string \<Rightarrow> 'w \<Rightarrow> (goerr + pod list) \<times> 'w"
  k_list_services :: "selector option \<Rightarrow> 'w \<Rightarrow> (goerr + lab_service list) \<times> 'w"
  k_list_tasks :: "selector option \<Rightarrow> 'w \<Rightarrow> (goerr + task list) \<times> 'w"
  k_create :: "kobj \<Rightarrow> 'w \<Rightarrow> (goerr + unit) \<times> 'w"
  k_update :: "kobj \<Rightarrow> 'w \<Rightarrow> (goerr + kobj) \<times> 'w"
  k_status_update :: "kobj \<Rightarrow> 'w \<Rightarrow> (goerr + kobj) \<times> 'w"
  k_delete :: "kind \<Rightarrow> string \<Rightarrow> string \<Rightarrow> int option \<Rightarrow> 'w \<Rightarrow> (goerr + unit) \<times> 'w"
  k_create_or_update :: "kobj \<Rightarrow> mutate \<Rightarrow> 'w \<Rightarrow> (goerr + unit) \<times> 'w"
  k_now :: "'w \<Rightarrow> int \<times> 'w"
  k_rand :: "nat \<Rightarrow> 'w \<Rightarrow> nat \<times> 'w"

text \<open>
  The calls, with whether they succeeded. Keys are kind, namespace, name. \<open>EvDelete\<close> carries the
  grace period of its options.
\<close>

datatype event =
    EvGet kind string string bool
  | EvList kind string bool
  | EvCreate kobj bool
  | EvUpdate kobj bool
  | EvStatus kobj bool
  | EvDelete kind string string "int option" bool
  | EvCreateOrUpdate kobj mutate bool
  | EvNow
  | EvRand nat

record 'w kst =
  outside :: 'w
  calls :: "event list"

fun succeeded :: "goerr + 'a \<Rightarrow> bool" where
  "succeeded (Inr _) = True"
| "succeeded (Inl _) = False"

text \<open>One call: ask the outside, note the call and its outcome.\<close>

definition call :: "('w \<Rightarrow> (goerr + 'a) \<times> 'w) \<Rightarrow> (bool \<Rightarrow> event) \<Rightarrow> ('w kst, 'a) prog" where
  "call op ev = (\<lambda>s. case op (outside s) of (r, w) \<Rightarrow>
     (r, s\<lparr>outside := w, calls := calls s @ [ev (succeeded r)]\<rparr>))"

definition get_session :: "'w kube \<Rightarrow> string \<Rightarrow> ('w kst, lab_session) prog" where
  "get_session K n = call (k_get_session K n) (EvGet SessionKind '''' n)"

definition get_space :: "'w kube \<Rightarrow> string \<Rightarrow> ('w kst, lab_space) prog" where
  "get_space K n = call (k_get_space K n) (EvGet SpaceKind '''' n)"

definition get_namespace :: "'w kube \<Rightarrow> string \<Rightarrow> ('w kst, namespace_obj) prog" where
  "get_namespace K n = call (k_get_namespace K n) (EvGet NamespaceKind '''' n)"

definition get_secret :: "'w kube \<Rightarrow> string \<Rightarrow> string \<Rightarrow> ('w kst, secret) prog" where
  "get_secret K ns n = call (k_get_secret K ns n) (EvGet SecretKind ns n)"

definition get_pod :: "'w kube \<Rightarrow> string \<Rightarrow> string \<Rightarrow> ('w kst, pod) prog" where
  "get_pod K ns n = call (k_get_pod K ns n) (EvGet PodKind ns n)"

definition get_ctf_task :: "'w kube \<Rightarrow> string \<Rightarrow> string \<Rightarrow> ('w kst, ctf_task) prog" where
  "get_ctf_task K ns n = call (k_get_ctf_task K ns n) (EvGet CTFTaskKind ns n)"

definition list_pods :: "'w kube \<Rightarrow> string \<Rightarrow> ('w kst, pod list) prog" where
  "list_pods K ns = call (k_list_pods K ns) (EvList PodKind ns)"

definition list_services :: "'w kube \<Rightarrow> selector option \<Rightarrow> ('w kst, lab_service list) prog" where
  "list_services K sel = call (k_list_services K sel) (EvList ServiceTemplateKind '''')"

definition list_tasks :: "'w kube \<Rightarrow> selector option \<Rightarrow> ('w kst, task list) prog" where
  "list_tasks K sel = call (k_list_tasks K sel) (EvList TaskKind '''')"

definition create :: "'w kube \<Rightarrow> kobj \<Rightarrow> ('w kst, unit) prog" where
  "create K ob = call (k_create K ob) (EvCreate ob)"

definition update :: "'w kube \<Rightarrow> kobj \<Rightarrow> ('w kst, kobj) prog" where
  "update K ob = call (k_update K ob) (EvUpdate ob)"

definition status_update :: "'w kube \<Rightarrow> kobj \<Rightarrow> ('w kst, kobj) prog" where
  "status_update K ob = call (k_status_update K ob) (EvStatus ob)"

definition delete :: "'w kube \<Rightarrow> kind \<Rightarrow> string \<Rightarrow> string \<Rightarrow> int option \<Rightarrow> ('w kst, unit) prog" where
  "delete K k ns n grace = call (k_delete K k ns n grace) (EvDelete k ns n grace)"

definition create_or_update :: "'w kube \<Rightarrow> kobj \<Rightarrow> mutate \<Rightarrow> ('w kst, unit) prog" where
  "create_or_update K ob f = call (k_create_or_update K ob f) (EvCreateOrUpdate ob f)"

definition time_now :: "'w kube \<Rightarrow> ('w kst, int) prog" where
  "time_now K = call (\<lambda>w. case k_now K w of (t, w') \<Rightarrow> (Inr t, w')) (\<lambda>_. EvNow)"

definition rand_intn :: "'w kube \<Rightarrow> nat \<Rightarrow> ('w kst, nat) prog" where
  "rand_intn K n = call (\<lambda>w. case k_rand K n w of (r, w') \<Rightarrow> (Inr r, w')) (\<lambda>_. EvRand n)"

lemmas call_defs = get_session_def get_space_def get_namespace_def get_secret_def get_pod_def
  get_ctf_task_def list_pods_def list_services_def list_tasks_def create_def update_def
  status_update_def delete_def create_or_update_def time_now_def rand_intn_def

text \<open>\<open>client.Update\<close> writes what the server answers back into the object it is given.\<close>

definition update_session :: "'w kube \<Rightarrow> lab_session \<Rightarrow> ('w kst, lab_session) prog" where
  "update_session K s = bindE (update K (KSession s))
     (\<lambda>r. case r of KSession s' \<Rightarrow> ret s' | _ \<Rightarrow> fail (ErrText ''object has another kind''))"

definition status_update_session :: "'w kube \<Rightarrow> lab_session \<Rightarrow> ('w kst, lab_session) prog" where
  "status_update_session K s = bindE (status_update K (KSession s))
     (\<lambda>r. case r of KSession s' \<Rightarrow> ret s' | _ \<Rightarrow> fail (ErrText ''object has another kind''))"

definition status_update_ctf :: "'w kube \<Rightarrow> ctf_task \<Rightarrow> ('w kst, ctf_task) prog" where
  "status_update_ctf K t = bindE (status_update K (KCTFTask t))
     (\<lambda>r. case r of KCTFTask t' \<Rightarrow> ret t' | _ \<Rightarrow> fail (ErrText ''object has another kind''))"

subsection \<open>Which calls a program may issue\<close>

definition emits :: "(event \<Rightarrow> bool) \<Rightarrow> ('w kst, 'a) prog \<Rightarrow> bool" where
  "emits P m \<longleftrightarrow> (\<forall>s. \<exists>es. calls (snd (m s)) = calls s @ es \<and> list_all P es)"

lemma emitsD: "emits P m \<Longrightarrow> m s = (r, s') \<Longrightarrow> \<exists>es. calls s' = calls s @ es \<and> list_all P es"
  by (metis emits_def snd_conv)

lemma emits_mono: "emits P m \<Longrightarrow> (\<And>e. P e \<Longrightarrow> Q e) \<Longrightarrow> emits Q m"
  unfolding emits_def by (meson list.pred_mono_strong)

lemma emits_ret [emit_intros]: "emits P (ret x)"
  by (auto simp: emits_def run_simps intro: exI [of _ "[]"])

lemma emits_fail [emit_intros]: "emits P (fail e)"
  by (auto simp: emits_def run_simps intro: exI [of _ "[]"])

lemma emits_liftE [emit_intros]: "emits P (liftE r)"
  by (auto simp: emits_def run_simps intro: exI [of _ "[]"])

lemma emits_bind [emit_intros]:
  assumes "emits P m" "\<And>x. emits P (f x)" shows "emits P (bindE m f)"
  unfolding emits_def
proof
  fix s
  obtain r s' where m: "m s = (r, s')" by fastforce
  from emitsD [OF assms(1) m] obtain es where es: "calls s' = calls s @ es" "list_all P es" by blast
  show "\<exists>es. calls (snd (bindE m f s)) = calls s @ es \<and> list_all P es"
  proof (cases r)
    case (Inl e)
    with m es show ?thesis by (auto simp: run_simps)
  next
    case (Inr x)
    obtain r2 s2 where f: "f x s' = (r2, s2)" by fastforce
    from emitsD [OF assms(2) f] es Inr m f show ?thesis by (auto simp: run_simps)
  qed
qed

lemma snd_attempt [simp]: "snd (attempt m s) = snd (m s)"
  by (auto simp: attempt_def split: prod.splits sum.splits)

lemma snd_wrap_err [simp]: "snd (wrap_err p m s) = snd (m s)"
  by (auto simp: wrap_err_def split: prod.splits sum.splits)

lemma emits_attempt [emit_intros]: "emits P m \<Longrightarrow> emits P (attempt m)"
  by (simp add: emits_def)

lemma emits_wrap [emit_intros]: "emits P m \<Longrightarrow> emits P (wrap_err p m)"
  by (simp add: emits_def)

lemma emits_forE [emit_intros]: "(\<And>x. x \<in> set xs \<Longrightarrow> emits P (f x)) \<Longrightarrow> emits P (forE xs f)"
  by (induction xs) (auto intro: emit_intros)

lemma emits_if [emit_intros]: "(b \<Longrightarrow> emits P m) \<Longrightarrow> (\<not> b \<Longrightarrow> emits P n) \<Longrightarrow> emits P (if b then m else n)"
  by simp

lemma emits_case_sum [emit_intros]:
  "(\<And>e. r = Inl e \<Longrightarrow> emits P (f e)) \<Longrightarrow> (\<And>x. r = Inr x \<Longrightarrow> emits P (g x)) \<Longrightarrow>
   emits P (case r of Inl e \<Rightarrow> f e | Inr x \<Rightarrow> g x)"
  by (cases r) auto

lemma emits_case_option [emit_intros]:
  "(r = None \<Longrightarrow> emits P f) \<Longrightarrow> (\<And>x. r = Some x \<Longrightarrow> emits P (g x)) \<Longrightarrow>
   emits P (case r of None \<Rightarrow> f | Some x \<Rightarrow> g x)"
  by (cases r) auto

lemma emits_call: "(\<And>b. P (ev b)) \<Longrightarrow> emits P (call op ev)"
  by (auto simp: emits_def call_def split: prod.splits)

lemma emits_calls [emit_intros]:
  "(\<And>b. P (EvGet SessionKind '''' n b)) \<Longrightarrow> emits P (get_session K n)"
  "(\<And>b. P (EvGet SpaceKind '''' n b)) \<Longrightarrow> emits P (get_space K n)"
  "(\<And>b. P (EvGet NamespaceKind '''' n b)) \<Longrightarrow> emits P (get_namespace K n)"
  "(\<And>b. P (EvGet SecretKind ns n b)) \<Longrightarrow> emits P (get_secret K ns n)"
  "(\<And>b. P (EvGet PodKind ns n b)) \<Longrightarrow> emits P (get_pod K ns n)"
  "(\<And>b. P (EvGet CTFTaskKind ns n b)) \<Longrightarrow> emits P (get_ctf_task K ns n)"
  "(\<And>b. P (EvList PodKind ns b)) \<Longrightarrow> emits P (list_pods K ns)"
  "(\<And>b. P (EvList ServiceTemplateKind '''' b)) \<Longrightarrow> emits P (list_services K sel)"
  "(\<And>b. P (EvList TaskKind '''' b)) \<Longrightarrow> emits P (list_tasks K sel)"
  "(\<And>b. P (EvCreate ob b)) \<Longrightarrow> emits P (create K ob)"
  "(\<And>b. P (EvUpdate ob b)) \<Longrightarrow> emits P (update K ob)"
  "(\<And>b. P (EvStatus ob b)) \<Longrightarrow> emits P (status_update K ob)"
  "(\<And>b. P (EvDelete k ns n g b)) \<Longrightarrow> emits P (delete K k ns n g)"
  "(\<And>b. P (EvCreateOrUpdate ob f b)) \<Longrightarrow> emits P (create_or_update K ob f)"
  "P EvNow \<Longrightarrow> emits P (time_now K)"
  "P (EvRand i) \<Longrightarrow> emits P (rand_intn K i)"
  by (simp_all add: call_defs emits_call)

lemma emits_update_session [emit_intros]:
  "(\<And>b. P (EvUpdate (KSession s) b)) \<Longrightarrow> emits P (update_session K s)"
  unfolding update_session_def by (intro emits_bind emits_calls) (auto split: kobj.split intro: emit_intros)

lemma emits_status_session [emit_intros]:
  "(\<And>b. P (EvStatus (KSession s) b)) \<Longrightarrow> emits P (status_update_session K s)"
  unfolding status_update_session_def
  by (intro emits_bind emits_calls) (auto split: kobj.split intro: emit_intros)

lemma emits_status_ctf [emit_intros]:
  "(\<And>b. P (EvStatus (KCTFTask t) b)) \<Longrightarrow> emits P (status_update_ctf K t)"
  unfolding status_update_ctf_def
  by (intro emits_bind emits_calls) (auto split: kobj.split intro: emit_intros)

text \<open>A property of the list of calls that survives every call \<open>m\<close> may issue survives \<open>m\<close>.\<close>

lemma list_all_extend:
  assumes "\<And>log e. I log \<Longrightarrow> P e \<Longrightarrow> I (log @ [e])"
  shows "list_all P es \<Longrightarrow> I log \<Longrightarrow> I (log @ es)"
proof (induction es arbitrary: log)
  case (Cons e es)
  then have "I ((log @ [e]) @ es)" by (intro Cons.IH) (auto intro: assms)
  then show ?case by simp
qed simp

lemma emits_triple:
  fixes m :: "('a kst, 'b) prog"
  assumes "emits P m" "\<And>log e. I log \<Longrightarrow> P e \<Longrightarrow> I (log @ [e])"
  shows "triple (\<lambda>s. I (calls s)) m (\<lambda>_ s. I (calls s)) (\<lambda>s. I (calls s))"
  unfolding triple_def
proof (intro allI impI)
  fix s :: "'a kst" assume I: "I (calls s)"
  obtain r s' where m: "m s = (r, s')" by fastforce
  from emitsD [OF assms(1) m] obtain es where "calls s' = calls s @ es" "list_all P es" by blast
  with list_all_extend [of I P es "calls s", OF assms(2)] I have "I (calls s')" by simp
  with m show "case m s of (Inl e, s') \<Rightarrow> I (calls s') | (Inr x, s') \<Rightarrow> I (calls s')"
    by (cases r) auto
qed

lemma triple_call:
  assumes "\<And>log x. P log \<Longrightarrow> Q (log @ [ev True])" "\<And>log. P log \<Longrightarrow> E (log @ [ev False])"
  shows "triple (\<lambda>s. P (calls s)) (call op ev) (\<lambda>_ s. Q (calls s)) (\<lambda>s. E (calls s))"
  using assms by (auto simp: triple_def call_def split: prod.splits sum.splits)

subsection \<open>What a program returns\<close>

text \<open>\<open>yields R m\<close>: whatever the outside does, a normal result of \<open>m\<close> satisfies \<open>R\<close>.\<close>

definition yields :: "('a \<Rightarrow> bool) \<Rightarrow> ('s, 'a) prog \<Rightarrow> bool" where
  "yields R m \<longleftrightarrow> (\<forall>s x s'. m s = (Inr x, s') \<longrightarrow> R x)"

lemma yields_call: "(\<And>w x w'. op w = (Inr x, w') \<Longrightarrow> R x) \<Longrightarrow> yields R (call op ev)"
  by (auto simp: yields_def call_def split: prod.splits)

lemma yields_bind: "(\<And>x. yields R (f x)) \<Longrightarrow> yields R (bindE m f)"
  by (fastforce simp: yields_def run_bindE split: prod.splits sum.splits)

lemma yields_bind2: "yields Q m \<Longrightarrow> (\<And>x. Q x \<Longrightarrow> yields R (f x)) \<Longrightarrow> yields R (bindE m f)"
  by (fastforce simp: yields_def run_bindE split: prod.splits sum.splits)

lemma yields_attempt: "yields R m \<Longrightarrow> yields (case_sum (\<lambda>_. True) R) (attempt m)"
  by (fastforce simp: yields_def attempt_def split: prod.splits sum.splits if_splits)

lemma yields_ret: "R x \<Longrightarrow> yields R (ret x)"
  by (simp add: yields_def run_simps)

lemma yields_fail: "yields R (fail e)"
  by (simp add: yields_def run_simps)

lemma yields_liftE: "(\<And>x. r = Inr x \<Longrightarrow> R x) \<Longrightarrow> yields R (liftE r)"
  by (simp add: yields_def run_simps)

lemma yields_if: "(b \<Longrightarrow> yields R m) \<Longrightarrow> (\<not> b \<Longrightarrow> yields R n) \<Longrightarrow> yields R (if b then m else n)"
  by simp

lemma emits_bind_yields:
  assumes "emits P m" "yields R m" "\<And>x. R x \<Longrightarrow> emits P (f x)" shows "emits P (bindE m f)"
  unfolding emits_def
proof
  fix s
  obtain r s' where m: "m s = (r, s')" by fastforce
  from emitsD [OF assms(1) m] obtain es where es: "calls s' = calls s @ es" "list_all P es" by blast
  show "\<exists>es. calls (snd (bindE m f s)) = calls s @ es \<and> list_all P es"
  proof (cases r)
    case (Inl e)
    with m es show ?thesis by (auto simp: run_simps)
  next
    case (Inr x)
    then have "R x" using assms(2) m by (auto simp: yields_def)
    obtain r2 s2 where f: "f x s' = (r2, s2)" by fastforce
    from emitsD [OF assms(3) [OF \<open>R x\<close>] f] es Inr m f show ?thesis by (auto simp: run_simps)
  qed
qed

text \<open>
  The documented behaviour of the client about keys: \<open>Get\<close> returns the object with the key asked
  for, \<open>List\<close> in a namespace returns objects of that namespace, and an update writes the stored
  object, with the same key, back.
\<close>

definition keyed :: "'w kube \<Rightarrow> bool" where
  "keyed K \<longleftrightarrow>
     (\<forall>n w x w'. k_get_session K n w = (Inr x, w') \<longrightarrow> se_name x = n) \<and>
     (\<forall>ns n w x w'. k_get_secret K ns n w = (Inr x, w') \<longrightarrow> m_namespace (sec_meta x) = ns \<and> m_name (sec_meta x) = n) \<and>
     (\<forall>ns n w x w'. k_get_ctf_task K ns n w = (Inr x, w') \<longrightarrow> m_namespace (ct_meta x) = ns \<and> ct_name x = n) \<and>
     (\<forall>ns w ps w'. k_list_pods K ns w = (Inr ps, w') \<longrightarrow> list_all (\<lambda>p. m_namespace (pod_meta p) = ns) ps) \<and>
     (\<forall>ob w ob' w'. k_update K ob w = (Inr ob', w') \<longrightarrow> obj_name ob' = obj_name ob \<and> obj_ns ob' = obj_ns ob) \<and>
     (\<forall>ob w ob' w'. k_status_update K ob w = (Inr ob', w') \<longrightarrow> obj_name ob' = obj_name ob \<and> obj_ns ob' = obj_ns ob)"

lemma keyedD:
  assumes "keyed K"
  shows "k_get_session K n w = (Inr s, w') \<Longrightarrow> se_name s = n"
    and "k_get_secret K ns n w = (Inr c, w') \<Longrightarrow> m_namespace (sec_meta c) = ns \<and> m_name (sec_meta c) = n"
    and "k_get_ctf_task K ns n w = (Inr t, w') \<Longrightarrow> m_namespace (ct_meta t) = ns \<and> ct_name t = n"
    and "k_list_pods K ns w = (Inr ps, w') \<Longrightarrow> list_all (\<lambda>p. m_namespace (pod_meta p) = ns) ps"
    and "k_update K ob w = (Inr ob', w') \<Longrightarrow> obj_name ob' = obj_name ob \<and> obj_ns ob' = obj_ns ob"
    and "k_status_update K ob w = (Inr ob', w') \<Longrightarrow> obj_name ob' = obj_name ob \<and> obj_ns ob' = obj_ns ob"
  using assms unfolding keyed_def by metis+

lemma keyed_yields:
  assumes "keyed K"
  shows "yields (\<lambda>x. se_name x = n) (get_session K n)"
    and "yields (\<lambda>x. m_namespace (sec_meta x) = ns \<and> m_name (sec_meta x) = n) (get_secret K ns n)"
    and "yields (\<lambda>x. m_namespace (ct_meta x) = ns \<and> ct_name x = n) (get_ctf_task K ns n)"
    and "yields (list_all (\<lambda>p. m_namespace (pod_meta p) = ns)) (list_pods K ns)"
    and "yields (\<lambda>x. se_name x = se_name s) (update_session K s)"
    and "yields (\<lambda>x. se_name x = se_name s) (status_update_session K s)"
    and "yields (\<lambda>x. ct_name x = ct_name t \<and> m_namespace (ct_meta x) = m_namespace (ct_meta t)) (status_update_ctf K t)"
proof -
  show "yields (\<lambda>x. se_name x = n) (get_session K n)"
    unfolding get_session_def by (intro yields_call) (rule keyedD(1) [OF assms])
  show "yields (\<lambda>x. m_namespace (sec_meta x) = ns \<and> m_name (sec_meta x) = n) (get_secret K ns n)"
    unfolding get_secret_def by (intro yields_call) (rule keyedD(2) [OF assms])
  show "yields (\<lambda>x. m_namespace (ct_meta x) = ns \<and> ct_name x = n) (get_ctf_task K ns n)"
    unfolding get_ctf_task_def by (intro yields_call) (rule keyedD(3) [OF assms])
  show "yields (list_all (\<lambda>p. m_namespace (pod_meta p) = ns)) (list_pods K ns)"
    unfolding list_pods_def by (intro yields_call) (rule keyedD(4) [OF assms])
  have up: "yields (\<lambda>ob'. obj_name ob' = obj_name ob \<and> obj_ns ob' = obj_ns ob) (update K ob)"
    "yields (\<lambda>ob'. obj_name ob' = obj_name ob \<and> obj_ns ob' = obj_ns ob) (status_update K ob)" for ob
    unfolding update_def status_update_def by (intro yields_call; rule keyedD(5,6) [OF assms], assumption)+
  show "yields (\<lambda>x. se_name x = se_name s) (update_session K s)"
    unfolding update_session_def
    by (rule yields_bind2 [OF up(1)]) (auto split: kobj.split intro: yields_ret yields_fail)
  show "yields (\<lambda>x. se_name x = se_name s) (status_update_session K s)"
    unfolding status_update_session_def
    by (rule yields_bind2 [OF up(2)]) (auto split: kobj.split intro: yields_ret yields_fail)
  show "yields (\<lambda>x. ct_name x = ct_name t \<and> m_namespace (ct_meta x) = m_namespace (ct_meta t)) (status_update_ctf K t)"
    unfolding status_update_ctf_def
    by (rule yields_bind2 [OF up(2)]) (auto split: kobj.split intro: yields_ret yields_fail)
qed

text \<open>
  A concrete cluster, for witnesses: it knows one session, one LabSpace, two lists, one CTFTask,
  and has no other object; every write succeeds; its state is a counter.
\<close>

definition missing :: "goerr + 'a" where
  "missing = Inl (ApiErr NotFound ''not found'')"

definition sample_kube :: "lab_session \<Rightarrow> lab_space \<Rightarrow> lab_service list \<Rightarrow> ctf_task \<Rightarrow> nat kube" where
  "sample_kube s sp svcs t = \<lparr>
     k_get_session = (\<lambda>n w. (if n = se_name s then Inr s else missing, w)),
     k_get_space = (\<lambda>n w. (if n = m_name (sp_meta sp) then Inr sp else missing, w)),
     k_get_namespace = (\<lambda>n w. (missing, w)),
     k_get_secret = (\<lambda>ns n w. (missing, w)),
     k_get_pod = (\<lambda>ns n w. (missing, w)),
     k_get_ctf_task = (\<lambda>ns n w. (if ns = m_namespace (ct_meta t) \<and> n = ct_name t then Inr t else missing, w)),
     k_list_pods = (\<lambda>ns w. (Inr [], w)),
     k_list_services = (\<lambda>sel w. (Inr svcs, w)),
     k_list_tasks = (\<lambda>sel w. (Inr [], w)),
     k_create = (\<lambda>ob w. (Inr (), w)),
     k_update = (\<lambda>ob w. (Inr ob, w)),
     k_status_update = (\<lambda>ob w. (Inr ob, w)),
     k_delete = (\<lambda>k ns n g w. (Inr (), w)),
     k_create_or_update = (\<lambda>ob f w. (map_sum id (\<lambda>_. ()) (f ob), w)),
     k_now = (\<lambda>w. (int w * 10 ^ 9, w)),
     k_rand = (\<lambda>n w. (w mod n, Suc w))\<rparr>"

lemma sample_kube_keyed: "keyed (sample_kube s sp svcs t)"
  by (auto simp: keyed_def sample_kube_def missing_def split: if_splits)

text \<open>The client reports failures of these calls as error values; it does not panic.\<close>

definition plain_errors :: "'w kube \<Rightarrow> bool" where
  "plain_errors K \<longleftrightarrow>
     (\<forall>k ns n g w e w'. k_delete K k ns n g w = (Inl e, w') \<longrightarrow> \<not> is_panic e) \<and>
     (\<forall>ob w e w'. k_status_update K ob w = (Inl e, w') \<longrightarrow> \<not> is_panic e)"

lemma plain_errorsD:
  assumes "plain_errors K"
  shows "k_delete K k ns n g w = (Inl e, w') \<Longrightarrow> \<not> is_panic e"
    and "k_status_update K ob w = (Inl e, w') \<Longrightarrow> \<not> is_panic e"
  using assms unfolding plain_errors_def by metis+

lemma attempt_delete:
  assumes "plain_errors K" "k_delete K k ns n g (outside s) = (d, w')"
  shows "attempt (delete K k ns n g) s = (Inr d, s\<lparr>outside := w', calls := calls s @ [EvDelete k ns n g (succeeded d)]\<rparr>)"
  using plain_errorsD(1) [OF assms(1)] assms(2)
  by (cases d) (auto simp: attempt_def delete_def call_def)

lemma sample_kube_plain: "plain_errors (sample_kube s sp svcs t)"
  by (simp add: plain_errors_def sample_kube_def)

subsection \<open>The contract of a reconciler step\<close>

text \<open>
  A step of a reconciler is a program that only issues allowed calls. Whoever composes steps
  relies on this alone: the calls made before the step stay a prefix of the list, what is
  added is allowed, and a property of the list that allowed calls keep is kept.
\<close>

locale confined_step =
  fixes step :: "('w kst, 'a) prog"
    and allowed :: "event \<Rightarrow> bool"
  assumes confined: "emits allowed step"
begin

lemma new_calls_allowed:
  assumes "step s = (r, s')"
  shows "\<exists>es. calls s' = calls s @ es \<and> list_all allowed es"
  by (rule emitsD [OF confined assms])

lemma all_calls_allowed:
  assumes "step s = (r, s')" "list_all allowed (calls s)"
  shows "list_all allowed (calls s')"
  using new_calls_allowed [OF assms(1)] assms(2) by auto

lemma call_in_step:
  assumes "step s = (r, s')" "e \<in> set (calls s')" "e \<notin> set (calls s)"
  shows "allowed e"
  using new_calls_allowed [OF assms(1)] assms(2,3) by (auto simp: list_all_iff)

lemma keeps:
  assumes "\<And>log e. I log \<Longrightarrow> allowed e \<Longrightarrow> I (log @ [e])"
  shows "triple (\<lambda>s. I (calls s)) step (\<lambda>_ s. I (calls s)) (\<lambda>s. I (calls s))"
  by (rule emits_triple [where I = I, OF confined assms])

end

subsection \<open>Mutate functions\<close>

text \<open>
  A \<open>MutateFn\<close> is a closure over a variable of one struct type. Lifted to \<open>kobj\<close> it acts on the
  objects of that type.
\<close>

definition on_quota :: "(resource_quota \<Rightarrow> goerr + resource_quota) \<Rightarrow> mutate" where
  "on_quota f ob = (case ob of KQuota x \<Rightarrow> map_sum id KQuota (f x) | _ \<Rightarrow> Inl (ErrText ''object has another kind''))"

definition on_limit_range :: "(limit_range \<Rightarrow> goerr + limit_range) \<Rightarrow> mutate" where
  "on_limit_range f ob = (case ob of KLimitRange x \<Rightarrow> map_sum id KLimitRange (f x) | _ \<Rightarrow> Inl (ErrText ''object has another kind''))"

definition on_cilium :: "(cilium_policy \<Rightarrow> goerr + cilium_policy) \<Rightarrow> mutate" where
  "on_cilium f ob = (case ob of KCilium x \<Rightarrow> map_sum id KCilium (f x) | _ \<Rightarrow> Inl (ErrText ''object has another kind''))"

definition on_network_policy :: "(network_policy \<Rightarrow> goerr + network_policy) \<Rightarrow> mutate" where
  "on_network_policy f ob = (case ob of KNetworkPolicy x \<Rightarrow> map_sum id KNetworkPolicy (f x) | _ \<Rightarrow> Inl (ErrText ''object has another kind''))"

definition on_service :: "(service \<Rightarrow> goerr + service) \<Rightarrow> mutate" where
  "on_service f ob = (case ob of KService x \<Rightarrow> map_sum id KService (f x) | _ \<Rightarrow> Inl (ErrText ''object has another kind''))"

definition on_route :: "(http_route \<Rightarrow> goerr + http_route) \<Rightarrow> mutate" where
  "on_route f ob = (case ob of KRoute x \<Rightarrow> map_sum id KRoute (f x) | _ \<Rightarrow> Inl (ErrText ''object has another kind''))"

definition on_pod :: "(pod \<Rightarrow> goerr + pod) \<Rightarrow> mutate" where
  "on_pod f ob = (case ob of KPod x \<Rightarrow> map_sum id KPod (f x) | _ \<Rightarrow> Inl (ErrText ''object has another kind''))"

lemma map_sum_Inr_iff [simp]: "map_sum id g r = Inr y \<longleftrightarrow> (\<exists>x. r = Inr x \<and> y = g x)"
  by (cases r) auto

lemma map_sum_Inl_iff [simp]: "map_sum id g r = Inl e \<longleftrightarrow> r = Inl e"
  by (cases r) auto

lemma on_kind_iff:
  "on_quota f ob = Inr ob' \<longleftrightarrow> (\<exists>x y. ob = KQuota x \<and> f x = Inr y \<and> ob' = KQuota y)"
  "on_limit_range g ob = Inr ob' \<longleftrightarrow> (\<exists>x y. ob = KLimitRange x \<and> g x = Inr y \<and> ob' = KLimitRange y)"
  "on_cilium h ob = Inr ob' \<longleftrightarrow> (\<exists>x y. ob = KCilium x \<and> h x = Inr y \<and> ob' = KCilium y)"
  "on_network_policy i ob = Inr ob' \<longleftrightarrow> (\<exists>x y. ob = KNetworkPolicy x \<and> i x = Inr y \<and> ob' = KNetworkPolicy y)"
  "on_service j ob = Inr ob' \<longleftrightarrow> (\<exists>x y. ob = KService x \<and> j x = Inr y \<and> ob' = KService y)"
  "on_route k ob = Inr ob' \<longleftrightarrow> (\<exists>x y. ob = KRoute x \<and> k x = Inr y \<and> ob' = KRoute y)"
  "on_pod l ob = Inr ob' \<longleftrightarrow> (\<exists>x y. ob = KPod x \<and> l x = Inr y \<and> ob' = KPod y)"
  by (cases ob; auto simp: on_quota_def on_limit_range_def on_cilium_def on_network_policy_def
      on_service_def on_route_def on_pod_def)+

text \<open>
  The contract of a mutate function, which \<open>CreateOrUpdate\<close> relies on to settle: applied to its
  own result it changes nothing (the second pass finds nothing to write), and it keeps the key
  of the object (\<open>CreateOrUpdate\<close> refuses a mutate function that renames).
\<close>

locale settling_mutate =
  fixes f :: mutate
  assumes settles: "f ob = Inr ob' \<Longrightarrow> f ob' = Inr ob'"
    and keeps_key: "f ob = Inr ob' \<Longrightarrow>
      obj_kind ob' = obj_kind ob \<and> obj_name ob' = obj_name ob \<and> obj_ns ob' = obj_ns ob"
begin

lemma repeated: "f ob = Inr ob' \<Longrightarrow> ((\<lambda>r. bindR r f) ^^ n) (Inr ob') = Inr ob'"
  by (induction n) (auto dest: settles)

end

text \<open>
  To settle, it is enough that the closure settles on the struct it works on and keeps its name
  and namespace.
\<close>

definition same_key :: "meta \<Rightarrow> meta \<Rightarrow> bool" where
  "same_key m m' \<longleftrightarrow> m_name m' = m_name m \<and> m_namespace m' = m_namespace m"

lemma settling_on:
  "(\<And>x y. f0 x = Inr y \<Longrightarrow> f0 y = Inr y \<and> same_key (qu_meta x) (qu_meta y)) \<Longrightarrow> settling_mutate (on_quota f0)"
  "(\<And>x y. f1 x = Inr y \<Longrightarrow> f1 y = Inr y \<and> same_key (lr_meta x) (lr_meta y)) \<Longrightarrow> settling_mutate (on_limit_range f1)"
  "(\<And>x y. f2 x = Inr y \<Longrightarrow> f2 y = Inr y \<and> same_key (cnp_meta x) (cnp_meta y)) \<Longrightarrow> settling_mutate (on_cilium f2)"
  "(\<And>x y. f3 x = Inr y \<Longrightarrow> f3 y = Inr y \<and> same_key (np_meta x) (np_meta y)) \<Longrightarrow> settling_mutate (on_network_policy f3)"
  "(\<And>x y. f4 x = Inr y \<Longrightarrow> f4 y = Inr y \<and> same_key (svc_meta x) (svc_meta y)) \<Longrightarrow> settling_mutate (on_service f4)"
  "(\<And>x y. f5 x = Inr y \<Longrightarrow> f5 y = Inr y \<and> same_key (hr_meta x) (hr_meta y)) \<Longrightarrow> settling_mutate (on_route f5)"
  "(\<And>x y. f6 x = Inr y \<Longrightarrow> f6 y = Inr y \<and> same_key (pod_meta x) (pod_meta y)) \<Longrightarrow> settling_mutate (on_pod f6)"
  by (unfold_locales; fastforce simp: on_kind_iff same_key_def)+

lemma set_controller_ref_twice:
  assumes "lib_ok L" "set_controller_ref L k o' m = Inr m'"
  shows "set_controller_ref L k o' m' = Inr m'" "same_key m m'"
  using lib_okD(5) [OF assms] set_controller_ref_meta [OF assms] by (simp_all add: same_key_def)

end
