(* ===== verification/Security.thy ===== *)
theory Security
  imports Kube
begin

section \<open>Security contexts (labsession\_controller.go)\<close>

text \<open>
  \<open>containerSecurityContext\<close> renders a container's security context from a profile, \<open>hardenPod\<close>
  sets the pod-level defaults every lab pod gets. The abstract specification is
  \<open>locked_down\<close>, the strictest context the platform promises for a nil profile, and
  \<open>hardened\<close>, what holds of every pod.
\<close>

subsection \<open>The code\<close>

definition desktopDefaultProfile :: security_profile where
  "desktopDefaultProfile = empty_profile\<lparr>sp_run_as_root := True, sp_writable_root := True,
     sp_keep_capabilities := True, sp_privilege_escalation := True\<rparr>"

definition containerSecurityContext :: "security_profile option \<Rightarrow> security_context" where
  "containerSecurityContext p0 =
     (let p = (case p0 of None \<Rightarrow> empty_profile | Some p \<Rightarrow> p);
          sc = \<lparr>sc_allow_privilege_escalation = Some (sp_privilege_escalation p),
                sc_read_only_root = Some (\<not> sp_writable_root p),
                sc_seccomp = Some RuntimeDefault,
                sc_privileged = None, sc_capabilities = None,
                sc_run_as_non_root = None, sc_run_as_user = None\<rparr>;
          sc = (if sp_privileged p then sc\<lparr>sc_privileged := Some True\<rparr> else sc);
          sc = (if sp_seccomp_unconfined p then sc\<lparr>sc_seccomp := Some Unconfined\<rparr> else sc);
          sc = (if sp_keep_capabilities p
                then if sp_add_capabilities p \<noteq> []
                     then sc\<lparr>sc_capabilities := Some \<lparr>cap_add = sp_add_capabilities p, cap_drop = []\<rparr>\<rparr>
                     else sc
                else sc\<lparr>sc_capabilities := Some \<lparr>cap_add = sp_add_capabilities p, cap_drop = [''ALL'']\<rparr>\<rparr>)
      in if sp_run_as_root p
         then sc\<lparr>sc_run_as_non_root := Some False, sc_run_as_user := sp_run_as_user p\<rparr>
         else sc\<lparr>sc_run_as_non_root := Some True,
                 sc_run_as_user := Some (case sp_run_as_user p of
                    Some u \<Rightarrow> if u \<noteq> 0 then u else 1000 | None \<Rightarrow> 1000)\<rparr>)"

definition hardenPod :: "pod_spec \<Rightarrow> pod_spec" where
  "hardenPod spec =
     (let spec = spec\<lparr>ps_automount := Some False\<rparr>;
          psc = (case ps_security spec of
                   None \<Rightarrow> \<lparr>psc_seccomp = None, psc_run_as_non_root = None\<rparr> | Some c \<Rightarrow> c)
      in spec\<lparr>ps_security := Some (psc\<lparr>psc_seccomp := Some RuntimeDefault\<rparr>)\<rparr>)"

subsection \<open>Specification\<close>

text \<open>
  The strictest context, as the comment of \<open>SecurityProfile\<close> lists it: non-root with a non-zero
  user, no privilege escalation, every capability dropped and none added, a read-only root
  file system, the runtime's seccomp profile, not privileged.
\<close>

definition locked_down :: "security_context \<Rightarrow> bool" where
  "locked_down sc \<longleftrightarrow>
     sc_run_as_non_root sc = Some True \<and> sc_run_as_user sc \<noteq> None \<and> sc_run_as_user sc \<noteq> Some 0 \<and>
     sc_allow_privilege_escalation sc = Some False \<and>
     sc_capabilities sc = Some \<lparr>cap_add = [], cap_drop = [''ALL'']\<rparr> \<and>
     sc_read_only_root sc = Some True \<and> sc_seccomp sc = Some RuntimeDefault \<and>
     sc_privileged sc \<noteq> Some True"

definition hardened :: "pod_spec \<Rightarrow> bool" where
  "hardened spec \<longleftrightarrow>
     ps_automount spec = Some False \<and>
     (case ps_security spec of None \<Rightarrow> False | Some c \<Rightarrow> psc_seccomp c = Some RuntimeDefault) \<and>
     \<not> ps_host_network spec \<and> \<not> ps_host_pid spec \<and> \<not> ps_host_ipc spec"

lemma csc_fields:
  "sc_allow_privilege_escalation (containerSecurityContext (Some p)) = Some (sp_privilege_escalation p)"
  "sc_read_only_root (containerSecurityContext (Some p)) = Some (\<not> sp_writable_root p)"
  "sc_seccomp (containerSecurityContext (Some p)) =
     Some (if sp_seccomp_unconfined p then Unconfined else RuntimeDefault)"
  "sc_privileged (containerSecurityContext (Some p)) = (if sp_privileged p then Some True else None)"
  "sc_capabilities (containerSecurityContext (Some p)) =
     (if sp_keep_capabilities p \<and> sp_add_capabilities p = [] then None
      else Some \<lparr>cap_add = sp_add_capabilities p, cap_drop = if sp_keep_capabilities p then [] else [''ALL'']\<rparr>)"
  "sc_run_as_non_root (containerSecurityContext (Some p)) = Some (\<not> sp_run_as_root p)"
  "sc_run_as_user (containerSecurityContext (Some p)) =
     (if sp_run_as_root p then sp_run_as_user p
      else Some (case sp_run_as_user p of Some u \<Rightarrow> if u \<noteq> 0 then u else 1000 | None \<Rightarrow> 1000))"
  by (auto simp: containerSecurityContext_def Let_def)

lemma csc_none: "containerSecurityContext None = containerSecurityContext (Some empty_profile)"
  by (simp add: containerSecurityContext_def)

lemma csc_locked_down_none: "locked_down (containerSecurityContext None)"
  by (simp add: csc_none locked_down_def csc_fields empty_profile_def)

lemma locked_down_fields:
  "locked_down (containerSecurityContext (Some p)) \<longleftrightarrow>
     \<not> sp_run_as_root p \<and> \<not> sp_privilege_escalation p \<and> \<not> sp_privileged p \<and> \<not> sp_writable_root p \<and>
     \<not> sp_keep_capabilities p \<and> sp_add_capabilities p = [] \<and> \<not> sp_seccomp_unconfined p"
  unfolding locked_down_def csc_fields by (auto split: option.splits if_splits)

text \<open>
  A rendered context is locked down exactly when its profile relaxes nothing: no root, no
  privilege escalation, not privileged, root file system kept read-only, default capabilities
  not kept and none added, seccomp not disabled. A nil profile is one of these.
\<close>

lemma locked_down_iff_nothing_relaxed:
  "locked_down (containerSecurityContext None) \<and>
   (locked_down (containerSecurityContext (Some p)) \<longleftrightarrow>
      p = empty_profile\<lparr>sp_run_as_user := sp_run_as_user p\<rparr>)"
  by (cases p) (simp add: csc_locked_down_none locked_down_fields empty_profile_def conj_ac)

text \<open>
  Each of these fields of a profile relaxes exactly one control. Setting the field changes
  the control it names in the rendered context and leaves every other control as it was;
  \<open>AllowRunAsRoot\<close> changes the two controls about the user and nothing else.
\<close>

lemma each_field_relaxes_one_control:
  "containerSecurityContext (Some (p\<lparr>sp_privilege_escalation := b\<rparr>)) =
     (containerSecurityContext (Some p))\<lparr>sc_allow_privilege_escalation := Some b\<rparr> \<and>
   containerSecurityContext (Some (p\<lparr>sp_writable_root := b\<rparr>)) =
     (containerSecurityContext (Some p))\<lparr>sc_read_only_root := Some (\<not> b)\<rparr> \<and>
   containerSecurityContext (Some (p\<lparr>sp_privileged := b\<rparr>)) =
     (containerSecurityContext (Some p))\<lparr>sc_privileged := if b then Some True else None\<rparr> \<and>
   containerSecurityContext (Some (p\<lparr>sp_seccomp_unconfined := b\<rparr>)) =
     (containerSecurityContext (Some p))\<lparr>sc_seccomp := Some (if b then Unconfined else RuntimeDefault)\<rparr> \<and>
   containerSecurityContext (Some (p\<lparr>sp_add_capabilities := as\<rparr>)) =
     (containerSecurityContext (Some p))\<lparr>sc_capabilities :=
        sc_capabilities (containerSecurityContext (Some (p\<lparr>sp_add_capabilities := as\<rparr>)))\<rparr> \<and>
   containerSecurityContext (Some (p\<lparr>sp_run_as_root := True\<rparr>)) =
     (containerSecurityContext (Some p))\<lparr>sc_run_as_non_root := Some False, sc_run_as_user := sp_run_as_user p\<rparr>"
  by (intro conjI security_context.equality) (simp_all add: csc_fields)

text \<open>A context that claims to be non-root never names the root user.\<close>

lemma non_root_user:
  "sc_run_as_non_root (containerSecurityContext p) = Some True \<longleftrightarrow>
     (case p of None \<Rightarrow> True | Some q \<Rightarrow> \<not> sp_run_as_root q)"
  by (cases p) (simp_all add: csc_none csc_fields empty_profile_def)

lemma hardenPod_hardened:
  "hardened (hardenPod spec) \<longleftrightarrow> \<not> ps_host_network spec \<and> \<not> ps_host_pid spec \<and> \<not> ps_host_ipc spec"
  by (auto simp: hardened_def hardenPod_def Let_def split: option.split)

lemma hardenPod_frame [simp]:
  "ps_volumes (hardenPod spec) = ps_volumes spec" "ps_containers (hardenPod spec) = ps_containers spec"
  "ps_pull_secrets (hardenPod spec) = ps_pull_secrets spec" "ps_grace (hardenPod spec) = ps_grace spec"
  by (simp_all add: hardenPod_def Let_def)

lemma hardenPod_idem: "hardenPod (hardenPod spec) = hardenPod spec"
  by (simp add: hardenPod_def Let_def)

end
