(* ===== verification/Crypto.thy ===== *)
theory Crypto
  imports Prelude "HOL-Library.Word"
begin

unbundle bit_operations_syntax

section \<open>The digests and encodings of Go's standard library\<close>

text \<open>
  \<open>crypto/sha256\<close> (FIPS 180-4), \<open>crypto/hmac\<close> (RFC 2104), \<open>encoding/base64\<close> with
  \<open>RawURLEncoding\<close> (RFC 4648, no padding) and \<open>encoding/hex\<close>: the parts of the standard
  library the token code calls. Bytes are \<open>8 word\<close>, the digest's words \<open>32 word\<close>, so its
  additions wrap as the standard says. Every function is executable. The locale
  \<open>byte_encoder\<close> is what the token code relies on: how long the text of a digest is and
  which characters it has.
\<close>

type_synonym byte = "8 word"
type_synonym u32 = "32 word"

definition str_bytes :: "string \<Rightarrow> byte list" where
  "str_bytes s = map of_char s"

subsection \<open>SHA-256\<close>

definition sha_init :: "u32 \<times> u32 \<times> u32 \<times> u32 \<times> u32 \<times> u32 \<times> u32 \<times> u32" where
  "sha_init = (
    1779033703, 3144134277, 1013904242, 2773480762, 1359893119, 2600822924, 528734635, 1541459225)"

definition sha_k :: "u32 list" where
  "sha_k = [
    1116352408, 1899447441, 3049323471, 3921009573, 961987163, 1508970993, 2453635748, 2870763221,
    3624381080, 310598401, 607225278, 1426881987, 1925078388, 2162078206, 2614888103, 3248222580,
    3835390401, 4022224774, 264347078, 604807628, 770255983, 1249150122, 1555081692, 1996064986,
    2554220882, 2821834349, 2952996808, 3210313671, 3336571891, 3584528711, 113926993, 338241895,
    666307205, 773529912, 1294757372, 1396182291, 1695183700, 1986661051, 2177026350, 2456956037,
    2730485921, 2820302411, 3259730800, 3345764771, 3516065817, 3600352804, 4094571909, 275423344,
    430227734, 506948616, 659060556, 883997877, 958139571, 1322822218, 1537002063, 1747873779,
    1955562222, 2024104815, 2227730452, 2361852424, 2428436474, 2756734187, 3204031479, 3329325298]"

definition sha_ch :: "u32 \<Rightarrow> u32 \<Rightarrow> u32 \<Rightarrow> u32" where
  "sha_ch x y z = (x AND y) XOR (NOT x AND z)"

definition sha_maj :: "u32 \<Rightarrow> u32 \<Rightarrow> u32 \<Rightarrow> u32" where
  "sha_maj x y z = (x AND y) XOR (x AND z) XOR (y AND z)"

definition big_sigma0 :: "u32 \<Rightarrow> u32" where
  "big_sigma0 x = word_rotr 2 x XOR word_rotr 13 x XOR word_rotr 22 x"

definition big_sigma1 :: "u32 \<Rightarrow> u32" where
  "big_sigma1 x = word_rotr 6 x XOR word_rotr 11 x XOR word_rotr 25 x"

definition small_sigma0 :: "u32 \<Rightarrow> u32" where
  "small_sigma0 x = word_rotr 7 x XOR word_rotr 18 x XOR drop_bit 3 x"

definition small_sigma1 :: "u32 \<Rightarrow> u32" where
  "small_sigma1 x = word_rotr 17 x XOR word_rotr 19 x XOR drop_bit 10 x"

definition be32 :: "u32 \<Rightarrow> byte list" where
  "be32 w = [ucast (drop_bit 24 w), ucast (drop_bit 16 w), ucast (drop_bit 8 w), ucast w]"

fun words_be :: "byte list \<Rightarrow> u32 list" where
  "words_be (a # b # c # d # r) =
     (push_bit 24 (ucast a) OR push_bit 16 (ucast b) OR push_bit 8 (ucast c) OR ucast d) # words_be r"
| "words_be _ = []"

definition be64 :: "nat \<Rightarrow> byte list" where
  "be64 n = map (\<lambda>i. ucast (drop_bit (8 * i) (word_of_nat n :: 64 word))) (rev [0..<8])"

definition sha_pad :: "byte list \<Rightarrow> byte list" where
  "sha_pad m = m @ [0x80] @ replicate ((119 - length m mod 64) mod 64) 0 @ be64 (8 * length m)"

text \<open>The message schedule, newest word first.\<close>

fun sha_schedule :: "nat \<Rightarrow> u32 list \<Rightarrow> u32 list" where
  "sha_schedule 0 ws = ws"
| "sha_schedule (Suc n) ws =
     sha_schedule n ((small_sigma1 (ws ! 1) + ws ! 6 + small_sigma0 (ws ! 14) + ws ! 15) # ws)"

type_synonym sha_state = "u32 \<times> u32 \<times> u32 \<times> u32 \<times> u32 \<times> u32 \<times> u32 \<times> u32"

definition sha_round :: "u32 \<times> u32 \<Rightarrow> sha_state \<Rightarrow> sha_state" where
  "sha_round = (\<lambda>(k, w) (a, b, c, d, e, f, g, h).
     let t1 = h + big_sigma1 e + sha_ch e f g + k + w;
         t2 = big_sigma0 a + sha_maj a b c
     in (t1 + t2, a, b, c, d + t1, e, f, g))"

definition sha_add :: "sha_state \<Rightarrow> sha_state \<Rightarrow> sha_state" where
  "sha_add = (\<lambda>(a, b, c, d, e, f, g, h) (a', b', c', d', e', f', g', h').
     (a + a', b + b', c + c', d + d', e + e', f + f', g + g', h + h'))"

definition sha_block :: "sha_state \<Rightarrow> byte list \<Rightarrow> sha_state" where
  "sha_block h blk =
     sha_add h (fold sha_round (zip sha_k (rev (sha_schedule 48 (rev (words_be blk))))) h)"

function sha_blocks :: "sha_state \<Rightarrow> byte list \<Rightarrow> sha_state" where
  "sha_blocks h bs = (if bs = [] then h else sha_blocks (sha_block h (take 64 bs)) (drop 64 bs))"
  by pat_completeness auto
termination
  by (relation "measure (\<lambda>(h, bs). length bs)") auto

declare sha_blocks.simps [simp del]

definition sha256 :: "byte list \<Rightarrow> byte list" where
  "sha256 m = (case sha_blocks sha_init (sha_pad m) of
     (a, b, c, d, e, f, g, h) \<Rightarrow> concat (map be32 [a, b, c, d, e, f, g, h]))"

subsection \<open>HMAC-SHA256\<close>

definition hmac_key :: "byte list \<Rightarrow> byte list" where
  "hmac_key k = (let k' = (if length k > 64 then sha256 k else k) in k' @ replicate (64 - length k') 0)"

definition hmac_sha256 :: "byte list \<Rightarrow> byte list \<Rightarrow> byte list" where
  "hmac_sha256 key msg =
     (let k = hmac_key key
      in sha256 (map (\<lambda>b. b XOR 0x5c) k @ sha256 (map (\<lambda>b. b XOR 0x36) k @ msg)))"

subsection \<open>base64url without padding, and hex\<close>

definition b64_alphabet :: string where
  "b64_alphabet = ''ABCDEFGHIJKLMNOPQRSTUVWXYZabcdefghijklmnopqrstuvwxyz0123456789-_''"

fun sextets :: "nat list \<Rightarrow> nat list" where
  "sextets [] = []"
| "sextets [a] = [a div 4, (a mod 4) * 16]"
| "sextets [a, b] = [a div 4, (a mod 4) * 16 + b div 16, (b mod 16) * 4]"
| "sextets (a # b # c # r) =
     [a div 4, (a mod 4) * 16 + b div 16, (b mod 16) * 4 + c div 64, c mod 64] @ sextets r"

fun unsextets :: "nat list \<Rightarrow> nat list" where
  "unsextets (p # q # r # s # t) =
     [p * 4 + q div 16, (q mod 16) * 16 + r div 4, (r mod 4) * 64 + s] @ unsextets t"
| "unsextets [p, q, r] = [p * 4 + q div 16, (q mod 16) * 16 + r div 4]"
| "unsextets [p, q] = [p * 4 + q div 16]"
| "unsextets _ = []"

definition base64url :: "byte list \<Rightarrow> string" where
  "base64url bs = map ((!) b64_alphabet) (sextets (map unat bs))"

definition hex_alphabet :: string where
  "hex_alphabet = ''0123456789abcdef''"

definition hex_string :: "byte list \<Rightarrow> string" where
  "hex_string bs = concat (map (\<lambda>b. [hex_alphabet ! (unat b div 16), hex_alphabet ! (unat b mod 16)]) bs)"

subsection \<open>Slicing a string\<close>

text \<open>\<open>s[:k]\<close>: out of range is a panic, not an error.\<close>

definition go_prefix :: "string \<Rightarrow> int \<Rightarrow> goerr + string" where
  "go_prefix s k =
     (if k < 0 \<or> int (length s) < k then Inl (Panic ''slice bounds out of range'')
      else Inr (take (nat k) s))"

subsection \<open>Lengths of the digests\<close>

lemma length_sha256 [simp]: "length (sha256 m) = 32"
  by (simp add: sha256_def be32_def case_prod_beta)

lemma length_hmac_sha256 [simp]: "length (hmac_sha256 k m) = 32"
  by (simp add: hmac_sha256_def Let_def)

text \<open>Padding fills whole 64-byte blocks, so no byte of the message is dropped.\<close>

lemma sha_pad_blocks: "64 dvd length (sha_pad m)"
proof -
  have "length (sha_pad m) = length m + 9 + (119 - length m mod 64) mod 64"
    by (simp add: sha_pad_def be64_def)
  moreover have "64 dvd n + 9 + (119 - n mod 64) mod 64" for n :: nat
  proof -
    define q r where "q = n div 64" and "r = n mod 64"
    then have n: "n = 64 * q + r" "r < 64" by auto
    have pad: "(119 - r) mod 64 = (if r \<le> 55 then 55 - r else 119 - r)"
      using n(2) by (simp add: mod_if)
    have "n + 9 + (119 - r) mod 64 = 64 * (if r \<le> 55 then q + 1 else q + 2)"
      unfolding pad using n by auto
    then show ?thesis unfolding r_def by (simp only: dvd_triv_left)
  qed
  ultimately show ?thesis by simp
qed

subsection \<open>The encodings: length, alphabet, injectivity, prefixes\<close>

lemma length_sextets: "length (sextets xs) = (4 * length xs + 2) div 3"
  by (induction xs rule: sextets.induct) auto

lemma sextets_less: "\<forall>x \<in> set xs. x < 256 \<Longrightarrow> \<forall>y \<in> set (sextets xs). y < 64"
  by (induction xs rule: sextets.induct) (auto simp: less_mult_imp_div_less)

lemma unsextets_sextets: "\<forall>x \<in> set xs. x < 256 \<Longrightarrow> unsextets (sextets xs) = xs"
proof (induction xs rule: sextets.induct)
  case (4 a b c r)
  have "(a mod 4 * 16 + b div 16) div 16 = a mod 4" "(b mod 16 * 4 + c div 64) div 4 = b mod 16"
    "(a mod 4 * 16 + b div 16) mod 16 = b div 16" "(b mod 16 * 4 + c div 64) mod 4 = c div 64"
    using "4.prems" by auto
  with 4 show ?case by simp
next
  case (3 a b)
  have "(a mod 4 * 16 + b div 16) div 16 = a mod 4"
    "(a mod 4 * 16 + b div 16) mod 16 = b div 16" using "3.prems" by auto
  then show ?case by simp
qed auto

lemma group_Suc: "4 * Suc j = Suc (Suc (Suc (Suc (4 * j))))" "3 * Suc j = Suc (Suc (Suc (3 * j)))"
  by simp_all

lemma sextets_take: "take (4 * j) (sextets xs) = sextets (take (3 * j) xs)"
proof (induction xs arbitrary: j rule: sextets.induct)
  case (2 a)
  then show ?case by (cases j) auto
next
  case (3 a b)
  then show ?case by (cases j) (auto simp: numeral_3_eq_3)
next
  case (4 a b c r)
  then show ?case by (cases j) (simp_all only: group_Suc, simp_all)
qed simp

lemma unat_bytes_less: "\<forall>x \<in> set (map unat (bs :: byte list)). x < 256"
  using unsigned_less [where 'a = nat and 'b = 8] by auto

lemma b64_alphabet_distinct: "distinct b64_alphabet" "length b64_alphabet = 64"
  by (simp_all add: b64_alphabet_def)

lemma hex_alphabet_distinct: "distinct hex_alphabet" "length hex_alphabet = 16"
  by (simp_all add: hex_alphabet_def)

lemma base64url_length: "length (base64url bs) = (4 * length bs + 2) div 3"
  by (simp add: base64url_def length_sextets)

lemma base64url_chars: "set (base64url bs) \<subseteq> set b64_alphabet"
  using sextets_less [OF unat_bytes_less, of bs] b64_alphabet_distinct(2)
  by (auto simp: base64url_def intro: nth_mem)

lemma base64url_inj: "base64url a = base64url b \<Longrightarrow> a = b"
proof -
  assume eq: "base64url a = base64url b"
  have less: "\<forall>y \<in> set (sextets (map unat c)). y < length b64_alphabet" for c :: "byte list"
    using sextets_less [OF unat_bytes_less, of c] by (simp add: b64_alphabet_distinct(2))
  have "sextets (map unat a) = sextets (map unat b)"
    using eq unfolding base64url_def
    by (rule map_inj_on)
      (use less in \<open>auto intro!: inj_onI simp: nth_eq_iff_index_eq [OF b64_alphabet_distinct(1)]\<close>)
  then have "map unat a = map unat b"
    by (metis unat_bytes_less unsextets_sextets)
  then show "a = b" by (simp add: inj_map_eq_map inj_def word_unat_eq_iff)
qed

lemma base64url_take: "take (4 * j) (base64url bs) = base64url (take (3 * j) bs)"
  by (simp add: base64url_def take_map sextets_take)

lemma hex_Nil [simp]: "hex_string [] = []"
  by (simp add: hex_string_def)

lemma hex_Cons [simp]:
  "hex_string (b # bs) = hex_alphabet ! (unat b div 16) # hex_alphabet ! (unat b mod 16) # hex_string bs"
  by (simp add: hex_string_def)

lemma hex_length: "length (hex_string bs) = 2 * length bs"
  by (induction bs) auto

lemma byte_nibbles: "unat (b :: byte) div 16 < 16" "unat b mod 16 < 16"
  using unsigned_less [of b, where 'a = nat] by auto

lemma hex_chars: "set (hex_string bs) \<subseteq> set hex_alphabet"
  by (induction bs) (auto simp: byte_nibbles hex_alphabet_distinct(2) intro: nth_mem)

lemma hex_inj: "hex_string a = hex_string b \<Longrightarrow> a = b"
proof (induction a arbitrary: b)
  case Nil
  then show ?case by (cases b) auto
next
  case (Cons x a)
  then obtain y b' where b: "b = y # b'" by (cases b) auto
  with Cons.prems have "unat x div 16 = unat y div 16" "unat x mod 16 = unat y mod 16"
    by (auto simp: nth_eq_iff_index_eq [OF hex_alphabet_distinct(1)] hex_alphabet_distinct(2) byte_nibbles)
  then have "unat x = unat y" by (metis div_mult_mod_eq)
  with Cons b show ?case by (simp add: word_unat_eq_iff)
qed

lemma hex_take: "take (2 * j) (hex_string bs) = hex_string (take (1 * j) bs)"
proof (induction bs arbitrary: j)
  case (Cons b bs)
  then show ?case by (cases j) auto
qed simp

subsection \<open>What the token code relies on\<close>

text \<open>
  An encoder of bytes as text: the length of the text is a function of the number of bytes,
  the text uses a fixed alphabet, and different bytes give different texts. A token is the
  first \<open>k\<close> characters of an encoded MAC.
\<close>

locale byte_encoder =
  fixes enc :: "byte list \<Rightarrow> string"
    and enc_len :: "nat \<Rightarrow> nat"
    and enc_alpha :: "char set"
  assumes enc_length: "length (enc bs) = enc_len (length bs)"
    and enc_chars: "set (enc bs) \<subseteq> enc_alpha"
    and enc_inj: "enc a = enc b \<Longrightarrow> a = b"
begin

lemma token_in_range:
  assumes "0 \<le> k" "k \<le> int (enc_len 32)"
  shows "go_prefix (enc (hmac_sha256 key msg)) k = Inr (take (nat k) (enc (hmac_sha256 key msg)))"
  using assms by (simp add: go_prefix_def enc_length)

lemma token_out_of_range:
  assumes "k < 0 \<or> int (enc_len 32) < k"
  shows "go_prefix (enc (hmac_sha256 key msg)) k = Inl (Panic ''slice bounds out of range'')"
  using assms by (auto simp: go_prefix_def enc_length)

lemma token_length:
  "go_prefix (enc (hmac_sha256 key msg)) k = Inr t \<Longrightarrow> int (length t) = k"
  by (auto simp: go_prefix_def split: if_splits)

lemma token_chars:
  "go_prefix (enc (hmac_sha256 key msg)) k = Inr t \<Longrightarrow> set t \<subseteq> enc_alpha"
  using enc_chars [of "hmac_sha256 key msg"] set_take_subset [of "nat k" "enc (hmac_sha256 key msg)"]
  by (auto simp: go_prefix_def split: if_splits)

end

text \<open>
  An encoder that works in groups of \<open>in_group\<close> bytes and \<open>out_group\<close> characters: cutting the
  text at a group boundary is cutting the bytes. Then two tokens agree exactly when the MACs
  agree on the bytes the token covers.
\<close>

locale group_encoder = byte_encoder +
  fixes in_group :: nat and out_group :: nat
  assumes enc_take: "take (out_group * j) (enc bs) = enc (take (in_group * j) bs)"
begin

lemma token_eq_iff:
  "take (out_group * j) (enc a) = take (out_group * j) (enc b) \<longleftrightarrow> take (in_group * j) a = take (in_group * j) b"
  by (auto simp: enc_take dest: enc_inj)

end

interpretation b64: group_encoder base64url "\<lambda>n. (4 * n + 2) div 3" "set b64_alphabet" 3 4
  by unfold_locales (rule base64url_length base64url_chars base64url_take base64url_inj; assumption?)+

interpretation hexenc: group_encoder hex_string "\<lambda>n. 2 * n" "set hex_alphabet" 1 2
  by unfold_locales (rule hex_length hex_chars hex_take hex_inj; assumption?)+

end
