(* ===== verification/Secrets.thy ===== *)
theory Secrets
  imports Kube Crypto
begin

section \<open>Secrets and derived tokens (labsession\_controller.go, workspace\_guard.go)\<close>

text \<open>
  How the controller resolves its two keys from the environment, the startup guard that refuses
  the built-in key, and the tokens derived from the keys: the flag body and the VNC password.
  The locale \<open>secret_source\<close> is the contract both keys keep; the digests come through the
  contract \<open>group_encoder\<close> of theory \<open>Crypto\<close>.
\<close>

subsection \<open>Environment lookups\<close>

definition envDefault :: "go_env \<Rightarrow> string \<Rightarrow> string \<Rightarrow> string" where
  "envDefault G key def = (let v = getenv G key in if v \<noteq> '''' then v else def)"

fun firstNonEmpty :: "string list \<Rightarrow> string" where
  "firstNonEmpty [] = ''''"
| "firstNonEmpty (v # vs) = (if v \<noteq> '''' then v else firstNonEmpty vs)"

definition devSecretDefault :: string where
  "devSecretDefault = ''ctf-school-secret-key''"

definition flagSecret :: "go_env \<Rightarrow> string" where
  "flagSecret G = firstNonEmpty [getenv G ''CTF_FLAG_SECRET'', getenv G ''CTF_SCHOOL_SECRET'', devSecretDefault]"

definition jwtSecret :: "go_env \<Rightarrow> string" where
  "jwtSecret G = firstNonEmpty [getenv G ''CTF_JWT_SECRET'', getenv G ''CTF_SCHOOL_SECRET'', devSecretDefault]"

text \<open>The environment with one variable changed.\<close>

definition setenv :: "string \<Rightarrow> string \<Rightarrow> go_env \<Rightarrow> go_env" where
  "setenv k v G = G\<lparr>getenv := (getenv G)(k := v)\<rparr>"

lemma getenv_setenv [simp]: "getenv (setenv k v G) j = (if j = k then v else getenv G j)"
  by (simp add: setenv_def)

lemma setenv_frame [simp]:
  "lower_other (setenv k v G) = lower_other G" "fmt_other (setenv k v G) = fmt_other G"
  "frac_ns (setenv k v G) = frac_ns G" "max_runes (setenv k v G) = max_runes G"
  by (simp_all add: setenv_def)

lemma envDefault_setenv [simp]:
  "envDefault (setenv k v G) j d = (if j = k then if v = '''' then d else v else envDefault G j d)"
  by (simp add: envDefault_def)

lemma sprintf_setenv [simp]: "sprintf (setenv k v G) f as = sprintf G f as"
  by (induction G f as rule: sprintf.induct) (auto split: list.splits)

lemma to_lower_setenv [simp]: "to_lower (setenv k v G) s = to_lower G s"
  by (simp add: to_lower_def)

subsection \<open>The contract of a secret\<close>

text \<open>
  A secret is resolved from a variable of its own, then from the shared legacy variable, then
  from the compiled-in default, and from nothing else.
\<close>

locale secret_source =
  fixes secret :: "go_env \<Rightarrow> string" and own :: string
  assumes own_wins: "getenv G own \<noteq> '''' \<Longrightarrow> secret G = getenv G own"
    and shared_next: "getenv G own = '''' \<Longrightarrow> getenv G ''CTF_SCHOOL_SECRET'' \<noteq> '''' \<Longrightarrow>
          secret G = getenv G ''CTF_SCHOOL_SECRET''"
    and default_last: "getenv G own = '''' \<Longrightarrow> getenv G ''CTF_SCHOOL_SECRET'' = '''' \<Longrightarrow>
          secret G = devSecretDefault"
begin

lemma never_empty: "secret G \<noteq> ''''"
  using own_wins [of G] shared_next [of G] default_last [of G]
  by (cases "getenv G own = ''''"; cases "getenv G ''CTF_SCHOOL_SECRET'' = ''''")
    (auto simp: devSecretDefault_def)

lemma is_default_iff:
  "secret G = devSecretDefault \<longleftrightarrow>
     getenv G own = devSecretDefault \<or>
     getenv G own = '''' \<and> getenv G ''CTF_SCHOOL_SECRET'' \<in> {'''', devSecretDefault}"
  using own_wins [of G] shared_next [of G] default_last [of G]
  by (cases "getenv G own = ''''"; cases "getenv G ''CTF_SCHOOL_SECRET'' = ''''")
    (auto simp: devSecretDefault_def)

lemma unaffected: "k \<noteq> own \<Longrightarrow> k \<noteq> ''CTF_SCHOOL_SECRET'' \<Longrightarrow> secret (setenv k v G) = secret G"
  using own_wins [of G] shared_next [of G] default_last [of G]
    own_wins [of "setenv k v G"] shared_next [of "setenv k v G"] default_last [of "setenv k v G"]
  by (cases "getenv G own = ''''"; cases "getenv G ''CTF_SCHOOL_SECRET'' = ''''") auto

end

interpretation flag_key: secret_source flagSecret "''CTF_FLAG_SECRET''"
  by unfold_locales (simp_all add: flagSecret_def)

interpretation jwt_key: secret_source jwtSecret "''CTF_JWT_SECRET''"
  by unfold_locales (simp_all add: jwtSecret_def)

subsection \<open>The startup guard\<close>

text \<open>
  \<open>ValidateSecrets\<close> ranges over a map literal of two entries, whose order Go leaves open: the
  argument \<open>flag_first\<close> says which entry comes first.
\<close>

fun check_secrets :: "(string \<times> string) list \<Rightarrow> goerr + unit" where
  "check_secrets [] = Inr ()"
| "check_secrets ((name, val) # rest) =
     (if val = '''' \<or> val = devSecretDefault
      then Inl (ErrText (name @ '' is unset or the built-in dev default; set a real secret (or a real CTF_SCHOOL_SECRET), or set CTF_ALLOW_DEV_SECRETS=true for local dev''))
      else check_secrets rest)"

definition ValidateSecrets :: "go_env \<Rightarrow> bool \<Rightarrow> goerr + unit" where
  "ValidateSecrets G flag_first =
     (if getenv G ''CTF_ALLOW_DEV_SECRETS'' = ''true'' then Inr ()
      else let f = (''CTF_FLAG_SECRET'', flagSecret G); j = (''CTF_JWT_SECRET'', jwtSecret G)
           in check_secrets (if flag_first then [f, j] else [j, f]))"

text \<open>What the guard is meant to accept, in terms of the environment alone.\<close>

definition real_secret :: "go_env \<Rightarrow> string \<Rightarrow> bool" where
  "real_secret G own \<longleftrightarrow>
     (let v = (if getenv G own \<noteq> '''' then getenv G own else getenv G ''CTF_SCHOOL_SECRET'')
      in v \<notin> {'''', devSecretDefault})"

lemma flag_real: "flagSecret G \<noteq> devSecretDefault \<longleftrightarrow> real_secret G ''CTF_FLAG_SECRET''"
  unfolding flag_key.is_default_iff real_secret_def by (auto simp: devSecretDefault_def)

lemma jwt_real: "jwtSecret G \<noteq> devSecretDefault \<longleftrightarrow> real_secret G ''CTF_JWT_SECRET''"
  unfolding jwt_key.is_default_iff real_secret_def by (auto simp: devSecretDefault_def)

lemma validate_secrets_iff:
  "ValidateSecrets G flag_first = Inr () \<longleftrightarrow>
     getenv G ''CTF_ALLOW_DEV_SECRETS'' = ''true'' \<or>
     real_secret G ''CTF_FLAG_SECRET'' \<and> real_secret G ''CTF_JWT_SECRET''"
  by (auto simp: ValidateSecrets_def Let_def flag_key.never_empty jwt_key.never_empty
      flag_real [symmetric] jwt_real [symmetric])

lemma check_secrets_error:
  assumes "check_secrets kvs = Inl e"
  shows "\<exists>name v rest. (name, v) \<in> set kvs \<and> v \<in> {'''', devSecretDefault} \<and> e = ErrText (name @ rest)"
  using assms
proof (induction kvs rule: check_secrets.induct)
  case (2 name val kvs)
  show ?case
  proof (cases "val = '''' \<or> val = devSecretDefault")
    case True
    define rest where "rest = '' is unset or the built-in dev default; set a real secret (or a real CTF_SCHOOL_SECRET), or set CTF_ALLOW_DEV_SECRETS=true for local dev''"
    from True 2(2) have "e = ErrText (name @ rest)" by (simp add: rest_def)
    with True show ?thesis by (intro exI [of _ name] exI [of _ val] exI [of _ rest]) auto
  next
    case False
    with 2(2) have "check_secrets kvs = Inl e" by simp
    from 2(1) [OF False this] show ?thesis by (metis list.set_intros(2))
  qed
qed simp

text \<open>
  C30: the startup guard lets the process start exactly when the development override is set or
  both keys resolve, from their own variable or the shared one, to a value that is neither
  empty nor the built-in default, in whichever order the map is visited. Otherwise its error
  begins with the name of a variable whose key does not.
\<close>

theorem validate_secrets_fail_closed:
  "(ValidateSecrets G flag_first = Inr () \<longleftrightarrow>
     getenv G ''CTF_ALLOW_DEV_SECRETS'' = ''true'' \<or>
     real_secret G ''CTF_FLAG_SECRET'' \<and> real_secret G ''CTF_JWT_SECRET'') \<and>
   (case ValidateSecrets G flag_first of Inr x \<Rightarrow> True
    | Inl e \<Rightarrow> (\<exists>name rest. e = ErrText (name @ rest) \<and> name \<in> {''CTF_FLAG_SECRET'', ''CTF_JWT_SECRET''} \<and>
        \<not> real_secret G name))"
proof (cases "ValidateSecrets G flag_first")
  case (Inl e)
  let ?f = "(''CTF_FLAG_SECRET'', flagSecret G)" and ?j = "(''CTF_JWT_SECRET'', jwtSecret G)"
  have no_override: "getenv G ''CTF_ALLOW_DEV_SECRETS'' \<noteq> ''true''" using Inl by (auto simp: ValidateSecrets_def)
  have "check_secrets (if flag_first then [?f, ?j] else [?j, ?f]) = Inl e"
    using Inl no_override unfolding ValidateSecrets_def Let_def by (simp only: if_False)
  from check_secrets_error [OF this] obtain name v rest where
    n: "(name, v) \<in> set (if flag_first then [?f, ?j] else [?j, ?f])" "v \<in> {'''', devSecretDefault}"
      "e = ErrText (name @ rest)" by blast
  from n(1) have "(name, v) = ?f \<or> (name, v) = ?j" by (cases flag_first) auto
  then have "\<not> real_secret G name \<and> name \<in> {''CTF_FLAG_SECRET'', ''CTF_JWT_SECRET''}"
    using n(2) flag_key.never_empty [of G] jwt_key.never_empty [of G] flag_real [of G] jwt_real [of G]
    by (elim disjE) simp_all
  with n(3) Inl show ?thesis
    using validate_secrets_iff [of G flag_first] by (simp only: sum.case) blast
next
  case (Inr u)
  then show ?thesis using validate_secrets_iff [of G flag_first] by simp
qed

subsection \<open>Flag body and VNC password\<close>

definition flagTokenLen :: int where
  "flagTokenLen = 24"

definition flagFormat :: "go_env \<Rightarrow> string" where
  "flagFormat G = envDefault G ''CTF_FLAG_FORMAT'' ''CTF{%s}''"

definition hash :: "go_env \<Rightarrow> string \<Rightarrow> goerr + string" where
  "hash G input =
     go_prefix (base64url (hmac_sha256 (str_bytes (flagSecret G)) (str_bytes input))) flagTokenLen"

definition vncPassword :: "go_env \<Rightarrow> lab_session \<Rightarrow> goerr + string" where
  "vncPassword G session =
     go_prefix (base64url (hmac_sha256 (str_bytes (jwtSecret G)) (str_bytes (''vnc-pw:'' @ se_name session)))) 16"

text \<open>The flag body itself, once the slice is known to be in range.\<close>

definition flag_token :: "go_env \<Rightarrow> string \<Rightarrow> string" where
  "flag_token G input = take 24 (base64url (hmac_sha256 (str_bytes (flagSecret G)) (str_bytes input)))"

definition vnc_token :: "go_env \<Rightarrow> lab_session \<Rightarrow> string" where
  "vnc_token G session =
     take 16 (base64url (hmac_sha256 (str_bytes (jwtSecret G)) (str_bytes (''vnc-pw:'' @ se_name session))))"

lemma hash_total [simp]: "hash G x = Inr (flag_token G x)"
  unfolding hash_def flag_token_def flagTokenLen_def by (subst b64.token_in_range) simp_all

lemma vncPassword_total [simp]: "vncPassword G s = Inr (vnc_token G s)"
  unfolding vncPassword_def vnc_token_def by (subst b64.token_in_range) simp_all

lemma flag_token_shape: "length (flag_token G x) = 24" "set (flag_token G x) \<subseteq> set b64_alphabet"
proof -
  have eq: "go_prefix (base64url (hmac_sha256 (str_bytes (flagSecret G)) (str_bytes x))) 24 = Inr (flag_token G x)"
    using hash_total [of G x] by (simp only: hash_def flagTokenLen_def)
  show "length (flag_token G x) = 24" using b64.token_length [OF eq] by simp
  show "set (flag_token G x) \<subseteq> set b64_alphabet" by (rule b64.token_chars [OF eq])
qed

lemma flag_token_no_percent: "CHR ''%'' \<notin> set (flag_token G x)"
  using flag_token_shape(2) [of G x] by (auto simp: b64_alphabet_def)

lemma flag_token_setenv: "k \<noteq> ''CTF_FLAG_SECRET'' \<Longrightarrow> k \<noteq> ''CTF_SCHOOL_SECRET'' \<Longrightarrow>
    flag_token (setenv k v G) x = flag_token G x"
  by (simp add: flag_token_def flag_key.unaffected)

lemma vnc_token_setenv: "k \<noteq> ''CTF_JWT_SECRET'' \<Longrightarrow> k \<noteq> ''CTF_SCHOOL_SECRET'' \<Longrightarrow>
    vnc_token (setenv k v G) s = vnc_token G s"
  by (simp add: vnc_token_def jwt_key.unaffected)

text \<open>
  C38: \<open>hash\<close> never panics on its slice: it returns exactly 24 characters of the URL-safe base64
  alphabet, and two inputs get the same flag body exactly when their HMACs agree on the first
  18 bytes (144 bits).
\<close>

theorem hash_is_144_bits_of_mac:
  "\<exists>t u. hash G x = Inr t \<and> hash G y = Inr u \<and> length t = 24 \<and> set t \<subseteq> set b64_alphabet \<and>
     (t = u \<longleftrightarrow> take 18 (hmac_sha256 (str_bytes (flagSecret G)) (str_bytes x)) =
                take 18 (hmac_sha256 (str_bytes (flagSecret G)) (str_bytes y)))"
  using b64.token_eq_iff [of 6 "hmac_sha256 (str_bytes (flagSecret G)) (str_bytes x)"
      "hmac_sha256 (str_bytes (flagSecret G)) (str_bytes y)"]
  by (simp add: flag_token_shape) (simp add: flag_token_def)

end
