(* ===== verification/Naming.thy ===== *)
theory Naming
  imports Secrets
begin

section \<open>Names and addresses (labsession\_controller.go)\<close>

text \<open>
  The namespace of a session, the public host names of the workspace and of the challenge
  services, and the gateway the routes attach to. Addresses must tell sessions apart: the
  theorems say on which names they do and where they do not.
\<close>

definition session_namespace :: "lab_session \<Rightarrow> string" where
  "session_namespace session = ''lab-session-'' @ se_name session"

definition cleanDNSName :: "go_env \<Rightarrow> string \<Rightarrow> string" where
  "cleanDNSName G s =
     replace_byte (CHR ''@'') (CHR ''-'') (replace_byte (CHR ''_'') (CHR ''-'') (to_lower G s))"

definition workspaceHostname :: "go_env \<Rightarrow> lab_session \<Rightarrow> string \<Rightarrow> string" where
  "workspaceHostname G session domain =
     (let base = trim_prefix (se_name session) ''lab-''
      in ''workspace-'' @ cleanDNSName G base @ ''.'' @ domain)"

definition ctf_domain :: "go_env \<Rightarrow> string" where
  "ctf_domain G = (let d = getenv G ''CTF_DOMAIN'' in if d = '''' then ''ctf.school'' else d)"

definition service_hostname :: "go_env \<Rightarrow> string \<Rightarrow> lab_session \<Rightarrow> string" where
  "service_hostname G svc session = svc @ ''-'' @ ss_user_id (se_spec session) @ ''.web.'' @ ctf_domain G"

definition gatewayParentRef :: "go_env \<Rightarrow> parent_ref" where
  "gatewayParentRef G =
     (let name = getenv G ''CTF_GATEWAY_NAME''; name = (if name = '''' then ''ctfd'' else name);
          nsStr = getenv G ''CTF_GATEWAY_NAMESPACE''; nsStr = (if nsStr = '''' then ''ctfd'' else nsStr)
      in \<lparr>pf_name = name, pf_namespace = Some nsStr\<rparr>)"

lemma ctf_domain_envDefault: "ctf_domain G = envDefault G ''CTF_DOMAIN'' ''ctf.school''"
  by (simp add: ctf_domain_def envDefault_def Let_def)

subsection \<open>Which names the addresses tell apart\<close>

text \<open>
  The characters of a Kubernetes object name (RFC 1123 subdomain): lower-case letters, digits,
  \<open>-\<close> and \<open>.\<close>.
\<close>

definition dns_char :: "char \<Rightarrow> bool" where
  "dns_char c \<longleftrightarrow> c \<in> set ''abcdefghijklmnopqrstuvwxyz0123456789-.''"

definition object_name :: "string \<Rightarrow> bool" where
  "object_name s \<longleftrightarrow> list_all dns_char s"

lemma dns_char_lower:
  "dns_char c \<Longrightarrow> ascii c \<and> lower_char c = c \<and> c \<noteq> CHR ''_'' \<and> c \<noteq> CHR ''@''"
  unfolding dns_char_def by (auto simp: ascii_def lower_char_def)

lemma cleanDNSName_id: assumes "object_name s" shows "cleanDNSName G s = s"
proof -
  have c: "\<forall>c \<in> set s. ascii c \<and> lower_char c = c \<and> c \<noteq> CHR ''_'' \<and> c \<noteq> CHR ''@''"
    using assms dns_char_lower by (simp add: object_name_def list_all_iff)
  then have "to_lower G s = s" by (simp add: to_lower_def list_all_iff map_idI)
  moreover have "replace_byte (CHR ''@'') (CHR ''-'') (replace_byte (CHR ''_'') (CHR ''-'') s) = s"
    using c by (simp add: replace_byte_def map_idI)
  ultimately show ?thesis by (simp add: cleanDNSName_def)
qed

definition clean_char :: "char \<Rightarrow> char" where
  "clean_char c = (let l = lower_char c in if l = CHR ''_'' \<or> l = CHR ''@'' then CHR ''-'' else l)"

lemma cleanDNSName_ascii: "list_all ascii s \<Longrightarrow> cleanDNSName G s = map clean_char s"
  by (auto simp: cleanDNSName_def to_lower_def replace_byte_def clean_char_def Let_def)

lemma cleanDNSName_chars:
  assumes "list_all ascii s" "c \<in> set (cleanDNSName G s)"
  shows "c \<noteq> CHR ''_'' \<and> c \<noteq> CHR ''@'' \<and> \<not> (65 \<le> (of_char c :: nat) \<and> (of_char c :: nat) \<le> 90)"
proof -
  from assms obtain x where "c = clean_char x" by (auto simp: cleanDNSName_ascii)
  with lower_char_range [of x] show ?thesis by (auto simp: clean_char_def Let_def split: if_splits)
qed

text \<open>
  On session names of the documented shape \<open>lab-<salt>-c<id>\<close>, that is, object names that
  begin with \<open>lab-\<close>, the workspace host name tells sessions apart: two sessions share it only
  if they have the same name, so their HTTPRoutes never collide.
\<close>

lemma workspace_hostname_injective:
  assumes "object_name (se_name s)" "object_name (se_name t)"
    and "has_prefix (se_name s) ''lab-''" "has_prefix (se_name t) ''lab-''"
  shows "workspaceHostname G s d = workspaceHostname G t d \<longleftrightarrow> se_name s = se_name t"
proof -
  from assms(3) obtain a where a: "se_name s = ''lab-'' @ a" by (auto simp only: has_prefix_iff)
  from assms(4) obtain b where b: "se_name t = ''lab-'' @ b" by (auto simp only: has_prefix_iff)
  have "object_name a" "object_name b" using assms(1,2) unfolding a b object_name_def by simp_all
  then show ?thesis
    unfolding workspaceHostname_def a b trim_prefix_append Let_def by (simp add: cleanDNSName_id)
qed

definition named_session :: "string \<Rightarrow> string \<Rightarrow> lab_session" where
  "named_session name user = \<lparr>se_meta = new_meta name '''',
     se_spec = \<lparr>ss_user_id = user, ss_lab_space_ref = ''web101''\<rparr>,
     se_status = \<lparr>st_phase = '''', st_conditions = [], st_message = '''',
       st_summary = \<lparr>sum_active = 0, sum_total = 0, sum_namespace = ''''\<rparr>,
       st_endpoints = [], st_start_time = None, st_expired_time = None\<rparr>\<rparr>"

lemma named_session_simps [simp]:
  "se_name (named_session n u) = n" "ss_user_id (se_spec (named_session n u)) = u"
  by (simp_all add: named_session_def)

lemma workspace_hostname_injective_example:
  "\<exists>G. (workspaceHostname G (named_session ''lab-t3-c1'' ''t3'') ''ctf.school'' =
        workspaceHostname G (named_session ''lab-t3-c2'' ''t3'') ''ctf.school'') = False"
proof -
  fix G
  have "workspaceHostname G (named_session ''lab-t3-c1'' ''t3'') ''ctf.school'' =
        workspaceHostname G (named_session ''lab-t3-c2'' ''t3'') ''ctf.school'' \<longleftrightarrow>
        se_name (named_session ''lab-t3-c1'' ''t3'') = se_name (named_session ''lab-t3-c2'' ''t3'')"
    by (rule workspace_hostname_injective)
      (simp_all add: object_name_def dns_char_def has_prefix_def)
  then show ?thesis by (intro exI [of _ G]) simp
qed

text \<open>Where the two concatenations agree.\<close>

lemma trim_prefix_cases:
  "trim_prefix x p = trim_prefix y p \<longleftrightarrow>
     x = y \<or> (x = p @ y \<and> \<not> has_prefix y p) \<or> (y = p @ x \<and> \<not> has_prefix x p)"
proof -
  have n: "trim_prefix z p = z" if "\<not> has_prefix z p" for z
    using that by (simp add: trim_prefix_def)
  have p: "has_prefix (p @ z) p" for z by (simp add: has_prefix_def)
  have d: "\<exists>a. z = p @ a" if "has_prefix z p" for z using that by (simp only: has_prefix_iff)
  show ?thesis
  proof (cases "has_prefix x p"; cases "has_prefix y p")
    assume "has_prefix x p" "has_prefix y p"
    then obtain a b where "x = p @ a" "y = p @ b" using d by blast
    with p show ?thesis by (simp add: trim_prefix_append)
  next
    assume "has_prefix x p" "\<not> has_prefix y p"
    moreover from this(1) obtain a where "x = p @ a" using d by blast
    ultimately show ?thesis using p n by (auto simp: trim_prefix_append)
  next
    assume "\<not> has_prefix x p" "has_prefix y p"
    moreover from this(2) obtain b where "y = p @ b" using d by blast
    ultimately show ?thesis using p n by (auto simp: trim_prefix_append)
  next
    assume "\<not> has_prefix x p" "\<not> has_prefix y p"
    moreover from this have "x \<noteq> p @ y" "y \<noteq> p @ x" using p [of y] p [of x] by (metis, metis)
    ultimately show ?thesis by (simp add: n)
  qed
qed

lemma joined_names_cases:
  "v @ c # u = v' @ c # u' \<longleftrightarrow>
     (v = v' \<and> u = u') \<or> (\<exists>m. v' = v @ c # m \<and> u = m @ c # u') \<or> (\<exists>m. v = v' @ c # m \<and> u' = m @ c # u)"
proof
  assume "v @ c # u = v' @ c # u'"
  then consider w where "v = v' @ w" "w @ c # u = c # u'" | w where "v' = v @ w" "w @ c # u' = c # u"
    by (metis append_eq_append_conv2)
  then show "(v = v' \<and> u = u') \<or> (\<exists>m. v' = v @ c # m \<and> u = m @ c # u') \<or> (\<exists>m. v = v' @ c # m \<and> u' = m @ c # u)"
  proof cases
    case (1 w)
    then show ?thesis by (cases w) simp_all
  next
    case (2 w)
    then show ?thesis by (cases w) simp_all
  qed
next
  assume "(v = v' \<and> u = u') \<or> (\<exists>m. v' = v @ c # m \<and> u = m @ c # u') \<or> (\<exists>m. v = v' @ c # m \<and> u' = m @ c # u)"
  then show "v @ c # u = v' @ c # u'" by (elim disjE exE conjE) simp_all
qed

text \<open>
  C40: exactly where host names collide. The workspace host name is called unique per session in
  the code. Two sessions share it if and only if they have the same name, or the name of one is
  that of the other with \<open>lab-\<close> in front; so on the documented names, which all begin with
  \<open>lab-\<close>, it does tell sessions apart. The host names of challenge services do not know the session
  at all: they agree if and only if service and user are the same, or a hyphen in a service or
  user name can be read on either side, whatever the two sessions are called.
\<close>

theorem hostname_collisions:
  assumes "object_name (se_name s)" "object_name (se_name t)"
  shows "(workspaceHostname G s d = workspaceHostname G t d \<longleftrightarrow>
      se_name s = se_name t \<or>
      (se_name s = ''lab-'' @ se_name t \<and> \<not> has_prefix (se_name t) ''lab-'') \<or>
      (se_name t = ''lab-'' @ se_name s \<and> \<not> has_prefix (se_name s) ''lab-'')) \<and>
    (service_hostname G v s = service_hostname G v' t \<longleftrightarrow>
      (v = v' \<and> ss_user_id (se_spec s) = ss_user_id (se_spec t)) \<or>
      (\<exists>m. v' = v @ ''-'' @ m \<and> ss_user_id (se_spec s) = m @ ''-'' @ ss_user_id (se_spec t)) \<or>
      (\<exists>m. v = v' @ ''-'' @ m \<and> ss_user_id (se_spec t) = m @ ''-'' @ ss_user_id (se_spec s)))"
proof
  have "object_name (trim_prefix x p)" if "object_name x" for x p
    using that by (auto simp: trim_prefix_def object_name_def list_all_iff dest: in_set_dropD)
  then have "workspaceHostname G s d = workspaceHostname G t d \<longleftrightarrow>
      trim_prefix (se_name s) ''lab-'' = trim_prefix (se_name t) ''lab-''"
    using assms by (simp add: workspaceHostname_def cleanDNSName_id)
  then show "workspaceHostname G s d = workspaceHostname G t d \<longleftrightarrow>
      se_name s = se_name t \<or>
      (se_name s = ''lab-'' @ se_name t \<and> \<not> has_prefix (se_name t) ''lab-'') \<or>
      (se_name t = ''lab-'' @ se_name s \<and> \<not> has_prefix (se_name s) ''lab-'')"
    by (simp only: trim_prefix_cases)
  have "service_hostname G v s = service_hostname G v' t \<longleftrightarrow>
      v @ ''-'' @ ss_user_id (se_spec s) = v' @ ''-'' @ ss_user_id (se_spec t)"
    unfolding service_hostname_def append_assoc [symmetric] by (simp only: append_same_eq)
  then show "service_hostname G v s = service_hostname G v' t \<longleftrightarrow>
      (v = v' \<and> ss_user_id (se_spec s) = ss_user_id (se_spec t)) \<or>
      (\<exists>m. v' = v @ ''-'' @ m \<and> ss_user_id (se_spec s) = m @ ''-'' @ ss_user_id (se_spec t)) \<or>
      (\<exists>m. v = v' @ ''-'' @ m \<and> ss_user_id (se_spec t) = m @ ''-'' @ ss_user_id (se_spec s))"
    by (simp only: joined_names_cases append_Cons append_Nil)
qed

theorem hostname_collisions_witness:
  "\<forall>G d. workspaceHostname G (named_session ''lab-x'' ''t3'') d = workspaceHostname G (named_session ''x'' ''t3'') d \<and>
   workspaceHostname G (named_session ''lab-t3-c1'' ''t3'') d \<noteq> workspaceHostname G (named_session ''lab-t3-c2'' ''t3'') d \<and>
   service_hostname G ''web'' (named_session ''lab-t3-c1'' ''t3'') = service_hostname G ''web'' (named_session ''lab-t3-c2'' ''t3'')"
proof -
  have names: "object_name ''lab-x''" "object_name ''x''" "object_name ''lab-t3-c1''" "object_name ''lab-t3-c2''"
    by (simp_all add: object_name_def dns_char_def)
  note h1 = hostname_collisions [of "named_session ''lab-x'' ''t3''" "named_session ''x'' ''t3''"]
  note h2 = hostname_collisions [of "named_session ''lab-t3-c1'' ''t3''" "named_session ''lab-t3-c2'' ''t3''" _ _ "''web''" "''web''"]
  show ?thesis
  proof (intro allI conjI)
    fix G d
    show "workspaceHostname G (named_session ''lab-x'' ''t3'') d = workspaceHostname G (named_session ''x'' ''t3'') d"
      using conjunct1 [OF h1] names by (simp add: has_prefix_def)
    show "workspaceHostname G (named_session ''lab-t3-c1'' ''t3'') d \<noteq> workspaceHostname G (named_session ''lab-t3-c2'' ''t3'') d"
      using conjunct1 [OF h2] names by simp
    show "service_hostname G ''web'' (named_session ''lab-t3-c1'' ''t3'') =
        service_hostname G ''web'' (named_session ''lab-t3-c2'' ''t3'')"
      using conjunct2 [OF h2] names by simp
  qed
qed

lemma session_namespace_inj: "session_namespace s = session_namespace t \<longleftrightarrow> se_name s = se_name t"
  by (simp add: session_namespace_def)

end
