(* ===== verification/Contract.thy ===== *)
theory Contract
  imports Security Naming
begin

section \<open>What a LabSession reconciler may ask the API server for\<close>

text \<open>
  The contract of every step of the LabSession reconciler: \<open>lab_call ns n\<close> holds of the calls a
  reconciler of the session called \<open>n\<close> with the namespace \<open>ns\<close> may issue. It reads the session, the
  namespace, pods and secrets of the namespace by name, and a LabSpace; it lists the pods of the
  namespace, and the LabServices and Tasks, which like the LabSpaces are templates that belong to
  no session. It creates the namespace itself, pods and secrets in it, and pods are always hardened; it
  updates only the session and secrets of the namespace; what it deletes is the namespace, the
  session, or something in the namespace; \<open>CreateOrUpdate\<close> works on objects of the namespace, with
  a mutate function that settles.
\<close>

fun lab_call :: "string \<Rightarrow> string \<Rightarrow> event \<Rightarrow> bool" where
  "lab_call ns n (EvGet k m x ok) =
     (k = SessionKind \<and> x = n \<or> k = NamespaceKind \<and> x = ns \<or> k \<in> {PodKind, SecretKind} \<and> m = ns \<or> k = SpaceKind)"
| "lab_call ns n (EvList k m ok) = (k = PodKind \<and> m = ns \<or> k \<in> {ServiceTemplateKind, TaskKind})"
| "lab_call ns n EvNow = True"
| "lab_call ns n (EvRand i) = True"
| "lab_call ns n (EvCreate ob ok) = (case ob of
       KNamespace x \<Rightarrow> m_name (nso_meta x) = ns
     | KPod p \<Rightarrow> m_namespace (pod_meta p) = ns \<and> hardened (pod_spec_of p)
     | KSecret x \<Rightarrow> m_namespace (sec_meta x) = ns
     | _ \<Rightarrow> False)"
| "lab_call ns n (EvUpdate ob ok) = (case ob of
       KSession s \<Rightarrow> se_name s = n
     | KSecret x \<Rightarrow> m_namespace (sec_meta x) = ns
     | _ \<Rightarrow> False)"
| "lab_call ns n (EvStatus ob ok) = (case ob of KSession s \<Rightarrow> se_name s = n | _ \<Rightarrow> False)"
| "lab_call ns n (EvDelete k m x grace ok) =
     (k = NamespaceKind \<and> x = ns \<or> k = SessionKind \<and> x = n \<or> k \<in> {PodKind, CiliumKind, NetworkPolicyKind} \<and> m = ns)"
| "lab_call ns n (EvCreateOrUpdate ob f ok) =
     (obj_ns ob = ns \<and> obj_kind ob \<in> {QuotaKind, LimitRangeKind, CiliumKind, ServiceKind, RouteKind} \<and>
      settling_mutate f)"

end
