(* ===== verification/Resources.thy ===== *)
theory Resources
  imports Kube
begin

section \<open>Resource budgets (labsession\_controller.go)\<close>

text \<open>
  The defaults of the workspace and challenge containers, and the two objects that cap a session
  namespace: the ResourceQuota and the LimitRange that goes with it. Quantities are the
  texts given to \<open>resource.MustParse\<close>.
\<close>

subsection \<open>Container budgets\<close>

definition defaultWorkspaceRequests :: "(string \<times> quantity) list" where
  "defaultWorkspaceRequests = [(''cpu'', ''100m''), (''memory'', ''256Mi''), (''ephemeral-storage'', ''256Mi'')]"

definition defaultWorkspaceLimits :: "(string \<times> quantity) list" where
  "defaultWorkspaceLimits = [(''cpu'', ''2''), (''memory'', ''2560Mi''), (''ephemeral-storage'', ''1Gi'')]"

definition defaultWorkspaceStorageLimit :: quantity where "defaultWorkspaceStorageLimit = ''1Gi''"
definition defaultTasksStorageLimit :: quantity where "defaultTasksStorageLimit = ''512Mi''"
definition defaultServiceTmpLimit :: quantity where "defaultServiceTmpLimit = ''256Mi''"
definition defaultServiceEphemeralLimit :: quantity where "defaultServiceEphemeralLimit = ''512Mi''"
definition defaultLimitRangeEphemeralRequest :: quantity where "defaultLimitRangeEphemeralRequest = ''256Mi''"
definition defaultLimitRangeEphemeralLimit :: quantity where "defaultLimitRangeEphemeralLimit = ''1Gi''"
definition guardEphemeralRequest :: quantity where "guardEphemeralRequest = ''16Mi''"
definition guardEphemeralLimit :: quantity where "guardEphemeralLimit = ''64Mi''"

definition setDefaultQty :: "resource_list \<Rightarrow> string \<Rightarrow> quantity \<Rightarrow> goerr + resource_list" where
  "setDefaultQty rl name def = (if gm_get rl name = None then gm_put rl name def else Inr rl)"

fun setDefaults :: "resource_list \<Rightarrow> (string \<times> quantity) list \<Rightarrow> goerr + resource_list" where
  "setDefaults rl [] = Inr rl"
| "setDefaults rl ((name, def) # ds) = bindR (setDefaultQty rl name def) (\<lambda>rl'. setDefaults rl' ds)"

text \<open>\<open>for k, v := range src { dst[k] = v }\<close>\<close>

definition copy_into :: "(string \<times> 'v) list \<Rightarrow> (string \<times> 'v) list \<Rightarrow> (string \<times> 'v) list" where
  "copy_into src dst = fold (\<lambda>(k, v). AList.update k v) src dst"

definition workspaceResources :: "lab_space \<Rightarrow> goerr + resource_requirements" where
  "workspaceResources space =
     (let (req0, lim0) = (case wc_resources (workspace space) of
            None \<Rightarrow> ([], [])
          | Some r \<Rightarrow> (copy_into (gm_entries (rr_requests r)) [], copy_into (gm_entries (rr_limits r)) []))
      in bindR (setDefaults (Some req0) defaultWorkspaceRequests) (\<lambda>req.
         bindR (setDefaults (Some lim0) defaultWorkspaceLimits) (\<lambda>lim.
         Inr \<lparr>rr_requests = req, rr_limits = lim, rr_claims = []\<rparr>)))"

definition serviceResources :: "lab_service \<Rightarrow> goerr + resource_requirements" where
  "serviceResources labSvc =
     (let res = ls_resources (sv_spec labSvc);
          lim0 = (case rr_limits res of None \<Rightarrow> Some [] | Some l \<Rightarrow> Some l)
      in bindR (setDefaultQty lim0 ''ephemeral-storage'' defaultServiceEphemeralLimit) (\<lambda>lim.
         Inr (res\<lparr>rr_limits := lim\<rparr>)))"

lemma setDefaultQty_Some:
  "setDefaultQty (Some al) n d = Inr (Some (if map_of al n = None then AList.update n d al else al))"
  by (simp add: setDefaultQty_def)

text \<open>Backfilling: what was set stays, what was not gets its default, nothing else appears.\<close>

lemma setDefaults_Some:
  "\<exists>al'. setDefaults (Some al) ds = Inr (Some al') \<and>
     (\<forall>n. map_of al' n = (case map_of al n of Some q \<Rightarrow> Some q | None \<Rightarrow> map_of ds n))"
proof (induction ds arbitrary: al)
  case Nil
  show ?case by (auto split: option.split)
next
  case (Cons d ds)
  obtain k v where d: "d = (k, v)" by fastforce
  define al1 where "al1 = (if map_of al k = None then AList.update k v al else al)"
  from Cons.IH [of al1] obtain al' where al':
    "setDefaults (Some al1) ds = Inr (Some al')"
    "\<forall>n. map_of al' n = (case map_of al1 n of Some q \<Rightarrow> Some q | None \<Rightarrow> map_of ds n)" by blast
  have "setDefaults (Some al) (d # ds) = Inr (Some al')"
    using al'(1) by (simp add: d setDefaultQty_Some al1_def)
  moreover have "map_of al' n = (case map_of al n of Some q \<Rightarrow> Some q | None \<Rightarrow> map_of (d # ds) n)" for n
    using al'(2) by (auto simp: d al1_def split: option.split if_splits)
  ultimately show ?case by blast
qed

lemma map_of_copy_into:
  "distinct (map fst src) \<Longrightarrow>
   map_of (copy_into src dst) n = (case map_of src n of Some v \<Rightarrow> Some v | None \<Rightarrow> map_of dst n)"
proof (induction src arbitrary: dst)
  case Nil
  then show ?case by (simp add: copy_into_def)
next
  case (Cons kv src)
  obtain k v where kv: "kv = (k, v)" by fastforce
  have step: "copy_into (kv # src) dst = copy_into src (AList.update k v dst)"
    by (simp add: copy_into_def kv)
  have "map_of src k = None" using Cons.prems by (simp add: kv map_of_eq_None_iff)
  moreover have "distinct (map fst src)" using Cons.prems by simp
  ultimately show ?case
    unfolding step using Cons.IH [of "AList.update k v dst"] by (cases "n = k") (simp_all add: kv cong: option.case_cong)
qed

text \<open>The author's value for a resource, if the author gave one.\<close>

definition author_qty :: "(resource_requirements \<Rightarrow> resource_list) \<Rightarrow> lab_space \<Rightarrow> string \<Rightarrow> quantity option" where
  "author_qty sel space n = (case wc_resources (workspace space) of None \<Rightarrow> None | Some r \<Rightarrow> gm_get (sel r) n)"

definition author_wf :: "lab_space \<Rightarrow> bool" where
  "author_wf space = (case wc_resources (workspace space) of None \<Rightarrow> True
     | Some r \<Rightarrow> gm_wf (rr_requests r) \<and> gm_wf (rr_limits r))"

text \<open>
  The workspace container's budget is total (never a write to a nil map) and is the
  author's, field by field, with the platform default where the author set nothing: for every
  resource name, requests and limits read as the author's value if present and as the default
  otherwise. So the limits for cpu, memory and ephemeral storage are always set.
\<close>

lemma workspace_resources_backfill:
  assumes "author_wf space"
  shows "\<exists>r. workspaceResources space = Inr r \<and>
    (\<forall>n. gm_get (rr_requests r) n =
       (case author_qty rr_requests space n of Some q \<Rightarrow> Some q | None \<Rightarrow> map_of defaultWorkspaceRequests n)) \<and>
    (\<forall>n. gm_get (rr_limits r) n =
       (case author_qty rr_limits space n of Some q \<Rightarrow> Some q | None \<Rightarrow> map_of defaultWorkspaceLimits n))"
proof -
  define req0 lim0 where
    "req0 = (case wc_resources (workspace space) of None \<Rightarrow> [] | Some r \<Rightarrow> copy_into (gm_entries (rr_requests r)) [])" and
    "lim0 = (case wc_resources (workspace space) of None \<Rightarrow> [] | Some r \<Rightarrow> copy_into (gm_entries (rr_limits r)) [])"
  have author: "map_of req0 n = author_qty rr_requests space n" "map_of lim0 n = author_qty rr_limits space n" for n
    using assms by (auto simp: req0_def lim0_def author_qty_def author_wf_def gm_wf_def map_of_copy_into
        gm_get_def split: option.splits)
  obtain req where req: "setDefaults (Some req0) defaultWorkspaceRequests = Inr (Some req)"
    "\<forall>n. map_of req n = (case map_of req0 n of Some q \<Rightarrow> Some q | None \<Rightarrow> map_of defaultWorkspaceRequests n)"
    using setDefaults_Some by blast
  obtain lim where lim: "setDefaults (Some lim0) defaultWorkspaceLimits = Inr (Some lim)"
    "\<forall>n. map_of lim n = (case map_of lim0 n of Some q \<Rightarrow> Some q | None \<Rightarrow> map_of defaultWorkspaceLimits n)"
    using setDefaults_Some by blast
  have "workspaceResources space = Inr \<lparr>rr_requests = Some req, rr_limits = Some lim, rr_claims = []\<rparr>"
    using req(1) lim(1) unfolding req0_def lim0_def
    by (cases "wc_resources (workspace space)") (simp_all add: workspaceResources_def)
  with req(2) lim(2) author show ?thesis by auto
qed

definition budget_space :: "(string \<times> quantity) list \<Rightarrow> lab_space" where
  "budget_space lims = \<lparr>sp_meta = new_meta ''web101'' '''',
     sp_spec = \<lparr>sp_service_selector = \<lparr>ls_match_labels = None, ls_match_expressions = []\<rparr>,
       sp_network = \<lparr>nc_allow_internet = False, nc_internal_only = False\<rparr>,
       sp_resources = \<lparr>qc_requests = None, qc_limits = Some lims\<rparr>,
       sp_workspace = \<lparr>wc_type = ''VNC'', wc_image = '''', wc_tasks = '''', wc_port = 0,
         wc_security = None,
         wc_resources = Some \<lparr>rr_requests = None, rr_limits = Some lims, rr_claims = []\<rparr>,
         wc_storage_limit = None\<rparr>,
       sp_default_ttl = ''1h''\<rparr>\<rparr>"

lemma workspace_resources_backfill_witness:
  "\<exists>r. workspaceResources (budget_space [(''memory'', ''1Gi'')]) = Inr r \<and>
     gm_get (rr_limits r) ''memory'' = Some ''1Gi'' \<and> gm_get (rr_limits r) ''cpu'' = Some ''2'' \<and>
     gm_get (rr_requests r) ''memory'' = Some ''256Mi''"
proof -
  have "author_wf (budget_space [(''memory'', ''1Gi'')])"
    by (simp add: author_wf_def budget_space_def gm_wf_def)
  from workspace_resources_backfill [OF this] show ?thesis
    by (auto simp: author_qty_def budget_space_def defaultWorkspaceRequests_def defaultWorkspaceLimits_def)
qed

lemma workspaceResources_total: "\<exists>r. workspaceResources space = Inr r"
  by (cases "wc_resources (workspace space)")
    (auto simp: workspaceResources_def defaultWorkspaceRequests_def defaultWorkspaceLimits_def setDefaultQty_Some)

lemma serviceResources_eq:
  "serviceResources v = Inr ((ls_resources (sv_spec v))\<lparr>rr_limits :=
     Some (let l = gm_entries (rr_limits (ls_resources (sv_spec v)))
           in if map_of l ''ephemeral-storage'' = None
              then AList.update ''ephemeral-storage'' defaultServiceEphemeralLimit l else l)\<rparr>)"
  by (cases "rr_limits (ls_resources (sv_spec v))")
    (simp_all add: serviceResources_def setDefaultQty_Some Let_def)

text \<open>
  A challenge container's budget is the author's with one change: where the author set no
  ephemeral-storage limit, the limit is the default. It is total even when the author's limits
  are a nil map.
\<close>

lemma service_resources_ephemeral_limit:
  "\<exists>r. serviceResources v = Inr r \<and> rr_requests r = rr_requests (ls_resources (sv_spec v)) \<and>
     rr_claims r = rr_claims (ls_resources (sv_spec v)) \<and>
     (\<forall>n. gm_get (rr_limits r) n =
        (case gm_get (rr_limits (ls_resources (sv_spec v))) n of
           Some q \<Rightarrow> Some q
         | None \<Rightarrow> if n = ''ephemeral-storage'' then Some ''512Mi'' else None))"
  by (auto simp: serviceResources_eq Let_def gm_get_def defaultServiceEphemeralLimit_def split: option.split)

subsection \<open>The quota of the session namespace\<close>

definition quota_hard :: "lab_space \<Rightarrow> (string \<times> quantity) list" where
  "quota_hard space =
     fold (\<lambda>(n, q). AList.update (''limits.'' @ n) q) (gm_entries (qc_limits (quota_config space)))
       (fold (\<lambda>(n, q). AList.update (''requests.'' @ n) q) (gm_entries (qc_requests (quota_config space))) [])"

definition label_owner :: "lab_session \<Rightarrow> meta \<Rightarrow> goerr + meta" where
  "label_owner owner m =
     (let labels = (case m_labels m of None \<Rightarrow> Some [] | Some l \<Rightarrow> Some l)
      in bindR (gm_put labels ''ctf.school/session-owner'' (se_name owner)) (\<lambda>l. Inr (m\<lparr>m_labels := l\<rparr>)))"

definition quota_mutate :: "lab_session \<Rightarrow> (string \<times> quantity) list \<Rightarrow> resource_quota \<Rightarrow> goerr + resource_quota" where
  "quota_mutate owner hard q =
     bindR (label_owner owner (qu_meta q)) (\<lambda>m. Inr (q\<lparr>qu_meta := m, qu_hard := Some hard\<rparr>))"

definition ensureResourceQuota :: "'w kube \<Rightarrow> string \<Rightarrow> lab_space \<Rightarrow> lab_session \<Rightarrow> ('w kst, unit) prog" where
  "ensureResourceQuota K ns space owner =
     (let hard = quota_hard space
      in if length hard = 0 then ret ()
         else create_or_update K (KQuota \<lparr>qu_meta = new_meta ''lab-quota'' ns, qu_hard = None\<rparr>)
                (on_quota (quota_mutate owner hard)))"

definition limit_range_items :: "limit_range_item list" where
  "limit_range_items = [\<lparr>li_type = ''Container'',
     li_default = Some [(''cpu'', ''1''), (''memory'', ''2Gi''), (''ephemeral-storage'', defaultLimitRangeEphemeralLimit)],
     li_default_request = Some [(''cpu'', ''100m''), (''memory'', ''256Mi''), (''ephemeral-storage'', defaultLimitRangeEphemeralRequest)]\<rparr>]"

definition limit_range_mutate :: "lab_session \<Rightarrow> limit_range \<Rightarrow> goerr + limit_range" where
  "limit_range_mutate owner lr =
     bindR (label_owner owner (lr_meta lr)) (\<lambda>m. Inr (lr\<lparr>lr_meta := m, lr_limits := limit_range_items\<rparr>))"

definition ensureLimitRange :: "'w kube \<Rightarrow> string \<Rightarrow> lab_space \<Rightarrow> lab_session \<Rightarrow> ('w kst, unit) prog" where
  "ensureLimitRange K ns space owner =
     (if gm_len (qc_requests (quota_config space)) = 0 \<and> gm_len (qc_limits (quota_config space)) = 0 then ret ()
      else create_or_update K (KLimitRange \<lparr>lr_meta = new_meta ''lab-defaults'' ns, lr_limits = []\<rparr>)
             (on_limit_range (limit_range_mutate owner)))"

lemma fold_prefix_update:
  "distinct (map fst src) \<Longrightarrow>
   map_of (fold (\<lambda>(n, q). AList.update (p @ n) q) src dst) k =
     (if has_prefix k p then case map_of src (drop (length p) k) of Some q \<Rightarrow> Some q | None \<Rightarrow> map_of dst k
      else map_of dst k)"
proof (induction src arbitrary: dst)
  case Nil
  then show ?case by simp
next
  case (Cons nq src)
  obtain n q where nq: "nq = (n, q)" by fastforce
  have none: "map_of src n = None" using Cons.prems by (simp add: nq map_of_eq_None_iff)
  have IH: "map_of (fold (\<lambda>(n, q). AList.update (p @ n) q) src (AList.update (p @ n) q dst)) k =
     (if has_prefix k p then case map_of src (drop (length p) k) of Some q \<Rightarrow> Some q
        | None \<Rightarrow> map_of (AList.update (p @ n) q dst) k
      else map_of (AList.update (p @ n) q dst) k)"
    using Cons.prems by (intro Cons.IH) simp
  show ?case
  proof (cases "has_prefix k p")
    case True
    then obtain r where "k = p @ r" by (auto simp: has_prefix_iff)
    with IH none show ?thesis by (cases "r = n") (simp_all add: nq cong: option.case_cong)
  next
    case False
    then have "k \<noteq> p @ n" by auto
    with IH False show ?thesis by (simp add: nq)
  qed
qed

lemma fold_prefix_Nil: "fold (\<lambda>(n, q). AList.update (p @ n) q) src dst = [] \<longleftrightarrow> src = [] \<and> dst = []"
proof (induction src arbitrary: dst)
  case (Cons nq src)
  obtain n q where "nq = (n, q)" by fastforce
  moreover have "AList.update (p @ n) q dst \<noteq> []" by (cases dst) auto
  ultimately show ?case using Cons.IH by simp
qed simp

lemma quota_hard_Nil:
  "quota_hard space = [] \<longleftrightarrow>
     gm_entries (qc_requests (quota_config space)) = [] \<and> gm_entries (qc_limits (quota_config space)) = []"
  unfolding quota_hard_def fold_prefix_Nil by blast

lemma calls_create_or_update: "calls (snd (create_or_update K ob f s)) \<noteq> calls s"
  by (simp add: create_or_update_def call_def split: prod.split)

text \<open>
  The quota has one counter per resource the LabSpace caps and no other: \<open>requests.r\<close> is the
  LabSpace's request for \<open>r\<close>, \<open>limits.r\<close> its limit, and the two families never collide. The
  quota and the LimitRange are written together: a call is made for one exactly when it is made
  for the other, namely when the LabSpace caps at least one resource.
\<close>

lemma quota_counters:
  assumes "gm_wf (qc_requests (quota_config space))" "gm_wf (qc_limits (quota_config space))"
  shows "map_of (quota_hard space) c =
      (if has_prefix c ''limits.'' then gm_get (qc_limits (quota_config space)) (drop 7 c)
       else if has_prefix c ''requests.'' then gm_get (qc_requests (quota_config space)) (drop 9 c)
       else None) \<and>
    (calls (snd (ensureResourceQuota K ns space owner s)) = calls s \<longleftrightarrow>
     calls (snd (ensureLimitRange K ns space owner s')) = calls s')"
proof
  have "\<not> (has_prefix c ''limits.'' \<and> has_prefix c ''requests.'')"
    by (auto simp: has_prefix_iff)
  moreover have len: "length ''limits.'' = 7" "length ''requests.'' = 9" by simp_all
  ultimately show "map_of (quota_hard space) c =
      (if has_prefix c ''limits.'' then gm_get (qc_limits (quota_config space)) (drop 7 c)
       else if has_prefix c ''requests.'' then gm_get (qc_requests (quota_config space)) (drop 9 c)
       else None)"
    unfolding quota_hard_def gm_get_def
      fold_prefix_update [OF assms(1) [unfolded gm_wf_def]] fold_prefix_update [OF assms(2) [unfolded gm_wf_def]] len
    by (auto split: option.split)
  show "calls (snd (ensureResourceQuota K ns space owner s)) = calls s \<longleftrightarrow>
     calls (snd (ensureLimitRange K ns space owner s')) = calls s'"
    by (simp add: ensureResourceQuota_def ensureLimitRange_def Let_def quota_hard_Nil
        gm_len_def calls_create_or_update run_simps)
qed

lemma quota_counters_witness:
  "map_of (quota_hard (budget_space [(''memory'', ''4Gi'')])) ''limits.memory'' = Some ''4Gi'' \<and>
   map_of (quota_hard (budget_space [(''memory'', ''4Gi'')])) ''requests.memory'' = None"
proof -
  have wf: "gm_wf (qc_requests (quota_config (budget_space [(''memory'', ''4Gi'')])))"
    "gm_wf (qc_limits (quota_config (budget_space [(''memory'', ''4Gi'')])))"
    by (simp_all add: budget_space_def gm_wf_def)
  note c = quota_counters [OF wf, THEN conjunct1]
  show ?thesis
    unfolding c [of "''limits.memory''"] c [of "''requests.memory''"]
    by (simp add: budget_space_def has_prefix_def)
qed

lemma label_owner_eq:
  "label_owner owner m = Inr (m\<lparr>m_labels := Some (AList.update ''ctf.school/session-owner'' (se_name owner)
     (gm_entries (m_labels m)))\<rparr>)"
  by (cases "m_labels m") (simp_all add: label_owner_def)

interpretation quota_settles: settling_mutate "on_quota (quota_mutate owner hard)" for owner hard
  by (rule settling_on) (auto simp: quota_mutate_def label_owner_eq same_key_def)

interpretation limit_range_settles: settling_mutate "on_limit_range (limit_range_mutate owner)" for owner
  by (rule settling_on) (auto simp: limit_range_mutate_def label_owner_eq same_key_def)

end
