(* ===== verification/NetPolicy.thy ===== *)
theory NetPolicy
  imports Kube
begin

section \<open>Network isolation of a session namespace (labsession\_controller.go)\<close>

text \<open>
  The CiliumNetworkPolicy objects, rendered as unstructured JSON: the baseline policy of the
  namespace and one egress policy per challenge service. The abstract specification is a
  relation: which destinations an \<open>EgressRule\<close> declares. The rendered JSON is read back by
  functions that follow Cilium's documented meaning of \<open>toFQDNs\<close>, \<open>toCIDR\<close> and \<open>toPorts\<close>, and the
  refinement theorem says the two agree.
\<close>

definition jobj1 :: "string \<Rightarrow> json \<Rightarrow> json" where
  "jobj1 k v = JObj [(k, v)]"

definition match_labels :: "(string \<times> string) list \<Rightarrow> json" where
  "match_labels ls = JObj [(''matchLabels'', JObj (map (\<lambda>(k, v). (k, JStr v)) ls))]"

definition port_entry :: "string \<Rightarrow> string \<Rightarrow> json" where
  "port_entry p proto = JObj [(''port'', JStr p), (''protocol'', JStr proto)]"

subsection \<open>Rendering\<close>

definition guardPort :: int where "guardPort = 8080"

definition dnsEgressRule :: json where
  "dnsEgressRule = JObj
     [(''toEndpoints'', JArr [match_labels [(''k8s:io.kubernetes.pod.namespace'', ''kube-system''), (''k8s:k8s-app'', ''kube-dns'')]]),
      (''toPorts'', JArr [JObj
         [(''ports'', JArr [port_entry ''53'' ''ANY'']),
          (''rules'', JObj [(''dns'', JArr [JObj [(''matchPattern'', JStr ''*'')]])])]])]"

text \<open>A nil slice is \<open>None\<close>.\<close>

definition toPorts :: "egress_port list \<Rightarrow> json list option" where
  "toPorts ports =
     (if length ports = 0 then None
      else Some [JObj [(''ports'', JArr (map (\<lambda>p.
             port_entry (show_int (eg_port p)) (if eg_protocol p = '''' then ''TCP'' else eg_protocol p)) ports))]])"

definition with_ports :: "(string \<times> json) list \<Rightarrow> egress_port list \<Rightarrow> (string \<times> json) list" where
  "with_ports out ports = (case toPorts ports of None \<Rightarrow> out | Some tp \<Rightarrow> out @ [(''toPorts'', JArr tp)])"

definition fqdnEgressRule :: "egress_rule \<Rightarrow> json option" where
  "fqdnEgressRule rule =
     (if length (er_fqdns rule) = 0 then None
      else Some (JObj (with_ports
             [(''toFQDNs'', JArr (map (\<lambda>name. if str_contains name ''*'' then jobj1 ''matchPattern'' (JStr name)
                                          else jobj1 ''matchName'' (JStr name)) (er_fqdns rule)))]
             (er_ports rule))))"

definition cidrEgressRule :: "egress_rule \<Rightarrow> json option" where
  "cidrEgressRule rule =
     (if length (er_cidrs rule) = 0 then None
      else Some (JObj (with_ports [(''toCIDR'', JArr (map JStr (er_cidrs rule)))] (er_ports rule))))"

fun service_egress :: "egress_rule list \<Rightarrow> json list" where
  "service_egress [] = []"
| "service_egress (rule # rules) =
     (case fqdnEgressRule rule of None \<Rightarrow> [] | Some e \<Rightarrow> [e]) @
     (case cidrEgressRule rule of None \<Rightarrow> [] | Some e \<Rightarrow> [e]) @ service_egress rules"

definition service_policy_spec :: "lab_service \<Rightarrow> json" where
  "service_policy_spec labSvc = JObj
     [(''endpointSelector'', match_labels [(''ctf.school/svc'', sv_name labSvc)]),
      (''egress'', JArr (service_egress (ls_egress (sv_spec labSvc))))]"

definition baseline_egress :: "lab_space \<Rightarrow> json list" where
  "baseline_egress space =
     [jobj1 ''toEndpoints'' (JArr [JObj []]),
      dnsEgressRule,
      JObj [(''toEndpoints'', JArr [match_labels [(''k8s:io.kubernetes.pod.namespace'', ''monitoring'')]]),
            (''toPorts'', JArr [JObj [(''ports'', JArr [port_entry ''9428'' ''TCP''])]])]] @
     (if nc_allow_internet (network space) then [jobj1 ''toEntities'' (JArr [JStr ''world''])] else [])"

definition baseline_spec :: "lab_space \<Rightarrow> json" where
  "baseline_spec space = JObj
     [(''endpointSelector'', JObj []),
      (''ingress'', JArr
         [jobj1 ''fromEndpoints'' (JArr [JObj []]),
          JObj [(''fromEndpoints'', JArr
                   [match_labels [(''k8s:io.kubernetes.pod.namespace'', ''envoy-gateway-system'')],
                    match_labels [(''k8s:io.kubernetes.pod.namespace'', ''monitoring'')]]),
                (''toPorts'', JArr [JObj [(''ports'', JArr [port_entry (show_int guardPort) ''TCP''])]])]]),
      (''egress'', JArr (baseline_egress space))]"

subsection \<open>Writing the policies\<close>

definition new_cilium :: "string \<Rightarrow> string \<Rightarrow> cilium_policy" where
  "new_cilium name ns = \<lparr>cnp_meta = new_meta name ns, cnp_spec = None\<rparr>"

definition cnp_mutate :: "lib \<Rightarrow> lab_session \<Rightarrow> json \<Rightarrow> cilium_policy \<Rightarrow> goerr + cilium_policy" where
  "cnp_mutate L session spec cnp =
     bindR (set_controller_ref L SessionKind (se_meta session) (cnp_meta cnp)) (\<lambda>m.
     bindR (set_nested_field L (cnp_spec cnp) spec) (\<lambda>sp.
     Inr (cnp\<lparr>cnp_meta := m, cnp_spec := sp\<rparr>)))"

text \<open>\<open>err := r.Delete(...); if err != nil && !errors.IsNotFound(err) { return err }\<close>\<close>

definition delete_if_present :: "'w kube \<Rightarrow> kind \<Rightarrow> string \<Rightarrow> string \<Rightarrow> ('w kst, unit) prog" where
  "delete_if_present K k ns name = bindE (attempt (delete K k ns name None)) (\<lambda>r.
     case r of Inl e \<Rightarrow> if is_not_found e then ret () else fail e | Inr _ \<Rightarrow> ret ())"

definition ensureBaselinePolicy ::
  "lib \<Rightarrow> 'w kube \<Rightarrow> string \<Rightarrow> lab_space \<Rightarrow> lab_session \<Rightarrow> ('w kst, unit) prog" where
  "ensureBaselinePolicy L K ns space session =
     bindE (delete_if_present K NetworkPolicyKind ns ''lab-isolation'') (\<lambda>_.
     create_or_update K (KCilium (new_cilium ''lab-baseline'' ns))
       (on_cilium (cnp_mutate L session (baseline_spec space))))"

definition ensureServiceEgressPolicy ::
  "lib \<Rightarrow> 'w kube \<Rightarrow> string \<Rightarrow> lab_service \<Rightarrow> lab_session \<Rightarrow> ('w kst, unit) prog" where
  "ensureServiceEgressPolicy L K ns labSvc session =
     (let name = ''egress-'' @ sv_name labSvc
      in if length (ls_egress (sv_spec labSvc)) = 0 then delete_if_present K CiliumKind ns name
         else create_or_update K (KCilium (new_cilium name ns))
                (on_cilium (cnp_mutate L session (service_policy_spec labSvc))))"

text \<open>Reading JSON back.\<close>

fun field :: "string \<Rightarrow> json \<Rightarrow> json option" where
  "field k (JObj fs) = map_of fs k"
| "field k _ = None"

subsection \<open>The declared egress and the rendered one\<close>

text \<open>
  A connection goes to a DNS name or to an address, at a port, with a protocol. Matching a
  pattern against a name, and an address against a block, is the CNI's: a parameter.
\<close>

datatype destination = DName string | DAddr string

record matcher =
  pattern_matches :: "string \<Rightarrow> string \<Rightarrow> bool"
  block_contains :: "string \<Rightarrow> string \<Rightarrow> bool"

text \<open>What the author of a LabService declares.\<close>

definition declared_dest :: "matcher \<Rightarrow> egress_rule \<Rightarrow> destination \<Rightarrow> bool" where
  "declared_dest M rule d = (case d of
       DName n \<Rightarrow> list_ex (\<lambda>f. if CHR ''*'' \<in> set f then pattern_matches M f n else f = n) (er_fqdns rule)
     | DAddr a \<Rightarrow> list_ex (\<lambda>c. block_contains M c a) (er_cidrs rule))"

definition declared_port :: "egress_rule \<Rightarrow> int \<Rightarrow> string \<Rightarrow> bool" where
  "declared_port rule port proto \<longleftrightarrow> er_ports rule = [] \<or>
     list_ex (\<lambda>p. eg_port p = port \<and>
       (let q = (if eg_protocol p = '''' then ''TCP'' else eg_protocol p) in q = ''ANY'' \<or> q = proto)) (er_ports rule)"

text \<open>
  How Cilium reads a rule of a policy: destination selectors that are absent select everything,
  so do absent \<open>toPorts\<close>.
\<close>

fun elements :: "json option \<Rightarrow> json list" where
  "elements (Some (JArr js)) = js"
| "elements _ = []"

definition selects_name :: "matcher \<Rightarrow> string \<Rightarrow> json \<Rightarrow> bool" where
  "selects_name M n j \<longleftrightarrow> field ''matchName'' j = Some (JStr n) \<or>
     (case field ''matchPattern'' j of Some (JStr p) \<Rightarrow> pattern_matches M p n | _ \<Rightarrow> False)"

definition selects_addr :: "matcher \<Rightarrow> string \<Rightarrow> json \<Rightarrow> bool" where
  "selects_addr M a j = (case j of JStr c \<Rightarrow> block_contains M c a | _ \<Rightarrow> False)"

definition admits_dest :: "matcher \<Rightarrow> json \<Rightarrow> destination \<Rightarrow> bool" where
  "admits_dest M j d \<longleftrightarrow>
     (field ''toFQDNs'' j = None \<and> field ''toCIDR'' j = None) \<or>
     (case d of DName n \<Rightarrow> list_ex (selects_name M n) (elements (field ''toFQDNs'' j))
              | DAddr a \<Rightarrow> list_ex (selects_addr M a) (elements (field ''toCIDR'' j)))"

definition admits_entry :: "int \<Rightarrow> string \<Rightarrow> json \<Rightarrow> bool" where
  "admits_entry port proto e \<longleftrightarrow> field ''port'' e = Some (JStr (show_int port)) \<and>
     (field ''protocol'' e = Some (JStr ''ANY'') \<or> field ''protocol'' e = Some (JStr proto))"

definition admits_port :: "json \<Rightarrow> int \<Rightarrow> string \<Rightarrow> bool" where
  "admits_port j port proto \<longleftrightarrow> field ''toPorts'' j = None \<or>
     list_ex (\<lambda>b. list_ex (admits_entry port proto) (elements (field ''ports'' b))) (elements (field ''toPorts'' j))"

definition policy_admits :: "matcher \<Rightarrow> json \<Rightarrow> destination \<Rightarrow> int \<Rightarrow> string \<Rightarrow> bool" where
  "policy_admits M spec d port proto =
     list_ex (\<lambda>j. admits_dest M j d \<and> admits_port j port proto) (elements (field ''egress'' spec))"

lemma admits_port_rendered:
  assumes "map_of out ''toPorts'' = None"
  shows "admits_port (JObj (with_ports out (er_ports rule))) port proto = declared_port rule port proto"
  using assms unfolding admits_port_def declared_port_def with_ports_def toPorts_def
  by (auto simp: map_add_def list_ex_iff admits_entry_def port_entry_def Let_def split: if_splits)

lemma map_of_with_ports:
  "k \<noteq> ''toPorts'' \<Longrightarrow> map_of (with_ports out ps) k = map_of out k"
  by (auto simp: with_ports_def map_add_def split: option.splits)

lemma fqdn_rule_admits:
  assumes "fqdnEgressRule rule = Some j"
  shows "admits_dest M j d \<and> admits_port j port proto \<longleftrightarrow>
     (case d of DName _ \<Rightarrow> declared_dest M rule d | DAddr _ \<Rightarrow> False) \<and> declared_port rule port proto"
proof -
  define e where "e = (\<lambda>name. if str_contains name ''*'' then jobj1 ''matchPattern'' (JStr name)
                                else jobj1 ''matchName'' (JStr name))"
  have j: "j = JObj (with_ports [(''toFQDNs'', JArr (map e (er_fqdns rule)))] (er_ports rule))"
    using assms by (simp add: fqdnEgressRule_def e_def split: if_splits)
  have "selects_name M n (e f) \<longleftrightarrow> (if CHR ''*'' \<in> set f then pattern_matches M f n else f = n)" for n f
    by (simp add: e_def selects_name_def jobj1_def str_contains_char)
  then have "admits_dest M j d \<longleftrightarrow> (case d of DName _ \<Rightarrow> declared_dest M rule d | DAddr _ \<Rightarrow> False)"
    by (simp add: j admits_dest_def declared_dest_def map_of_with_ports list_ex_iff split: destination.split)
  then show ?thesis by (simp add: j admits_port_rendered)
qed

lemma cidr_rule_admits:
  assumes "cidrEgressRule rule = Some j"
  shows "admits_dest M j d \<and> admits_port j port proto \<longleftrightarrow>
     (case d of DName _ \<Rightarrow> False | DAddr _ \<Rightarrow> declared_dest M rule d) \<and> declared_port rule port proto"
proof -
  have j: "j = JObj (with_ports [(''toCIDR'', JArr (map JStr (er_cidrs rule)))] (er_ports rule))"
    using assms by (simp add: cidrEgressRule_def split: if_splits)
  have "admits_dest M j d \<longleftrightarrow> (case d of DName _ \<Rightarrow> False | DAddr _ \<Rightarrow> declared_dest M rule d)"
    by (simp add: j admits_dest_def declared_dest_def map_of_with_ports list_ex_iff selects_addr_def
        split: destination.split)
  then show ?thesis by (simp add: j admits_port_rendered)
qed

lemma no_rule_declares_nothing:
  "fqdnEgressRule rule = None \<Longrightarrow> \<not> declared_dest M rule (DName n)"
  "cidrEgressRule rule = None \<Longrightarrow> \<not> declared_dest M rule (DAddr a)"
  by (auto simp: fqdnEgressRule_def cidrEgressRule_def declared_dest_def split: if_splits)

lemma service_egress_admits:
  "list_ex (\<lambda>j. admits_dest M j d \<and> admits_port j port proto) (service_egress rules) \<longleftrightarrow>
   list_ex (\<lambda>rule. declared_dest M rule d \<and> declared_port rule port proto) rules"
proof (induction rules)
  case (Cons rule rules)
  define A where "A = (\<lambda>j. admits_dest M j d \<and> admits_port j port proto)"
  have "list_ex A (case fqdnEgressRule rule of None \<Rightarrow> [] | Some e \<Rightarrow> [e]) \<longleftrightarrow>
      (case d of DName _ \<Rightarrow> declared_dest M rule d | DAddr _ \<Rightarrow> False) \<and> declared_port rule port proto"
    using fqdn_rule_admits [of rule _ M d port proto] no_rule_declares_nothing(1) [of rule M]
    by (cases "fqdnEgressRule rule") (simp_all add: A_def split: destination.split)
  moreover have "list_ex A (case cidrEgressRule rule of None \<Rightarrow> [] | Some e \<Rightarrow> [e]) \<longleftrightarrow>
      (case d of DName _ \<Rightarrow> False | DAddr _ \<Rightarrow> declared_dest M rule d) \<and> declared_port rule port proto"
    using cidr_rule_admits [of rule _ M d port proto] no_rule_declares_nothing(2) [of rule M]
    by (cases "cidrEgressRule rule") (simp_all add: A_def split: destination.split)
  ultimately show ?case
    using Cons.IH unfolding A_def [symmetric] by (cases d) auto
qed simp

text \<open>
  C13: the policy rendered for a service selects that service's pods only and admits exactly
  the declared destinations: a connection is admitted by the rendered JSON, read as Cilium
  reads it, if and only if some declared rule names its destination (a literal name, a pattern
  or an address block) and its port. A rule that declares no destination opens nothing, although
  a rendered rule without destination selectors would open everything.
\<close>

theorem service_policy_admits_declared:
  "field ''endpointSelector'' (service_policy_spec v) = Some (match_labels [(''ctf.school/svc'', sv_name v)]) \<and>
   (policy_admits M (service_policy_spec v) d port proto \<longleftrightarrow>
    list_ex (\<lambda>rule. declared_dest M rule d \<and> declared_port rule port proto) (ls_egress (sv_spec v)))"
  by (simp add: service_policy_spec_def policy_admits_def service_egress_admits)

subsection \<open>What the baseline policy opens\<close>

text \<open>
  A peer of a pod is another pod, with its namespace and its labels as Cilium writes them, or an
  address outside the cluster. \<open>peer_selected\<close> reads one field of a rule of a namespaced policy: an
  endpoint selector picks the pods that have its labels, in the policy's own namespace unless it
  names one; the entity \<open>world\<close> is everything outside; address blocks pick addresses outside. Any
  other entity and any other field is taken to select every peer, so that nothing a policy opens
  is overlooked. \<open>dir\<close> is \<open>to\<close> for egress and \<open>from\<close> for ingress.
\<close>

datatype peer = PodPeer string "(string \<times> string) list" | WorldPeer string

definition namespace_label :: string where
  "namespace_label = ''k8s:io.kubernetes.pod.namespace''"

definition selector_labels :: "json \<Rightarrow> (string \<times> json) list" where
  "selector_labels sel = (case field ''matchLabels'' sel of Some (JObj ls) \<Rightarrow> ls | _ \<Rightarrow> [])"

definition picks_pod :: "string \<Rightarrow> string \<Rightarrow> (string \<times> string) list \<Rightarrow> json \<Rightarrow> bool" where
  "picks_pod ns pod_ns labels sel \<longleftrightarrow>
     (map_of (selector_labels sel) namespace_label = None \<longrightarrow> pod_ns = ns) \<and>
     list_all (\<lambda>(k, v). if k = namespace_label then v = JStr pod_ns else map_option JStr (map_of labels k) = Some v)
       (selector_labels sel)"

definition peer_selected :: "matcher \<Rightarrow> string \<Rightarrow> string \<Rightarrow> peer \<Rightarrow> string \<times> json \<Rightarrow> bool" where
  "peer_selected M ns dir peer f =
     (if fst f = dir @ ''Endpoints'' then
        (case peer of PodPeer pod_ns labels \<Rightarrow> list_ex (picks_pod ns pod_ns labels) (elements (Some (snd f)))
                    | WorldPeer a \<Rightarrow> False)
      else if fst f = dir @ ''CIDR'' then
        (case peer of PodPeer pod_ns labels \<Rightarrow> False
                    | WorldPeer a \<Rightarrow> list_ex (selects_addr M a) (elements (Some (snd f))))
      else if fst f = dir @ ''Entities'' then
        list_ex (\<lambda>e. e \<noteq> JStr ''world'' \<or> (case peer of PodPeer pod_ns labels \<Rightarrow> False | WorldPeer a \<Rightarrow> True))
          (elements (Some (snd f)))
      else True)"

text \<open>A rule without a field about peers is about all of them.\<close>

definition admits_peer :: "matcher \<Rightarrow> string \<Rightarrow> string \<Rightarrow> peer \<Rightarrow> json \<Rightarrow> bool" where
  "admits_peer M ns dir peer j = (case j of
       JObj fs \<Rightarrow> (let peers = filter (\<lambda>f. fst f \<noteq> ''toPorts'') fs
                   in peers = [] \<or> list_ex (peer_selected M ns dir peer) peers)
     | _ \<Rightarrow> True)"

definition policy_opens :: "matcher \<Rightarrow> string \<Rightarrow> string \<Rightarrow> json \<Rightarrow> peer \<Rightarrow> int \<Rightarrow> string \<Rightarrow> bool" where
  "policy_opens M ns dir spec peer port proto =
     list_ex (\<lambda>j. admits_peer M ns dir peer j \<and> admits_port j port proto)
       (elements (field (if dir = ''to'' then ''egress'' else ''ingress'') spec))"

lemma picks_match_labels:
  "picks_pod ns pod_ns labels (match_labels ls) \<longleftrightarrow>
     (map_of ls namespace_label = None \<longrightarrow> pod_ns = ns) \<and>
     list_all (\<lambda>(k, v). if k = namespace_label then v = pod_ns else map_of labels k = Some v) ls"
proof -
  have "map_of (map (\<lambda>(k, v). (k, JStr v)) ls) namespace_label = None \<longleftrightarrow> map_of ls namespace_label = None"
    by (induction ls) auto
  moreover have "map_option JStr x = Some (JStr v) \<longleftrightarrow> x = Some v" for x v by (cases x) auto
  ultimately show ?thesis
    by (simp add: picks_pod_def selector_labels_def match_labels_def list_all_iff case_prod_beta cong: if_cong)
qed

lemma picks_any: "picks_pod ns pod_ns labels (JObj []) \<longleftrightarrow> pod_ns = ns"
  by (simp add: picks_pod_def selector_labels_def)

lemma show_ports:
  "show_int 8080 = ''8080''" "show_int 53 = ''53''" "show_int 9428 = ''9428''"
  by (simp_all add: show_int_def show_nat.simps digit_char_def char_of_def bit_Suc_0_iff)

lemma port_shown:
  "''8080'' = show_int port \<longleftrightarrow> port = 8080" "''53'' = show_int port \<longleftrightarrow> port = 53" "''9428'' = show_int port \<longleftrightarrow> port = 9428"
  unfolding show_ports [symmetric] by auto

text \<open>
  C14: the baseline policy opens exactly what the platform needs and nothing else. It selects every
  pod of the namespace and leaves the default denial in force. A pod may connect to the pods of
  its own namespace, to the DNS server at port 53, to the pods of the monitoring namespace at
  TCP port 9428, and to addresses outside the cluster exactly if the LabSpace allows the
  internet; it may be connected to by the pods of its own namespace, and at the guard's TCP port
  by those of the gateway's and the monitoring namespace.
\<close>

theorem baseline_opens_only_platform:
  "field ''endpointSelector'' (baseline_spec space) = Some (JObj []) \<and>
   field ''enableDefaultDeny'' (baseline_spec space) = None \<and>
   (policy_opens M ns ''to'' (baseline_spec space) peer port proto \<longleftrightarrow> (case peer of
      PodPeer pod_ns labels \<Rightarrow> pod_ns = ns \<or>
        (pod_ns = ''kube-system'' \<and> map_of labels ''k8s:k8s-app'' = Some ''kube-dns'' \<and> port = 53) \<or>
        (pod_ns = ''monitoring'' \<and> port = 9428 \<and> proto = ''TCP'')
    | WorldPeer a \<Rightarrow> nc_allow_internet (network space))) \<and>
   (policy_opens M ns ''from'' (baseline_spec space) peer port proto \<longleftrightarrow> (case peer of
      PodPeer pod_ns labels \<Rightarrow> pod_ns = ns \<or>
        (pod_ns \<in> {''envoy-gateway-system'', ''monitoring''} \<and> port = guardPort \<and> proto = ''TCP'')
    | WorldPeer a \<Rightarrow> False))"
proof (intro conjI)
  have ports: "admits_port (JObj [(k, v), (''toPorts'', JArr [JObj ((''ports'', JArr [port_entry p q]) # more)])]) port proto \<longleftrightarrow>
      p = show_int port \<and> (q = ''ANY'' \<or> q = proto)" if "k \<noteq> ''toPorts''" for k v p q more
    using that by (auto simp: admits_port_def admits_entry_def port_entry_def)
  note port_forms = ports [of _ _ _ _ "[]"] ports
  show "policy_opens M ns ''to'' (baseline_spec space) peer port proto \<longleftrightarrow> (case peer of
      PodPeer pod_ns labels \<Rightarrow> pod_ns = ns \<or>
        (pod_ns = ''kube-system'' \<and> map_of labels ''k8s:k8s-app'' = Some ''kube-dns'' \<and> port = 53) \<or>
        (pod_ns = ''monitoring'' \<and> port = 9428 \<and> proto = ''TCP'')
    | WorldPeer a \<Rightarrow> nc_allow_internet (network space))"
    by (cases peer) (auto simp: policy_opens_def baseline_spec_def baseline_egress_def dnsEgressRule_def jobj1_def
        admits_peer_def peer_selected_def picks_any picks_match_labels namespace_label_def port_forms port_shown
        admits_port_def [of "JObj [_]"])
  show "policy_opens M ns ''from'' (baseline_spec space) peer port proto \<longleftrightarrow> (case peer of
      PodPeer pod_ns labels \<Rightarrow> pod_ns = ns \<or>
        (pod_ns \<in> {''envoy-gateway-system'', ''monitoring''} \<and> port = guardPort \<and> proto = ''TCP'')
    | WorldPeer a \<Rightarrow> False)"
    by (cases peer) (auto simp: policy_opens_def baseline_spec_def jobj1_def guardPort_def show_ports
        admits_peer_def peer_selected_def picks_any picks_match_labels namespace_label_def port_forms port_shown
        admits_port_def [of "JObj [_]"])
qed (simp_all add: baseline_spec_def)

subsection \<open>Contracts\<close>

lemma cnp_mutate_eq:
  assumes "lib_ok L"
  shows "cnp_mutate L session spec c =
    bindR (set_controller_ref L SessionKind (se_meta session) (cnp_meta c))
      (\<lambda>m. Inr (c\<lparr>cnp_meta := m, cnp_spec := Some spec\<rparr>))"
  by (simp add: cnp_mutate_def lib_okD(6) [OF assms])

lemma cnp_mutate_settles:
  assumes "lib_ok L"
  shows "settling_mutate (on_cilium (cnp_mutate L session spec))"
  by (rule settling_on) (auto simp: cnp_mutate_eq [OF assms] bindR_eq_Inr set_controller_ref_twice [OF assms])

lemma emits_delete_if_present [emit_intros]:
  "(\<And>b. P (EvDelete k ns n None b)) \<Longrightarrow> emits P (delete_if_present K k ns n)"
  unfolding delete_if_present_def by (intro emit_intros) auto

end
