(* ===== verification/Tenancy.thy ===== *)
theory Tenancy
  imports Contract Resources NetPolicy
begin

section \<open>The session namespace, its pull secret and its pods (labsession\_controller.go)\<close>

text \<open>
  \<open>ensureNamespace\<close>, \<open>ensurePullSecret\<close> and \<open>createOrUpdatePod\<close>: the read-then-write helpers that
  do not go through \<open>CreateOrUpdate\<close>, and the proof that these and the other namespace-level
  steps keep the contract \<open>lab_call\<close>.
\<close>

subsection \<open>Namespace\<close>

definition session_namespace_labels :: "lab_session \<Rightarrow> (string \<times> string) list" where
  "session_namespace_labels owner =
     [(''ctf.school/session-owner'', se_name owner),
      (''pod-security.kubernetes.io/enforce'', ''baseline''),
      (''pod-security.kubernetes.io/enforce-version'', ''latest''),
      (''pod-security.kubernetes.io/warn'', ''restricted''),
      (''pod-security.kubernetes.io/warn-version'', ''latest''),
      (''pod-security.kubernetes.io/audit'', ''restricted''),
      (''pod-security.kubernetes.io/audit-version'', ''latest'')]"

definition ensureNamespace :: "'w kube \<Rightarrow> string \<Rightarrow> lab_session \<Rightarrow> ('w kst, unit) prog" where
  "ensureNamespace K name owner = bindE (attempt (get_namespace K name)) (\<lambda>r. case r of
       Inl e \<Rightarrow> if is_not_found e
         then create K (KNamespace \<lparr>nso_meta = (new_meta name '''')\<lparr>m_labels := Some (session_namespace_labels owner)\<rparr>\<rparr>)
         else fail e
     | Inr _ \<Rightarrow> ret ())"

subsection \<open>Pull secret\<close>

definition pullSecretName :: string where "pullSecretName = ''task-registry-pull''"

definition registryPullConfig :: "go_env \<Rightarrow> string" where
  "registryPullConfig G = getenv G ''CTF_REGISTRY_PULLSECRET''"

definition pullSecretRefs :: "go_env \<Rightarrow> string list" where
  "pullSecretRefs G = (if registryPullConfig G = '''' then [] else [pullSecretName])"

definition ensurePullSecret ::
  "go_env \<Rightarrow> lib \<Rightarrow> 'w kube \<Rightarrow> string \<Rightarrow> lab_session \<Rightarrow> ('w kst, unit) prog" where
  "ensurePullSecret G L K ns owner =
     (let cfg = registryPullConfig G
      in if cfg = '''' then ret ()
         else let desired = \<lparr>sec_meta = new_meta pullSecretName ns, sec_type = ''kubernetes.io/dockerconfigjson'',
                             sec_data = Some [(''.dockerconfigjson'', cfg)]\<rparr>
         in bindE (liftE (set_controller_ref L SessionKind (se_meta owner) (sec_meta desired))) (\<lambda>m.
            let desired = desired\<lparr>sec_meta := m\<rparr>
            in bindE (attempt (get_secret K ns pullSecretName)) (\<lambda>r. case r of
                 Inl e \<Rightarrow> if is_not_found e then create K (KSecret desired) else fail e
               | Inr found \<Rightarrow> bindE (update K (KSecret
                     (found\<lparr>sec_type := sec_type desired, sec_data := sec_data desired\<rparr>))) (\<lambda>_. ret ()))))"

subsection \<open>Pods\<close>

definition labPodGraceSeconds :: int where "labPodGraceSeconds = 2"

definition createOrUpdatePod :: "'w kube \<Rightarrow> pod \<Rightarrow> ('w kst, unit) prog" where
  "createOrUpdatePod K p =
     bindE (attempt (get_pod K (m_namespace (pod_meta p)) (m_name (pod_meta p)))) (\<lambda>r. case r of
       Inl e \<Rightarrow> if is_not_found e then create K (KPod p) else fail e
     | Inr _ \<Rightarrow> ret ())"

subsection \<open>Every step keeps the contract\<close>

lemma ensureNamespace_emits [emit_intros]: "emits (lab_call ns n) (ensureNamespace K ns owner)"
  unfolding ensureNamespace_def by (intro emit_intros) auto

lemma createOrUpdatePod_emits [emit_intros]:
  "m_namespace (pod_meta p) = ns \<Longrightarrow> hardened (pod_spec_of p) \<Longrightarrow> emits (lab_call ns n) (createOrUpdatePod K p)"
  unfolding createOrUpdatePod_def by (intro emit_intros) auto

lemma ensurePullSecret_emits [emit_intros]:
  assumes "lib_ok L" "keyed K"
  shows "emits (lab_call ns n) (ensurePullSecret G L K ns owner)"
  unfolding ensurePullSecret_def Let_def
  apply (intro emits_if emits_ret emits_bind_yields [where R = "\<lambda>m :: meta. m_namespace m = ns"] emits_liftE)
   apply (rule yields_liftE)
   apply (simp add: set_controller_ref_meta(2) [OF assms(1)])
  apply (rule emits_bind_yields [OF _ yields_attempt [OF keyed_yields(2) [OF assms(2)]]])
   apply (auto intro!: emit_intros split: sum.splits)
  done

lemma quota_steps_emit [emit_intros]:
  "emits (lab_call ns n) (ensureResourceQuota K ns space owner)"
  "emits (lab_call ns n) (ensureLimitRange K ns space owner)"
  unfolding ensureResourceQuota_def ensureLimitRange_def Let_def
  by (intro emit_intros; simp add: quota_settles.settling_mutate_axioms limit_range_settles.settling_mutate_axioms)+

lemma policy_steps_emit [emit_intros]:
  assumes "lib_ok L"
  shows "emits (lab_call ns n) (ensureBaselinePolicy L K ns space session)"
    and "emits (lab_call ns n) (ensureServiceEgressPolicy L K ns v session)"
  unfolding ensureBaselinePolicy_def ensureServiceEgressPolicy_def Let_def
  by (intro emit_intros; simp add: new_cilium_def cnp_mutate_settles [OF assms])+

interpretation namespace_step: confined_step "ensureNamespace K ns owner" "lab_call ns n" for K ns owner n
  by unfold_locales (rule ensureNamespace_emits)

interpretation quota_step: confined_step "ensureResourceQuota K ns space owner" "lab_call ns n"
  for K ns space owner n
  by unfold_locales (rule quota_steps_emit)

text \<open>
  The namespace helper reads once and writes at most once. If the namespace exists it
  changes nothing and succeeds; if the server says it does not exist, the one call it makes is
  to create it, under the session's label and with the Pod Security level \<open>baseline\<close>
  enforced; any other error is returned as it is.
\<close>

lemma ensure_namespace_branches:
  "(case k_get_namespace K ns w of
      (Inr _, w') \<Rightarrow> ensureNamespace K ns owner \<lparr>outside = w, calls = cs\<rparr> =
        (Inr (), \<lparr>outside = w', calls = cs @ [EvGet NamespaceKind '''' ns True]\<rparr>)
    | (Inl e, w') \<Rightarrow>
        if is_not_found e then
          (\<exists>ob ok. calls (snd (ensureNamespace K ns owner \<lparr>outside = w, calls = cs\<rparr>)) =
             cs @ [EvGet NamespaceKind '''' ns False, EvCreate (KNamespace ob) ok] \<and>
             m_name (nso_meta ob) = ns \<and>
             gm_get (m_labels (nso_meta ob)) ''ctf.school/session-owner'' = Some (se_name owner) \<and>
             gm_get (m_labels (nso_meta ob)) ''pod-security.kubernetes.io/enforce'' = Some ''baseline'')
        else ensureNamespace K ns owner \<lparr>outside = w, calls = cs\<rparr> =
               (Inl e, \<lparr>outside = w', calls = cs @ [EvGet NamespaceKind '''' ns False]\<rparr>))"
proof (cases "k_get_namespace K ns w")
  case (Pair r w')
  show ?thesis
  proof (cases r)
    case (Inl e)
    then show ?thesis
      using Pair by (auto simp: ensureNamespace_def get_namespace_def create_def call_def attempt_def run_simps
          session_namespace_labels_def not_found_no_panic split: prod.split)
  qed (simp add: Pair ensureNamespace_def get_namespace_def call_def attempt_def run_simps)
qed

text \<open>
  An existing pod is never touched: \<open>createOrUpdatePod\<close> makes one read, and only if the
  server reports the pod as missing one create of exactly the given pod; any other error of
  the read is returned without a write.
\<close>

lemma create_pod_only_if_missing:
  "\<exists>r w'. k_get_pod K (m_namespace (pod_meta p)) (m_name (pod_meta p)) w = (r, w') \<and>
     (let final = createOrUpdatePod K p \<lparr>outside = w, calls = cs\<rparr>;
          log = cs @ [EvGet PodKind (m_namespace (pod_meta p)) (m_name (pod_meta p)) (succeeded r)]
      in case r of
           Inr _ \<Rightarrow> final = (Inr (), \<lparr>outside = w', calls = log\<rparr>)
         | Inl e \<Rightarrow> if is_not_found e
             then (\<exists>r2 w2. k_create K (KPod p) w' = (r2, w2) \<and>
                     final = (r2, \<lparr>outside = w2, calls = log @ [EvCreate (KPod p) (succeeded r2)]\<rparr>))
             else final = (Inl e, \<lparr>outside = w', calls = log\<rparr>))"
proof (cases "k_get_pod K (m_namespace (pod_meta p)) (m_name (pod_meta p)) w")
  case (Pair r w')
  show ?thesis
  proof (cases r)
    case (Inl e)
    then show ?thesis
      using Pair by (cases "k_create K (KPod p) w'")
        (auto simp: createOrUpdatePod_def get_pod_def create_def call_def attempt_def run_simps
          not_found_no_panic split: sum.splits)
  qed (simp add: Pair createOrUpdatePod_def get_pod_def call_def attempt_def run_simps)
qed

end
