(* ===== verification/Workspace.thy ===== *)
theory Workspace
  imports Tenancy
begin

section \<open>The workspace pod and its guard (labsession\_controller.go, workspace\_guard.go)\<close>

text \<open>
  The pod a player works in: the desktop container, the guard sidecar in front of it, the
  checker agent, the Service and the HTTPRoute that lead to the guard. The theorems follow the
  path of a request through these objects and say which secret reaches which container.
\<close>

definition TtydImage :: string where "TtydImage = ''explabs/terminal-workspace:latest''"
definition VncImage :: string where "VncImage = ''accetto/ubuntu-vnc-xfce-g3:latest''"

abbreviation env :: "string \<Rightarrow> string \<Rightarrow> env_var" where
  "env n v \<equiv> \<lparr>ev_name = n, ev_value = v\<rparr>"

subsection \<open>The guard sidecar\<close>

definition guardImage :: "go_env \<Rightarrow> string" where
  "guardImage G = envDefault G ''GUARD_IMAGE'' ''explabs/ctf-school-guard:latest''"

definition workspaceWebPort :: "lab_space \<Rightarrow> int" where
  "workspaceWebPort space =
     (if wc_port (workspace space) \<noteq> 0 then wc_port (workspace space)
      else if wc_type (workspace space) = WorkspaceNoVNC then 6901
      else 7681)"

definition guard_env :: "go_env \<Rightarrow> lab_space \<Rightarrow> lab_session \<Rightarrow> env_var list" where
  "guard_env G space session =
     (let scheme = envDefault G ''CTF_SCHEME'' ''http'';
          domain = envDefault G ''CTF_DOMAIN'' ''ctf.school'';
          secret = jwtSecret G;
          loginURL = scheme @ ''://'' @ domain @ ''/challenges'';
          logsURL = envDefault G ''CTF_LOGS_URL''
            (''http://vl-victoria-logs-single-server.monitoring.svc:9428'' @
             ''/insert/jsonline?_stream_fields=team,labspace,sid&_msg_field=kind&_time_field=ts'')
      in [env ''GUARD_UPSTREAM'' (''127.0.0.1:'' @ show_int (workspaceWebPort space)),
          env ''GUARD_TEAM'' (ss_user_id (se_spec session)),
          env ''GUARD_OWNER'' (gm_str (m_annotations (se_meta session)) ''ctf.school/owner''),
          env ''GUARD_SID'' (se_name session),
          env ''GUARD_LABSPACE'' (ss_lab_space_ref (se_spec session)),
          env ''GUARD_SECRET'' secret,
          env ''GUARD_LOGIN_URL'' loginURL,
          env ''GUARD_LOGS_URL'' logsURL,
          env ''GUARD_LOG_INPUT'' (envDefault G ''CTF_LOG_INPUT'' ''true''),
          env ''GUARD_CLIP_MAX'' (envDefault G ''CTF_CLIP_MAX'' ''2048''),
          env ''CTF_ALLOW_DEV_SECRETS'' (getenv G ''CTF_ALLOW_DEV_SECRETS'')])"

definition guardSidecar :: "go_env \<Rightarrow> lab_space \<Rightarrow> lab_session \<Rightarrow> container" where
  "guardSidecar G space session =
     (new_container ''workspace-guard'' (guardImage G))\<lparr>
       co_pull_policy := ''IfNotPresent'',
       co_ports := [\<lparr>cp_name = ''web'', cp_port = guardPort, cp_protocol = ''''\<rparr>],
       co_security := Some (containerSecurityContext None),
       co_resources := \<lparr>
         rr_requests = Some [(''cpu'', ''10m''), (''memory'', ''32Mi''), (''ephemeral-storage'', guardEphemeralRequest)],
         rr_limits = Some [(''cpu'', ''500m''), (''memory'', ''192Mi''), (''ephemeral-storage'', guardEphemeralLimit)],
         rr_claims = []\<rparr>,
       co_env := guard_env G space session\<rparr>"

subsection \<open>The desktop and the checker\<close>

definition workspace_image :: "lab_space \<Rightarrow> string" where
  "workspace_image space =
     (let image = wc_image (workspace space)
      in if image = '''' then
           if wc_type (workspace space) = ''VNC'' then VncImage
           else if wc_type (workspace space) = ''Terminal'' then TtydImage
           else ''ctf.school/default-workspace:latest''
         else image)"

definition buildWorkspaceInterface ::
  "go_env \<Rightarrow> lab_space \<Rightarrow> task list \<Rightarrow> lab_session \<Rightarrow> goerr + container" where
  "buildWorkspaceInterface G space tasks sess =
     (let vnc = (wc_type (workspace space) = ''VNC'');
          (portName, containerPort) = (if vnc then (''novnc'', 6901) else (''ttyd'', 7681))
      in bindR (workspaceResources space) (\<lambda>res.
         let c = (new_container ''interface'' (workspace_image space))\<lparr>
                 co_pull_policy := ''IfNotPresent'',
                 co_working_dir := ''/workspace'',
                 co_resources := res,
                 co_mounts := [\<lparr>vm_name = ''workspace-storage'', vm_path = ''/workspace''\<rparr>],
                 co_env := [env ''USERNAME'' (ss_user_id (se_spec sess)),
                            env ''TASK_SLUG'' (ss_lab_space_ref (se_spec sess))],
                 co_ports := [\<lparr>cp_name = portName, cp_port = containerPort, cp_protocol = ''''\<rparr>]\<rparr>
         in bindR (if vnc
                   then bindR (vncPassword G sess) (\<lambda>pw. Inr (c\<lparr>co_env := co_env c @
                          [env ''VNC_COL_DEPTH'' ''24'', env ''VNC_RESOLUTION'' ''1280x1024'', env ''VNC_PW'' pw]\<rparr>))
                   else Inr c) (\<lambda>c.
            let profile = (case wc_security (workspace space) of
                             None \<Rightarrow> Some desktopDefaultProfile | Some p \<Rightarrow> Some p)
            in Inr (c\<lparr>co_security := Some (containerSecurityContext profile)\<rparr>))))"

definition mergeTaskEnvs :: "task list \<Rightarrow> lab_session \<Rightarrow> env_var list" where
  "mergeTaskEnvs tasks session =
     [env ''SESSION_ID'' (se_name session), env ''USER_ID'' (ss_user_id (se_spec session))]"

definition buildGlobalChecker :: "go_env \<Rightarrow> task list \<Rightarrow> lab_session \<Rightarrow> string \<Rightarrow> container" where
  "buildGlobalChecker G tasks session s3Key =
     (new_container ''checker'' ''explabs/lab-agent'')\<lparr>
       co_env := mergeTaskEnvs tasks session @
         [env ''S3_ENDPOINT'' (envDefault G ''CTF_S3_ENDPOINT'' ''http://seaweedfs-s3.default:8333''),
          env ''S3_BUCKET'' (envDefault G ''CTF_S3_BUCKET'' ''ctf''),
          env ''S3_KEY'' s3Key,
          env ''S3_ACCESS_KEY'' (getenv G ''CTF_S3_ACCESS_KEY''),
          env ''S3_SECRET_KEY'' (getenv G ''CTF_S3_SECRET_KEY''),
          env ''AGENT_TOKEN_SECRET'' (jwtSecret G),
          env ''HMAC_SECRET'' (flagSecret G),
          env ''USER_SALT'' (ss_user_id (se_spec session))],
       co_ports := [\<lparr>cp_name = '''', cp_port = 8888, cp_protocol = ''TCP''\<rparr>,
                    \<lparr>cp_name = '''', cp_port = 8889, cp_protocol = ''TCP''\<rparr>],
       co_mounts := [\<lparr>vm_name = ''tasks-storage'', vm_path = ''/opt/tasks''\<rparr>,
                     \<lparr>vm_name = ''workspace-storage'', vm_path = ''/workspace''\<rparr>],
       co_readiness := Some \<lparr>pr_handler = HTTPGet ''/ready'' (IntVal 8889), pr_initial_delay = 2,
         pr_period = 3, pr_failure_threshold = 60, pr_rest = ''''\<rparr>\<rparr>"

definition getTasksForSpace :: "lib \<Rightarrow> 'w kube \<Rightarrow> lab_space \<Rightarrow> ('w kst, task list) prog" where
  "getTasksForSpace L K space =
     bindE (wrap_err ''invalid service selector in labspace''
              (liftE (as_selector L (sp_service_selector (sp_spec space))))) (\<lambda>selector.
     wrap_err ''failed to list tasks'' (list_tasks K (Some selector)))"

subsection \<open>The pod, the Service and the route\<close>

definition workspace_name :: "lab_session \<Rightarrow> string" where
  "workspace_name session = ''workspace-'' @ se_name session"

definition workspace_volumes :: "lab_space \<Rightarrow> volume list" where
  "workspace_volumes space =
     (let wsLimit = (case wc_storage_limit (workspace space) of None \<Rightarrow> defaultWorkspaceStorageLimit | Some l \<Rightarrow> l)
      in [\<lparr>vol_name = ''workspace-storage'', vol_source = EmptyDir (Some wsLimit)\<rparr>,
          \<lparr>vol_name = ''tasks-storage'', vol_source = EmptyDir (Some defaultTasksStorageLimit)\<rparr>])"

definition workspace_pod ::
  "go_env \<Rightarrow> string \<Rightarrow> lab_space \<Rightarrow> lab_session \<Rightarrow> task list \<Rightarrow> goerr + pod" where
  "workspace_pod G ns space session tasks =
     (let podName = workspace_name session
      in bindR (buildWorkspaceInterface G space tasks session) (\<lambda>desktop.
         let containers = [desktop, guardSidecar G space session];
             containers = (if wc_type (workspace space) = ''Termnial''
               then containers @ [buildGlobalChecker G tasks session (wc_tasks (workspace space))]
               else containers)
         in Inr \<lparr>pod_meta = (new_meta podName ns)\<lparr>m_labels := Some
                   [(''app'', podName), (''ctf.school/role'', ''workspace''), (''ctf.school/session'', se_name session)]\<rparr>,
                 pod_spec_of = hardenPod (new_pod_spec\<lparr>ps_volumes := workspace_volumes space,
                   ps_containers := containers, ps_pull_secrets := pullSecretRefs G,
                   ps_grace := Some labPodGraceSeconds\<rparr>),
                 pod_status_of = new_pod_status\<rparr>))"

definition workspace_service_mutate ::
  "lib \<Rightarrow> string \<Rightarrow> lab_session \<Rightarrow> service \<Rightarrow> goerr + service" where
  "workspace_service_mutate L podName session svc =
     bindR (set_controller_ref L SessionKind (se_meta session) (svc_meta svc)) (\<lambda>m.
     Inr (svc\<lparr>svc_meta := m, svc_selector := Some [(''app'', podName)],
       svc_ports := [\<lparr>svp_name = ''web'', svp_protocol = '''', svp_port = guardPort, svp_target = IntVal guardPort\<rparr>]\<rparr>))"

definition ensureWorkspaceService ::
  "lib \<Rightarrow> 'w kube \<Rightarrow> string \<Rightarrow> string \<Rightarrow> lab_session \<Rightarrow> ('w kst, unit) prog" where
  "ensureWorkspaceService L K ns podName session =
     create_or_update K (KService (new_service podName ns)) (on_service (workspace_service_mutate L podName session))"

definition reconcileWorkspace ::
  "go_env \<Rightarrow> lib \<Rightarrow> 'w kube \<Rightarrow> string \<Rightarrow> lab_space \<Rightarrow> lab_session \<Rightarrow> ('w kst, unit) prog" where
  "reconcileWorkspace G L K ns space session =
     bindE (getTasksForSpace L K space) (\<lambda>tasks.
     bindE (liftE (workspace_pod G ns space session tasks)) (\<lambda>pod.
     bindE (liftE (set_controller_ref L SessionKind (se_meta session) (pod_meta pod))) (\<lambda>m.
     bindE (createOrUpdatePod K (pod\<lparr>pod_meta := m\<rparr>)) (\<lambda>_.
     ensureWorkspaceService L K ns (workspace_name session) session))))"

definition workspace_route_mutate ::
  "go_env \<Rightarrow> lib \<Rightarrow> lab_session \<Rightarrow> http_route \<Rightarrow> goerr + http_route" where
  "workspace_route_mutate G L session route =
     bindR (set_controller_ref L SessionKind (se_meta session) (hr_meta route)) (\<lambda>m.
     Inr (route\<lparr>hr_meta := m, hr_parents := [gatewayParentRef G],
       hr_hostnames := [workspaceHostname G session (ctf_domain G)],
       hr_rules := [[\<lparr>be_name = workspace_name session, be_port = Some guardPort\<rparr>]]\<rparr>))"

definition reconcileWorkspaceRoute ::
  "go_env \<Rightarrow> lib \<Rightarrow> 'w kube \<Rightarrow> string \<Rightarrow> lab_session \<Rightarrow> ('w kst, unit) prog" where
  "reconcileWorkspaceRoute G L K ns session =
     create_or_update K (KRoute (new_route (''workspace-route-'' @ se_name session) ns))
       (on_route (workspace_route_mutate G L session))"

subsection \<open>The shape of the pod\<close>

definition desktop_port :: "lab_space \<Rightarrow> int" where
  "desktop_port space = (if wc_type (workspace space) = ''VNC'' then 6901 else 7681)"

text \<open>Building the desktop never fails; this is the container it builds.\<close>

lemma interface_total:
  obtains c where "buildWorkspaceInterface G space tasks sess = Inr c"
    "co_name c = ''interface''" "co_mounts c = [\<lparr>vm_name = ''workspace-storage'', vm_path = ''/workspace''\<rparr>]"
    "map cp_port (co_ports c) = [desktop_port space]"
    "co_env c = [env ''USERNAME'' (ss_user_id (se_spec sess)), env ''TASK_SLUG'' (ss_lab_space_ref (se_spec sess))] @
       (if wc_type (workspace space) = ''VNC''
        then [env ''VNC_COL_DEPTH'' ''24'', env ''VNC_RESOLUTION'' ''1280x1024'', env ''VNC_PW'' (vnc_token G sess)]
        else [])"
    "co_security c = Some (containerSecurityContext (case wc_security (workspace space) of
        None \<Rightarrow> Some desktopDefaultProfile | Some p \<Rightarrow> Some p))"
proof -
  obtain r where r: "workspaceResources space = Inr r" using workspaceResources_total by blast
  define base where "base = (new_container ''interface'' (workspace_image space))\<lparr>
      co_pull_policy := ''IfNotPresent'', co_working_dir := ''/workspace'', co_resources := r,
      co_mounts := [\<lparr>vm_name = ''workspace-storage'', vm_path = ''/workspace''\<rparr>]\<rparr>"
  define prof where "prof = (case wc_security (workspace space) of None \<Rightarrow> Some desktopDefaultProfile | Some p \<Rightarrow> Some p)"
  note defs = buildWorkspaceInterface_def r base_def prof_def Let_def
  show thesis
  proof (cases "wc_type (workspace space) = ''VNC''")
    case True
    have "buildWorkspaceInterface G space tasks sess = Inr (base\<lparr>
       co_env := [env ''USERNAME'' (ss_user_id (se_spec sess)), env ''TASK_SLUG'' (ss_lab_space_ref (se_spec sess)),
         env ''VNC_COL_DEPTH'' ''24'', env ''VNC_RESOLUTION'' ''1280x1024'', env ''VNC_PW'' (vnc_token G sess)],
       co_ports := [\<lparr>cp_name = ''novnc'', cp_port = 6901, cp_protocol = ''''\<rparr>],
       co_security := Some (containerSecurityContext prof)\<rparr>)"
      by (simp add: defs True)
    then show thesis
      by (rule that) (simp_all add: base_def prof_def new_container_def desktop_port_def True)
  next
    case False
    have "buildWorkspaceInterface G space tasks sess = Inr (base\<lparr>
       co_env := [env ''USERNAME'' (ss_user_id (se_spec sess)), env ''TASK_SLUG'' (ss_lab_space_ref (se_spec sess))],
       co_ports := [\<lparr>cp_name = ''ttyd'', cp_port = 7681, cp_protocol = ''''\<rparr>],
       co_security := Some (containerSecurityContext prof)\<rparr>)"
      by (simp add: defs False)
    then show thesis
      by (rule that) (simp_all add: base_def prof_def new_container_def desktop_port_def False)
  qed
qed

lemma guard_simps [simp]:
  "co_name (guardSidecar G space session) = ''workspace-guard''"
  "co_env (guardSidecar G space session) = guard_env G space session"
  "co_ports (guardSidecar G space session) = [\<lparr>cp_name = ''web'', cp_port = guardPort, cp_protocol = ''''\<rparr>]"
  "co_mounts (guardSidecar G space session) = []"
  "co_security (guardSidecar G space session) = Some (containerSecurityContext None)"
  by (simp_all add: guardSidecar_def new_container_def)

lemma checker_simps [simp]:
  "co_name (buildGlobalChecker G tasks session key) = ''checker''"
  "map vm_name (co_mounts (buildGlobalChecker G tasks session key)) = [''tasks-storage'', ''workspace-storage'']"
  by (simp_all add: buildGlobalChecker_def new_container_def)

lemma workspace_podE:
  obtains p c where "workspace_pod G ns space session tasks = Inr p"
    "buildWorkspaceInterface G space tasks session = Inr c"
    "pod_meta p = (new_meta (workspace_name session) ns)\<lparr>m_labels := Some
        [(''app'', workspace_name session), (''ctf.school/role'', ''workspace''), (''ctf.school/session'', se_name session)]\<rparr>"
    "ps_containers (pod_spec_of p) = [c, guardSidecar G space session] @
       (if wc_type (workspace space) = ''Termnial''
        then [buildGlobalChecker G tasks session (wc_tasks (workspace space))] else [])"
    "ps_volumes (pod_spec_of p) = workspace_volumes space"
    "ps_pull_secrets (pod_spec_of p) = pullSecretRefs G" "ps_grace (pod_spec_of p) = Some 2"
    "hardened (pod_spec_of p)"
proof -
  obtain c where c: "buildWorkspaceInterface G space tasks session = Inr c"
    by (rule interface_total)
  then have "\<exists>p. workspace_pod G ns space session tasks = Inr p \<and>
     pod_meta p = (new_meta (workspace_name session) ns)\<lparr>m_labels := Some
        [(''app'', workspace_name session), (''ctf.school/role'', ''workspace''), (''ctf.school/session'', se_name session)]\<rparr> \<and>
     ps_containers (pod_spec_of p) = [c, guardSidecar G space session] @
       (if wc_type (workspace space) = ''Termnial''
        then [buildGlobalChecker G tasks session (wc_tasks (workspace space))] else []) \<and>
     ps_volumes (pod_spec_of p) = workspace_volumes space \<and>
     ps_pull_secrets (pod_spec_of p) = pullSecretRefs G \<and> ps_grace (pod_spec_of p) = Some 2 \<and>
     hardened (pod_spec_of p)"
    by (simp add: workspace_pod_def new_pod_spec_def hardenPod_hardened labPodGraceSeconds_def Let_def)
  with c that show thesis by blast
qed

text \<open>
  C33: whatever the LabSpace says, the workspace pod can be built, and the result keeps the
  platform's promises: it is hardened, stops within two seconds, every volume is a scratch
  volume with a size limit, every mount of a container names a volume of the pod, container
  names do not clash, and the guard runs next to the desktop fully locked down, whatever
  profile the desktop asks for.
\<close>

theorem workspace_pod_contained:
  "\<exists>p desktop rest. workspace_pod G ns space session tasks = Inr p \<and>
     ps_containers (pod_spec_of p) = desktop # guardSidecar G space session # rest \<and>
     hardened (pod_spec_of p) \<and> ps_grace (pod_spec_of p) = Some 2 \<and>
     list_all (\<lambda>v. \<exists>q. vol_source v = EmptyDir (Some q)) (ps_volumes (pod_spec_of p)) \<and>
     set (map vm_name (concat (map co_mounts (ps_containers (pod_spec_of p)))))
        \<subseteq> set (map vol_name (ps_volumes (pod_spec_of p))) \<and>
     distinct (map co_name (ps_containers (pod_spec_of p))) \<and>
     (\<exists>sc. co_security (guardSidecar G space session) = Some sc \<and> locked_down sc)"
proof -
  obtain p c where p: "workspace_pod G ns space session tasks = Inr p"
    "buildWorkspaceInterface G space tasks session = Inr c"
    "ps_containers (pod_spec_of p) = [c, guardSidecar G space session] @
       (if wc_type (workspace space) = ''Termnial''
        then [buildGlobalChecker G tasks session (wc_tasks (workspace space))] else [])"
    "ps_volumes (pod_spec_of p) = workspace_volumes space" "ps_grace (pod_spec_of p) = Some 2"
    "hardened (pod_spec_of p)"
    using workspace_podE by blast
  obtain c' where c: "c = c'" "co_name c' = ''interface''"
    "co_mounts c' = [\<lparr>vm_name = ''workspace-storage'', vm_path = ''/workspace''\<rparr>]"
    using interface_total [of G space tasks session] p(2) by (metis Inr_inject)
  show ?thesis
    using p c checker_simps(2) [of G tasks session "wc_tasks (workspace space)"]
    by (auto simp: workspace_volumes_def csc_locked_down_none Let_def simp flip: set_map)
qed

subsection \<open>The path of a request\<close>

definition env_value :: "env_var list \<Rightarrow> string \<Rightarrow> string option" where
  "env_value es n = map_of (map (\<lambda>e. (ev_name e, ev_value e)) es) n"

definition serves :: "container \<Rightarrow> int \<Rightarrow> bool" where
  "serves c p \<longleftrightarrow> p \<in> set (map cp_port (co_ports c))"

text \<open>Labels a selector asks for are on the pod.\<close>

definition selector_matches :: "string gomap \<Rightarrow> meta \<Rightarrow> bool" where
  "selector_matches sel m = list_all (\<lambda>(k, v). gm_get (m_labels m) k = Some v) (gm_entries sel)"

text \<open>
  C32: the only way in from outside leads to the guard. The route the controller writes has the
  session's host name and one backend; that backend is the Service the controller writes, whose
  one port leads to a port only the guard serves on the pod the selector matches; the guard's
  upstream is the web port of the desktop.
\<close>

theorem outside_reaches_the_guard:
  assumes "workspace_route_mutate G L session r0 = Inr route"
    and "workspace_service_mutate L (workspace_name session) session s0 = Inr svc"
    and "workspace_pod G ns space session tasks = Inr pod"
    and "wc_type (workspace space) \<in> set workspace_types"
  shows "hr_hostnames route = [workspaceHostname G session (ctf_domain G)] \<and>
    hr_rules route = [[\<lparr>be_name = workspace_name session, be_port = Some guardPort\<rparr>]] \<and>
    svc_ports svc = [\<lparr>svp_name = ''web'', svp_protocol = '''', svp_port = guardPort, svp_target = IntVal guardPort\<rparr>] \<and>
    selector_matches (svc_selector svc) (pod_meta pod) \<and>
    filter (\<lambda>c. serves c guardPort) (ps_containers (pod_spec_of pod)) = [guardSidecar G space session] \<and>
    env_value (guard_env G space session) ''GUARD_UPSTREAM'' =
      Some (''127.0.0.1:'' @ show_int (workspaceWebPort space))"
proof -
  obtain p c where p: "workspace_pod G ns space session tasks = Inr p"
    "buildWorkspaceInterface G space tasks session = Inr c"
    "pod_meta p = (new_meta (workspace_name session) ns)\<lparr>m_labels := Some
        [(''app'', workspace_name session), (''ctf.school/role'', ''workspace''), (''ctf.school/session'', se_name session)]\<rparr>"
    "ps_containers (pod_spec_of p) = [c, guardSidecar G space session] @
       (if wc_type (workspace space) = ''Termnial''
        then [buildGlobalChecker G tasks session (wc_tasks (workspace space))] else [])"
    by (rule workspace_podE)
  have "map cp_port (co_ports c) = [desktop_port space]"
    using interface_total [of G space tasks session] p(2) by (metis Inr_inject)
  then have c: "\<not> serves c guardPort" by (simp add: serves_def guardPort_def desktop_port_def flip: set_map)
  have noterm: "wc_type (workspace space) \<noteq> ''Termnial''" using assms(4) by (auto simp: workspace_types_def)
  have route: "hr_hostnames route = [workspaceHostname G session (ctf_domain G)]"
    "hr_rules route = [[\<lparr>be_name = workspace_name session, be_port = Some guardPort\<rparr>]]"
    using assms(1) by (auto simp: workspace_route_mutate_def bindR_eq_Inr)
  have svc: "svc_selector svc = Some [(''app'', workspace_name session)]"
    "svc_ports svc = [\<lparr>svp_name = ''web'', svp_protocol = '''', svp_port = guardPort, svp_target = IntVal guardPort\<rparr>]"
    using assms(2) by (auto simp: workspace_service_mutate_def bindR_eq_Inr)
  have pod: "pod = p" using assms(3) p(1) by simp
  have "filter (\<lambda>c. serves c guardPort) (ps_containers (pod_spec_of pod)) = [guardSidecar G space session]"
    using c unfolding pod p(4) by (simp add: noterm serves_def)
  moreover have "selector_matches (svc_selector svc) (pod_meta pod)"
    unfolding pod p(3) svc(1) by (simp add: selector_matches_def)
  moreover have "env_value (guard_env G space session) ''GUARD_UPSTREAM'' =
      Some (''127.0.0.1:'' @ show_int (workspaceWebPort space))"
    by (simp add: env_value_def guard_env_def Let_def)
  ultimately show ?thesis using route svc(2) by blast
qed

definition sample_env :: go_env where
  "sample_env = \<lparr>getenv = (\<lambda>_. ''''), lower_other = id, fmt_other = (\<lambda>f as. f), frac_ns = (\<lambda>f n u. 0),
     max_runes = 2 ^ 46\<rparr>"

definition sample_space :: lab_space where
  "sample_space = \<lparr>sp_meta = new_meta ''web101'' '''',
     sp_spec = \<lparr>sp_service_selector = \<lparr>ls_match_labels = None, ls_match_expressions = []\<rparr>,
       sp_network = \<lparr>nc_allow_internet = False, nc_internal_only = False\<rparr>,
       sp_resources = \<lparr>qc_requests = None, qc_limits = None\<rparr>,
       sp_workspace = \<lparr>wc_type = ''VNC'', wc_image = '''', wc_tasks = '''', wc_port = 0,
         wc_security = None, wc_resources = None, wc_storage_limit = None\<rparr>,
       sp_default_ttl = ''1h''\<rparr>\<rparr>"

theorem outside_reaches_the_guard_witness:
  "\<exists>route. hr_rules route = [[\<lparr>be_name = ''workspace-lab-t3-c1'', be_port = Some guardPort\<rparr>]] \<and>
     workspace_route_mutate sample_env sample_lib (named_session ''lab-t3-c1'' ''t3'') (new_route ''r'' ''n'') = Inr route"
proof -
  let ?s = "named_session ''lab-t3-c1'' ''t3''"
  obtain route where r: "workspace_route_mutate sample_env sample_lib ?s (new_route ''r'' ''n'') = Inr route"
    by (auto simp: workspace_route_mutate_def sample_lib_def new_route_def)
  obtain svc where s: "workspace_service_mutate sample_lib (workspace_name ?s) ?s (new_service ''r'' ''n'') = Inr svc"
    by (auto simp: workspace_service_mutate_def sample_lib_def new_service_def)
  obtain pod where p: "workspace_pod sample_env ''n'' sample_space ?s [] = Inr pod"
    by (rule workspace_podE)
  have "wc_type (workspace sample_space) \<in> set workspace_types"
    by (simp add: sample_space_def workspace_types_def)
  from outside_reaches_the_guard [OF r s p this] r show ?thesis
    by (auto simp: workspace_name_def)
qed

text \<open>
  The guard's upstream is the port the desktop container declares exactly when the
  LabSpace leaves the port open or names that same port.
\<close>

lemma upstream_is_declared_port:
  "\<exists>desktop. buildWorkspaceInterface G space tasks session = Inr desktop \<and>
     (serves desktop (workspaceWebPort space) \<longleftrightarrow> wc_port (workspace space) \<in> {0, desktop_port space})"
proof -
  obtain c where c: "buildWorkspaceInterface G space tasks session = Inr c"
    "map cp_port (co_ports c) = [desktop_port space]"
    by (rule interface_total)
  have "serves c (workspaceWebPort space) \<longleftrightarrow> wc_port (workspace space) \<in> {0, desktop_port space}"
    unfolding serves_def c(2) by (auto simp: workspaceWebPort_def desktop_port_def WorkspaceNoVNC_def)
  with c(1) show ?thesis by blast
qed

subsection \<open>Which key reaches the workspace pod\<close>

lemma setenv_flag [simp]:
  "jwtSecret (setenv ''CTF_FLAG_SECRET'' v G) = jwtSecret G"
  "vnc_token (setenv ''CTF_FLAG_SECRET'' v G) s = vnc_token G s"
  by (simp_all add: jwt_key.unaffected vnc_token_setenv)

lemma setenv_jwt [simp]:
  "flagSecret (setenv ''CTF_JWT_SECRET'' v G) = flagSecret G"
  "flag_token (setenv ''CTF_JWT_SECRET'' v G) x = flag_token G x"
  by (simp_all add: flag_key.unaffected flag_token_setenv)

text \<open>
  C31: which key is in the workspace pod. The pod of every valid workspace type is the desktop and
  the guard and nothing else. The guard is given the workspace-token key, in one variable, and the
  pod does not depend on the variable \<open>CTF_FLAG_SECRET\<close>: with any other value it is the same. So
  with a key of its own in that variable, nothing about flags is in the pod. That is all: where
  the two variables agree, in particular where neither is set and both keys fall back to the
  shared \<open>CTF_SCHOOL_SECRET\<close>, the key the guard is given is the flag key.
\<close>

theorem workspace_pod_keys:
  assumes "wc_type (workspace space) \<in> set workspace_types"
  shows "workspace_pod (setenv ''CTF_FLAG_SECRET'' v G) ns space session tasks =
      workspace_pod G ns space session tasks \<and>
    (\<exists>p desktop guard. workspace_pod G ns space session tasks = Inr p \<and>
       ps_containers (pod_spec_of p) = [desktop, guard] \<and>
       co_name desktop = ''interface'' \<and> co_name guard = ''workspace-guard'' \<and>
       map ev_value (filter (\<lambda>e. ev_name e = ''GUARD_SECRET'') (co_env guard)) = [jwtSecret G]) \<and>
    (getenv G ''CTF_JWT_SECRET'' = getenv G ''CTF_FLAG_SECRET'' \<longrightarrow> jwtSecret G = flagSecret G)"
proof (intro conjI)
  have nt: "wc_type (workspace space) \<noteq> ''Termnial''" using assms by (auto simp: workspace_types_def)
  have "guardSidecar (setenv ''CTF_FLAG_SECRET'' v G) space session = guardSidecar G space session"
    by (simp add: guardSidecar_def guard_env_def guardImage_def Let_def)
  moreover have "buildWorkspaceInterface (setenv ''CTF_FLAG_SECRET'' v G) space tasks session =
      buildWorkspaceInterface G space tasks session"
    by (cases "wc_type (workspace space) = ''VNC''") (simp_all add: buildWorkspaceInterface_def)
  moreover have "pullSecretRefs (setenv ''CTF_FLAG_SECRET'' v G) = pullSecretRefs G"
    by (simp add: pullSecretRefs_def registryPullConfig_def)
  ultimately show "workspace_pod (setenv ''CTF_FLAG_SECRET'' v G) ns space session tasks =
      workspace_pod G ns space session tasks"
    by (simp add: workspace_pod_def nt)
  obtain p c where p: "workspace_pod G ns space session tasks = Inr p"
    "buildWorkspaceInterface G space tasks session = Inr c"
    "ps_containers (pod_spec_of p) = [c, guardSidecar G space session] @
       (if wc_type (workspace space) = ''Termnial''
        then [buildGlobalChecker G tasks session (wc_tasks (workspace space))] else [])"
    by (rule workspace_podE)
  have "co_name c = ''interface''"
    using interface_total [of G space tasks session] p(2) by (metis Inr_inject)
  moreover have "map ev_value (filter (\<lambda>e. ev_name e = ''GUARD_SECRET'') (co_env (guardSidecar G space session))) = [jwtSecret G]"
    by (simp add: guardSidecar_def guard_env_def Let_def)
  moreover have "co_name (guardSidecar G space session) = ''workspace-guard''"
    by (simp add: guardSidecar_def new_container_def)
  ultimately show "\<exists>p desktop guard. workspace_pod G ns space session tasks = Inr p \<and>
       ps_containers (pod_spec_of p) = [desktop, guard] \<and>
       co_name desktop = ''interface'' \<and> co_name guard = ''workspace-guard'' \<and>
       map ev_value (filter (\<lambda>e. ev_name e = ''GUARD_SECRET'') (co_env guard)) = [jwtSecret G]"
    using p(1,3) nt by simp
  show "getenv G ''CTF_JWT_SECRET'' = getenv G ''CTF_FLAG_SECRET'' \<longrightarrow> jwtSecret G = flagSecret G"
    by (simp add: jwtSecret_def flagSecret_def)
qed

theorem workspace_pod_keys_witness:
  "workspace_pod (setenv ''CTF_FLAG_SECRET'' ''k2'' sample_env) ''n'' sample_space (named_session ''lab-t3-c1'' ''t3'') [] =
   workspace_pod sample_env ''n'' sample_space (named_session ''lab-t3-c1'' ''t3'') [] \<and>
   jwtSecret sample_env = flagSecret sample_env"
  using workspace_pod_keys [of sample_space "''k2''" sample_env "''n''" "named_session ''lab-t3-c1'' ''t3''" "[]"]
  by (simp add: sample_space_def workspace_types_def sample_env_def)

subsection \<open>Contracts\<close>

lemma workspace_mutates_settle:
  assumes "lib_ok L"
  shows "settling_mutate (on_service (workspace_service_mutate L name session))"
    and "settling_mutate (on_route (workspace_route_mutate G L session))"
  by (rule settling_on; auto simp: workspace_service_mutate_def workspace_route_mutate_def bindR_eq_Inr
      set_controller_ref_twice [OF assms])+

lemma getTasksForSpace_emits [emit_intros]: "emits (lab_call ns n) (getTasksForSpace L K space)"
  unfolding getTasksForSpace_def by (intro emit_intros) auto

lemma reconcileWorkspace_emits [emit_intros]:
  assumes "lib_ok L"
  shows "emits (lab_call ns n) (reconcileWorkspace G L K ns space session)"
  unfolding reconcileWorkspace_def
proof (rule emits_bind, rule getTasksForSpace_emits)
  fix tasks
  obtain p where p: "workspace_pod G ns space session tasks = Inr p"
    "m_namespace (pod_meta p) = ns" "hardened (pod_spec_of p)"
    by (rule workspace_podE [of G ns space session tasks]) (simp add: that)
  let ?rest = "\<lambda>pod. bindE (liftE (set_controller_ref L SessionKind (se_meta session) (pod_meta pod))) (\<lambda>m.
     bindE (createOrUpdatePod K (pod\<lparr>pod_meta := m\<rparr>)) (\<lambda>_.
     ensureWorkspaceService L K ns (workspace_name session) session))"
  have "emits (lab_call ns n) (?rest p)"
  proof (rule emits_bind_yields [where R = "\<lambda>m :: meta. m_namespace m = ns"])
    show "yields (\<lambda>m. m_namespace m = ns) (liftE (set_controller_ref L SessionKind (se_meta session) (pod_meta p)))"
      using p(2) set_controller_ref_meta(2) [OF assms] by (intro yields_liftE) fastforce
    show "emits (lab_call ns n) (bindE (createOrUpdatePod K (p\<lparr>pod_meta := m\<rparr>)) (\<lambda>_.
       ensureWorkspaceService L K ns (workspace_name session) session))" if "m_namespace m = ns" for m
      using that p(3) unfolding ensureWorkspaceService_def
      by (intro emit_intros) (simp_all add: new_service_def workspace_mutates_settle [OF assms])
  qed (rule emits_liftE)
  then show "emits (lab_call ns n) (bindE (liftE (workspace_pod G ns space session tasks)) ?rest)"
    by (intro emits_bind_yields [where R = "\<lambda>q. q = p"] emits_liftE yields_liftE) (simp_all add: p(1))
qed

lemma reconcileWorkspaceRoute_emits [emit_intros]:
  assumes "lib_ok L"
  shows "emits (lab_call ns n) (reconcileWorkspaceRoute G L K ns session)"
  unfolding reconcileWorkspaceRoute_def by (intro emit_intros) (simp add: new_route_def workspace_mutates_settle [OF assms])

end
