(* ===== verification/Services.thy ===== *)
theory Services
  imports Workspace
begin

section \<open>Challenge services (labsession\_controller.go)\<close>

text \<open>
  What the controller makes of one LabService in a session: the environment of its container
  (plain, random and flag variables), its pod, its egress policy, its Service and, for HTTP
  exposure, its route.
\<close>

subsection \<open>Environment variables\<close>

definition letters :: string where "letters = ''abcdefghijklmnopqrstuvwxyz0123456789''"

primrec random_chars :: "'w kube \<Rightarrow> nat \<Rightarrow> ('w kst, string) prog" where
  "random_chars K 0 = ret []"
| "random_chars K (Suc n) = bindE (rand_intn K (length letters)) (\<lambda>i.
     if i < length letters then bindE (random_chars K n) (\<lambda>s. ret (letters ! i # s))
     else fail (Panic ''index out of range''))"

definition generateRandomString :: "go_env \<Rightarrow> 'w kube \<Rightarrow> int \<Rightarrow> ('w kst, string) prog" where
  "generateRandomString G K n =
     (if n < 0 \<or> max_runes G < n then fail (Panic ''makeslice: len out of range'') else random_chars K (nat n))"

definition env_entry ::
  "go_env \<Rightarrow> 'w kube \<Rightarrow> lab_service \<Rightarrow> lab_session \<Rightarrow> api_env_var \<Rightarrow> ('w kst, env_var) prog" where
  "env_entry G K labSvc session e =
     bindE (case en_dynamic e of
         None \<Rightarrow> ret (en_value e)
       | Some d \<Rightarrow>
           if dv_type d = ''random'' then generateRandomString G K (dv_length d)
           else if dv_type d = ''hmac'' then
             bindE (liftE (hash G (sv_name labSvc @ ss_user_id (se_spec session)))) (\<lambda>h.
             ret (sprintf G (flagFormat G) [h]))
           else ret (en_value e)) (\<lambda>val.
     ret (env (en_name e) val))"

primrec env_entries ::
  "go_env \<Rightarrow> 'w kube \<Rightarrow> lab_service \<Rightarrow> lab_session \<Rightarrow> api_env_var list \<Rightarrow> ('w kst, env_var list) prog" where
  "env_entries G K labSvc session [] = ret []"
| "env_entries G K labSvc session (e # es) =
     bindE (env_entry G K labSvc session e) (\<lambda>v.
     bindE (env_entries G K labSvc session es) (\<lambda>vs. ret (v # vs)))"

definition buildEnvVars ::
  "go_env \<Rightarrow> 'w kube \<Rightarrow> lab_service \<Rightarrow> lab_session \<Rightarrow> ('w kst, env_var list) prog" where
  "buildEnvVars G K labSvc session =
     bindE (env_entries G K labSvc session (ls_env (sv_spec labSvc))) (\<lambda>result.
     ret (result @ [env ''USER_ID'' (ss_user_id (se_spec session))]))"

subsection \<open>The pod\<close>

definition needs_tmp :: "lab_service \<Rightarrow> bool" where
  "needs_tmp labSvc = (case ls_security (sv_spec labSvc) of None \<Rightarrow> True | Some p \<Rightarrow> \<not> sp_writable_root p)"

definition tmp_volumes :: "lab_service \<Rightarrow> volume list" where
  "tmp_volumes labSvc = (if needs_tmp labSvc
     then let tmpLimit = (case ls_storage_limit (sv_spec labSvc) of None \<Rightarrow> defaultServiceTmpLimit | Some l \<Rightarrow> l)
          in [\<lparr>vol_name = ''tmp'', vol_source = EmptyDir (Some tmpLimit)\<rparr>]
     else [])"

definition challenge_container :: "lab_service \<Rightarrow> env_var list \<Rightarrow> goerr + container" where
  "challenge_container labSvc envVars =
     (let spec = sv_spec labSvc
      in bindR (serviceResources labSvc) (\<lambda>res.
         Inr ((new_container ''challenge'' (ls_image spec))\<lparr>
           co_pull_policy := ls_pull_policy spec, co_command := ls_command spec, co_args := ls_args spec,
           co_ports := ls_ports spec, co_env := envVars, co_resources := res,
           co_liveness := ls_liveness spec, co_readiness := ls_readiness spec,
           co_security := Some (containerSecurityContext (ls_security spec)),
           co_mounts := (if needs_tmp labSvc then [\<lparr>vm_name = ''tmp'', vm_path = ''/tmp''\<rparr>] else [])\<rparr>)))"

definition challenge_pod ::
  "go_env \<Rightarrow> string \<Rightarrow> lab_service \<Rightarrow> lab_session \<Rightarrow> env_var list \<Rightarrow> goerr + pod" where
  "challenge_pod G ns labSvc session envVars =
     bindR (challenge_container labSvc envVars) (\<lambda>challenge.
     Inr \<lparr>pod_meta = (new_meta (sv_name labSvc) ns)\<lparr>m_labels := Some
            [(''app'', sv_name labSvc), (''ctf.school/svc'', sv_name labSvc), (''ctf.school/sess'', se_name session)]\<rparr>,
          pod_spec_of = hardenPod (new_pod_spec\<lparr>ps_grace := Some labPodGraceSeconds,
            ps_volumes := tmp_volumes labSvc, ps_containers := [challenge],
            ps_pull_secrets := pullSecretRefs G\<rparr>),
          pod_status_of = new_pod_status\<rparr>)"

subsection \<open>Service, route, and the whole step\<close>

definition service_mutate :: "lab_service \<Rightarrow> service \<Rightarrow> goerr + service" where
  "service_mutate labSvc svc =
     (let labels = (case m_labels (svc_meta svc) of None \<Rightarrow> Some [] | Some l \<Rightarrow> Some l)
      in bindR (gm_put labels ''app'' (sv_name labSvc)) (\<lambda>l.
         Inr (svc\<lparr>svc_meta := (svc_meta svc)\<lparr>m_labels := l\<rparr>,
           svc_selector := Some [(''app'', sv_name labSvc)],
           svc_ports := map (\<lambda>p. \<lparr>svp_name = cp_name p, svp_protocol = '''', svp_port = cp_port p,
                              svp_target = IntVal 0\<rparr>) (ls_ports (sv_spec labSvc))\<rparr>)))"

definition ensureService :: "'w kube \<Rightarrow> string \<Rightarrow> lab_service \<Rightarrow> ('w kst, unit) prog" where
  "ensureService K ns labSvc =
     create_or_update K (KService (new_service (sv_name labSvc) ns)) (on_service (service_mutate labSvc))"

definition reconcileServiceResources ::
  "go_env \<Rightarrow> lib \<Rightarrow> 'w kube \<Rightarrow> string \<Rightarrow> lab_service \<Rightarrow> lab_session \<Rightarrow> ('w kst, unit) prog" where
  "reconcileServiceResources G L K ns labSvc session =
     bindE (buildEnvVars G K labSvc session) (\<lambda>envVars.
     bindE (liftE (challenge_pod G ns labSvc session envVars)) (\<lambda>pod.
     bindE (createOrUpdatePod K pod) (\<lambda>_.
     bindE (ensureServiceEgressPolicy L K ns labSvc session) (\<lambda>_.
     ensureService K ns labSvc))))"

definition route_mutate :: "go_env \<Rightarrow> lab_service \<Rightarrow> lab_session \<Rightarrow> http_route \<Rightarrow> goerr + http_route" where
  "route_mutate G labSvc session route =
     (case ls_ports (sv_spec labSvc) of
        [] \<Rightarrow> Inl (Panic ''index out of range [0] with length 0'')
      | p # _ \<Rightarrow> Inr (route\<lparr>hr_parents := [gatewayParentRef G],
          hr_hostnames := [service_hostname G (sv_name labSvc) session],
          hr_rules := [[\<lparr>be_name = sv_name labSvc, be_port = Some (cp_port p)\<rparr>]]\<rparr>))"

definition reconcileRoute ::
  "go_env \<Rightarrow> 'w kube \<Rightarrow> string \<Rightarrow> lab_service \<Rightarrow> lab_session \<Rightarrow> ('w kst, unit) prog" where
  "reconcileRoute G K ns labSvc session =
     (case ls_exposure (sv_spec labSvc) of
        None \<Rightarrow> ret ()
      | Some ex \<Rightarrow>
          if ex_type ex \<noteq> ''HTTP'' then ret ()
          else create_or_update K (KRoute (new_route (sv_name labSvc) ns)) (on_route (route_mutate G labSvc session)))"

subsection \<open>Values of the environment\<close>

text \<open>The documented range of \<open>rand.Intn\<close>.\<close>

definition rand_ok :: "'w kube \<Rightarrow> bool" where
  "rand_ok K \<longleftrightarrow> (\<forall>n w. 0 < n \<longrightarrow> fst (k_rand K n w) < n)"

lemma random_chars_run:
  assumes "rand_ok K"
  shows "\<exists>v w. random_chars K n s = (Inr v, s\<lparr>outside := w, calls := calls s @ replicate n (EvRand 36)\<rparr>) \<and>
     length v = n \<and> set v \<subseteq> set letters"
proof (induction n arbitrary: s)
  case 0
  show ?case by (auto simp: run_simps intro!: exI [of _ "outside s"])
next
  case (Suc n)
  obtain i w where iw: "k_rand K (length letters) (outside s) = (i, w)" by fastforce
  have i: "i < length letters"
    using assms iw unfolding rand_ok_def by (metis fst_conv letters_def length_greater_0_conv list.discI)
  let ?s = "s\<lparr>outside := w, calls := calls s @ [EvRand 36]\<rparr>"
  have step: "rand_intn K (length letters) s = (Inr i, ?s)"
    using iw by (simp add: rand_intn_def call_def letters_def)
  from Suc.IH [of ?s] obtain v w' where
    v: "random_chars K n ?s = (Inr v, ?s\<lparr>outside := w', calls := calls ?s @ replicate n (EvRand 36)\<rparr>)"
    "length v = n" "set v \<subseteq> set letters" by blast
  have run: "random_chars K (Suc n) s =
      (Inr (letters ! i # v), s\<lparr>outside := w', calls := calls s @ replicate (Suc n) (EvRand 36)\<rparr>)"
    using i v(1) by (simp add: run_simps step)
  have "set (letters ! i # v) \<subseteq> set letters" using v(3) i by simp
  with run v(2) show ?case by (metis length_Cons)
qed

text \<open>
  \<open>generateRandomString\<close> returns exactly when the length is not negative and a slice of it can be
  made, and then a string of that length over the 36 letters and digits, after drawing one number
  below 36 per character and nothing else. Any other length panics before any draw; the CRD sets
  neither bound.
\<close>

lemma random_string_contract:
  assumes "rand_ok K"
  shows "if n < 0 \<or> max_runes G < n
    then \<exists>t. generateRandomString G K n s = (Inl (Panic t), s)
    else \<exists>v w. generateRandomString G K n s =
        (Inr v, s\<lparr>outside := w, calls := calls s @ replicate (nat n) (EvRand 36)\<rparr>) \<and>
      int (length v) = n \<and> set v \<subseteq> set letters"
  using random_chars_run [OF assms, of "nat n" s] by (auto simp: generateRandomString_def run_simps)

lemma random_string_contract_example:
  "\<exists>K :: nat kube. \<exists>v w. generateRandomString sample_env K 3 \<lparr>outside = 0, calls = []\<rparr> =
     (Inr v, \<lparr>outside = w, calls = [EvRand 36, EvRand 36, EvRand 36]\<rparr>) \<and> length v = 3"
proof -
  fix s sp svcs t
  let ?K = "sample_kube s sp svcs t"
  have "rand_ok ?K" by (simp add: rand_ok_def sample_kube_def)
  from random_string_contract [OF this, of 3 sample_env "\<lparr>outside = 0, calls = []\<rparr>"] show ?thesis
    by (intro exI [of _ ?K]) (auto simp: numeral_3_eq_3 sample_env_def)
qed

text \<open>A service without random variables: its environment is a function of names and keys.\<close>

definition plain_value :: "go_env \<Rightarrow> lab_service \<Rightarrow> lab_session \<Rightarrow> api_env_var \<Rightarrow> string" where
  "plain_value G labSvc session e = (case en_dynamic e of
       None \<Rightarrow> en_value e
     | Some d \<Rightarrow> if dv_type d = ''hmac''
         then sprintf G (flagFormat G) [flag_token G (sv_name labSvc @ ss_user_id (se_spec session))]
         else en_value e)"

definition no_random :: "lab_service \<Rightarrow> bool" where
  "no_random labSvc = list_all (\<lambda>e. case en_dynamic e of None \<Rightarrow> True | Some d \<Rightarrow> dv_type d \<noteq> ''random'')
     (ls_env (sv_spec labSvc))"

lemma env_entries_plain:
  "list_all (\<lambda>e. case en_dynamic e of None \<Rightarrow> True | Some d \<Rightarrow> dv_type d \<noteq> ''random'') es \<Longrightarrow>
   env_entries G K labSvc session es =
     ret (map (\<lambda>e. env (en_name e) (plain_value G labSvc session e)) es)"
proof (induction es)
  case (Cons e es)
  have "env_entry G K labSvc session e = ret (env (en_name e) (plain_value G labSvc session e))"
    using Cons.prems
    by (auto simp: env_entry_def plain_value_def fun_eq_iff run_simps split: option.splits)
  then show ?case using Cons by simp
qed simp

text \<open>
  A service without random variables gets the same environment at every reconciliation:
  building it makes no call and has no effect, the variables come out in the declared order
  with \<open>USER_ID\<close> last, and a flag variable holds the platform's flag format with the flag token
  of the service and the user in place of \<open>%s\<close>.
\<close>

lemma challenge_env_deterministic:
  assumes "no_random v" "flagFormat G = p @ ''%s'' @ q" "CHR ''%'' \<notin> set p" "CHR ''%'' \<notin> set q"
  shows "buildEnvVars G K v session s = (Inr (map (\<lambda>e. env (en_name e) (case en_dynamic e of
       None \<Rightarrow> en_value e
     | Some d \<Rightarrow> if dv_type d = ''hmac''
         then p @ flag_token G (sv_name v @ ss_user_id (se_spec session)) @ q else en_value e))
     (ls_env (sv_spec v)) @ [env ''USER_ID'' (ss_user_id (se_spec session))]), s)"
  using sprintf_one_verb [OF assms(3,4), of G] assms(1)
  by (simp add: buildEnvVars_def env_entries_plain no_random_def run_simps plain_value_def assms(2)
      split: option.split)

definition sample_service :: lab_service where
  "sample_service = \<lparr>sv_meta = new_meta ''web1'' '''',
     sv_spec = \<lparr>ls_image = ''web:1'', ls_pull_policy = '''',
       ls_ports = [\<lparr>cp_name = ''http'', cp_port = 80, cp_protocol = ''TCP''\<rparr>],
       ls_liveness = None, ls_readiness = None,
       ls_exposure = Some \<lparr>ex_type = ''HTTP'', ex_target_port = ''http''\<rparr>,
       ls_env = [\<lparr>en_name = ''FLAG'', en_value = '''',
         en_dynamic = Some \<lparr>dv_type = ''hmac'', dv_length = 0, dv_template = ''''\<rparr>\<rparr>],
       ls_command = [], ls_args = [], ls_resources = no_resources, ls_storage_limit = None,
       ls_egress = [], ls_security = None\<rparr>\<rparr>"

lemma challenge_env_deterministic_example:
  "\<exists>tok. length tok = 24 \<and> (\<forall>(K :: nat kube) s. buildEnvVars sample_env K sample_service (named_session ''lab-t3-c1'' ''t3'') s =
     (Inr [env ''FLAG'' (''CTF{'' @ tok @ ''}''), env ''USER_ID'' ''t3''], s))"
proof -
  have "no_random sample_service" by (simp add: no_random_def sample_service_def)
  moreover have "flagFormat sample_env = ''CTF{'' @ ''%s'' @ ''}''"
    by (simp add: flagFormat_def envDefault_def sample_env_def)
  ultimately have "buildEnvVars sample_env K sample_service (named_session ''lab-t3-c1'' ''t3'') s =
     (Inr [env ''FLAG'' (''CTF{'' @ flag_token sample_env ''web1t3'' @ ''}''), env ''USER_ID'' ''t3''], s)"
    for K :: "nat kube" and s
    using challenge_env_deterministic [of sample_service sample_env "''CTF{''" "''}''" K "named_session ''lab-t3-c1'' ''t3''" s]
    by (simp add: sample_service_def)
  then show ?thesis using flag_token_shape(1) by blast
qed

subsection \<open>Which key reaches the challenge\<close>

lemma flagFormat_setenv [simp]: "k \<noteq> ''CTF_FLAG_FORMAT'' \<Longrightarrow> flagFormat (setenv k v G) = flagFormat G"
  by (simp add: flagFormat_def)

lemma env_entries_jwt: "env_entries (setenv ''CTF_JWT_SECRET'' v G) K labSvc session es =
    env_entries G K labSvc session es"
  by (induction es) (simp_all add: env_entry_def generateRandomString_def cong: option.case_cong if_cong)

text \<open>
  Nothing the controller does for a challenge service depends on the workspace-token key:
  with any other \<open>CTF_JWT_SECRET\<close> the whole step (pod, policy, Service and route) is the same
  program, so a compromised challenge container cannot help to mint workspace tokens.
\<close>

lemma challenge_independent_of_token_key:
  "reconcileServiceResources (setenv ''CTF_JWT_SECRET'' v G) L K ns labSvc session =
     reconcileServiceResources G L K ns labSvc session \<and>
   reconcileRoute (setenv ''CTF_JWT_SECRET'' v G) K ns labSvc session = reconcileRoute G K ns labSvc session"
proof
  have "pullSecretRefs (setenv ''CTF_JWT_SECRET'' v G) = pullSecretRefs G"
    by (simp add: pullSecretRefs_def registryPullConfig_def)
  then have "challenge_pod (setenv ''CTF_JWT_SECRET'' v G) ns labSvc session = challenge_pod G ns labSvc session"
    by (simp add: challenge_pod_def fun_eq_iff)
  then show "reconcileServiceResources (setenv ''CTF_JWT_SECRET'' v G) L K ns labSvc session =
     reconcileServiceResources G L K ns labSvc session"
    by (simp add: reconcileServiceResources_def buildEnvVars_def env_entries_jwt)
  have "route_mutate (setenv ''CTF_JWT_SECRET'' v G) labSvc session = route_mutate G labSvc session"
    by (simp add: route_mutate_def fun_eq_iff gatewayParentRef_def service_hostname_def ctf_domain_def
        split: list.split)
  then show "reconcileRoute (setenv ''CTF_JWT_SECRET'' v G) K ns labSvc session = reconcileRoute G K ns labSvc session"
    by (simp add: reconcileRoute_def split: option.split cong: if_cong)
qed

text \<open>
  A flag variable is the flag format around the token of the service name and the user put
  together without a separator; the declared value, length and template play no part. So flags
  are told apart by the concatenation only, and two services and users can share it (a service
  whose name ends in a digit).
\<close>

lemma flag_input_is_concatenation:
  "env_entry G K v session \<lparr>en_name = n, en_value = x, en_dynamic = Some \<lparr>dv_type = ''hmac'', dv_length = l, dv_template = t\<rparr>\<rparr> =
     ret (env n (sprintf G (flagFormat G) [flag_token G (sv_name v @ ss_user_id (se_spec session))])) \<and>
   (\<exists>n1 u1 n2 u2. object_name n1 \<and> object_name n2 \<and> (n1, u1) \<noteq> (n2, u2) \<and>
      flag_token G (n1 @ u1) = flag_token G (n2 @ u2))"
proof
  show "env_entry G K v session \<lparr>en_name = n, en_value = x, en_dynamic = Some \<lparr>dv_type = ''hmac'', dv_length = l, dv_template = t\<rparr>\<rparr> =
     ret (env n (sprintf G (flagFormat G) [flag_token G (sv_name v @ ss_user_id (se_spec session))]))"
    by (simp add: env_entry_def fun_eq_iff run_simps)
  have "object_name ''web1'' \<and> object_name ''web'' \<and> (''web1'', ''2'') \<noteq> (''web'', ''12'') \<and>
      flag_token G (''web1'' @ ''2'') = flag_token G (''web'' @ ''12'')"
    by (simp add: object_name_def dns_char_def)
  then show "\<exists>n1 u1 n2 u2. object_name n1 \<and> object_name n2 \<and> (n1, u1) \<noteq> (n2, u2) \<and>
      flag_token G (n1 @ u1) = flag_token G (n2 @ u2)"
    by (intro exI)
qed

subsection \<open>The pod of a challenge\<close>

lemma challenge_podE:
  obtains p c where "challenge_pod G ns v session es = Inr p"
    "pod_meta p = (new_meta (sv_name v) ns)\<lparr>m_labels := Some
       [(''app'', sv_name v), (''ctf.school/svc'', sv_name v), (''ctf.school/sess'', se_name session)]\<rparr>"
    "ps_containers (pod_spec_of p) = [c]" "ps_volumes (pod_spec_of p) = tmp_volumes v"
    "ps_grace (pod_spec_of p) = Some 2" "hardened (pod_spec_of p)"
    "co_name c = ''challenge''" "co_env c = es" "co_ports c = ls_ports (sv_spec v)"
    "co_security c = Some (containerSecurityContext (ls_security (sv_spec v)))"
    "co_mounts c = (if needs_tmp v then [\<lparr>vm_name = ''tmp'', vm_path = ''/tmp''\<rparr>] else [])"
    "serviceResources v = Inr (co_resources c)"
proof -
  obtain r where r: "serviceResources v = Inr r" using serviceResources_eq by blast
  define c where "c = (new_container ''challenge'' (ls_image (sv_spec v)))\<lparr>
           co_pull_policy := ls_pull_policy (sv_spec v), co_command := ls_command (sv_spec v), co_args := ls_args (sv_spec v),
           co_ports := ls_ports (sv_spec v), co_env := es, co_resources := r,
           co_liveness := ls_liveness (sv_spec v), co_readiness := ls_readiness (sv_spec v),
           co_security := Some (containerSecurityContext (ls_security (sv_spec v))),
           co_mounts := (if needs_tmp v then [\<lparr>vm_name = ''tmp'', vm_path = ''/tmp''\<rparr>] else [])\<rparr>"
  have "challenge_container v es = Inr c" by (simp add: challenge_container_def r c_def Let_def)
  then have "challenge_pod G ns v session es = Inr \<lparr>pod_meta = (new_meta (sv_name v) ns)\<lparr>m_labels := Some
            [(''app'', sv_name v), (''ctf.school/svc'', sv_name v), (''ctf.school/sess'', se_name session)]\<rparr>,
          pod_spec_of = hardenPod (new_pod_spec\<lparr>ps_grace := Some labPodGraceSeconds,
            ps_volumes := tmp_volumes v, ps_containers := [c], ps_pull_secrets := pullSecretRefs G\<rparr>),
          pod_status_of = new_pod_status\<rparr>" (is "_ = Inr ?p")
    by (simp add: challenge_pod_def)
  then show thesis
    by (rule that [of ?p c])
      (simp_all add: c_def r new_pod_spec_def hardenPod_hardened labPodGraceSeconds_def new_container_def)
qed

lemma service_limit_set:
  assumes "serviceResources v = Inr r"
  shows "\<exists>q. gm_get (rr_limits r) ''ephemeral-storage'' = Some q"
proof -
  define l where "l = gm_entries (rr_limits (ls_resources (sv_spec v)))"
  have "rr_limits r = Some (if map_of l ''ephemeral-storage'' = None
      then AList.update ''ephemeral-storage'' defaultServiceEphemeralLimit l else l)"
    using assms by (auto simp: serviceResources_eq Let_def l_def)
  then show ?thesis by (cases "map_of l ''ephemeral-storage''") auto
qed

text \<open>
  C34: the pod of a challenge is always built, and it is what the platform promises: one
  hardened pod with one container under the rendered security profile, with a limit on
  ephemeral storage; it gets a size-limited \<open>/tmp\<close> exactly when its root file system is
  read-only, so no container is left without a writable directory, and the policy that opens
  egress for the service selects this pod.
\<close>

theorem challenge_pod_contained:
  "\<exists>p c sc q. challenge_pod G ns v session es = Inr p \<and> ps_containers (pod_spec_of p) = [c] \<and>
     hardened (pod_spec_of p) \<and> co_security c = Some sc \<and> sc = containerSecurityContext (ls_security (sv_spec v)) \<and>
     gm_get (rr_limits (co_resources c)) ''ephemeral-storage'' = Some q \<and>
     (sc_read_only_root sc = Some True \<longleftrightarrow>
        map vm_path (co_mounts c) = [''/tmp''] \<and> (\<exists>l. map vol_source (ps_volumes (pod_spec_of p)) = [EmptyDir (Some l)])) \<and>
     map vm_name (co_mounts c) = map vol_name (ps_volumes (pod_spec_of p)) \<and>
     gm_get (m_labels (pod_meta p)) ''ctf.school/svc'' = Some (sv_name v)"
proof -
  obtain p c where p: "challenge_pod G ns v session es = Inr p"
    "pod_meta p = (new_meta (sv_name v) ns)\<lparr>m_labels := Some
       [(''app'', sv_name v), (''ctf.school/svc'', sv_name v), (''ctf.school/sess'', se_name session)]\<rparr>"
    "ps_containers (pod_spec_of p) = [c]" "ps_volumes (pod_spec_of p) = tmp_volumes v"
    "hardened (pod_spec_of p)" "co_security c = Some (containerSecurityContext (ls_security (sv_spec v)))"
    "co_mounts c = (if needs_tmp v then [\<lparr>vm_name = ''tmp'', vm_path = ''/tmp''\<rparr>] else [])"
    "serviceResources v = Inr (co_resources c)"
    by (rule challenge_podE)
  have ro: "sc_read_only_root (containerSecurityContext (ls_security (sv_spec v))) = Some (needs_tmp v)"
    by (simp add: needs_tmp_def csc_none csc_fields empty_profile_def split: option.split)
  obtain q where "gm_get (rr_limits (co_resources c)) ''ephemeral-storage'' = Some q"
    using service_limit_set [OF p(8)] by blast
  moreover have "gm_get (m_labels (pod_meta p)) ''ctf.school/svc'' = Some (sv_name v)"
    by (simp add: p(2))
  ultimately show ?thesis
    using p(1,3-7) ro by (auto simp: tmp_volumes_def Let_def)
qed

subsection \<open>Routes\<close>

text \<open>
  The route of a challenge. Nothing is written unless the exposure is HTTP. For HTTP the
  mutate function panics exactly when the LabService has no port; otherwise the route has the
  service's host name and one backend, the Service of the same name at a port that Service
  publishes.
\<close>

lemma route_backend_is_published:
  "(calls (snd (reconcileRoute G K ns v session s)) = calls s \<longleftrightarrow>
      (case ls_exposure (sv_spec v) of None \<Rightarrow> True | Some ex \<Rightarrow> ex_type ex \<noteq> ''HTTP'')) \<and>
   ((\<exists>t. route_mutate G v session r0 = Inl (Panic t)) \<longleftrightarrow> ls_ports (sv_spec v) = []) \<and>
   (ls_ports (sv_spec v) = [] \<or>
     (\<exists>route svc p. route_mutate G v session r0 = Inr route \<and> service_mutate v s0 = Inr svc \<and>
        hr_hostnames route = [service_hostname G (sv_name v) session] \<and>
        hr_rules route = [[\<lparr>be_name = sv_name v, be_port = Some p\<rparr>]] \<and>
        p \<in> set (map svp_port (svc_ports svc)) \<and>
        svc_selector svc = Some [(''app'', sv_name v)]))"
proof (intro conjI)
  show "calls (snd (reconcileRoute G K ns v session s)) = calls s \<longleftrightarrow>
      (case ls_exposure (sv_spec v) of None \<Rightarrow> True | Some ex \<Rightarrow> ex_type ex \<noteq> ''HTTP'')"
    by (auto simp: reconcileRoute_def run_simps calls_create_or_update split: option.split)
  show "(\<exists>t. route_mutate G v session r0 = Inl (Panic t)) \<longleftrightarrow> ls_ports (sv_spec v) = []"
    by (simp add: route_mutate_def split: list.split)
  show "ls_ports (sv_spec v) = [] \<or>
     (\<exists>route svc p. route_mutate G v session r0 = Inr route \<and> service_mutate v s0 = Inr svc \<and>
        hr_hostnames route = [service_hostname G (sv_name v) session] \<and>
        hr_rules route = [[\<lparr>be_name = sv_name v, be_port = Some p\<rparr>]] \<and>
        p \<in> set (map svp_port (svc_ports svc)) \<and> svc_selector svc = Some [(''app'', sv_name v)])"
  proof (cases "ls_ports (sv_spec v)")
    case (Cons p ps)
    obtain svc where "service_mutate v s0 = Inr svc" "svc_ports svc = map (\<lambda>p. \<lparr>svp_name = cp_name p,
        svp_protocol = '''', svp_port = cp_port p, svp_target = IntVal 0\<rparr>) (ls_ports (sv_spec v))"
      "svc_selector svc = Some [(''app'', sv_name v)]"
      by (cases "m_labels (svc_meta s0)") (simp_all add: service_mutate_def)
    then show ?thesis by (simp add: route_mutate_def Cons)
  qed simp
qed

subsection \<open>Contracts\<close>

lemma service_mutates_settle:
  "settling_mutate (on_service (service_mutate v))" "settling_mutate (on_route (route_mutate G v session))"
proof -
  show "settling_mutate (on_service (service_mutate v))"
    by (rule settling_on)
      (auto simp: service_mutate_def Let_def bindR_eq_Inr same_key_def split: option.splits)
  show "settling_mutate (on_route (route_mutate G v session))"
    by (rule settling_on) (auto simp: route_mutate_def same_key_def split: list.splits)
qed

lemma random_chars_emits [emit_intros]: "emits (lab_call ns n) (random_chars K k)"
  by (induction k) (auto intro!: emit_intros)

lemma env_entries_emits [emit_intros]: "emits (lab_call ns n) (env_entries G K v session es)"
  by (induction es)
    (auto simp: env_entry_def generateRandomString_def split: option.split intro!: emit_intros)

lemma reconcileServiceResources_emits [emit_intros]:
  assumes "lib_ok L"
  shows "emits (lab_call ns n) (reconcileServiceResources G L K ns v session)"
  unfolding reconcileServiceResources_def
proof (rule emits_bind)
  show "emits (lab_call ns n) (buildEnvVars G K v session)"
    unfolding buildEnvVars_def by (intro emit_intros)
  fix es
  obtain p where p: "challenge_pod G ns v session es = Inr p" "m_namespace (pod_meta p) = ns"
    "hardened (pod_spec_of p)"
    by (rule challenge_podE [of G ns v session es]) (simp add: that)
  then show "emits (lab_call ns n) (bindE (liftE (challenge_pod G ns v session es)) (\<lambda>pod.
     bindE (createOrUpdatePod K pod) (\<lambda>_. bindE (ensureServiceEgressPolicy L K ns v session) (\<lambda>_. ensureService K ns v))))"
    unfolding ensureService_def
    by (intro emits_bind_yields [where R = "\<lambda>q. q = p"] emits_liftE yields_liftE)
      (auto intro!: emit_intros assms simp: service_mutates_settle new_service_def)
qed

lemma reconcileRoute_emits [emit_intros]: "emits (lab_call ns n) (reconcileRoute G K ns v session)"
  unfolding reconcileRoute_def
  by (auto split: option.split intro!: emit_intros simp: service_mutates_settle new_route_def)

end
