(* ===== verification/Phase.thy ===== *)
theory Phase
  imports Kube
begin

section \<open>The phase of a session (labsession\_controller.go)\<close>

text \<open>
  \<open>computePhase\<close> folds the pods of the session namespace into a phase and a message: two loops
  with early returns. The specification says for which pods the session is \<open>Running\<close> and for
  which it is \<open>Failed\<close>.
\<close>

text \<open>A loop that returns from its body at the first element for which the body returns.\<close>

fun first_some :: "('a \<Rightarrow> 'b option) \<Rightarrow> 'a list \<Rightarrow> 'b option" where
  "first_some f [] = None"
| "first_some f (x # xs) = (case f x of Some y \<Rightarrow> Some y | None \<Rightarrow> first_some f xs)"

lemma first_some_None: "first_some f xs = None \<longleftrightarrow> list_all (\<lambda>x. f x = None) xs"
  by (induction xs) (auto split: option.split)

lemma first_some_skip: "list_all (\<lambda>x. f x = None) pre \<Longrightarrow> first_some f (pre @ xs) = first_some f xs"
  by (induction pre) auto

lemma first_some_SomeE:
  assumes "first_some f xs = Some y"
  obtains pre x post where "xs = pre @ x # post" "list_all (\<lambda>x. f x = None) pre" "f x = Some y"
  using assms
proof (induction xs arbitrary: thesis)
  case (Cons x xs)
  show ?case
  proof (cases "f x")
    case None
    with Cons.prems(2) have "first_some f xs = Some y" by simp
    then obtain pre z post where "xs = pre @ z # post" "list_all (\<lambda>x. f x = None) pre" "f z = Some y"
      by (rule Cons.IH [rotated])
    with None show ?thesis by (intro Cons.prems(1) [of "x # pre" z post]) auto
  next
    case (Some a)
    with Cons.prems(2) show ?thesis by (intro Cons.prems(1) [of "[]" x xs]) auto
  qed
qed simp

text \<open>The body of the loop over the container statuses: a waiting container decides.\<close>

definition waiting_verdict :: "container_status \<Rightarrow> (string \<times> string) option" where
  "waiting_verdict cs = (case cst_waiting (cs_state cs) of
       None \<Rightarrow> None
     | Some reason \<Rightarrow> Some
         (if reason = ''ImagePullBackOff'' \<or> reason = ''ErrImagePull''
            then (''Pending'', ''Pulling desktop image'' @ ellipsis)
          else if reason = ''CrashLoopBackOff''
            then (''Failed'', ''A container keeps crashing. Try Restart.'')
          else if reason = ''ContainerCreating'' \<or> reason = ''PodInitializing''
            then (''Pending'', ''Pulling image & starting the desktop (first run can take a minute)'' @ ellipsis)
          else (''Pending'', ''Starting containers'' @ ellipsis)))"

definition provisioning :: "container_status \<Rightarrow> (string \<times> string) option" where
  "provisioning s = (if cs_name s = ''provisioner'' \<and> cst_running (cs_state s)
     then Some (''Pending'', ''Downloading task assets'' @ ellipsis) else None)"

text \<open>The body of the first loop.\<close>

definition pod_verdict :: "pod \<Rightarrow> (string \<times> string) option" where
  "pod_verdict p =
     (if m_deletion_ts (pod_meta p) \<noteq> None then Some (''Pending'', ''Recreating the workspace'' @ ellipsis)
      else case first_some provisioning (pst_init (pod_status_of p)) of Some v \<Rightarrow> Some v
      | None \<Rightarrow> case first_some waiting_verdict (pst_containers (pod_status_of p)) of Some v \<Rightarrow> Some v
      | None \<Rightarrow> if pst_phase (pod_status_of p) = ''Failed'' then Some (''Failed'', ''The lab failed to start. Try Restart.'')
                else if pst_phase (pod_status_of p) \<noteq> ''Running'' then Some (''Pending'', ''Scheduling workspace'' @ ellipsis)
                else None)"

definition unready :: "pod \<Rightarrow> (string \<times> string) option" where
  "unready p = first_some (\<lambda>cs. if \<not> cs_ready cs
     then Some (''Pending'', ''Waiting for the desktop to become ready'' @ ellipsis) else None)
     (pst_containers (pod_status_of p))"

definition computePhase :: "pod list \<Rightarrow> string \<times> string" where
  "computePhase pods =
     (if length pods = 0 then (''Pending'', ''Provisioning lab environment'' @ ellipsis)
      else case first_some pod_verdict pods of Some v \<Rightarrow> v
      | None \<Rightarrow> case first_some unready pods of Some v \<Rightarrow> v
      | None \<Rightarrow> (''Running'', ''Lab ready.''))"

subsection \<open>Specification\<close>

text \<open>A pod that is up: not on its way out, nothing provisioning or waiting, in phase Running.\<close>

definition pod_up :: "pod \<Rightarrow> bool" where
  "pod_up p \<longleftrightarrow> m_deletion_ts (pod_meta p) = None \<and>
     list_all (\<lambda>s. \<not> (cs_name s = ''provisioner'' \<and> cst_running (cs_state s))) (pst_init (pod_status_of p)) \<and>
     list_all (\<lambda>s. cst_waiting (cs_state s) = None) (pst_containers (pod_status_of p)) \<and>
     pst_phase (pod_status_of p) = ''Running''"

definition pod_ready :: "pod \<Rightarrow> bool" where
  "pod_ready p = list_all cs_ready (pst_containers (pod_status_of p))"

text \<open>
  A pod that has failed: not on its way out, not provisioning, and its first waiting container is
  in a crash loop, or none waits and the pod itself is in phase Failed.
\<close>

definition pod_failed :: "pod \<Rightarrow> bool" where
  "pod_failed p \<longleftrightarrow> m_deletion_ts (pod_meta p) = None \<and>
     list_all (\<lambda>s. \<not> (cs_name s = ''provisioner'' \<and> cst_running (cs_state s))) (pst_init (pod_status_of p)) \<and>
     (case filter (\<lambda>s. cst_waiting (cs_state s) \<noteq> None) (pst_containers (pod_status_of p)) of
        s # _ \<Rightarrow> cst_waiting (cs_state s) = Some ''CrashLoopBackOff''
      | [] \<Rightarrow> pst_phase (pod_status_of p) = ''Failed'')"

lemma waiting_verdict_None: "waiting_verdict cs = None \<longleftrightarrow> cst_waiting (cs_state cs) = None"
  by (simp add: waiting_verdict_def split: option.split)

lemma waiting_verdict_phase:
  "waiting_verdict cs = Some v \<Longrightarrow>
     fst v = (if cst_waiting (cs_state cs) = Some ''CrashLoopBackOff'' then ''Failed'' else ''Pending'')"
  by (cases "cst_waiting (cs_state cs)") (auto simp: waiting_verdict_def if_distrib [of fst])

lemma provisioning_None:
  "provisioning s = None \<longleftrightarrow> \<not> (cs_name s = ''provisioner'' \<and> cst_running (cs_state s))"
  by (simp add: provisioning_def)

lemma pod_verdict_None: "pod_verdict p = None \<longleftrightarrow> pod_up p"
proof -
  define i w where "i = first_some provisioning (pst_init (pod_status_of p))"
    and "w = first_some waiting_verdict (pst_containers (pod_status_of p))"
  have "list_all (\<lambda>s. \<not> (cs_name s = ''provisioner'' \<and> cst_running (cs_state s))) (pst_init (pod_status_of p)) \<longleftrightarrow> i = None"
    "list_all (\<lambda>s. cst_waiting (cs_state s) = None) (pst_containers (pod_status_of p)) \<longleftrightarrow> w = None"
    by (simp_all only: i_def w_def first_some_None provisioning_None waiting_verdict_None)
  then show ?thesis
    unfolding pod_verdict_def pod_up_def i_def [symmetric] w_def [symmetric]
    by (cases i; cases w) simp_all
qed

lemma first_waiting:
  "first_some waiting_verdict css =
     (case filter (\<lambda>s. cst_waiting (cs_state s) \<noteq> None) css of [] \<Rightarrow> None | s # _ \<Rightarrow> waiting_verdict s)"
proof (induction css)
  case (Cons s css)
  show ?case
  proof (cases "cst_waiting (cs_state s)")
    case None
    then have "waiting_verdict s = None" by (simp add: waiting_verdict_None)
    with None Cons show ?thesis by simp
  next
    case (Some r)
    then obtain v where "waiting_verdict s = Some v" by (simp add: waiting_verdict_def)
    with Some show ?thesis by simp
  qed
qed simp

lemma provisioning_phase: "first_some provisioning css = Some v \<Longrightarrow> fst v = ''Pending''"
  by (erule first_some_SomeE) (auto simp: provisioning_def split: if_splits)

lemma pod_verdict_phase:
  assumes "pod_verdict p = Some v"
  shows "fst v = (if pod_failed p then ''Failed'' else ''Pending'')"
proof -
  define i where "i = first_some provisioning (pst_init (pod_status_of p))"
  define w where "w = filter (\<lambda>s. cst_waiting (cs_state s) \<noteq> None) (pst_containers (pod_status_of p))"
  have i: "list_all (\<lambda>s. \<not> (cs_name s = ''provisioner'' \<and> cst_running (cs_state s))) (pst_init (pod_status_of p)) \<longleftrightarrow> i = None"
    by (simp only: i_def first_some_None provisioning_None)
  have pf: "pod_failed p \<longleftrightarrow> m_deletion_ts (pod_meta p) = None \<and> i = None \<and>
      (case w of s # _ \<Rightarrow> cst_waiting (cs_state s) = Some ''CrashLoopBackOff''
       | [] \<Rightarrow> pst_phase (pod_status_of p) = ''Failed'')"
    unfolding pod_failed_def i w_def by simp
  have pv: "pod_verdict p =
     (if m_deletion_ts (pod_meta p) \<noteq> None then Some (''Pending'', ''Recreating the workspace'' @ ellipsis)
      else case i of Some v \<Rightarrow> Some v
      | None \<Rightarrow> case (case w of [] \<Rightarrow> None | s # _ \<Rightarrow> waiting_verdict s) of Some v \<Rightarrow> Some v
      | None \<Rightarrow> if pst_phase (pod_status_of p) = ''Failed'' then Some (''Failed'', ''The lab failed to start. Try Restart.'')
                else if pst_phase (pod_status_of p) \<noteq> ''Running'' then Some (''Pending'', ''Scheduling workspace'' @ ellipsis)
                else None)"
    unfolding pod_verdict_def first_waiting i_def w_def by simp
  show ?thesis
  proof (cases "m_deletion_ts (pod_meta p) = None \<and> i = None")
    case False
    with assms show ?thesis
      using provisioning_phase [of "pst_init (pod_status_of p)"] unfolding pv pf i_def [symmetric]
      by (cases i) (auto split: if_splits)
  next
    case True
    show ?thesis
    proof (cases w)
      case Nil
      with True assms show ?thesis unfolding pv pf by (auto split: if_splits)
    next
      case (Cons s ss)
      then have "s \<in> set w" by simp
      then obtain reason where "cst_waiting (cs_state s) = Some reason" by (auto simp: w_def)
      moreover from this obtain u where "waiting_verdict s = Some u" by (simp add: waiting_verdict_def)
      ultimately show ?thesis
        using True Cons assms waiting_verdict_phase [of s u] unfolding pv pf by auto
    qed
  qed
qed

lemma unready_None: "unready p = None \<longleftrightarrow> pod_ready p"
  by (auto simp: unready_def pod_ready_def first_some_None list_all_iff)

lemma unready_phase: "unready p = Some v \<Longrightarrow> fst v = ''Pending''"
  unfolding unready_def by (erule first_some_SomeE) (auto split: if_splits)

lemma computePhase_enum: "fst (computePhase pods) \<in> set session_phases"
proof (cases "first_some pod_verdict pods")
  case (Some v)
  then have "fst v = ''Failed'' \<or> fst v = ''Pending''"
    by (rule first_some_SomeE) (simp add: pod_verdict_phase)
  with Some show ?thesis by (auto simp: computePhase_def session_phases_def)
next
  case None
  show ?thesis
  proof (cases "first_some unready pods")
    case (Some v)
    then have "fst v = ''Pending''" by (rule first_some_SomeE) (simp add: unready_phase)
    with None Some show ?thesis by (simp add: computePhase_def session_phases_def)
  qed (simp add: None computePhase_def session_phases_def)
qed

text \<open>
  C29: the phase is always one of the CRD's enumeration. It is \<open>Running\<close> exactly when there is a
  pod and every pod is up and ready. It is \<open>Failed\<close> exactly when some pod has failed and every
  pod listed before it is up; in every other case it is \<open>Pending\<close>.
\<close>

theorem phase_contract:
  "fst (computePhase pods) \<in> set session_phases \<and>
   (fst (computePhase pods) = ''Running'' \<longleftrightarrow>
      pods \<noteq> [] \<and> list_all (\<lambda>p. pod_up p \<and> pod_ready p) pods) \<and>
   (fst (computePhase pods) = ''Failed'' \<longleftrightarrow>
      (\<exists>pre p post. pods = pre @ p # post \<and> list_all pod_up pre \<and> pod_failed p))"
proof -
  have failed_not_up: "\<not> pod_up p" if "pod_failed p" for p
    using that by (cases "filter (\<lambda>s. cst_waiting (cs_state s) \<noteq> None) (pst_containers (pod_status_of p))")
      (auto simp: pod_up_def pod_failed_def list_all_iff filter_empty_conv dest: filter_eq_ConsD)
  consider (empty) "pods = []" | (stuck) v where "first_some pod_verdict pods = Some v" "pods \<noteq> []"
    | (unready) v where "first_some pod_verdict pods = None" "first_some unready pods = Some v" "pods \<noteq> []"
    | (up) "first_some pod_verdict pods = None" "first_some unready pods = None" "pods \<noteq> []"
    by (cases "first_some pod_verdict pods"; cases "first_some unready pods"; cases pods) auto
  then show ?thesis
  proof cases
    case empty
    then show ?thesis by (simp add: computePhase_def session_phases_def)
  next
    case (stuck v)
    obtain pre p post where p: "pods = pre @ p # post" "list_all pod_up pre" "pod_verdict p = Some v"
      using stuck(1) by (rule first_some_SomeE) (simp add: pod_verdict_None that)
    have "\<not> pod_up p" using p(3) by (simp flip: pod_verdict_None)
    then have "\<not> list_all (\<lambda>p. pod_up p \<and> pod_ready p) pods" using p(1) by simp
    moreover have "pod_failed p \<longleftrightarrow> (\<exists>pre p post. pods = pre @ p # post \<and> list_all pod_up pre \<and> pod_failed p)"
    proof
      assume "\<exists>pre p post. pods = pre @ p # post \<and> list_all pod_up pre \<and> pod_failed p"
      then obtain pre' p' post' where q: "pods = pre' @ p' # post'" "list_all pod_up pre'" "pod_failed p'" by blast
      obtain v' where v': "pod_verdict p' = Some v'"
        using failed_not_up [OF q(3)] by (metis pod_verdict_None option.exhaust)
      then have "v' = v"
        using stuck(1) q(2) first_some_skip [of pod_verdict pre' "p' # post'"]
        by (simp add: q(1) pod_verdict_None)
      then show "pod_failed p"
        using pod_verdict_phase [OF p(3)] pod_verdict_phase [OF v'] q(3) by (simp split: if_splits)
    qed (use p in blast)
    ultimately show ?thesis
      using stuck pod_verdict_phase [OF p(3)] by (simp add: computePhase_def session_phases_def)
  next
    case (unready v)
    obtain q where q: "q \<in> set pods" "unready q = Some v"
      using unready(2) by (rule first_some_SomeE) (rule that, simp_all)
    have "list_all pod_up pods" using unready(1) by (simp add: first_some_None pod_verdict_None)
    moreover have "\<not> pod_ready q" using q(2) by (simp flip: unready_None)
    ultimately show ?thesis
      using unready unready_phase [OF q(2)] q(1) failed_not_up
      by (auto simp: computePhase_def session_phases_def list_all_iff)
  next
    case up
    then have "list_all pod_up pods" "list_all pod_ready pods"
      by (simp_all add: first_some_None pod_verdict_None unready_None)
    then show ?thesis
      using up failed_not_up by (auto simp: computePhase_def session_phases_def list_all_iff)
  qed
qed

end
