(* ===== verification/Session.thy ===== *)
theory Session
  imports Services Phase
begin

section \<open>The LabSession reconciler (labsession\_controller.go)\<close>

text \<open>
  \<open>maybeRestart\<close>, \<open>syncStatus\<close> and \<open>Reconcile\<close>, statement by statement, over the steps of the other
  theories. The Go code mutates one \<open>session\<close> object, which the client overwrites with the
  server's answer at every update: the object is passed along and returned. Durations are in
  nanoseconds.
\<close>

definition sessionFinalizer :: string where "sessionFinalizer = ''core.ctf.school/finalizer''"

record ctrl_result =
  cr_requeue :: bool
  cr_after :: int

definition done_result :: ctrl_result where
  "done_result = \<lparr>cr_requeue = False, cr_after = 0\<rparr>"

definition requeue_after :: "int \<Rightarrow> ctrl_result" where
  "requeue_after d = \<lparr>cr_requeue = False, cr_after = d\<rparr>"

definition Second :: int where "Second = 10 ^ 9"
definition Minute :: int where "Minute = 60 * Second"
definition Hour :: int where "Hour = 60 * Minute"

text \<open>\<open>Time.Sub\<close> saturates at the ends of \<open>int64\<close>.\<close>

definition time_sub :: "int \<Rightarrow> int \<Rightarrow> int" where
  "time_sub t u = max (- (2 ^ 63)) (min (2 ^ 63 - 1) (t - u))"

subsection \<open>In-place restart\<close>

definition restartRequestedAnnotation :: string where
  "restartRequestedAnnotation = ''ctf.school/restart-requested-at''"

definition restartHandledAnnotation :: string where
  "restartHandledAnnotation = ''ctf.school/restart-handled''"

definition restart_pods :: "'w kube \<Rightarrow> pod list \<Rightarrow> ('w kst, unit) prog" where
  "restart_pods K pods = forE pods (\<lambda>p.
     if m_deletion_ts (pod_meta p) = None
     then bindE (attempt (delete K PodKind (m_namespace (pod_meta p)) (m_name (pod_meta p)) (Some labPodGraceSeconds)))
            (\<lambda>_. ret ())
     else ret ())"

definition mark_handled :: "string \<Rightarrow> lab_session \<Rightarrow> goerr + lab_session" where
  "mark_handled requested session =
     (let ann = (case m_annotations (se_meta session) of None \<Rightarrow> Some [] | Some a \<Rightarrow> Some a)
      in bindR (gm_put ann restartHandledAnnotation requested) (\<lambda>ann'.
         Inr (session\<lparr>se_meta := (se_meta session)\<lparr>m_annotations := ann'\<rparr>\<rparr>)))"

definition maybeRestart :: "'w kube \<Rightarrow> lab_session \<Rightarrow> string \<Rightarrow> ('w kst, bool \<times> lab_session) prog" where
  "maybeRestart K session ns =
     (let requested = gm_str (m_annotations (se_meta session)) restartRequestedAnnotation
      in if requested = '''' \<or> requested = gm_str (m_annotations (se_meta session)) restartHandledAnnotation
         then ret (False, session)
         else bindE (list_pods K ns) (\<lambda>pods.
              bindE (restart_pods K pods) (\<lambda>_.
              bindE (liftE (mark_handled requested session)) (\<lambda>session'.
              bindE (update_session K session') (\<lambda>session''.
              ret (True, session''))))))"

subsection \<open>Status\<close>

text \<open>The timers, set once.\<close>

definition init_timers :: "go_env \<Rightarrow> int \<Rightarrow> lab_space \<Rightarrow> lab_session_status \<Rightarrow> lab_session_status \<times> bool" where
  "init_timers G now space st =
     (if st_start_time st = None
      then let ttl = (case parse_duration G (sp_default_ttl (sp_spec space)) of None \<Rightarrow> Hour | Some d \<Rightarrow> d)
           in (st\<lparr>st_start_time := Some now, st_expired_time := Some (now + ttl), st_phase := ''Pending''\<rparr>, True)
      else (st, False))"

definition set_phase :: "string \<times> string \<Rightarrow> lab_session_status \<Rightarrow> lab_session_status \<times> bool" where
  "set_phase v st =
     (if st_phase st \<noteq> fst v \<or> st_message st \<noteq> snd v
      then (st\<lparr>st_phase := fst v, st_message := snd v\<rparr>, True) else (st, False))"

definition workspace_endpoint :: "go_env \<Rightarrow> lab_space \<Rightarrow> lab_session \<Rightarrow> endpoint" where
  "workspace_endpoint G space session =
     \<lparr>ep_service_name = ''workspace'',
      ep_type = (if wc_type (workspace space) = ''VNC'' then ''VNC'' else ''Terminal''),
      ep_address = envDefault G ''CTF_SCHEME'' ''http'' @ ''://'' @ workspaceHostname G session (ctf_domain G)\<rparr>"

fun service_endpoints :: "go_env \<Rightarrow> lab_session \<Rightarrow> lab_service list \<Rightarrow> endpoint list" where
  "service_endpoints G session [] = []"
| "service_endpoints G session (v # vs) =
     (case ls_exposure (sv_spec v) of
        None \<Rightarrow> []
      | Some ex \<Rightarrow> [\<lparr>ep_service_name = sv_name v, ep_type = ex_type ex,
           ep_address = envDefault G ''CTF_SCHEME'' ''http'' @ ''://'' @ service_hostname G (sv_name v) session\<rparr>])
     @ service_endpoints G session vs"

definition new_endpoints :: "go_env \<Rightarrow> lab_space \<Rightarrow> lab_session \<Rightarrow> lab_service list \<Rightarrow> endpoint list" where
  "new_endpoints G space session svcs =
     workspace_endpoint G space session #
       (if \<not> nc_internal_only (network space) then service_endpoints G session svcs else [])"

definition set_endpoints :: "endpoint list \<Rightarrow> lab_session_status \<Rightarrow> lab_session_status \<times> bool" where
  "set_endpoints es st =
     (if length (st_endpoints st) \<noteq> length es then (st\<lparr>st_endpoints := es\<rparr>, True) else (st, False))"

text \<open>The status \<open>syncStatus\<close> arrives at, and whether it differs enough to be written.\<close>

definition next_status ::
  "go_env \<Rightarrow> int \<Rightarrow> lab_space \<Rightarrow> lab_session \<Rightarrow> string \<Rightarrow> lab_service list \<Rightarrow> pod list \<Rightarrow> lab_session_status \<times> bool" where
  "next_status G now space session ns svcs pods =
     (let (st1, c1) = init_timers G now space (se_status session);
          (st2, c2) = set_phase (computePhase pods) st1;
          st3 = st2\<lparr>st_summary := (st_summary st2)\<lparr>sum_namespace := ns\<rparr>\<rparr>;
          (st4, c4) = set_endpoints (new_endpoints G space session svcs) st3
      in (st4, c1 \<or> c2 \<or> c4))"

definition poll_interval :: "lab_session_status \<Rightarrow> int" where
  "poll_interval st = (if st_phase st = ''Running'' then Minute else 2 * Second)"

definition schedule :: "'w kube \<Rightarrow> lab_session_status \<Rightarrow> ('w kst, ctrl_result) prog" where
  "schedule K st =
     (let after = poll_interval st
      in case st_expired_time st of
           None \<Rightarrow> ret (requeue_after after)
         | Some expiry \<Rightarrow> bindE (time_now K) (\<lambda>now.
             let rem = time_sub expiry now
             in ret (requeue_after (if 0 < rem \<and> rem < after then rem else after))))"

definition syncStatus ::
  "go_env \<Rightarrow> 'w kube \<Rightarrow> lab_session \<Rightarrow> string \<Rightarrow> lab_service list \<Rightarrow> lab_space \<Rightarrow> ('w kst, ctrl_result) prog" where
  "syncStatus G K session ns svcs space =
     bindE (time_now K) (\<lambda>now.
     bindE (list_pods K ns) (\<lambda>pods.
     let (st, changed) = next_status G now space session ns svcs pods;
         session' = session\<lparr>se_status := st\<rparr>
     in bindE (if changed then status_update_session K session' else ret session') (\<lambda>session''.
        schedule K (se_status session''))))"

subsection \<open>The reconciliation\<close>

definition reconcile_service ::
  "go_env \<Rightarrow> lib \<Rightarrow> 'w kube \<Rightarrow> string \<Rightarrow> lab_space \<Rightarrow> lab_session \<Rightarrow> lab_service \<Rightarrow> ('w kst, unit) prog" where
  "reconcile_service G L K ns space session v =
     bindE (reconcileServiceResources G L K ns v session) (\<lambda>_.
     if \<not> nc_internal_only (network space) then reconcileRoute G K ns v session else ret ())"

text \<open>Steps 6 and 7: everything after the restart check.\<close>

definition reconcile_resources ::
  "go_env \<Rightarrow> lib \<Rightarrow> 'w kube \<Rightarrow> string \<Rightarrow> lab_space \<Rightarrow> lab_session \<Rightarrow> ('w kst, ctrl_result) prog" where
  "reconcile_resources G L K ns space session =
     bindE (list_services K (case as_selector L (sp_service_selector (sp_spec space)) of
              Inl _ \<Rightarrow> None | Inr s \<Rightarrow> Some s)) (\<lambda>services.
     bindE (reconcileWorkspace G L K ns space session) (\<lambda>_.
     bindE (reconcileWorkspaceRoute G L K ns session) (\<lambda>_.
     bindE (forE services (reconcile_service G L K ns space session)) (\<lambda>_.
     syncStatus G K session ns services space))))"

text \<open>Step 5: the namespace and what isolates it.\<close>

definition setup_namespace ::
  "go_env \<Rightarrow> lib \<Rightarrow> 'w kube \<Rightarrow> string \<Rightarrow> lab_space \<Rightarrow> lab_session \<Rightarrow> ('w kst, unit) prog" where
  "setup_namespace G L K ns space session =
     bindE (ensureNamespace K ns session) (\<lambda>_.
     bindE (ensurePullSecret G L K ns session) (\<lambda>_.
     bindE (ensureResourceQuota K ns space session) (\<lambda>_.
     bindE (ensureLimitRange K ns space session) (\<lambda>_.
     ensureBaselinePolicy L K ns space session))))"

definition reconcile_active ::
  "go_env \<Rightarrow> lib \<Rightarrow> 'w kube \<Rightarrow> lab_space \<Rightarrow> lab_session \<Rightarrow> ('w kst, ctrl_result) prog" where
  "reconcile_active G L K space session =
     (let ns = session_namespace session
      in bindE (setup_namespace G L K ns space session) (\<lambda>_.
         bindE (maybeRestart K session ns) (\<lambda>(restarted, session').
         if restarted then
           let session'' = session'\<lparr>se_status := (se_status session')
                 \<lparr>st_phase := ''Pending'', st_message := ''Restarting lab'' @ ellipsis\<rparr>\<rparr>
           in bindE (attempt (status_update_session K session'')) (\<lambda>_. ret (requeue_after (2 * Second)))
         else reconcile_resources G L K ns space session')))"

definition is_expired :: "'w kube \<Rightarrow> lab_session \<Rightarrow> ('w kst, bool) prog" where
  "is_expired K session = (case st_expired_time (se_status session) of
       None \<Rightarrow> ret False
     | Some expiry \<Rightarrow> bindE (time_now K) (\<lambda>now. ret (expiry < now)))"

text \<open>Steps 2 to 7, for the session that was fetched.\<close>

definition reconcile_fetched ::
  "go_env \<Rightarrow> lib \<Rightarrow> 'w kube \<Rightarrow> lab_session \<Rightarrow> ('w kst, ctrl_result) prog" where
  "reconcile_fetched G L K session =
     (if m_deletion_ts (se_meta session) \<noteq> None then
        if contains_finalizer L (se_meta session) sessionFinalizer then
          bindE (attempt (delete K NamespaceKind '''' (session_namespace session) None)) (\<lambda>_.
          bindE (update_session K (session\<lparr>se_meta := remove_finalizer L (se_meta session) sessionFinalizer\<rparr>)) (\<lambda>_.
          ret done_result))
        else ret done_result
      else if \<not> contains_finalizer L (se_meta session) sessionFinalizer then
        bindE (update_session K (session\<lparr>se_meta := add_finalizer L (se_meta session) sessionFinalizer\<rparr>)) (\<lambda>_.
        ret done_result)
      else
        bindE (get_space K (ss_lab_space_ref (se_spec session))) (\<lambda>space.
        bindE (is_expired K session) (\<lambda>expired.
        if expired then bindE (delete K SessionKind '''' (se_name session) None) (\<lambda>_. ret done_result)
        else reconcile_active G L K space session)))"

definition Reconcile :: "go_env \<Rightarrow> lib \<Rightarrow> 'w kube \<Rightarrow> string \<Rightarrow> ('w kst, ctrl_result) prog" where
  "Reconcile G L K name =
     bindE (attempt (get_session K name)) (\<lambda>r. case r of
       Inl e \<Rightarrow> if is_not_found e then ret done_result else fail e
     | Inr session \<Rightarrow> reconcile_fetched G L K session)"

subsection \<open>Confinement\<close>

lemma mark_handled_name: "mark_handled r s = Inr s' \<Longrightarrow> se_name s' = se_name s"
  by (auto simp: mark_handled_def Let_def bindR_eq_Inr)

lemma restart_pods_emits:
  assumes "list_all (\<lambda>p. m_namespace (pod_meta p) = ns) pods"
  shows "emits (lab_call ns n) (restart_pods K pods)"
  unfolding restart_pods_def
  by (intro emit_intros) (use assms in \<open>auto simp: list_all_iff\<close>)

lemma maybeRestart_emits:
  assumes "keyed K" "se_name s = n"
  shows "emits (lab_call ns n) (maybeRestart K s ns)"
  unfolding maybeRestart_def Let_def
  apply (intro emits_if emits_ret emits_bind_yields [OF _ keyed_yields(4) [OF assms(1)]])
   apply (intro emit_intros; simp)
  apply (rule emits_bind, rule restart_pods_emits, assumption)
  apply (rule emits_bind_yields [where R = "\<lambda>s. se_name s = n"])
    apply (rule emits_liftE)
   apply (rule yields_liftE, simp add: mark_handled_name assms(2))
  apply (intro emit_intros; simp)
  done

lemma maybeRestart_yields:
  assumes "keyed K" "se_name s = n"
  shows "yields (\<lambda>(b, s'). se_name s' = n) (maybeRestart K s ns)"
  unfolding maybeRestart_def Let_def
  apply (intro yields_if yields_ret)
   apply (simp add: assms(2))
  apply (rule yields_bind, rule yields_bind)
  apply (rule yields_bind2 [where Q = "\<lambda>s. se_name s = n"])
   apply (rule yields_liftE, simp add: mark_handled_name assms(2))
  apply (rule yields_bind2 [OF keyed_yields(5) [OF assms(1)]])
  apply (intro yields_ret, simp)
  done

lemma syncStatus_emits: "se_name s = n \<Longrightarrow> emits (lab_call ns n) (syncStatus G K s ns svcs space)"
  unfolding syncStatus_def schedule_def Let_def
  by (auto split: prod.splits intro!: emit_intros)

lemma setup_namespace_emits:
  "lib_ok L \<Longrightarrow> keyed K \<Longrightarrow> emits (lab_call ns n) (setup_namespace G L K ns space s)"
  unfolding setup_namespace_def by (intro emit_intros)

lemma reconcile_service_emits: "lib_ok L \<Longrightarrow> emits (lab_call ns n) (reconcile_service G L K ns space s v)"
  unfolding reconcile_service_def by (intro emit_intros)

lemma reconcile_resources_emits:
  "lib_ok L \<Longrightarrow> se_name s = n \<Longrightarrow> emits (lab_call ns n) (reconcile_resources G L K ns space s)"
  unfolding reconcile_resources_def
  by (intro emit_intros reconcile_service_emits syncStatus_emits) simp_all

lemma reconcile_active_emits:
  assumes "lib_ok L" "keyed K" "se_name s = n"
  shows "emits (lab_call (session_namespace s) n) (reconcile_active G L K space s)"
  unfolding reconcile_active_def Let_def
  apply (rule emits_bind, rule setup_namespace_emits [OF assms(1,2)])
  apply (rule emits_bind_yields [OF maybeRestart_emits [OF assms(2,3)] maybeRestart_yields [OF assms(2,3)]])
  subgoal for _ r
    by (cases r) (auto intro!: emit_intros reconcile_resources_emits assms)
  done

lemma reconcile_fetched_emits:
  assumes "lib_ok L" "keyed K" "se_name s = n"
  shows "emits (lab_call (session_namespace s) n) (reconcile_fetched G L K s)"
proof -
  have fin: "se_name (s\<lparr>se_meta := remove_finalizer L (se_meta s) f\<rparr>) = n"
    "se_name (s\<lparr>se_meta := add_finalizer L (se_meta s) f\<rparr>) = n" for f
    using assms(3) by (simp_all add: lib_okD(2,3) [OF assms(1)])
  show ?thesis
    unfolding reconcile_fetched_def is_expired_def
    apply (intro emits_if emits_bind emits_attempt emits_ret emits_case_option emits_update_session
        emits_calls reconcile_active_emits assms)
        apply (simp_all only: lab_call.simps kobj.case fin)
      apply (simp_all add: assms(3))
    done
qed

lemma Reconcile_emits:
  assumes "lib_ok L" "keyed K"
  shows "emits (lab_call (''lab-session-'' @ name) name) (Reconcile G L K name)"
  unfolding Reconcile_def
proof (rule emits_bind_yields [OF _ yields_attempt [OF keyed_yields(1) [OF assms(2)]]])
  show "emits (lab_call (''lab-session-'' @ name) name) (attempt (get_session K name))"
    by (intro emit_intros) simp
next
  fix r :: "goerr + lab_session" assume r: "case_sum (\<lambda>_. True) (\<lambda>x. se_name x = name) r"
  then show "emits (lab_call (''lab-session-'' @ name) name) (case r of
       Inl e \<Rightarrow> if is_not_found e then ret done_result else fail e
     | Inr session \<Rightarrow> reconcile_fetched G L K session)"
    using reconcile_fetched_emits [OF assms, of _ name G]
    by (cases r) (auto intro: emit_intros simp: session_namespace_def)
qed

text \<open>
  C1: whatever the cluster answers, fails at, or changes in between, every call of a
  reconciliation of the session \<open>name\<close> is one the contract allows. Reads: that session, its own
  namespace \<open>lab-session-<name>\<close>, pods and secrets there, lists of pods there only, and the templates,
  which belong to no session (LabSpaces, LabServices, Tasks). Writes: only to that namespace and
  to that session; it creates only hardened pods, never updates a pod, deletes only the
  namespace, the session, and pods and policies in the namespace, and every \<open>CreateOrUpdate\<close>
  carries a mutate function that settles and keeps the key.
\<close>

theorem reconcile_confined:
  assumes "lib_ok L" "keyed K" "Reconcile G L K name s = (r, s')"
  shows "\<exists>new. calls s' = calls s @ new \<and> list_all (lab_call (''lab-session-'' @ name) name) new"
  by (rule emitsD [OF Reconcile_emits [OF assms(1,2)] assms(3)])

definition live_session :: lab_session where
  "live_session = (named_session ''lab-t3-c1'' ''t3'')\<lparr>se_meta :=
     (new_meta ''lab-t3-c1'' '''')\<lparr>m_finalizers := [sessionFinalizer]\<rparr>\<rparr>"

definition idle_ctf :: ctf_task where
  "idle_ctf = \<lparr>ct_meta = new_meta ''t'' ''n'', ct_spec = \<lparr>ct_image = '''', ct_port = 80, ct_student_id = '''',
     ct_duration = ''1h'', ct_flag_config = \<lparr>fc_format = ''CTF{%s}'', fc_scope = '''', fc_length = 0\<rparr>\<rparr>,
     ct_status = \<lparr>ts_phase = '''', ts_message = '''', ts_endpoint = '''', ts_expiry_time = None,
       ts_solved_at = None, ts_conditions = []\<rparr>\<rparr>"

abbreviation live_kube :: "nat kube" where
  "live_kube \<equiv> sample_kube live_session sample_space [sample_service] idle_ctf"

theorem reconcile_confined_witness:
  "\<exists>r s' new. Reconcile sample_env sample_lib live_kube ''lab-t3-c1'' \<lparr>outside = 0, calls = []\<rparr> = (r, s') \<and>
     calls s' = new \<and> list_all (lab_call ''lab-session-lab-t3-c1'' ''lab-t3-c1'') new"
proof -
  obtain r s' where run: "Reconcile sample_env sample_lib live_kube ''lab-t3-c1'' \<lparr>outside = 0, calls = []\<rparr> = (r, s')"
    by fastforce
  from reconcile_confined [OF sample_lib_ok sample_kube_keyed run] run show ?thesis by auto
qed

subsection \<open>Isolation comes before execution\<close>

fun created_pod_ns :: "event \<Rightarrow> string option" where
  "created_pod_ns (EvCreate (KPod p) ok) = Some (m_namespace (pod_meta p))"
| "created_pod_ns _ = None"

fun baseline_written :: "string \<Rightarrow> event \<Rightarrow> bool" where
  "baseline_written ns (EvCreateOrUpdate (KCilium c) f ok) =
     (ok \<and> m_name (cnp_meta c) = ''lab-baseline'' \<and> m_namespace (cnp_meta c) = ns)"
| "baseline_written ns _ = False"

text \<open>On a list of calls, newest first: every pod is created after the policy of its namespace.\<close>

fun isolated_rev :: "event list \<Rightarrow> bool" where
  "isolated_rev [] = True"
| "isolated_rev (e # earlier) =
     ((case created_pod_ns e of None \<Rightarrow> True | Some ns \<Rightarrow> list_ex (baseline_written ns) earlier) \<and>
      isolated_rev earlier)"

definition pods_after_policy :: "event list \<Rightarrow> bool" where
  "pods_after_policy log = isolated_rev (rev log)"

lemma pods_after_policy_simps [simp]:
  "pods_after_policy []"
  "pods_after_policy (log @ [e]) \<longleftrightarrow>
     (case created_pod_ns e of None \<Rightarrow> True | Some ns \<Rightarrow> list_ex (baseline_written ns) log) \<and> pods_after_policy log"
  by (auto simp: pods_after_policy_def list_ex_iff split: option.split)

abbreviation no_pod :: "event \<Rightarrow> bool" where
  "no_pod e \<equiv> created_pod_ns e = None"

lemma no_pod_steps:
  "emits no_pod (ensureNamespace K ns owner)"
  "emits no_pod (ensurePullSecret G L K ns owner)"
  "emits no_pod (ensureResourceQuota K ns space owner)"
  "emits no_pod (ensureLimitRange K ns space owner)"
  "emits no_pod (delete_if_present K k ns n)"
  unfolding ensureNamespace_def ensurePullSecret_def ensureResourceQuota_def ensureLimitRange_def Let_def
  by (intro emit_intros; simp)+

lemma lab_call_pod_ns: "lab_call ns n e \<Longrightarrow> created_pod_ns e = Some ns' \<Longrightarrow> ns' = ns"
  by (cases e rule: created_pod_ns.cases) auto

definition policy_in_place :: "string \<Rightarrow> event list \<Rightarrow> bool" where
  "policy_in_place ns log \<longleftrightarrow> pods_after_policy log \<and> list_ex (baseline_written ns) log"

lemma before_policy:
  assumes "emits no_pod m"
  shows "triple (\<lambda>s. pods_after_policy (calls s)) m (\<lambda>_ s. pods_after_policy (calls s)) (\<lambda>s. pods_after_policy (calls s))"
  by (rule emits_triple [OF assms]) simp

lemma under_policy:
  assumes "emits (lab_call ns n) m"
  shows "triple (\<lambda>s. policy_in_place ns (calls s)) m (\<lambda>_ s. policy_in_place ns (calls s)) (\<lambda>s. pods_after_policy (calls s))"
proof (rule triple_conseq [OF emits_triple [where I = "policy_in_place ns", OF assms]])
  show "policy_in_place ns (log @ [e])" if "policy_in_place ns log" "lab_call ns n e" for log e
    using that lab_call_pod_ns [OF that(2)] by (auto simp: policy_in_place_def split: option.split)
qed (auto simp: policy_in_place_def)

lemma ensureBaselinePolicy_isolates:
  "triple (\<lambda>s. pods_after_policy (calls s)) (ensureBaselinePolicy L K ns space session)
     (\<lambda>_ s. policy_in_place ns (calls s)) (\<lambda>s. pods_after_policy (calls s))"
  unfolding ensureBaselinePolicy_def create_or_update_def
  by (rule triple_bind [OF before_policy [OF no_pod_steps(5)]], rule triple_call)
    (simp_all add: policy_in_place_def new_cilium_def)

lemma setup_namespace_isolates:
  "triple (\<lambda>s. pods_after_policy (calls s)) (setup_namespace G L K ns space session)
     (\<lambda>_ s. policy_in_place ns (calls s)) (\<lambda>s. pods_after_policy (calls s))"
  unfolding setup_namespace_def
  by (intro triple_bind [OF before_policy] no_pod_steps ensureBaselinePolicy_isolates)

lemma reconcile_active_isolates:
  assumes "lib_ok L" "keyed K"
  shows "triple (\<lambda>s. pods_after_policy (calls s)) (reconcile_active G L K space session)
     (\<lambda>_ s. pods_after_policy (calls s)) (\<lambda>s. pods_after_policy (calls s))"
proof -
  let ?ns = "session_namespace session"
  define rest where "rest = (\<lambda>(restarted, session').
         if restarted then
           let session'' = session'\<lparr>se_status := (se_status session')
                 \<lparr>st_phase := ''Pending'', st_message := ''Restarting lab'' @ ellipsis\<rparr>\<rparr>
           in bindE (attempt (status_update_session K session'')) (\<lambda>_. ret (requeue_after (2 * Second)))
         else reconcile_resources G L K ?ns space session')"
  have "emits (lab_call ?ns (se_name session)) (bindE (maybeRestart K session ?ns) rest)"
    apply (rule emits_bind_yields [OF maybeRestart_emits [OF assms(2) refl] maybeRestart_yields [OF assms(2) refl]])
    subgoal for r
      by (cases r) (auto simp: rest_def Let_def intro!: emit_intros reconcile_resources_emits assms)
    done
  from under_policy [OF this] have "triple (\<lambda>s. policy_in_place ?ns (calls s)) (bindE (maybeRestart K session ?ns) rest)
      (\<lambda>_ s. pods_after_policy (calls s)) (\<lambda>s. pods_after_policy (calls s))"
    by (rule triple_conseq) (auto simp: policy_in_place_def)
  then show ?thesis
    unfolding reconcile_active_def Let_def rest_def
    by (intro triple_bind [OF setup_namespace_isolates])
qed

text \<open>
  C2: a pod never runs without its walls. In any reconciliation, whatever fails or changes on
  the way, a pod is created in a namespace only after the baseline network policy of that very
  namespace has been written successfully in the same reconciliation.
\<close>

theorem pods_only_behind_baseline_policy:
  assumes "lib_ok L" "keyed K"
  shows "pods_after_policy (calls (snd (Reconcile G L K name \<lparr>outside = w, calls = []\<rparr>)))"
proof -
  let ?I = "\<lambda>s :: 'a kst. pods_after_policy (calls s)"
  have fetched: "triple ?I (reconcile_fetched G L K session) (\<lambda>_. ?I) ?I" for session
  proof (cases "m_deletion_ts (se_meta session) = None \<and> contains_finalizer L (se_meta session) sessionFinalizer")
    case False
    have "emits no_pod (reconcile_fetched G L K session)"
      using False unfolding reconcile_fetched_def by (auto intro!: emit_intros)
    then show ?thesis by (rule before_policy)
  next
    case True
    have exp: "emits no_pod (is_expired K session)" "emits no_pod (get_space K n)"
      "emits no_pod (bindE (delete K SessionKind '''' m None) (\<lambda>_. ret done_result))" for n m
      unfolding is_expired_def by (intro emit_intros; simp)+
    have "triple ?I (if expired then bindE (delete K SessionKind '''' (se_name session) None) (\<lambda>_. ret done_result)
        else reconcile_active G L K space session) (\<lambda>_. ?I) ?I" for expired space
      using before_policy [OF exp(3)] reconcile_active_isolates [OF assms] by simp
    then show ?thesis
      using True unfolding reconcile_fetched_def
      by (simp add: triple_bind [OF before_policy [OF exp(2)]] triple_bind [OF before_policy [OF exp(1)]])
  qed
  have "emits no_pod (attempt (get_session K name))" by (intro emit_intros) simp
  moreover have "triple ?I (case r of Inl e \<Rightarrow> if is_not_found e then ret done_result else fail e
     | Inr session \<Rightarrow> reconcile_fetched G L K session) (\<lambda>_. ?I) ?I" for r :: "goerr + lab_session"
    by (cases r) (auto intro: fetched triple_intros)
  ultimately have "triple ?I (Reconcile G L K name) (\<lambda>_. ?I) ?I"
    unfolding Reconcile_def by (intro triple_bind [OF before_policy])
  then show ?thesis by (rule triple_final) simp
qed

theorem pods_only_behind_baseline_policy_witness:
  "pods_after_policy (calls (snd (Reconcile sample_env sample_lib live_kube ''lab-t3-c1'' \<lparr>outside = 0, calls = []\<rparr>)))"
  by (rule pods_only_behind_baseline_policy [OF sample_lib_ok sample_kube_keyed])

end
