(* ===== verification/Lifecycle.thy ===== *)
theory Lifecycle
  imports Session
begin

section \<open>The life of a session (labsession\_controller.go)\<close>

text \<open>
  What a reconciliation does at each stage of a session's life: registering the finalizer,
  building, restarting in place, keeping the status, expiring, and cleaning up.
\<close>

subsection \<open>Stages\<close>

fun builds :: "event \<Rightarrow> bool" where
  "builds (EvCreate ob ok) = True"
| "builds (EvCreateOrUpdate ob f ok) = True"
| "builds _ = False"

text \<open>
  A session that may be built: fetched, not being deleted, its finalizer registered, its LabSpace
  readable, and not expired by the clock read after that.
\<close>

definition buildable :: "lib \<Rightarrow> 'w kube \<Rightarrow> string \<Rightarrow> 'w \<Rightarrow> bool" where
  "buildable L K name w = (case k_get_session K name w of
       (Inr session, w1) \<Rightarrow>
         m_deletion_ts (se_meta session) = None \<and> contains_finalizer L (se_meta session) sessionFinalizer \<and>
         (case k_get_space K (ss_lab_space_ref (se_spec session)) w1 of
            (Inr space, w2) \<Rightarrow> (case st_expired_time (se_status session) of None \<Rightarrow> True | Some t \<Rightarrow> fst (k_now K w2) \<le> t)
          | (Inl e, w2) \<Rightarrow> False)
     | (Inl e, w1) \<Rightarrow> False)"

lemma not_live_builds_nothing:
  assumes "\<not> (m_deletion_ts (se_meta session) = None \<and> contains_finalizer L (se_meta session) sessionFinalizer)"
  shows "emits (\<lambda>e. \<not> builds e) (reconcile_fetched G L K session)"
  using assms unfolding reconcile_fetched_def by (auto intro!: emit_intros)

text \<open>
  C3: nothing is built for a session that must not be: if any object was created or
  reconciled, the fetched session carried its finalizer (so its namespace will be cleaned up),
  was not being deleted, its LabSpace could be read, and it had not expired.
\<close>

theorem builds_only_if_buildable:
  assumes "list_ex builds (calls (snd (Reconcile G L K name \<lparr>outside = w, calls = []\<rparr>)))"
  shows "buildable L K name w"
proof -
  obtain r w1 where get: "k_get_session K name w = (r, w1)" by fastforce
  let ?s1 = "\<lparr>outside = w1, calls = [EvGet SessionKind '''' name (succeeded r)]\<rparr>"
  have s1: "get_session K name \<lparr>outside = w, calls = []\<rparr> = (r, ?s1)"
    by (simp add: get_session_def call_def get)
  show ?thesis
  proof (cases r)
    case (Inl e)
    with assms s1 show ?thesis by (auto simp: Reconcile_def run_simps attempt_def split: if_splits)
  next
    case (Inr session)
    have run: "Reconcile G L K name \<lparr>outside = w, calls = []\<rparr> = reconcile_fetched G L K session ?s1"
      using s1 Inr by (simp add: Reconcile_def run_simps attempt_def)
    show ?thesis
    proof (cases "m_deletion_ts (se_meta session) = None \<and> contains_finalizer L (se_meta session) sessionFinalizer")
      case False
      obtain r2 s2 where r2: "reconcile_fetched G L K session ?s1 = (r2, s2)" by fastforce
      from emitsD [OF not_live_builds_nothing [OF False] r2]
      obtain es where "calls s2 = calls ?s1 @ es" "list_all (\<lambda>e. \<not> builds e) es" by blast
      then have "\<not> list_ex builds (calls s2)" by (auto simp: list_all_iff list_ex_iff)
      with assms run r2 show ?thesis by simp
    next
      case True
      obtain q w2 where sp: "k_get_space K (ss_lab_space_ref (se_spec session)) w1 = (q, w2)" by fastforce
      show ?thesis
      proof (cases q)
        case (Inl e)
        with assms run True sp show ?thesis
          by (simp add: reconcile_fetched_def run_simps get_space_def call_def)
      next
        case (Inr space)
        have "fst (k_now K w2) \<le> t" if t: "st_expired_time (se_status session) = Some t" for t
        proof (rule ccontr)
          assume "\<not> fst (k_now K w2) \<le> t"
          moreover obtain now w3 where "k_now K w2 = (now, w3)" by fastforce
          moreover obtain d w4 where "k_delete K SessionKind '''' (se_name session) None w3 = (d, w4)" by fastforce
          ultimately show False
            using assms run True sp Inr t
            by (cases d) (simp_all add: reconcile_fetched_def run_simps get_space_def call_def is_expired_def
                time_now_def delete_def)
        qed
        with True sp Inr get \<open>r = Inr session\<close> show ?thesis
          by (auto simp: buildable_def split: option.split)
      qed
    qed
  qed
qed

text \<open>
  C10: cleaning up. For a session being deleted that carries the finalizer, the reconciliation
  makes exactly three calls: it reads the session, asks to delete the namespace
  \<open>lab-session-<name>\<close>, and writes the session back with the finalizer removed and nothing else
  changed. It reports success only if that write succeeded, but whether the deletion of the
  namespace succeeded plays no part. Without the finalizer it only reads.
\<close>

theorem deletion_path:
  assumes "lib_ok L" "plain_errors K" "k_get_session K name w = (Inr session, w1)"
    and "m_deletion_ts (se_meta session) \<noteq> None"
  shows "if sessionFinalizer \<in> set (m_finalizers (se_meta session)) then
      (\<exists>okD okU. calls (snd (Reconcile G L K name \<lparr>outside = w, calls = []\<rparr>)) =
         [EvGet SessionKind '''' name True,
          EvDelete NamespaceKind '''' (''lab-session-'' @ se_name session) None okD,
          EvUpdate (KSession (session\<lparr>se_meta := (se_meta session)\<lparr>m_finalizers :=
            removeAll sessionFinalizer (m_finalizers (se_meta session))\<rparr>\<rparr>)) okU] \<and>
         (case fst (Reconcile G L K name \<lparr>outside = w, calls = []\<rparr>) of Inl e \<Rightarrow> True | Inr x \<Rightarrow> okU \<and> x = done_result))
    else Reconcile G L K name \<lparr>outside = w, calls = []\<rparr> =
      (Inr done_result, \<lparr>outside = w1, calls = [EvGet SessionKind '''' name True]\<rparr>)"
proof -
  let ?s1 = "\<lparr>outside = w1, calls = [EvGet SessionKind '''' name True]\<rparr>"
  have run: "Reconcile G L K name \<lparr>outside = w, calls = []\<rparr> = reconcile_fetched G L K session ?s1"
    by (simp add: Reconcile_def run_simps attempt_def get_session_def call_def assms(3))
  show ?thesis
  proof (cases "sessionFinalizer \<in> set (m_finalizers (se_meta session))")
    case True
    obtain d w2 where d: "k_delete K NamespaceKind '''' (session_namespace session) None w1 = (d, w2)" by fastforce
    let ?s' = "session\<lparr>se_meta := (se_meta session)\<lparr>m_finalizers :=
        removeAll sessionFinalizer (m_finalizers (se_meta session))\<rparr>\<rparr>"
    obtain u w3 where u: "k_update K (KSession ?s') w2 = (u, w3)" by fastforce
    have att: "attempt (delete K NamespaceKind '''' (session_namespace session) None) ?s1 =
        (Inr d, \<lparr>outside = w2, calls = [EvGet SessionKind '''' name True,
           EvDelete NamespaceKind '''' (session_namespace session) None (succeeded d)]\<rparr>)"
      using attempt_delete [OF assms(2), of NamespaceKind "''''" "session_namespace session" None ?s1 d w2] d by simp
    have fin: "contains_finalizer L (se_meta session) sessionFinalizer" using True lib_okD(1) [OF assms(1)] by simp
    have rm: "session\<lparr>se_meta := remove_finalizer L (se_meta session) sessionFinalizer\<rparr> = ?s'"
      by (simp add: lib_okD(3) [OF assms(1)])
    show ?thesis
    proof (cases u)
      case (Inl e)
      then show ?thesis
        using True assms(4) fin att u
        by (auto simp: run reconcile_fetched_def rm run_simps update_session_def update_def call_def session_namespace_def)
    next
      case (Inr ob)
      then show ?thesis
        using True assms(4) fin att u
        by (cases ob) (auto simp: run reconcile_fetched_def rm run_simps update_session_def update_def call_def
            session_namespace_def)
    qed
  next
    case False
    then show ?thesis
      using assms(4) by (simp add: run reconcile_fetched_def lib_okD(1) [OF assms(1)] run_simps)
  qed
qed

definition leaving_session :: lab_session where
  "leaving_session = live_session\<lparr>se_meta := (se_meta live_session)\<lparr>m_deletion_ts := Some 5\<rparr>\<rparr>"

theorem deletion_path_witness:
  "\<exists>okD okU s'. calls (snd (Reconcile sample_env sample_lib
       (sample_kube leaving_session sample_space [] idle_ctf) ''lab-t3-c1'' \<lparr>outside = 0, calls = []\<rparr>)) =
     [EvGet SessionKind '''' ''lab-t3-c1'' True,
      EvDelete NamespaceKind '''' ''lab-session-lab-t3-c1'' None okD, EvUpdate (KSession s') okU] \<and>
     m_finalizers (se_meta s') = []"
proof -
  have get: "k_get_session (sample_kube leaving_session sample_space [] idle_ctf) ''lab-t3-c1'' 0 = (Inr leaving_session, 0)"
    by (simp add: sample_kube_def leaving_session_def live_session_def)
  have "m_deletion_ts (se_meta leaving_session) \<noteq> None" by (simp add: leaving_session_def)
  note path = deletion_path [OF sample_lib_ok sample_kube_plain get this, of sample_env]
  have "sessionFinalizer \<in> set (m_finalizers (se_meta leaving_session))"
    by (simp add: leaving_session_def live_session_def)
  with path obtain okD okU where path: "calls (snd (Reconcile sample_env sample_lib
       (sample_kube leaving_session sample_space [] idle_ctf) ''lab-t3-c1'' \<lparr>outside = 0, calls = []\<rparr>)) =
     [EvGet SessionKind '''' ''lab-t3-c1'' True,
      EvDelete NamespaceKind '''' (''lab-session-'' @ se_name leaving_session) None okD,
      EvUpdate (KSession (leaving_session\<lparr>se_meta := (se_meta leaving_session)\<lparr>m_finalizers :=
            removeAll sessionFinalizer (m_finalizers (se_meta leaving_session))\<rparr>\<rparr>)) okU]"
    by auto
  moreover have "se_name leaving_session = ''lab-t3-c1''"
    "removeAll sessionFinalizer (m_finalizers (se_meta leaving_session)) = []"
    by (simp_all add: leaving_session_def live_session_def)
  ultimately show ?thesis by (intro exI conjI) (simp, simp)
qed

text \<open>
  C11: expiry. For a live session whose LabSpace can be read and whose expiry instant lies before
  the clock's reading, the reconciliation does nothing but ask to delete the session. But the
  LabSpace is read first: if that read fails, the reconciliation ends with its error after two
  reads, whatever the expiry instant says, so a session whose LabSpace is gone never expires.
\<close>

theorem expiry_path:
  assumes "k_get_session K name w = (Inr session, w1)"
    and "m_deletion_ts (se_meta session) = None" "contains_finalizer L (se_meta session) sessionFinalizer"
    and "st_expired_time (se_status session) = Some t"
  shows "case k_get_space K (ss_lab_space_ref (se_spec session)) w1 of
      (Inl e, w2) \<Rightarrow> Reconcile G L K name \<lparr>outside = w, calls = []\<rparr> =
        (Inl e, \<lparr>outside = w2, calls = [EvGet SessionKind '''' name True,
           EvGet SpaceKind '''' (ss_lab_space_ref (se_spec session)) False]\<rparr>)
    | (Inr space, w2) \<Rightarrow>
        t < fst (k_now K w2) \<longrightarrow>
        (\<exists>ok. calls (snd (Reconcile G L K name \<lparr>outside = w, calls = []\<rparr>)) =
           [EvGet SessionKind '''' name True, EvGet SpaceKind '''' (ss_lab_space_ref (se_spec session)) True, EvNow,
            EvDelete SessionKind '''' (se_name session) None ok])"
proof -
  let ?s1 = "\<lparr>outside = w1, calls = [EvGet SessionKind '''' name True]\<rparr>"
  have run: "Reconcile G L K name \<lparr>outside = w, calls = []\<rparr> = reconcile_fetched G L K session ?s1"
    by (simp add: Reconcile_def run_simps attempt_def get_session_def call_def assms(1))
  obtain q w2 where sp: "k_get_space K (ss_lab_space_ref (se_spec session)) w1 = (q, w2)" by fastforce
  show ?thesis
  proof (cases q)
    case (Inl e)
    then show ?thesis
      using assms(2,3) sp by (simp add: run reconcile_fetched_def run_simps get_space_def call_def)
  next
    case (Inr space)
    obtain now w3 where now: "k_now K w2 = (now, w3)" by fastforce
    obtain d w4 where d: "k_delete K SessionKind '''' (se_name session) None w3 = (d, w4)" by fastforce
    show ?thesis
    proof (cases "now \<le> t")
      case False
      then show ?thesis
        using assms(2-4) sp Inr now d
        by (cases d) (auto simp: run reconcile_fetched_def run_simps get_space_def call_def is_expired_def
            time_now_def delete_def)
    qed (simp add: sp Inr now)
  qed
qed

definition orphan_session :: lab_session where
  "orphan_session = live_session\<lparr>se_spec := \<lparr>ss_user_id = ''t3'', ss_lab_space_ref = ''gone''\<rparr>,
     se_status := (se_status live_session)\<lparr>st_expired_time := Some (- 1)\<rparr>\<rparr>"

theorem expiry_path_witness:
  "Reconcile sample_env sample_lib (sample_kube orphan_session sample_space [] idle_ctf) ''lab-t3-c1''
       \<lparr>outside = 0, calls = []\<rparr> =
     (Inl (ApiErr NotFound ''not found''), \<lparr>outside = 0, calls =
        [EvGet SessionKind '''' ''lab-t3-c1'' True, EvGet SpaceKind '''' ''gone'' False]\<rparr>)"
proof -
  have get: "k_get_session (sample_kube orphan_session sample_space [] idle_ctf) ''lab-t3-c1'' 0 = (Inr orphan_session, 0)"
    by (simp add: sample_kube_def orphan_session_def live_session_def)
  have pre: "m_deletion_ts (se_meta orphan_session) = None"
    "contains_finalizer sample_lib (se_meta orphan_session) sessionFinalizer"
    "st_expired_time (se_status orphan_session) = Some (- 1)"
    by (simp_all add: orphan_session_def live_session_def sample_lib_def)
  have ref: "ss_lab_space_ref (se_spec orphan_session) = ''gone''" by (simp add: orphan_session_def)
  have gone: "k_get_space (sample_kube orphan_session sample_space [] idle_ctf) ''gone'' 0 =
      (Inl (ApiErr NotFound ''not found''), 0)"
    by (simp add: sample_kube_def sample_space_def missing_def)
  from expiry_path [OF get pre, of sample_env] show ?thesis by (simp add: ref gone)
qed

text \<open>A cluster that refuses every deletion, so that the reconciliation stops early.\<close>

abbreviation stuck_kube :: "nat kube" where
  "stuck_kube \<equiv> live_kube\<lparr>k_delete := (\<lambda>k ns n g w. (Inl (ApiErr OtherReason ''refused''), w))\<rparr>"

theorem builds_only_if_buildable_witness:
  "buildable sample_lib stuck_kube ''lab-t3-c1'' 0"
proof (rule builds_only_if_buildable)
  have get: "k_get_session stuck_kube ''lab-t3-c1'' 0 = (Inr live_session, 0)"
    by (simp add: sample_kube_def live_session_def)
  have ref: "ss_lab_space_ref (se_spec live_session) = ''web101''"
    "m_deletion_ts (se_meta live_session) = None" "contains_finalizer sample_lib (se_meta live_session) sessionFinalizer"
    "st_expired_time (se_status live_session) = None"
    by (simp_all add: live_session_def named_session_def sample_lib_def)
  have space: "k_get_space stuck_kube ''web101'' 0 = (Inr sample_space, 0)"
    by (simp add: sample_kube_def sample_space_def)
  have quota: "ensureResourceQuota stuck_kube ns sample_space live_session = ret ()"
    "ensureLimitRange stuck_kube ns sample_space live_session = ret ()" for ns
    by (simp_all add: ensureResourceQuota_def ensureLimitRange_def quota_hard_def sample_space_def)
  have pull: "ensurePullSecret sample_env sample_lib stuck_kube ns live_session = ret ()" for ns
    by (simp add: ensurePullSecret_def registryPullConfig_def sample_env_def)
  have ns: "\<exists>ob. ensureNamespace stuck_kube n live_session s =
      (Inr (), s\<lparr>calls := calls s @ [EvGet NamespaceKind '''' n False, EvCreate ob True]\<rparr>)" for n s
    by (auto simp: ensureNamespace_def get_namespace_def create_def call_def attempt_def run_simps sample_kube_def missing_def)
  have base: "\<exists>e. ensureBaselinePolicy sample_lib stuck_kube n sample_space live_session s =
      (Inl (ApiErr OtherReason ''refused''), s\<lparr>calls := calls s @ [e]\<rparr>)" for n s
    by (auto simp: ensureBaselinePolicy_def delete_if_present_def delete_def call_def attempt_def run_simps)
  let ?s2 = "\<lparr>outside = 0, calls = [EvGet SessionKind '''' ''lab-t3-c1'' True, EvGet SpaceKind '''' ''web101'' True]\<rparr>"
  have "Reconcile sample_env sample_lib stuck_kube ''lab-t3-c1'' \<lparr>outside = 0, calls = []\<rparr> =
      reconcile_active sample_env sample_lib stuck_kube sample_space live_session ?s2"
    using ref get space
    by (simp add: Reconcile_def reconcile_fetched_def is_expired_def run_simps attempt_def get_session_def get_space_def call_def)
  moreover obtain ob where "ensureNamespace stuck_kube (session_namespace live_session) live_session ?s2 =
      (Inr (), \<lparr>outside = 0, calls = calls ?s2 @ [EvGet NamespaceKind '''' (session_namespace live_session) False, EvCreate ob True]\<rparr>)"
    using ns [of "session_namespace live_session" ?s2] by auto
  moreover obtain e where "ensureBaselinePolicy sample_lib stuck_kube (session_namespace live_session) sample_space live_session
       \<lparr>outside = 0, calls = calls ?s2 @ [EvGet NamespaceKind '''' (session_namespace live_session) False, EvCreate ob True]\<rparr> =
      (Inl (ApiErr OtherReason ''refused''), \<lparr>outside = 0, calls = (calls ?s2 @
         [EvGet NamespaceKind '''' (session_namespace live_session) False, EvCreate ob True]) @ [e]\<rparr>)"
    using base [of "session_namespace live_session" "\<lparr>outside = 0, calls = calls ?s2 @
         [EvGet NamespaceKind '''' (session_namespace live_session) False, EvCreate ob True]\<rparr>"] by auto
  ultimately show "list_ex builds (calls (snd (Reconcile sample_env sample_lib stuck_kube ''lab-t3-c1'' \<lparr>outside = 0, calls = []\<rparr>)))"
    by (simp add: reconcile_active_def setup_namespace_def quota pull run_simps Let_def)
qed

subsection \<open>Restart\<close>

abbreviation restart_request :: "lab_session \<Rightarrow> string" where
  "restart_request session \<equiv> gm_str (m_annotations (se_meta session)) restartRequestedAnnotation"

definition restart_pending :: "lab_session \<Rightarrow> bool" where
  "restart_pending session \<longleftrightarrow> restart_request session \<noteq> '''' \<and>
     restart_request session \<noteq> gm_str (m_annotations (se_meta session)) restartHandledAnnotation"

definition staying :: "pod list \<Rightarrow> pod list" where
  "staying pods = filter (\<lambda>p. m_deletion_ts (pod_meta p) = None) pods"

fun deletes_pod :: "pod \<Rightarrow> event \<Rightarrow> bool" where
  "deletes_pod p (EvDelete k ns n g ok) =
     (k = PodKind \<and> ns = m_namespace (pod_meta p) \<and> n = m_name (pod_meta p) \<and> g = Some 2)"
| "deletes_pod p _ = False"

lemma restart_pods_run:
  assumes "plain_errors K"
  shows "\<exists>dels w'. restart_pods K pods s = (Inr (), s\<lparr>outside := w', calls := calls s @ dels\<rparr>) \<and>
     list_all2 deletes_pod (staying pods) dels"
proof (induction pods arbitrary: s)
  case Nil
  show ?case by (auto simp: restart_pods_def run_simps staying_def intro!: exI [of _ "outside s"])
next
  case (Cons p pods)
  show ?case
  proof (cases "m_deletion_ts (pod_meta p) = None")
    case False
    then have "restart_pods K (p # pods) = restart_pods K pods" by (auto simp: restart_pods_def)
    with Cons.IH False show ?thesis by (auto simp: staying_def)
  next
    case True
    obtain d w1 where d: "k_delete K PodKind (m_namespace (pod_meta p)) (m_name (pod_meta p)) (Some 2) (outside s) = (d, w1)"
      by fastforce
    let ?e = "EvDelete PodKind (m_namespace (pod_meta p)) (m_name (pod_meta p)) (Some 2) (succeeded d)"
    let ?s1 = "s\<lparr>outside := w1, calls := calls s @ [?e]\<rparr>"
    have "restart_pods K (p # pods) s = restart_pods K pods ?s1"
      using True attempt_delete [OF assms d] by (simp add: restart_pods_def labPodGraceSeconds_def run_simps)
    moreover from Cons.IH [of ?s1] obtain dels w' where
      "restart_pods K pods ?s1 = (Inr (), ?s1\<lparr>outside := w', calls := calls ?s1 @ dels\<rparr>)"
      "list_all2 deletes_pod (staying pods) dels" by blast
    ultimately have "restart_pods K (p # pods) s = (Inr (), s\<lparr>outside := w', calls := calls s @ (?e # dels)\<rparr>)"
      "list_all2 deletes_pod (staying (p # pods)) (?e # dels)"
      using True by (simp_all add: staying_def)
    then show ?thesis by blast
  qed
qed

lemma mark_handled_eq:
  "mark_handled r s = Inr (s\<lparr>se_meta := (se_meta s)\<lparr>m_annotations :=
     Some (AList.update restartHandledAnnotation r (gm_entries (m_annotations (se_meta s))))\<rparr>\<rparr>)"
  by (cases "m_annotations (se_meta s)") (simp_all add: mark_handled_def)

lemma marked_not_pending:
  assumes "mark_handled (restart_request s) s = Inr s'"
  shows "restart_request s' = restart_request s" "\<not> restart_pending s'"
  using assms
  by (auto simp: mark_handled_eq restart_pending_def gm_str_def gm_get_def restartRequestedAnnotation_def
      restartHandledAnnotation_def)

text \<open>
  C12: a restart request is acted on once. Without a pending request (none, or the one already
  handled) nothing is called and nothing changes. With one, the pods that are not already
  terminating are deleted, each exactly once and with a grace period of two seconds, whatever
  becomes of each deletion, and then the session is written back with the request marked as
  handled, after which it is no longer pending.
\<close>

theorem restart_acts_once:
  assumes "plain_errors K" "k_list_pods K ns w = (Inr pods, w1)"
  shows "if restart_pending session
    then \<exists>marked dels ok. mark_handled (restart_request session) session = Inr marked \<and>
      restart_request marked = restart_request session \<and> \<not> restart_pending marked \<and>
      list_all2 deletes_pod (staying pods) dels \<and>
      calls (snd (maybeRestart K session ns \<lparr>outside = w, calls = []\<rparr>)) =
        EvList PodKind ns True # dels @ [EvUpdate (KSession marked) ok]
    else maybeRestart K session ns \<lparr>outside = w, calls = []\<rparr> = (Inr (False, session), \<lparr>outside = w, calls = []\<rparr>)"
proof (cases "restart_pending session")
  case False
  then show ?thesis by (auto simp: maybeRestart_def restart_pending_def run_simps Let_def)
next
  case True
  let ?s1 = "\<lparr>outside = w1, calls = [EvList PodKind ns True]\<rparr>"
  obtain dels w2 where dels: "restart_pods K pods ?s1 = (Inr (), ?s1\<lparr>outside := w2, calls := calls ?s1 @ dels\<rparr>)"
    "list_all2 deletes_pod (staying pods) dels"
    using restart_pods_run [OF assms(1)] by blast
  obtain marked where m: "mark_handled (restart_request session) session = Inr marked"
    by (simp add: mark_handled_eq)
  let ?s2 = "\<lparr>outside = w2, calls = EvList PodKind ns True # dels\<rparr>"
  have "maybeRestart K session ns \<lparr>outside = w, calls = []\<rparr> =
      bindE (update_session K marked) (\<lambda>s. ret (True, s)) ?s2"
    using True assms(2) dels(1) m
    by (auto simp: maybeRestart_def restart_pending_def run_simps list_pods_def call_def Let_def)
  moreover have "\<exists>ok. calls (snd (bindE (update_session K marked) (\<lambda>s. ret (True, s)) ?s2)) =
      calls ?s2 @ [EvUpdate (KSession marked) ok]"
  proof -
    have "bindE (update_session K marked) (\<lambda>s. ret (True, s)) =
        bindE (update K (KSession marked)) (\<lambda>r. case r of KSession s' \<Rightarrow> ret (True, s')
          | _ \<Rightarrow> fail (ErrText ''object has another kind''))"
      by (auto simp: update_session_def fun_eq_iff run_simps split: kobj.split prod.split sum.split)
    then show ?thesis
      by (auto simp: run_simps update_def call_def split: kobj.split prod.split sum.split)
  qed
  ultimately show ?thesis
    using True m dels(2) marked_not_pending [OF m] by auto
qed

definition restarting_session :: lab_session where
  "restarting_session = live_session\<lparr>se_meta := (se_meta live_session)\<lparr>m_annotations :=
     Some [(restartRequestedAnnotation, ''1'')]\<rparr>\<rparr>"

theorem restart_acts_once_witness:
  "\<exists>marked ok. calls (snd (maybeRestart live_kube restarting_session ''n'' \<lparr>outside = 0, calls = []\<rparr>)) =
     [EvList PodKind ''n'' True, EvUpdate (KSession marked) ok] \<and> \<not> restart_pending marked"
proof -
  have "k_list_pods live_kube ''n'' 0 = (Inr [], 0)" by (simp add: sample_kube_def)
  moreover have "restart_pending restarting_session"
    by (simp add: restart_pending_def restarting_session_def gm_str_def restartRequestedAnnotation_def
        restartHandledAnnotation_def)
  ultimately show ?thesis
    using restart_acts_once [OF sample_kube_plain, of live_session sample_space "[sample_service]" idle_ctf "''n''" 0 "[]" 0 restarting_session]
    by (auto simp: staying_def)
qed

subsection \<open>Status\<close>

text \<open>Each stage, field by field.\<close>

lemma init_timers_fields:
  "st_start_time (fst (init_timers G now space st)) =
     (if st_start_time st = None then Some now else st_start_time st)"
  "st_expired_time (fst (init_timers G now space st)) =
     (if st_start_time st = None then Some (now + (case parse_duration G (sp_default_ttl (sp_spec space)) of
        None \<Rightarrow> Hour | Some d \<Rightarrow> d)) else st_expired_time st)"
  "st_phase (fst (init_timers G now space st)) = (if st_start_time st = None then ''Pending'' else st_phase st)"
  "st_message (fst (init_timers G now space st)) = st_message st"
  "st_endpoints (fst (init_timers G now space st)) = st_endpoints st"
  "snd (init_timers G now space st) \<longleftrightarrow> st_start_time st = None"
  "st_start_time st \<noteq> None \<Longrightarrow> fst (init_timers G now space st) = st"
  by (auto simp: init_timers_def)

lemma set_phase_fields:
  "st_phase (fst (set_phase v st)) = fst v" "st_message (fst (set_phase v st)) = snd v"
  "st_start_time (fst (set_phase v st)) = st_start_time st"
  "st_expired_time (fst (set_phase v st)) = st_expired_time st"
  "st_endpoints (fst (set_phase v st)) = st_endpoints st"
  "snd (set_phase v st) \<longleftrightarrow> (st_phase st, st_message st) \<noteq> v"
  "(st_phase st, st_message st) = v \<Longrightarrow> fst (set_phase v st) = st"
  by (auto simp: set_phase_def prod_eq_iff)

lemma set_endpoints_fields:
  "st_start_time (fst (set_endpoints es st)) = st_start_time st"
  "st_expired_time (fst (set_endpoints es st)) = st_expired_time st"
  "st_phase (fst (set_endpoints es st)) = st_phase st" "st_message (fst (set_endpoints es st)) = st_message st"
  "st_summary (fst (set_endpoints es st)) = st_summary st"
  "st_endpoints (fst (set_endpoints es st)) = (if length (st_endpoints st) = length es then st_endpoints st else es)"
  "snd (set_endpoints es st) \<longleftrightarrow> length (st_endpoints st) \<noteq> length es"
  "length (st_endpoints st) = length es \<Longrightarrow> fst (set_endpoints es st) = st"
  by (simp_all add: set_endpoints_def)

lemmas status_fields = init_timers_fields set_phase_fields set_endpoints_fields

lemma next_status_stages:
  "next_status G now space session ns svcs pods =
     (let t = init_timers G now space (se_status session);
          p = set_phase (computePhase pods) (fst t);
          e = set_endpoints (new_endpoints G space session svcs)
                ((fst p)\<lparr>st_summary := (st_summary (fst p))\<lparr>sum_namespace := ns\<rparr>\<rparr>)
      in (fst e, snd t \<or> snd p \<or> snd e))"
  by (simp add: next_status_def case_prod_beta Let_def)

lemma next_status_unchanged:
  assumes "next_status G now space session ns svcs pods = (st, False)"
  shows "st = (se_status session)\<lparr>st_summary := (st_summary (se_status session))\<lparr>sum_namespace := ns\<rparr>\<rparr>"
proof -
  define t p e where "t = init_timers G now space (se_status session)"
    and "p = set_phase (computePhase pods) (fst t)"
    and "e = set_endpoints (new_endpoints G space session svcs)
               ((fst p)\<lparr>st_summary := (st_summary (fst p))\<lparr>sum_namespace := ns\<rparr>\<rparr>)"
  have st: "st = fst e" "\<not> snd t" "\<not> snd p" "\<not> snd e"
    using assms by (simp_all add: next_status_stages t_def [symmetric] p_def [symmetric] e_def [symmetric])
  have "fst t = se_status session" using st(2) unfolding t_def by (simp add: status_fields)
  moreover have "fst p = fst t" using st(3) unfolding p_def by (simp add: status_fields)
  moreover have "fst e = (fst p)\<lparr>st_summary := (st_summary (fst p))\<lparr>sum_namespace := ns\<rparr>\<rparr>"
    using st(4) unfolding e_def by (simp add: status_fields)
  ultimately show ?thesis using st(1) by simp
qed

text \<open>
  C35: the status after a synchronisation. The phase is the computed one, so it stays in the
  CRD's enumeration; the two instants are set at the first synchronisation only, the expiry one
  TTL (an hour if the TTL does not parse) after the start, and never moved again; the endpoint
  list is replaced only when its length changes. A status that is not written differs from the
  stored one in the recorded namespace at most.
\<close>

theorem status_contract:
  "\<exists>st changed. next_status G now space session ns svcs pods = (st, changed) \<and>
     st_phase st = fst (computePhase pods) \<and> st_phase st \<in> set session_phases \<and>
     (case st_start_time (se_status session) of
        None \<Rightarrow> changed \<and> st_start_time st = Some now \<and>
          st_expired_time st = Some (now + (case parse_duration G (sp_default_ttl (sp_spec space)) of
             None \<Rightarrow> Hour | Some d \<Rightarrow> d))
      | Some t \<Rightarrow> st_start_time st = Some t \<and> st_expired_time st = st_expired_time (se_status session)) \<and>
     st_endpoints st = (if length (st_endpoints (se_status session)) = length (new_endpoints G space session svcs)
       then st_endpoints (se_status session) else new_endpoints G space session svcs) \<and>
     (changed \<or> st = (se_status session)\<lparr>st_summary := (st_summary (se_status session))\<lparr>sum_namespace := ns\<rparr>\<rparr>)"
proof -
  obtain st changed where ns: "next_status G now space session ns svcs pods = (st, changed)" by fastforce
  then have st: "st = fst (next_status G now space session ns svcs pods)"
    "changed = snd (next_status G now space session ns svcs pods)" by simp_all
  have "changed \<or> st = (se_status session)\<lparr>st_summary := (st_summary (se_status session))\<lparr>sum_namespace := ns\<rparr>\<rparr>"
    using next_status_unchanged [of G now space session ns svcs pods st] ns by (cases changed) simp_all
  moreover have "st_phase st = fst (computePhase pods)" "st_phase st \<in> set session_phases"
    using computePhase_enum [of pods] by (simp_all add: st next_status_stages status_fields Let_def)
  moreover have "st_endpoints st = (if length (st_endpoints (se_status session)) = length (new_endpoints G space session svcs)
       then st_endpoints (se_status session) else new_endpoints G space session svcs)"
    by (simp add: st next_status_stages status_fields Let_def)
  moreover have "case st_start_time (se_status session) of
        None \<Rightarrow> changed \<and> st_start_time st = Some now \<and>
          st_expired_time st = Some (now + (case parse_duration G (sp_default_ttl (sp_spec space)) of
             None \<Rightarrow> Hour | Some d \<Rightarrow> d))
      | Some t \<Rightarrow> st_start_time st = Some t \<and> st_expired_time st = st_expired_time (se_status session)"
    by (cases "st_start_time (se_status session)") (simp_all add: st next_status_stages status_fields Let_def)
  ultimately show ?thesis using ns by blast
qed

text \<open>
  C37: a LabSpace that gives its TTL as hours, minutes and seconds gets exactly that: the expiry
  instant set at the first synchronisation is the start plus the TTL, as long as the TTL fits
  the 63 bits of a duration.
\<close>

theorem ttl_is_exact:
  assumes "sp_default_ttl (sp_spec space) = hms h m s" "(h * 3600 + m * 60 + s) * 10 ^ 9 < 2 ^ 63"
    and "st_start_time st = None"
  shows "st_expired_time (fst (init_timers G now space st)) = Some (now + (int h * Hour + int m * Minute + int s * Second))"
  by (simp add: init_timers_def assms(1,3) parse_duration_hms [OF assms(2)] Hour_def Minute_def Second_def algebra_simps)

theorem ttl_is_exact_witness:
  "\<exists>space. st_expired_time (fst (init_timers sample_env 0 space (se_status live_session))) = Some (3600 * 10 ^ 9 + 90 * 10 ^ 9)"
proof -
  let ?sp = "sample_space\<lparr>sp_spec := (sp_spec sample_space)\<lparr>sp_default_ttl := hms 1 1 30\<rparr>\<rparr>"
  have "st_start_time (se_status live_session) = None" by (simp add: live_session_def named_session_def)
  from ttl_is_exact [OF _ _ this, of ?sp 1 1 30 sample_env 0] show ?thesis
    by (intro exI [of _ ?sp]) (simp add: Hour_def Minute_def Second_def)
qed

text \<open>
  A wake-up time that suits a status: positive, at most a minute, at most two seconds unless the
  phase is Running, and not after the expiry instant if at the clock reading \<open>now\<close> that lies ahead.
\<close>

definition wakes_in_time :: "lab_session_status \<Rightarrow> int \<Rightarrow> ctrl_result \<Rightarrow> bool" where
  "wakes_in_time st now res \<longleftrightarrow>
     \<not> cr_requeue res \<and> 0 < cr_after res \<and> cr_after res \<le> Minute \<and>
     (st_phase st = ''Running'' \<or> cr_after res \<le> 2 * Second) \<and>
     (case st_expired_time st of None \<Rightarrow> True | Some t \<Rightarrow> t \<le> now \<or> cr_after res \<le> t - now)"

lemma schedule_wakes:
  "\<exists>res s'. schedule K st s = (Inr res, s') \<and> wakes_in_time st (fst (k_now K (outside s))) res"
proof (cases "st_expired_time st")
  case None
  then show ?thesis
    by (simp add: schedule_def run_simps Let_def wakes_in_time_def requeue_after_def poll_interval_def
        Minute_def Second_def)
next
  case (Some t)
  obtain now w where now: "k_now K (outside s) = (now, w)" by fastforce
  have "wakes_in_time st now (requeue_after (if 0 < time_sub t now \<and> time_sub t now < poll_interval st
      then time_sub t now else poll_interval st))"
    using Some by (auto simp: wakes_in_time_def requeue_after_def poll_interval_def time_sub_def Minute_def Second_def
        min_def max_def)
  then show ?thesis
    using Some now by (simp add: schedule_def run_simps time_now_def call_def Let_def)
qed

text \<open>
  C36: the next wake-up. A synchronisation of the status ends in one of two ways. If the pods cannot
  be listed, or the status has to be written and cannot be, it returns that error, and nothing
  else makes it fail. Otherwise it asks to be run again after a time that suits the status it has
  arrived at, which is what the server answered if it was written: positive, at most a minute, at
  most two seconds unless the session is Running, and no later than the expiry instant while that
  lies ahead of the clock.
\<close>

theorem sync_wakes_or_reports:
  "case k_now K w of (now, w1) \<Rightarrow>
   case k_list_pods K ns w1 of
     (Inl e, w2) \<Rightarrow> fst (syncStatus G K session ns svcs space \<lparr>outside = w, calls = log\<rparr>) = Inl e
   | (Inr pods, w2) \<Rightarrow>
       (case next_status G now space session ns svcs pods of (st, changed) \<Rightarrow>
        if changed then
          (case k_status_update K (KSession (session\<lparr>se_status := st\<rparr>)) w2 of
             (Inl e, w3) \<Rightarrow> fst (syncStatus G K session ns svcs space \<lparr>outside = w, calls = log\<rparr>) = Inl e
           | (Inr (KSession answer), w3) \<Rightarrow>
               \<exists>res. fst (syncStatus G K session ns svcs space \<lparr>outside = w, calls = log\<rparr>) = Inr res \<and>
                 wakes_in_time (se_status answer) (fst (k_now K w3)) res
           | _ \<Rightarrow> \<exists>e. fst (syncStatus G K session ns svcs space \<lparr>outside = w, calls = log\<rparr>) = Inl e)
        else \<exists>res. fst (syncStatus G K session ns svcs space \<lparr>outside = w, calls = log\<rparr>) = Inr res \<and>
               wakes_in_time st (fst (k_now K w2)) res)"
proof -
  obtain now w1 where now: "k_now K w = (now, w1)" by fastforce
  obtain r w2 where pods: "k_list_pods K ns w1 = (r, w2)" by fastforce
  have wake: "\<exists>res. fst (schedule K st s) = Inr res \<and> wakes_in_time st (fst (k_now K (outside s))) res" for st s
    using schedule_wakes [of K st s] by force
  then have wake': "\<exists>res. fst (schedule K st \<lparr>outside = w, calls = l\<rparr>) = Inr res \<and> wakes_in_time st (fst (k_now K w)) res"
    for st w l by (metis kst.select_convs(1))
  show ?thesis
  proof (cases r)
    case (Inl e)
    then show ?thesis by (simp add: now pods syncStatus_def run_simps time_now_def list_pods_def call_def)
  next
    case (Inr ps)
    obtain st changed where st: "next_status G now space session ns svcs ps = (st, changed)" by fastforce
    show ?thesis
    proof (cases changed)
      case True
      obtain u w3 where u: "k_status_update K (KSession (session\<lparr>se_status := st\<rparr>)) w2 = (u, w3)" by fastforce
      note run = now pods st u syncStatus_def run_simps time_now_def list_pods_def call_def
        status_update_session_def status_update_def Let_def
      show ?thesis
      proof (cases u)
        case (Inl e)
        with True \<open>r = Inr ps\<close> show ?thesis by (simp add: run)
      next
        case (Inr ob)
        then show ?thesis
        proof (cases ob)
          case (KSession answer)
          with Inr True \<open>r = Inr ps\<close> wake' show ?thesis by (simp add: run)
        qed (use True \<open>r = Inr ps\<close> in \<open>simp_all add: run\<close>)
      qed
    next
      case False
      with Inr wake' show ?thesis
        by (simp add: now pods st syncStatus_def run_simps time_now_def list_pods_def call_def)
    qed
  qed
qed

subsection \<open>Published addresses\<close>

lemma service_endpoints_map:
  "service_endpoints G session svcs =
     map (\<lambda>v. \<lparr>ep_service_name = sv_name v, ep_type = (case ls_exposure (sv_spec v) of None \<Rightarrow> '''' | Some ex \<Rightarrow> ex_type ex),
        ep_address = envDefault G ''CTF_SCHEME'' ''http'' @ ''://'' @ service_hostname G (sv_name v) session\<rparr>)
       (filter (\<lambda>v. ls_exposure (sv_spec v) \<noteq> None) svcs)"
  by (induction svcs) (auto split: option.split)


definition vnc_service :: lab_service where
  "vnc_service = sample_service\<lparr>sv_spec := (sv_spec sample_service)\<lparr>
     ls_exposure := Some \<lparr>ex_type = ''VNC'', ex_target_port = ''''\<rparr>\<rparr>\<rparr>"


end
