(* ===== verification/Creation.thy ===== *)
theory Creation
  imports Lifecycle
begin

section \<open>Nothing is created over something that exists\<close>

text \<open>
  Namespaces, pull secrets and pods are not reconciled with \<open>CreateOrUpdate\<close>: the code reads the
  object and creates it if the server says there is none. Here that is a property of the whole
  list of calls of a reconciliation: each create directly follows a read of the very key that
  returned no object. \<open>appends Q m\<close> lifts such a property of the appended calls through programs.
\<close>

subsection \<open>Properties of the appended calls\<close>

definition appends :: "(event list \<Rightarrow> bool) \<Rightarrow> ('w kst, 'a) prog \<Rightarrow> bool" where
  "appends Q m \<longleftrightarrow> (\<forall>s. \<exists>es. calls (snd (m s)) = calls s @ es \<and> Q es)"

lemma appends_bind_yields:
  assumes "\<And>xs ys. Q xs \<Longrightarrow> Q ys \<Longrightarrow> Q (xs @ ys)" "appends Q m" "yields R m" "\<And>x. R x \<Longrightarrow> appends Q (f x)"
  shows "appends Q (bindE m f)"
  unfolding appends_def
proof
  fix s
  obtain r s1 where m: "m s = (r, s1)" by fastforce
  then obtain es where es: "calls s1 = calls s @ es" "Q es"
    using assms(2) unfolding appends_def by (metis snd_conv)
  show "\<exists>es. calls (snd (bindE m f s)) = calls s @ es \<and> Q es"
  proof (cases r)
    case (Inl e)
    with m es show ?thesis by (auto simp: run_simps)
  next
    case (Inr x)
    then have "appends Q (f x)" using assms(3,4) m by (auto simp: yields_def)
    then obtain fs where "calls (snd (f x s1)) = calls s1 @ fs" "Q fs" unfolding appends_def by blast
    with m Inr es assms(1) show ?thesis by (auto simp: run_simps)
  qed
qed

subsection \<open>Reading before creating\<close>

fun missed :: "kobj \<Rightarrow> event \<Rightarrow> bool" where
  "missed ob (EvGet k ns n found) = (\<not> found \<and> k = obj_kind ob \<and> ns = obj_ns ob \<and> n = obj_name ob)"
| "missed ob _ = False"

fun guarded_after :: "event option \<Rightarrow> event list \<Rightarrow> bool" where
  "guarded_after prev [] = True"
| "guarded_after prev (e # es) =
     ((case e of EvCreate ob ok \<Rightarrow> (case prev of None \<Rightarrow> False | Some p \<Rightarrow> missed ob p) | _ \<Rightarrow> True) \<and>
      guarded_after (Some e) es)"

abbreviation guarded :: "event list \<Rightarrow> bool" where
  "guarded \<equiv> guarded_after None"

fun is_create :: "event \<Rightarrow> bool" where
  "is_create (EvCreate ob ok) = True"
| "is_create _ = False"

abbreviation no_create :: "event \<Rightarrow> bool" where
  "no_create e \<equiv> \<not> is_create e"

lemma guarded_no_create: "list_all no_create es \<Longrightarrow> guarded_after prev es"
  by (induction es arbitrary: prev) (auto split: event.split)

lemma guarded_weaken: "guarded es \<Longrightarrow> guarded_after prev es"
  by (cases es) (auto split: event.splits)

lemma guarded_append: "guarded_after prev xs \<Longrightarrow> guarded ys \<Longrightarrow> guarded_after prev (xs @ ys)"
  by (induction xs arbitrary: prev) (auto intro: guarded_weaken)

lemma guard_quiet: "emits no_create m \<Longrightarrow> appends guarded m"
  unfolding emits_def appends_def using guarded_no_create by blast

lemma guard_bind_yields:
  assumes "appends guarded m" "yields R m" "\<And>x. R x \<Longrightarrow> appends guarded (f x)"
  shows "appends guarded (bindE m f)"
  by (rule appends_bind_yields [OF _ assms]) (simp_all add: guarded_append)

lemma guard_bind: "appends guarded m \<Longrightarrow> (\<And>x. appends guarded (f x)) \<Longrightarrow> appends guarded (bindE m f)"
  by (rule guard_bind_yields [where R = "\<lambda>_. True"]) (simp_all add: yields_def)

lemma guard_if: "(b \<Longrightarrow> appends guarded m) \<Longrightarrow> (\<not> b \<Longrightarrow> appends guarded n) \<Longrightarrow> appends guarded (if b then m else n)"
  by simp

lemma guard_forE: "(\<And>x. appends guarded (f x)) \<Longrightarrow> appends guarded (forE xs f)"
  by (induction xs) (auto intro: guard_bind guard_quiet emit_intros)

text \<open>The one pattern in which the code creates: read, and create the same key if it is missing.\<close>

lemma read_then_create:
  fixes op :: "'w \<Rightarrow> (goerr + 'b) \<times> 'w"
  assumes "k = obj_kind ob" "ns = obj_ns ob" "n = obj_name ob" "\<And>x. emits no_create (found x)"
  shows "appends guarded (bindE (attempt (call op (EvGet k ns n))) (\<lambda>r. case r of
       Inl e \<Rightarrow> if is_not_found e then create K ob else fail e
     | Inr x \<Rightarrow> found x))"
  unfolding appends_def
proof
  fix s :: "'w kst"
  obtain r w where r: "op (outside s) = (r, w)" by fastforce
  let ?s = "s\<lparr>outside := w, calls := calls s @ [EvGet k ns n (succeeded r)]\<rparr>"
  have att: "attempt (call op (EvGet k ns n)) s =
      (case r of Inl e \<Rightarrow> if is_panic e then (Inl e, ?s) else (Inr (Inl e), ?s) | Inr x \<Rightarrow> (Inr (Inr x), ?s))"
    using r by (auto simp: attempt_def call_def split: sum.split)
  let ?m = "bindE (attempt (call op (EvGet k ns n))) (\<lambda>r. case r of
       Inl e \<Rightarrow> if is_not_found e then create K ob else fail e | Inr x \<Rightarrow> found x)"
  have run: "?m s = (case r of
       Inl e \<Rightarrow> if is_panic e then (Inl e, ?s) else if is_not_found e then create K ob ?s else (Inl e, ?s)
     | Inr x \<Rightarrow> found x ?s)"
    by (simp add: run_bindE att run_fail split: sum.split)
  show "\<exists>es. calls (snd (?m s)) = calls s @ es \<and> guarded es"
  proof (cases r)
    case (Inl e)
    obtain c where "calls (snd (create K ob ?s)) = calls ?s @ [EvCreate ob c]"
      by (cases "k_create K ob w") (simp add: create_def call_def)
    with Inl show ?thesis unfolding run by (simp add: assms(1-3))
  next
    case (Inr x)
    obtain es where "calls (snd (found x ?s)) = calls ?s @ es" "list_all no_create es"
      using assms(4) [of x] unfolding emits_def by blast
    with Inr show ?thesis
      unfolding run by (auto simp: guarded_no_create intro!: exI [of _ "EvGet k ns n True # es"])
  qed
qed

subsection \<open>The steps\<close>

lemma creating_steps:
  "appends guarded (ensureNamespace K n owner)" "appends guarded (createOrUpdatePod K p)"
  unfolding ensureNamespace_def createOrUpdatePod_def get_namespace_def get_pod_def
  by (rule read_then_create; simp add: emits_ret)+

lemma pull_secret_guarded:
  assumes "lib_ok L"
  shows "appends guarded (ensurePullSecret G L K ns owner)"
  unfolding ensurePullSecret_def Let_def
  apply (rule guard_if)
   apply (rule guard_quiet, rule emits_ret)
  apply (rule guard_bind_yields [where R = "\<lambda>m. same_key (new_meta pullSecretName ns) m"])
    apply (rule guard_quiet, rule emits_liftE)
   apply (rule yields_liftE, auto dest: set_controller_ref_twice(2) [OF assms])[1]
  apply (unfold get_secret_def)
  apply (rule read_then_create)
     apply (auto simp: same_key_def intro!: emit_intros)
  done

lemma quiet_steps:
  "emits no_create (ensureResourceQuota K ns space owner)" "emits no_create (ensureLimitRange K ns space owner)"
  "emits no_create (ensureBaselinePolicy L K ns space session)"
  "emits no_create (ensureServiceEgressPolicy L K ns v session)" "emits no_create (ensureService K ns v)"
  "emits no_create (reconcileRoute G K ns v session)" "emits no_create (reconcileWorkspaceRoute G L K ns session)"
  "emits no_create (getTasksForSpace L K space)" "emits no_create (ensureWorkspaceService L K ns pn session)"
  "emits no_create (maybeRestart K session ns)"
  unfolding ensureResourceQuota_def ensureLimitRange_def ensureBaselinePolicy_def ensureServiceEgressPolicy_def
    delete_if_present_def ensureService_def reconcileRoute_def reconcileWorkspaceRoute_def getTasksForSpace_def
    ensureWorkspaceService_def maybeRestart_def restart_pods_def Let_def
  by (intro emit_intros; simp)+

lemma quiet_env: "emits no_create (buildEnvVars G K v session)"
proof -
  have "emits no_create (random_chars K n)" for n by (induction n) (auto intro!: emit_intros)
  then have "emits no_create (env_entries G K v session es)" for es
    by (induction es) (auto simp: env_entry_def generateRandomString_def split: option.split intro!: emit_intros)
  then show ?thesis unfolding buildEnvVars_def by (intro emit_intros)
qed

lemma quiet_sync: "emits no_create (syncStatus G K session ns svcs space)"
  unfolding syncStatus_def schedule_def Let_def by (auto split: prod.splits intro!: emit_intros)

lemma service_guarded: "appends guarded (reconcile_service G L K ns space session v)"
  unfolding reconcile_service_def reconcileServiceResources_def
  by (intro guard_bind guard_quiet [OF quiet_env] guard_quiet [OF emits_liftE] creating_steps(2)
      guard_quiet [OF quiet_steps(4)] guard_quiet [OF quiet_steps(5)] guard_if guard_quiet [OF quiet_steps(6)]
      guard_quiet [OF emits_ret])

lemma workspace_guarded: "appends guarded (reconcileWorkspace G L K ns space session)"
  unfolding reconcileWorkspace_def
  by (intro guard_bind guard_quiet [OF quiet_steps(8)] guard_quiet [OF emits_liftE] creating_steps(2)
      guard_quiet [OF quiet_steps(9)])

lemma resources_guarded: "appends guarded (reconcile_resources G L K ns space session)"
  unfolding reconcile_resources_def
  by (intro guard_bind guard_forE workspace_guarded service_guarded guard_quiet [OF quiet_sync]
      guard_quiet [OF quiet_steps(7)] guard_quiet [OF emits_calls(8)]) simp

lemma active_guarded:
  assumes "lib_ok L"
  shows "appends guarded (reconcile_active G L K space session)"
proof -
  have "appends guarded (setup_namespace G L K ns space session)" for ns
    unfolding setup_namespace_def
    by (intro guard_bind creating_steps(1) pull_secret_guarded [OF assms] guard_quiet [OF quiet_steps(1)]
        guard_quiet [OF quiet_steps(2)] guard_quiet [OF quiet_steps(3)])
  moreover have "emits no_create (bindE (attempt (status_update_session K s)) (\<lambda>_. ret d))" for s and d :: ctrl_result
    by (intro emit_intros) simp
  ultimately show ?thesis
    unfolding reconcile_active_def Let_def
    by (intro guard_bind guard_quiet [OF quiet_steps(10)])
      (auto split: prod.split intro: guard_quiet resources_guarded)
qed

text \<open>
  C4: nothing is created over something that exists. In a reconciliation of a session, whatever the
  cluster answers, every create directly follows a read of the same kind, namespace and name in
  the same reconciliation, and that read did not return the object.
\<close>

theorem creates_only_what_is_missing:
  assumes "lib_ok L"
  shows "\<exists>new. calls (snd (Reconcile G L K name s)) = calls s @ new \<and> guarded new"
proof -
  have "appends guarded (reconcile_fetched G L K session)" for session
    unfolding reconcile_fetched_def is_expired_def
    by (intro guard_if guard_bind active_guarded [OF assms] guard_quiet [OF emits_attempt] guard_quiet emit_intros)
      simp_all
  then have "appends guarded (Reconcile G L K name)"
    unfolding Reconcile_def
    by (intro guard_bind guard_quiet [OF emits_attempt])
      (auto split: sum.split intro!: guard_quiet emit_intros)
  then show ?thesis unfolding appends_def by blast
qed

theorem creates_only_what_is_missing_witness:
  "guarded (calls (snd (Reconcile sample_env sample_lib live_kube ''lab-t3-c1'' \<lparr>outside = 0, calls = []\<rparr>)))"
  using creates_only_what_is_missing [OF sample_lib_ok, of sample_env live_kube "''lab-t3-c1''" "\<lparr>outside = 0, calls = []\<rparr>"]
  by simp

end
