(* ===== verification/CTFTask.thy ===== *)
theory CTFTask
  imports Session
begin

section \<open>The CTFTask reconciler (ctftask\_controller.go)\<close>

text \<open>
  The older single-pod challenge: a pod, a Service and a NetworkPolicy per CTFTask, a flag
  derived from a master salt, and a small state machine over the status phase. The definitions
  follow the Go functions; the abstract specifications are the state machine \<open>status_step\<close>, the
  contract \<open>ctf_call\<close> of the calls a reconciliation may make, and the addresses the NetworkPolicy
  lets a challenge reach.
\<close>

subsection \<open>Flag\<close>

definition generateFlag :: "go_env \<Rightarrow> ctf_task \<Rightarrow> string \<Rightarrow> goerr + string" where
  "generateFlag G task salt =
     (let cfg = ct_flag_config (ct_spec task);
          data = (if fc_scope cfg = ''Personal''
                  then ct_name task @ ''-'' @ ct_student_id (ct_spec task) else ct_name task);
          hash = hex_string (hmac_sha256 (str_bytes salt) (str_bytes data));
          length = (if fc_length cfg = 0 then 12 else fc_length cfg)
      in bindR (go_prefix hash length) (\<lambda>h. Inr (sprintf G (fc_format cfg) [h])))"

subsection \<open>Resources\<close>

definition ctf_pod_mutate :: "lib \<Rightarrow> ctf_task \<Rightarrow> string \<Rightarrow> pod \<Rightarrow> goerr + pod" where
  "ctf_pod_mutate L task flag p =
     (let p = p\<lparr>pod_meta := (pod_meta p)\<lparr>m_labels := Some
                 [(''app'', ''ctf-task''), (''task-name'', ct_name task), (''student-id'', ct_student_id (ct_spec task))]\<rparr>\<rparr>;
          p = (if m_creation_ts (pod_meta p) = None
               then p\<lparr>pod_spec_of := (pod_spec_of p)\<lparr>ps_containers :=
                 [(new_container ''challenge'' (ct_image (ct_spec task)))\<lparr>
                    co_ports := [\<lparr>cp_name = '''', cp_port = ct_port (ct_spec task), cp_protocol = ''''\<rparr>],
                    co_env := [env ''FLAG'' flag]\<rparr>]\<rparr>\<rparr>
               else p)
      in bindR (set_controller_ref L CTFTaskKind (ct_meta task) (pod_meta p)) (\<lambda>m. Inr (p\<lparr>pod_meta := m\<rparr>)))"

definition new_pod :: "string \<Rightarrow> string \<Rightarrow> pod" where
  "new_pod name ns = \<lparr>pod_meta = new_meta name ns, pod_spec_of = new_pod_spec, pod_status_of = new_pod_status\<rparr>"

definition ensurePod :: "lib \<Rightarrow> 'w kube \<Rightarrow> ctf_task \<Rightarrow> string \<Rightarrow> ('w kst, unit) prog" where
  "ensurePod L K task flag =
     create_or_update K (KPod (new_pod (ct_name task) (m_namespace (ct_meta task)))) (on_pod (ctf_pod_mutate L task flag))"

definition ctf_service_mutate :: "lib \<Rightarrow> ctf_task \<Rightarrow> service \<Rightarrow> goerr + service" where
  "ctf_service_mutate L task svc =
     (let svc = svc\<lparr>svc_selector := Some [(''task-name'', ct_name task)],
                svc_ports := [\<lparr>svp_name = '''', svp_protocol = ''TCP'', svp_port = 80,
                  svp_target = IntVal (ct_port (ct_spec task))\<rparr>]\<rparr>
      in bindR (set_controller_ref L CTFTaskKind (ct_meta task) (svc_meta svc)) (\<lambda>m. Inr (svc\<lparr>svc_meta := m\<rparr>)))"

definition ensureCTFService :: "lib \<Rightarrow> 'w kube \<Rightarrow> ctf_task \<Rightarrow> ('w kst, unit) prog" where
  "ensureCTFService L K task =
     create_or_update K (KService (new_service (ct_name task) (m_namespace (ct_meta task))))
       (on_service (ctf_service_mutate L task))"

text \<open>Written in the code, and called from nowhere.\<close>

definition ctf_route_mutate :: "lib \<Rightarrow> ctf_task \<Rightarrow> http_route \<Rightarrow> goerr + http_route" where
  "ctf_route_mutate L task route =
     (let route = route\<lparr>hr_parents := [\<lparr>pf_name = ''external-web'', pf_namespace = Some ''gateway-system''\<rparr>],
                hr_hostnames := [ct_name task @ ''.labs.ctf.school''],
                hr_rules := [[\<lparr>be_name = ct_name task, be_port = Some 80\<rparr>]]\<rparr>
      in bindR (set_controller_ref L CTFTaskKind (ct_meta task) (hr_meta route)) (\<lambda>m. Inr (route\<lparr>hr_meta := m\<rparr>)))"

definition ensureHTTPRoute :: "lib \<Rightarrow> 'w kube \<Rightarrow> ctf_task \<Rightarrow> ('w kst, unit) prog" where
  "ensureHTTPRoute L K task =
     create_or_update K (KRoute (new_route (ct_name task) (m_namespace (ct_meta task)))) (on_route (ctf_route_mutate L task))"

definition label_peer :: "(string \<times> string) list \<Rightarrow> (string \<times> string) list \<Rightarrow> net_peer" where
  "label_peer nss pods = \<lparr>pe_ip_block = None, pe_ns_selector = Some (Some nss), pe_pod_selector = Some (Some pods)\<rparr>"

definition ctf_ingress :: "net_peer list list" where
  "ctf_ingress = [[label_peer [(''kubernetes.io/metadata.name'', ''gateway-system'')] [(''app'', ''gateway-api-controller'')]]]"

definition ctf_egress :: "net_peer list list" where
  "ctf_egress =
     [[\<lparr>pe_ip_block = Some (''0.0.0.0/0'', [''169.254.169.254/32'', ''10.0.0.0/8'', ''172.16.0.0/12'', ''192.168.0.0/16'']),
        pe_ns_selector = None, pe_pod_selector = None\<rparr>],
      [label_peer [(''kubernetes.io/metadata.name'', ''kube-system'')] [(''k8s-app'', ''kube-dns'')]]]"

definition ctf_policy_mutate :: "lib \<Rightarrow> ctf_task \<Rightarrow> network_policy \<Rightarrow> goerr + network_policy" where
  "ctf_policy_mutate L task np =
     (let np = np\<lparr>np_pod_selector := Some [(''task-name'', ct_name task)], np_types := [''Ingress'', ''Egress''],
                np_ingress := ctf_ingress, np_egress := ctf_egress\<rparr>
      in bindR (set_controller_ref L CTFTaskKind (ct_meta task) (np_meta np)) (\<lambda>m. Inr (np\<lparr>np_meta := m\<rparr>)))"

definition new_policy :: "string \<Rightarrow> string \<Rightarrow> network_policy" where
  "new_policy name ns = \<lparr>np_meta = new_meta name ns, np_pod_selector = None, np_types = [], np_ingress = [], np_egress = []\<rparr>"

definition ensureNetworkPolicy :: "lib \<Rightarrow> 'w kube \<Rightarrow> ctf_task \<Rightarrow> ('w kst, unit) prog" where
  "ensureNetworkPolicy L K task =
     create_or_update K (KNetworkPolicy (new_policy (ct_name task) (m_namespace (ct_meta task))))
       (on_network_policy (ctf_policy_mutate L task))"

definition ensureResources :: "lib \<Rightarrow> 'w kube \<Rightarrow> ctf_task \<Rightarrow> string \<Rightarrow> ('w kst, unit) prog" where
  "ensureResources L K task flag =
     bindE (wrap_err ''failed to ensure pod'' (ensurePod L K task flag)) (\<lambda>_.
     bindE (wrap_err ''failed to ensure service'' (ensureCTFService L K task)) (\<lambda>_.
     wrap_err ''failed to ensure network policy'' (ensureNetworkPolicy L K task)))"

subsection \<open>Reconciliation\<close>

definition isPodReady :: "'w kube \<Rightarrow> ctf_task \<Rightarrow> ('w kst, bool) prog" where
  "isPodReady K task = bindE (attempt (get_pod K (m_namespace (ct_meta task)) (ct_name task))) (\<lambda>r. case r of
       Inl e \<Rightarrow> if is_not_found e then ret False else fail e
     | Inr p \<Rightarrow> ret (list_ex (\<lambda>c. pc_type c = ''Ready'' \<and> pc_status c = ''True'') (pst_conditions (pod_status_of p))))"

abbreviation set_status :: "ctf_task \<Rightarrow> ctf_task_status \<Rightarrow> ctf_task" where
  "set_status task st \<equiv> task\<lparr>ct_status := st\<rparr>"

text \<open>Step 2: the first run. A duration that does not parse is taken as zero.\<close>

definition ctf_init :: "go_env \<Rightarrow> 'w kube \<Rightarrow> ctf_task \<Rightarrow> ('w kst, ctrl_result) prog" where
  "ctf_init G K task =
     (let duration = (case parse_duration G (ct_duration (ct_spec task)) of None \<Rightarrow> 0 | Some d \<Rightarrow> d)
      in bindE (time_now K) (\<lambda>now.
         bindE (status_update_ctf K (set_status task ((ct_status task)\<lparr>ts_expiry_time := Some (now + duration),
             ts_phase := ''Pending'', ts_message := ''Creating challenge resources...''\<rparr>))) (\<lambda>_.
         ret \<lparr>cr_requeue = True, cr_after = 0\<rparr>)))"

text \<open>Step 3.\<close>

definition ctf_start :: "'w kube \<Rightarrow> ctf_task \<Rightarrow> ('w kst, ctf_task) prog" where
  "ctf_start K task =
     (if ts_phase (ct_status task) = ''Pending''
      then status_update_ctf K (set_status task ((ct_status task)\<lparr>ts_phase := ''Provisioning''\<rparr>))
      else ret task)"

text \<open>Step 5: the status for a ready pod, and for one that is not.\<close>

definition ready_status :: "ctf_task \<Rightarrow> bool \<Rightarrow> ctf_task_status" where
  "ready_status task podReady =
     (if podReady
      then (ct_status task)\<lparr>ts_phase := ''Ready'', ts_endpoint := ''https://'' @ ct_name task @ ''.labs.ctf.school'',
             ts_message := ''All systems go''\<rparr>
      else (ct_status task)\<lparr>ts_phase := ''Provisioning'', ts_message := ''Waiting for container to start...''\<rparr>)"

definition ctf_finish :: "'w kube \<Rightarrow> ctf_task \<Rightarrow> ('w kst, ctrl_result) prog" where
  "ctf_finish K task =
     bindE (isPodReady K task) (\<lambda>podReady.
     let st = ready_status task podReady
     in bindE (if ts_phase (ct_status task) \<noteq> ts_phase st
               then bindE (status_update_ctf K (set_status task st)) (\<lambda>_. ret ()) else ret ()) (\<lambda>_.
        ret (requeue_after (30 * Second))))"

definition ctf_sync :: "go_env \<Rightarrow> lib \<Rightarrow> 'w kube \<Rightarrow> ctf_task \<Rightarrow> ('w kst, ctrl_result) prog" where
  "ctf_sync G L K task =
     bindE (liftE (generateFlag G task (getenv G ''LAB_MASTER_SALT''))) (\<lambda>expectedFlag.
     bindE (attempt (ensureResources L K task expectedFlag)) (\<lambda>r. case r of
       Inl e \<Rightarrow>
         bindE (attempt (status_update_ctf K (set_status task ((ct_status task)\<lparr>ts_phase := ''Failed'', ts_message := err_text e\<rparr>))))
           (\<lambda>_. fail e)
     | Inr _ \<Rightarrow> ctf_finish K task))"

definition ctf_live :: "go_env \<Rightarrow> lib \<Rightarrow> 'w kube \<Rightarrow> ctf_task \<Rightarrow> ('w kst, ctrl_result) prog" where
  "ctf_live G L K task =
     (if ts_phase (ct_status task) = '''' then ctf_init G K task
      else bindE (ctf_start K task) (ctf_sync G L K))"

definition ctf_expired :: "'w kube \<Rightarrow> ctf_task \<Rightarrow> ('w kst, bool) prog" where
  "ctf_expired K task = (case ts_expiry_time (ct_status task) of
       None \<Rightarrow> ret False
     | Some expiry \<Rightarrow> bindE (time_now K) (\<lambda>now. ret (expiry < now)))"

definition ctf_fetched :: "go_env \<Rightarrow> lib \<Rightarrow> 'w kube \<Rightarrow> ctf_task \<Rightarrow> ('w kst, ctrl_result) prog" where
  "ctf_fetched G L K task =
     bindE (ctf_expired K task) (\<lambda>expired.
     if expired then bindE (delete K CTFTaskKind (m_namespace (ct_meta task)) (ct_name task) None) (\<lambda>_. ret done_result)
     else ctf_live G L K task)"

definition ReconcileCTF :: "go_env \<Rightarrow> lib \<Rightarrow> 'w kube \<Rightarrow> string \<Rightarrow> string \<Rightarrow> ('w kst, ctrl_result) prog" where
  "ReconcileCTF G L K ns name =
     bindE (attempt (get_ctf_task K ns name)) (\<lambda>r. case r of
       Inl e \<Rightarrow> if is_not_found e then ret done_result else fail e
     | Inr task \<Rightarrow> ctf_fetched G L K task)"

subsection \<open>What a CTFTask reconciliation may ask the API server for\<close>

text \<open>
  \<open>ctf_call ns n\<close> holds of the calls a reconciler of the task \<open>n\<close> in the namespace \<open>ns\<close> may issue. It
  reads the task and its pod, writes the status of the task and nothing else of it, deletes
  nothing but the task, and reconciles a pod, a Service and a NetworkPolicy under the task's own
  name, with mutate functions that settle.
\<close>

definition ctf_written_phases :: "string list" where
  "ctf_written_phases = [''Pending'', ''Provisioning'', ''Ready'', ''Failed'']"

fun ctf_call :: "string \<Rightarrow> string \<Rightarrow> event \<Rightarrow> bool" where
  "ctf_call ns n (EvGet k m x ok) = (k \<in> {CTFTaskKind, PodKind} \<and> m = ns \<and> x = n)"
| "ctf_call ns n EvNow = True"
| "ctf_call ns n (EvStatus ob ok) = (case ob of
       KCTFTask t \<Rightarrow> ct_name t = n \<and> m_namespace (ct_meta t) = ns \<and>
         ts_phase (ct_status t) \<in> set ctf_written_phases \<and> ts_phase (ct_status t) \<in> set ctf_phases
     | _ \<Rightarrow> False)"
| "ctf_call ns n (EvDelete k m x grace ok) = (k = CTFTaskKind \<and> m = ns \<and> x = n)"
| "ctf_call ns n (EvCreateOrUpdate ob f ok) =
     (obj_kind ob \<in> {PodKind, ServiceKind, NetworkPolicyKind} \<and> obj_ns ob = ns \<and> obj_name ob = n \<and>
      settling_mutate f)"
| "ctf_call ns n _ = False"

lemma ctf_mutates_settle:
  assumes "lib_ok L"
  shows "settling_mutate (on_pod (ctf_pod_mutate L task flag))"
    and "settling_mutate (on_service (ctf_service_mutate L task))"
    and "settling_mutate (on_network_policy (ctf_policy_mutate L task))"
    and "settling_mutate (on_route (ctf_route_mutate L task))"
proof -
  note ref = set_controller_ref_twice [OF assms] set_controller_ref_meta [OF assms]
  show "settling_mutate (on_service (ctf_service_mutate L task))"
    by (rule settling_on) (auto simp: ctf_service_mutate_def Let_def bindR_eq_Inr dest: ref)
  show "settling_mutate (on_network_policy (ctf_policy_mutate L task))"
    by (rule settling_on) (auto simp: ctf_policy_mutate_def Let_def bindR_eq_Inr dest: ref)
  show "settling_mutate (on_route (ctf_route_mutate L task))"
    by (rule settling_on) (auto simp: ctf_route_mutate_def Let_def bindR_eq_Inr dest: ref)
  show "settling_mutate (on_pod (ctf_pod_mutate L task flag))"
  proof (rule settling_on)
    fix p q assume "ctf_pod_mutate L task flag p = Inr q"
    then obtain m where m: "set_controller_ref L CTFTaskKind (ct_meta task) ((pod_meta p)\<lparr>m_labels := Some
          [(''app'', ''ctf-task''), (''task-name'', ct_name task), (''student-id'', ct_student_id (ct_spec task))]\<rparr>) = Inr m"
      and q: "pod_meta q = m" "ctf_pod_mutate L task flag p = Inr q"
      by (auto simp: ctf_pod_mutate_def Let_def bindR_eq_Inr split: if_splits)
    note r = set_controller_ref_twice [OF assms m] set_controller_ref_meta [OF assms m]
    have keep: "m\<lparr>m_labels := Some [(''app'', ''ctf-task''), (''task-name'', ct_name task),
        (''student-id'', ct_student_id (ct_spec task))]\<rparr> = m"
      using r(5) by (cases m) simp
    show "ctf_pod_mutate L task flag q = Inr q \<and> same_key (pod_meta p) (pod_meta q)"
      using q r by (auto simp: ctf_pod_mutate_def Let_def bindR_eq_Inr same_key_def keep split: if_splits)
  qed
qed

abbreviation has_key :: "string \<Rightarrow> string \<Rightarrow> ctf_task \<Rightarrow> bool" where
  "has_key ns n task \<equiv> ct_name task = n \<and> m_namespace (ct_meta task) = ns"

lemma ensureResources_emits:
  assumes "lib_ok L" "has_key ns n task"
  shows "emits (ctf_call ns n) (ensureResources L K task flag)"
  unfolding ensureResources_def ensurePod_def ensureCTFService_def ensureNetworkPolicy_def
  by (intro emit_intros)
    (use assms ctf_mutates_settle [OF assms(1)] in \<open>auto simp: new_pod_def new_service_def new_policy_def\<close>)

lemma ctf_finish_emits: "has_key ns n task \<Longrightarrow> emits (ctf_call ns n) (ctf_finish K task)"
  unfolding ctf_finish_def isPodReady_def Let_def
  by (intro emit_intros) (auto simp: ready_status_def ctf_written_phases_def ctf_phases_def)

lemma ctf_sync_emits:
  "lib_ok L \<Longrightarrow> has_key ns n task \<Longrightarrow> emits (ctf_call ns n) (ctf_sync G L K task)"
  unfolding ctf_sync_def
  by (intro emit_intros ensureResources_emits ctf_finish_emits) (auto simp: ctf_written_phases_def ctf_phases_def)

lemma ctf_start_emits: "has_key ns n task \<Longrightarrow> emits (ctf_call ns n) (ctf_start K task)"
  unfolding ctf_start_def by (intro emit_intros) (auto simp: ctf_written_phases_def ctf_phases_def)

lemma ctf_start_yields: "keyed K \<Longrightarrow> has_key ns n task \<Longrightarrow> yields (has_key ns n) (ctf_start K task)"
  using keyed_yields(7) [of K "set_status task ((ct_status task)\<lparr>ts_phase := ''Provisioning''\<rparr>)"]
  by (auto simp: ctf_start_def intro: yields_ret)

lemma ctf_init_emits: "has_key ns n task \<Longrightarrow> emits (ctf_call ns n) (ctf_init G K task)"
  unfolding ctf_init_def Let_def by (intro emit_intros) (auto simp: ctf_written_phases_def ctf_phases_def)

lemma ctf_fetched_emits:
  assumes "lib_ok L" "keyed K" "has_key ns n task"
  shows "emits (ctf_call ns n) (ctf_fetched G L K task)"
proof -
  have later: "emits (ctf_call ns n) (bindE (ctf_start K task) (ctf_sync G L K))"
    by (rule emits_bind_yields [OF ctf_start_emits [OF assms(3)] ctf_start_yields [OF assms(2,3)]])
      (rule ctf_sync_emits [OF assms(1)])
  have "emits (ctf_call ns n) (ctf_live G L K task)"
    unfolding ctf_live_def using later assms(3) by (simp add: ctf_init_emits)
  then show ?thesis
    unfolding ctf_fetched_def ctf_expired_def by (intro emit_intros) (use assms(3) in auto)
qed

lemma ReconcileCTF_emits:
  assumes "lib_ok L" "keyed K"
  shows "emits (ctf_call ns n) (ReconcileCTF G L K ns n)"
  unfolding ReconcileCTF_def
proof (rule emits_bind_yields [OF _ yields_attempt [OF keyed_yields(3) [OF assms(2)]]])
  show "emits (ctf_call ns n) (attempt (get_ctf_task K ns n))" by (intro emit_intros) simp
next
  fix r :: "goerr + ctf_task"
  assume "case_sum (\<lambda>_. True) (\<lambda>x. m_namespace (ct_meta x) = ns \<and> ct_name x = n) r"
  then show "emits (ctf_call ns n) (case r of Inl e \<Rightarrow> if is_not_found e then ret done_result else fail e
     | Inr task \<Rightarrow> ctf_fetched G L K task)"
    by (cases r) (auto intro!: emit_intros ctf_fetched_emits [OF assms])
qed

text \<open>
  C17: whatever the cluster answers, fails at or changes in between, a reconciliation of the task
  \<open>n\<close> in the namespace \<open>ns\<close> only makes calls of its contract: it touches no object with another
  key, never updates the task itself but its status, only with phases of the CRD's enumeration,
  deletes nothing but the task, and each \<open>CreateOrUpdate\<close> settles.
\<close>

theorem ctf_reconcile_confined:
  assumes "lib_ok L" "keyed K" "ReconcileCTF G L K ns n s = (r, s')"
  shows "\<exists>new. calls s' = calls s @ new \<and> list_all (ctf_call ns n) new"
  by (rule emitsD [OF ReconcileCTF_emits [OF assms(1,2)] assms(3)])

abbreviation ctf_kube :: "ctf_task \<Rightarrow> nat kube" where
  "ctf_kube task \<equiv> sample_kube live_session sample_space [] task"

theorem ctf_reconcile_confined_witness:
  "\<exists>r s' new. ReconcileCTF sample_env sample_lib (ctf_kube idle_ctf) ''n'' ''t'' \<lparr>outside = 0, calls = []\<rparr> = (r, s') \<and>
     calls s' = new \<and> list_all (ctf_call ''n'' ''t'') new"
proof -
  obtain r s' where run: "ReconcileCTF sample_env sample_lib (ctf_kube idle_ctf) ''n'' ''t'' \<lparr>outside = 0, calls = []\<rparr> = (r, s')"
    by fastforce
  from ctf_reconcile_confined [OF sample_lib_ok sample_kube_keyed run] run show ?thesis by auto
qed

end
