(* ===== verification/CTFLife.thy ===== *)
theory CTFLife
  imports CTFTask
begin

section \<open>The life of a CTFTask (ctftask\_controller.go)\<close>

text \<open>
  The abstract specification of the status of a CTFTask is a step relation: the moves of the
  state machine that the comments of the reconciler name. Every reconciliation is a sequence of
  such moves, whatever else happens; what holds of all reachable statuses is proved on the
  relation. The other theorems follow a task through its life: its flag, its expiry, and what
  happens when its resources cannot be made.
\<close>

subsection \<open>The state machine\<close>

inductive status_step :: "ctf_task_status \<Rightarrow> ctf_task_status \<Rightarrow> bool" where
  initialise: "ts_phase st = '''' \<Longrightarrow> status_step st (st\<lparr>ts_expiry_time := Some t, ts_phase := ''Pending'',
      ts_message := ''Creating challenge resources...''\<rparr>)"
| provision: "ts_phase st = ''Pending'' \<Longrightarrow> status_step st (st\<lparr>ts_phase := ''Provisioning''\<rparr>)"
| break_down: "ts_phase st \<notin> {'''', ''Pending''} \<Longrightarrow> status_step st (st\<lparr>ts_phase := ''Failed'', ts_message := m\<rparr>)"
| become_ready: "ts_phase st \<notin> {'''', ''Pending'', ''Ready''} \<Longrightarrow> status_step st (st\<lparr>ts_phase := ''Ready'',
      ts_endpoint := e, ts_message := ''All systems go''\<rparr>)"
| wait: "ts_phase st \<notin> {'''', ''Pending'', ''Provisioning''} \<Longrightarrow> status_step st (st\<lparr>ts_phase := ''Provisioning'',
      ts_message := ''Waiting for container to start...''\<rparr>)"

inductive_cases status_stepE: "status_step st st'"

fun step_chain :: "ctf_task_status \<Rightarrow> ctf_task_status list \<Rightarrow> bool" where
  "step_chain st [] = True"
| "step_chain st (w # ws) = (status_step st w \<and> step_chain w ws)"

lemma step_chain_reach: "step_chain st ws \<Longrightarrow> w \<in> set ws \<Longrightarrow> status_step\<^sup>*\<^sup>* st w"
  by (induction st ws rule: step_chain.induct) (auto intro: converse_rtranclp_into_rtranclp)

text \<open>The statuses a log of calls writes, in order.\<close>

fun status_of_write :: "event \<Rightarrow> ctf_task_status option" where
  "status_of_write (EvStatus (KCTFTask t) ok) = Some (ct_status t)"
| "status_of_write _ = None"

definition written :: "event list \<Rightarrow> ctf_task_status list" where
  "written log = List.map_filter status_of_write log"

lemma written_simps [simp]:
  "written [] = []" "written (xs @ ys) = written xs @ written ys"
  "written (e # es) = (case status_of_write e of None \<Rightarrow> [] | Some st \<Rightarrow> [st]) @ written es"
  by (simp_all add: written_def map_filter_def split: option.split)

abbreviation silent :: "event \<Rightarrow> bool" where
  "silent e \<equiv> status_of_write e = None"

lemma written_silent: "list_all silent es \<Longrightarrow> written es = []"
  by (induction es) auto

text \<open>\<open>writes Q m\<close>: the statuses \<open>m\<close> writes, in order, satisfy \<open>Q\<close>.\<close>

definition writes :: "(ctf_task_status list \<Rightarrow> bool) \<Rightarrow> ('w kst, 'a) prog \<Rightarrow> bool" where
  "writes Q m \<longleftrightarrow> (\<forall>s. \<exists>es. calls (snd (m s)) = calls s @ es \<and> Q (written es))"

lemma writes_silent: "emits silent m \<Longrightarrow> Q [] \<Longrightarrow> writes Q m"
  unfolding emits_def writes_def by (metis written_silent)

lemma writes_bind:
  assumes "writes (\<lambda>ws. ws = vs) m" "yields R m" "\<And>x. R x \<Longrightarrow> writes (\<lambda>ws. Q (vs @ ws)) (f x)" "Q vs"
  shows "writes Q (bindE m f)"
  unfolding writes_def
proof
  fix s
  obtain r s1 where m: "m s = (r, s1)" by fastforce
  then obtain es where es: "calls s1 = calls s @ es" "written es = vs"
    using assms(1) unfolding writes_def by (metis snd_conv)
  show "\<exists>es. calls (snd (bindE m f s)) = calls s @ es \<and> Q (written es)"
  proof (cases r)
    case (Inl e)
    with m es assms(4) show ?thesis by (auto simp: run_simps)
  next
    case (Inr x)
    then have "writes (\<lambda>ws. Q (vs @ ws)) (f x)" using assms(2,3) m by (auto simp: yields_def)
    then obtain fs where "calls (snd (f x s1)) = calls s1 @ fs" "Q (vs @ written fs)"
      unfolding writes_def by blast
    with m Inr es show ?thesis by (auto simp: run_simps intro: exI [of _ "es @ fs"])
  qed
qed

lemma writes_after:
  assumes "emits silent m" "\<And>x. writes Q (f x)" "Q []"
  shows "writes Q (bindE m f)"
  by (rule writes_bind [where vs = "[]" and R = "\<lambda>_. True"])
    (use assms in \<open>auto simp: yields_def intro: writes_silent\<close>)

lemma writes_attempt: "writes Q m \<Longrightarrow> writes Q (attempt m)"
  by (simp add: writes_def)

lemma writes_status: "writes (\<lambda>ws. ws = [ct_status t]) (status_update_ctf K t)"
  unfolding writes_def
proof
  fix s
  have "\<exists>ok. calls (snd (status_update_ctf K t s)) = calls s @ [EvStatus (KCTFTask t) ok]"
    by (auto simp: status_update_ctf_def run_simps status_update_def call_def split: prod.split sum.split kobj.split)
  then show "\<exists>es. calls (snd (status_update_ctf K t s)) = calls s @ es \<and> written es = [ct_status t]"
    by auto
qed

text \<open>Writing one status and then only reading.\<close>

lemma writes_status_last:
  assumes "Q [ct_status t]" "Q []" "\<And>x. emits silent (f x)"
  shows "writes Q (bindE (status_update_ctf K t) f)"
  by (rule writes_bind [OF writes_status, where R = "\<lambda>_. True"])
    (use assms in \<open>auto simp: yields_def intro: writes_silent\<close>)

lemma writes_status_last_attempt:
  assumes "Q [ct_status t]" "Q []" "\<And>x. emits silent (f x)"
  shows "writes Q (bindE (attempt (status_update_ctf K t)) f)"
  by (rule writes_bind [OF writes_attempt [OF writes_status], where R = "\<lambda>_. True"])
    (use assms in \<open>auto simp: yields_def intro: writes_silent\<close>)

text \<open>
  The documented answer of a status update: the stored object, with the status that was sent. The
  server stores instants in whole seconds, so this holds of a status whose instants are whole
  seconds, as those of every fetched object are. (The only other status that is sent is the one
  that sets the expiry instant, and its answer is not used.)
\<close>

definition whole_seconds :: "ctf_task_status \<Rightarrow> bool" where
  "whole_seconds st \<longleftrightarrow>
     (case ts_expiry_time st of None \<Rightarrow> True | Some t \<Rightarrow> t mod Second = 0) \<and>
     (case ts_solved_at st of None \<Rightarrow> True | Some t \<Rightarrow> t mod Second = 0)"

definition status_kept :: "'w kube \<Rightarrow> bool" where
  "status_kept K \<longleftrightarrow> (\<forall>t w t' w'. whole_seconds (ct_status t) \<and>
     k_status_update K (KCTFTask t) w = (Inr (KCTFTask t'), w') \<longrightarrow> ct_status t' = ct_status t)"

lemma sample_kube_status_kept: "status_kept (sample_kube s sp svcs t)"
  by (simp add: status_kept_def sample_kube_def)

lemma status_kept_yields:
  assumes "status_kept K" "whole_seconds (ct_status t)"
  shows "yields (\<lambda>t'. ct_status t' = ct_status t) (status_update_ctf K t)"
  using assms
  by (auto simp: yields_def status_update_ctf_def status_update_def call_def run_simps status_kept_def
      split: prod.splits sum.splits kobj.splits)

subsection \<open>Every reconciliation is a sequence of moves\<close>

lemma ensureResources_silent: "emits silent (ensureResources L K task flag)"
  unfolding ensureResources_def ensurePod_def ensureCTFService_def ensureNetworkPolicy_def
  by (intro emit_intros) simp_all

lemma isPodReady_silent: "emits silent (isPodReady K task)"
  unfolding isPodReady_def by (intro emit_intros) simp_all

definition past_pending :: "ctf_task \<Rightarrow> bool" where
  "past_pending task \<longleftrightarrow> ts_phase (ct_status task) \<notin> {'''', ''Pending''}"

lemma ready_status_step:
  assumes "past_pending task" "ts_phase (ct_status task) \<noteq> ts_phase (ready_status task b)"
  shows "status_step (ct_status task) (ready_status task b)"
  using assms by (auto simp: ready_status_def past_pending_def intro: become_ready wait split: if_splits)

lemma ctf_finish_writes:
  assumes "past_pending task"
  shows "writes (step_chain (ct_status task)) (ctf_finish K task)"
  unfolding ctf_finish_def Let_def
proof (rule writes_after [OF isPodReady_silent])
  fix b
  show "writes (step_chain (ct_status task))
      (bindE (if ts_phase (ct_status task) \<noteq> ts_phase (ready_status task b)
               then bindE (status_update_ctf K (set_status task (ready_status task b))) (\<lambda>_. ret ()) else ret ()) (\<lambda>_.
        ret (requeue_after (30 * Second))))"
  proof (cases "ts_phase (ct_status task) = ts_phase (ready_status task b)")
    case False
    then show ?thesis
      by simp (rule writes_status_last, simp_all add: ready_status_step [OF assms] emits_ret)
  qed (simp add: writes_silent emits_ret)
qed simp

lemma ctf_sync_writes:
  assumes "past_pending task"
  shows "writes (step_chain (ct_status task)) (ctf_sync G L K task)"
  unfolding ctf_sync_def
proof (rule writes_after [OF emits_liftE])
  fix flag
  have fail: "writes (step_chain (ct_status task)) (bindE (attempt (status_update_ctf K (set_status task
       ((ct_status task)\<lparr>ts_phase := ''Failed'', ts_message := err_text e\<rparr>)))) (\<lambda>_. fail e))" for e
    using assms by (auto simp: past_pending_def intro!: writes_status_last_attempt emit_intros break_down)
  show "writes (step_chain (ct_status task)) (bindE (attempt (ensureResources L K task flag)) (\<lambda>r. case r of
       Inl e \<Rightarrow>
         bindE (attempt (status_update_ctf K (set_status task ((ct_status task)\<lparr>ts_phase := ''Failed'', ts_message := err_text e\<rparr>))))
           (\<lambda>_. fail e)
     | Inr _ \<Rightarrow> ctf_finish K task))"
    by (rule writes_after [OF emits_attempt [OF ensureResources_silent]])
      (auto simp: fail ctf_finish_writes [OF assms] split: sum.split)
qed simp

lemma ctf_live_writes:
  assumes "status_kept K" "whole_seconds (ct_status task)"
  shows "writes (step_chain (ct_status task)) (ctf_live G L K task)"
proof -
  have init: "writes (step_chain (ct_status task)) (ctf_init G K task)" if "ts_phase (ct_status task) = ''''"
    unfolding ctf_init_def Let_def
    by (rule writes_after) (use that in \<open>auto intro!: writes_status_last emit_intros initialise\<close>)
  have later: "writes (step_chain (ct_status task)) (bindE (ctf_start K task) (ctf_sync G L K))"
    if phase: "ts_phase (ct_status task) \<noteq> ''''"
  proof (cases "ts_phase (ct_status task) = ''Pending''")
    case True
    let ?t = "set_status task ((ct_status task)\<lparr>ts_phase := ''Provisioning''\<rparr>)"
    have step: "status_step (ct_status task) (ct_status ?t)" using True by (simp add: provision)
    have "writes (\<lambda>ws. step_chain (ct_status task) ([ct_status ?t] @ ws)) (ctf_sync G L K t')"
      if "ct_status t' = ct_status ?t" for t'
      using ctf_sync_writes [of t' G L K] step that by (simp add: past_pending_def)
    moreover have "whole_seconds (ct_status ?t)" using assms(2) by (simp add: whole_seconds_def)
    ultimately have "writes (step_chain (ct_status task)) (bindE (status_update_ctf K ?t) (ctf_sync G L K))"
      by (intro writes_bind [OF writes_status status_kept_yields [OF assms(1)]]) (use step in simp_all)
    with True show ?thesis by (simp add: ctf_start_def)
  next
    case False
    with phase show ?thesis by (simp add: ctf_start_def past_pending_def ctf_sync_writes)
  qed
  show ?thesis using init later by (simp add: ctf_live_def)
qed

lemma ctf_fetched_writes:
  assumes "status_kept K" "whole_seconds (ct_status task)"
  shows "writes (step_chain (ct_status task)) (ctf_fetched G L K task)"
  unfolding ctf_fetched_def
proof (rule writes_after)
  show "emits silent (ctf_expired K task)" unfolding ctf_expired_def by (intro emit_intros) simp
  show "writes (step_chain (ct_status task)) (if expired
      then bindE (delete K CTFTaskKind (m_namespace (ct_meta task)) (ct_name task) None) (\<lambda>_. ret done_result)
      else ctf_live G L K task)" for expired
    using ctf_live_writes [OF assms] by (auto intro!: writes_silent emit_intros)
qed simp

lemma get_ctf_task_run:
  "k_get_ctf_task K ns n w = (r, w1) \<Longrightarrow>
   get_ctf_task K ns n \<lparr>outside = w, calls = []\<rparr> = (r, \<lparr>outside = w1, calls = [EvGet CTFTaskKind ns n (succeeded r)]\<rparr>)"
  by (simp add: get_ctf_task_def call_def)

lemma ReconcileCTF_found:
  assumes "k_get_ctf_task K ns n w = (Inr task, w1)"
  shows "ReconcileCTF G L K ns n \<lparr>outside = w, calls = []\<rparr> =
    ctf_fetched G L K task \<lparr>outside = w1, calls = [EvGet CTFTaskKind ns n True]\<rparr>"
  by (simp add: ReconcileCTF_def run_simps attempt_def get_ctf_task_run [OF assms])

lemma reconcile_chain:
  assumes "status_kept K" "k_get_ctf_task K ns n w = (Inr task, w1)" "whole_seconds (ct_status task)"
  shows "step_chain (ct_status task) (written (calls (snd (ReconcileCTF G L K ns n \<lparr>outside = w, calls = []\<rparr>))))"
  using ctf_fetched_writes [OF assms(1,3), of G L]
  by (auto simp: ReconcileCTF_found [OF assms(2)] writes_def
      dest!: spec [of _ "\<lparr>outside = w1, calls = [EvGet CTFTaskKind ns n True]\<rparr>"])

text \<open>
  C18: the reconciler implements the state machine. The statuses a reconciliation writes, in the
  order it writes them, are successive moves of \<open>status_step\<close> from the status it fetched, whatever
  the cluster answers and whichever calls fail. The machine is that of the code and of its own
  comments. It is not that of \<open>ctftask_controller_test.go\<close>, whose first test waits for the phase
  Active after the creation of a task: no move enters Active, a running task is Ready.
\<close>

theorem ctf_refines_state_machine:
  assumes "status_kept K" "k_get_ctf_task K ns n w = (Inr task, w1)" "whole_seconds (ct_status task)"
  shows "step_chain (ct_status task) (written (calls (snd (ReconcileCTF G L K ns n \<lparr>outside = w, calls = []\<rparr>))))"
  by (rule reconcile_chain [OF assms])

theorem ctf_refines_state_machine_witness:
  "step_chain (ct_status idle_ctf)
     (written (calls (snd (ReconcileCTF sample_env sample_lib (ctf_kube idle_ctf) ''n'' ''t'' \<lparr>outside = 0, calls = []\<rparr>))))"
proof -
  have "k_get_ctf_task (ctf_kube idle_ctf) ''n'' ''t'' 0 = (Inr idle_ctf, 0)"
    by (simp add: sample_kube_def idle_ctf_def)
  moreover have "whole_seconds (ct_status idle_ctf)" by (simp add: whole_seconds_def idle_ctf_def)
  ultimately show ?thesis by (rule ctf_refines_state_machine [OF sample_kube_status_kept])
qed

subsection \<open>Reachable statuses\<close>

definition fresh_status :: "ctf_task_status \<Rightarrow> bool" where
  "fresh_status st \<longleftrightarrow> ts_phase st = '''' \<and> ts_expiry_time st = None \<and> ts_endpoint st = '''' \<and> ts_solved_at st = None"

definition status_reachable :: "ctf_task_status \<Rightarrow> bool" where
  "status_reachable st \<longleftrightarrow> (\<exists>st0. fresh_status st0 \<and> status_step\<^sup>*\<^sup>* st0 st)"

definition status_inv :: "ctf_task_status \<Rightarrow> bool" where
  "status_inv st \<longleftrightarrow> ts_phase st \<in> insert '''' (set ctf_written_phases) \<and>
     (ts_phase st = '''' \<longleftrightarrow> ts_expiry_time st = None) \<and> (ts_phase st = ''Ready'' \<longrightarrow> ts_message st = ''All systems go'') \<and>
     ts_solved_at st = None"

lemma status_inv_step: "status_step st st' \<Longrightarrow> status_inv st \<Longrightarrow> status_inv st'"
  by (erule status_stepE) (auto simp: status_inv_def ctf_written_phases_def)

lemma status_inv_steps: "status_step\<^sup>*\<^sup>* st st' \<Longrightarrow> status_inv st \<Longrightarrow> status_inv st'"
  by (induction rule: rtranclp_induct) (auto intro: status_inv_step)

lemma fresh_inv: "fresh_status st \<Longrightarrow> status_inv st"
  by (simp add: fresh_status_def status_inv_def)

lemma expiry_kept_step:
  "status_step st st' \<Longrightarrow> ts_phase st \<noteq> '''' \<Longrightarrow> ts_expiry_time st' = ts_expiry_time st \<and> ts_phase st' \<noteq> ''''"
  by (erule status_stepE) auto

lemma expiry_kept_steps:
  "status_step\<^sup>*\<^sup>* st st' \<Longrightarrow> ts_phase st \<noteq> '''' \<Longrightarrow> ts_expiry_time st' = ts_expiry_time st \<and> ts_phase st' \<noteq> ''''"
  by (induction rule: rtranclp_induct) (auto dest: expiry_kept_step)

lemma step_phase: "status_step st st' \<Longrightarrow> ts_phase st' \<noteq> ''''"
  by (erule status_stepE) auto

lemma step_chain_left: "step_chain st ws \<Longrightarrow> w \<in> set ws \<Longrightarrow> ts_phase w \<noteq> ''''"
  by (induction st ws rule: step_chain.induct) (auto dest: step_phase)

text \<open>
  C19: what holds through the life of a task. If a reconciliation fetches a status that the
  machine can reach from a fresh one, every status it writes is reachable too; its phase is
  Pending, Provisioning, Ready or Failed, it carries an expiry instant, that instant is the fetched
  one unless the fetched status was fresh, Ready always carries its message, and the time of a
  solution is never set. So the phases Active, Solved and Expired of the CRD's enumeration are
  never entered, and the tests of \<open>ctftask_controller_test.go\<close>, which wait for Active and for
  Expired, describe another program.
\<close>

theorem ctf_reachable_statuses:
  assumes "status_kept K" "k_get_ctf_task K ns n w = (Inr task, w1)" "whole_seconds (ct_status task)"
    and "status_reachable (ct_status task)"
  shows "list_all (\<lambda>st. status_reachable st \<and> status_inv st \<and> ts_phase st \<in> set ctf_written_phases \<and>
      ts_phase st \<notin> {''Active'', ''Solved'', ''Expired''} \<and>
      ts_expiry_time st \<noteq> None \<and> ts_expiry_time (ct_status task) \<in> {None, ts_expiry_time st})
    (written (calls (snd (ReconcileCTF G L K ns n \<lparr>outside = w, calls = []\<rparr>))))"
proof -
  let ?ws = "written (calls (snd (ReconcileCTF G L K ns n \<lparr>outside = w, calls = []\<rparr>)))"
  note chain = reconcile_chain [OF assms(1-3), of G L]
  obtain st0 where st0: "fresh_status st0" "status_step\<^sup>*\<^sup>* st0 (ct_status task)"
    using assms(4) unfolding status_reachable_def by blast
  have inv: "status_inv (ct_status task)" by (rule status_inv_steps [OF st0(2) fresh_inv [OF st0(1)]])
  have "status_reachable st \<and> status_inv st \<and> ts_phase st \<in> set ctf_written_phases \<and>
      ts_phase st \<notin> {''Active'', ''Solved'', ''Expired''} \<and>
      ts_expiry_time st \<noteq> None \<and> ts_expiry_time (ct_status task) \<in> {None, ts_expiry_time st}"
    if "st \<in> set ?ws" for st
  proof -
    note reach = step_chain_reach [OF chain that]
    have sti: "status_inv st" by (rule status_inv_steps [OF reach inv])
    have "ts_phase st \<noteq> ''''"
      by (rule step_chain_left [OF chain that])
    moreover have "ts_expiry_time (ct_status task) \<in> {None, ts_expiry_time st}"
      using expiry_kept_steps [OF reach] inv by (auto simp: status_inv_def)
    ultimately show ?thesis
      using sti st0 reach by (auto simp: status_reachable_def status_inv_def ctf_written_phases_def)
  qed
  then show ?thesis by (simp add: list_all_iff)
qed

theorem ctf_reachable_statuses_witness:
  "\<exists>st. written (calls (snd (ReconcileCTF sample_env sample_lib (ctf_kube idle_ctf) ''n'' ''t'' \<lparr>outside = 0, calls = []\<rparr>))) = [st] \<and>
     status_inv st \<and> ts_expiry_time st \<noteq> None"
proof -
  have get: "k_get_ctf_task (ctf_kube idle_ctf) ''n'' ''t'' 0 = (Inr idle_ctf, 0)"
    by (simp add: sample_kube_def idle_ctf_def)
  have fresh: "status_reachable (ct_status idle_ctf)"
    unfolding status_reachable_def by (rule exI [of _ "ct_status idle_ctf"]) (simp add: fresh_status_def idle_ctf_def)
  have "\<exists>st. written (calls (snd (ReconcileCTF sample_env sample_lib (ctf_kube idle_ctf) ''n'' ''t'' \<lparr>outside = 0, calls = []\<rparr>))) = [st]"
    unfolding ReconcileCTF_found [OF get]
    by (simp add: ctf_fetched_def ctf_expired_def ctf_live_def ctf_init_def idle_ctf_def Let_def
        run_simps time_now_def status_update_ctf_def status_update_def call_def sample_kube_def)
  moreover have "whole_seconds (ct_status idle_ctf)" by (simp add: whole_seconds_def idle_ctf_def)
  ultimately show ?thesis
    using ctf_reachable_statuses [OF sample_kube_status_kept get _ fresh, of sample_env sample_lib] by auto
qed

subsection \<open>The flag\<close>

definition flag_input :: "ctf_task \<Rightarrow> string" where
  "flag_input task = (if fc_scope (ct_flag_config (ct_spec task)) = ''Personal''
     then ct_name task @ ''-'' @ ct_student_id (ct_spec task) else ct_name task)"

definition flag_length :: "ctf_task \<Rightarrow> int" where
  "flag_length task = (if fc_length (ct_flag_config (ct_spec task)) = 0 then 12
     else fc_length (ct_flag_config (ct_spec task)))"

lemma generateFlag_eq:
  "generateFlag G task salt =
     (if 0 \<le> flag_length task \<and> flag_length task \<le> 64
      then Inr (sprintf G (fc_format (ct_flag_config (ct_spec task)))
        [take (nat (flag_length task)) (hex_string (hmac_sha256 (str_bytes salt) (str_bytes (flag_input task))))])
      else Inl (Panic ''slice bounds out of range''))"
  by (auto simp: generateFlag_def Let_def flag_length_def flag_input_def go_prefix_def hex_length)

lemma schema_length_in_range:
  "flag_length_ok (fc_length (ct_flag_config (ct_spec task))) \<Longrightarrow> 0 \<le> flag_length task \<and> flag_length task \<le> 64"
  by (auto simp: flag_length_ok_def flag_length_def)

lemma schema_flag_total:
  "flag_length_ok (fc_length (ct_flag_config (ct_spec task))) \<Longrightarrow> \<exists>flag. generateFlag G task salt = Inr flag"
  by (drule schema_length_in_range) (simp add: generateFlag_eq)

text \<open>
  C26: the flag of a task. The length is the one asked for, and 12 where that is 0. \<open>generateFlag\<close>
  fails exactly if the length is negative or more than the 64 hexadecimal digits there are,
  whatever the format, and then with a panic; a length the CRD admits (absent, or 8 to 64) is
  never one of these. Otherwise, for a format that consists of one \<open>%s\<close> between texts without
  \<open>%\<close>, the flag is the format with \<open>%s\<close> replaced by that many first digits of the hexadecimal HMAC of
  the task's name (and the student, in the Personal scope), lower-case. The CRD also admits
  formats with further directives; nothing is said of the text they give.
\<close>

theorem flag_contract:
  "(case generateFlag G task salt of
      Inl e \<Rightarrow> is_panic e \<and> (flag_length task < 0 \<or> 64 < flag_length task)
    | Inr flag \<Rightarrow> 0 \<le> flag_length task \<and> flag_length task \<le> 64) \<and>
   (flag_length_ok (fc_length (ct_flag_config (ct_spec task))) \<longrightarrow> 0 \<le> flag_length task \<and> flag_length task \<le> 64) \<and>
   (\<forall>p q. fc_format (ct_flag_config (ct_spec task)) = p @ ''%s'' @ q \<and> CHR ''%'' \<notin> set p \<and> CHR ''%'' \<notin> set q \<and>
      0 \<le> flag_length task \<and> flag_length task \<le> 64 \<longrightarrow>
      (\<exists>body. generateFlag G task salt = Inr (p @ body @ q) \<and> int (length body) = flag_length task \<and>
        set body \<subseteq> set hex_alphabet \<and>
        body = take (nat (flag_length task)) (hex_string (hmac_sha256 (str_bytes salt) (str_bytes (flag_input task))))))"
proof (intro conjI allI impI)
  show "case generateFlag G task salt of
      Inl e \<Rightarrow> is_panic e \<and> (flag_length task < 0 \<or> 64 < flag_length task)
    | Inr flag \<Rightarrow> 0 \<le> flag_length task \<and> flag_length task \<le> 64"
    by (auto simp: generateFlag_eq)
next
  fix p q
  assume f: "fc_format (ct_flag_config (ct_spec task)) = p @ ''%s'' @ q \<and> CHR ''%'' \<notin> set p \<and> CHR ''%'' \<notin> set q \<and>
      0 \<le> flag_length task \<and> flag_length task \<le> 64"
  define body where "body = take (nat (flag_length task))
    (hex_string (hmac_sha256 (str_bytes salt) (str_bytes (flag_input task))))"
  have "set body \<subseteq> set hex_alphabet"
    unfolding body_def using hex_chars set_take_subset by (rule subset_trans [rotated])
  moreover have "int (length body) = flag_length task"
    using f by (auto simp: body_def hex_length)
  moreover have "generateFlag G task salt = Inr (p @ body @ q)"
    using f sprintf_one_verb [of p q G body] unfolding generateFlag_eq by (simp add: body_def)
  ultimately show "\<exists>body. generateFlag G task salt = Inr (p @ body @ q) \<and> int (length body) = flag_length task \<and>
        set body \<subseteq> set hex_alphabet \<and>
        body = take (nat (flag_length task)) (hex_string (hmac_sha256 (str_bytes salt) (str_bytes (flag_input task))))"
    using body_def by blast
qed (use schema_length_in_range in blast)+

theorem flag_contract_witness:
  "\<exists>body. generateFlag sample_env idle_ctf ''salt'' = Inr (''CTF{'' @ body @ ''}'') \<and> length body = 12"
proof -
  have fmt: "fc_format (ct_flag_config (ct_spec idle_ctf)) = ''CTF{'' @ ''%s'' @ ''}''"
    and len: "flag_length idle_ctf = 12" by (simp_all add: idle_ctf_def flag_length_def)
  have pre: "fc_format (ct_flag_config (ct_spec idle_ctf)) = ''CTF{'' @ ''%s'' @ ''}'' \<and> CHR ''%'' \<notin> set ''CTF{'' \<and>
      CHR ''%'' \<notin> set ''}'' \<and> 0 \<le> flag_length idle_ctf \<and> flag_length idle_ctf \<le> 64"
    using fmt by (simp add: len)
  note flag = conjunct2 [OF conjunct2 [OF flag_contract [where G = sample_env and task = idle_ctf and salt = "''salt''"]]]
  obtain body where "generateFlag sample_env idle_ctf ''salt'' = Inr (''CTF{'' @ body @ ''}'')"
    "int (length body) = flag_length idle_ctf"
    using mp [OF spec [OF spec [OF flag]] pre] by blast
  then show ?thesis by (intro exI [of _ body]) (simp add: len)
qed

text \<open>The Personal input is a concatenation: two tasks of two students can share their flag.\<close>

lemma personal_flags_collide:
  "\<exists>t1 t2. (ct_name t1, ct_student_id (ct_spec t1)) \<noteq> (ct_name t2, ct_student_id (ct_spec t2)) \<and>
     fc_scope (ct_flag_config (ct_spec t1)) = ''Personal'' \<and> fc_scope (ct_flag_config (ct_spec t2)) = ''Personal'' \<and>
     generateFlag G t1 salt = generateFlag G t2 salt"
proof -
  let ?t = "\<lambda>n st. idle_ctf\<lparr>ct_meta := new_meta n ''n'', ct_spec := (ct_spec idle_ctf)\<lparr>ct_student_id := st,
      ct_flag_config := (ct_flag_config (ct_spec idle_ctf))\<lparr>fc_scope := ''Personal''\<rparr>\<rparr>\<rparr>"
  show ?thesis
    by (intro exI [of _ "?t ''a'' ''b-c''"] exI [of _ "?t ''a-b'' ''c''"])
      (simp add: generateFlag_eq flag_length_def flag_input_def)
qed

subsection \<open>Expiry\<close>

fun is_delete :: "event \<Rightarrow> bool" where
  "is_delete (EvDelete k m x grace ok) = True"
| "is_delete _ = False"

lemma ctf_live_no_delete: "emits (\<lambda>e. \<not> is_delete e) (ctf_live G L K task)"
  unfolding ctf_live_def ctf_init_def ctf_start_def ctf_sync_def ctf_finish_def isPodReady_def ensureResources_def
    ensurePod_def ensureCTFService_def ensureNetworkPolicy_def Let_def
  by (intro emit_intros) simp_all

lemma ctf_expired_run:
  "ctf_expired K task s = (case ts_expiry_time (ct_status task) of None \<Rightarrow> (Inr False, s)
     | Some t \<Rightarrow> (Inr (t < fst (k_now K (outside s))),
         s\<lparr>outside := snd (k_now K (outside s)), calls := calls s @ [EvNow]\<rparr>))"
  by (simp add: ctf_expired_def run_simps time_now_def call_def case_prod_beta split: option.split)

definition expired_at :: "'w kube \<Rightarrow> 'w \<Rightarrow> ctf_task \<Rightarrow> bool" where
  "expired_at K w task = (case ts_expiry_time (ct_status task) of None \<Rightarrow> False | Some t \<Rightarrow> t < fst (k_now K w))"

text \<open>
  C25: a task is deleted exactly when its time is up. If the clock read after fetching the task lies
  after its expiry instant, the reconciliation makes three calls: it fetches the task, reads the
  clock and asks to delete the task, whatever its phase. Otherwise it asks to delete nothing. This
  is what the comment at the check says (deletion on TTL); the second test of
  \<open>ctftask_controller_test.go\<close> expects instead that an expired task stays, with the phase Expired,
  and the three calls leave no room for that: no status is written.
\<close>

theorem ctf_deleted_iff_expired:
  assumes "k_get_ctf_task K ns n w = (Inr task, w1)"
  shows "if expired_at K w1 task
    then \<exists>ok. calls (snd (ReconcileCTF G L K ns n \<lparr>outside = w, calls = []\<rparr>)) =
      [EvGet CTFTaskKind ns n True, EvNow, EvDelete CTFTaskKind (m_namespace (ct_meta task)) (ct_name task) None ok]
    else list_all (\<lambda>e. \<not> is_delete e) (calls (snd (ReconcileCTF G L K ns n \<lparr>outside = w, calls = []\<rparr>)))"
proof (cases "expired_at K w1 task")
  case True
  then obtain t where t: "ts_expiry_time (ct_status task) = Some t" "t < fst (k_now K w1)"
    by (auto simp: expired_at_def split: option.splits)
  then show ?thesis
    unfolding ReconcileCTF_found [OF assms] ctf_fetched_def
    by (auto simp: True run_simps ctf_expired_run delete_def call_def split: prod.split sum.split)
next
  case False
  let ?s = "\<lparr>outside = w1, calls = [EvGet CTFTaskKind ns n True]\<rparr>"
  obtain s2 where s2: "ctf_expired K task ?s = (Inr False, s2)" "list_all (\<lambda>e. \<not> is_delete e) (calls s2)"
    using False by (auto simp: ctf_expired_run expired_at_def split: option.splits)
  obtain r s3 where s3: "ctf_live G L K task s2 = (r, s3)" by fastforce
  from emitsD [OF ctf_live_no_delete s3] s2(2) have "list_all (\<lambda>e. \<not> is_delete e) (calls s3)" by auto
  with False s2(1) s3 show ?thesis
    by (simp add: ReconcileCTF_found [OF assms] ctf_fetched_def run_simps)
qed

definition overdue_ctf :: ctf_task where
  "overdue_ctf = idle_ctf\<lparr>ct_status := (ct_status idle_ctf)\<lparr>ts_phase := ''Ready'', ts_expiry_time := Some (- 1)\<rparr>\<rparr>"

theorem ctf_deleted_iff_expired_witness:
  "\<exists>ok. calls (snd (ReconcileCTF sample_env sample_lib (ctf_kube overdue_ctf) ''n'' ''t'' \<lparr>outside = 0, calls = []\<rparr>)) =
     [EvGet CTFTaskKind ''n'' ''t'' True, EvNow, EvDelete CTFTaskKind ''n'' ''t'' None ok]"
proof -
  have get: "k_get_ctf_task (ctf_kube overdue_ctf) ''n'' ''t'' 0 = (Inr overdue_ctf, 0)"
    by (simp add: sample_kube_def overdue_ctf_def idle_ctf_def)
  moreover have "expired_at (ctf_kube overdue_ctf) 0 overdue_ctf"
    by (simp add: expired_at_def sample_kube_def overdue_ctf_def idle_ctf_def)
  moreover have "m_namespace (ct_meta overdue_ctf) = ''n''" "ct_name overdue_ctf = ''t''"
    by (simp_all add: overdue_ctf_def idle_ctf_def)
  ultimately show ?thesis
    using ctf_deleted_iff_expired [OF get, of sample_env sample_lib] by simp
qed

text \<open>
  The expiry instant of a task. The first reconciliation of a fresh task makes three calls: it
  fetches the task, reads the clock, and writes the status Pending with the expiry instant at
  that reading plus the duration of the spec; no resource is made before that. A duration that
  does not parse counts as zero, so that the task is already due to be deleted. If the write
  succeeds the reconciliation asks to be run again at once.
\<close>

lemma ctf_expiry_set_first:
  assumes "k_get_ctf_task K ns n w = (Inr task, w1)" "fresh_status (ct_status task)"
  shows "\<exists>task' ok. calls (snd (ReconcileCTF G L K ns n \<lparr>outside = w, calls = []\<rparr>)) =
      [EvGet CTFTaskKind ns n True, EvNow, EvStatus (KCTFTask task') ok] \<and>
    ct_spec task' = ct_spec task \<and> ts_phase (ct_status task') = ''Pending'' \<and>
    ts_expiry_time (ct_status task') = Some (fst (k_now K w1) +
      (case parse_duration G (ct_duration (ct_spec task)) of None \<Rightarrow> 0 | Some d \<Rightarrow> d)) \<and>
    (case fst (ReconcileCTF G L K ns n \<lparr>outside = w, calls = []\<rparr>) of
       Inl e \<Rightarrow> True | Inr res \<Rightarrow> ok \<and> res = \<lparr>cr_requeue = True, cr_after = 0\<rparr>)"
  using assms(2)
  unfolding ReconcileCTF_found [OF assms(1)] ctf_fetched_def ctf_live_def
  by (auto simp: fresh_status_def run_simps ctf_expired_run ctf_init_def Let_def time_now_def call_def
      status_update_ctf_def status_update_def split: prod.split sum.split kobj.split option.split)

lemma ctf_expiry_set_first_example:
  "\<exists>task' ok. calls (snd (ReconcileCTF sample_env sample_lib (ctf_kube idle_ctf) ''n'' ''t'' \<lparr>outside = 5, calls = []\<rparr>)) =
     [EvGet CTFTaskKind ''n'' ''t'' True, EvNow, EvStatus (KCTFTask task') ok] \<and> ts_phase (ct_status task') = ''Pending''"
proof -
  have get: "k_get_ctf_task (ctf_kube idle_ctf) ''n'' ''t'' 5 = (Inr idle_ctf, 5)"
    by (simp add: sample_kube_def idle_ctf_def)
  have "fresh_status (ct_status idle_ctf)" by (simp add: fresh_status_def idle_ctf_def)
  from ctf_expiry_set_first [OF get this, of sample_env sample_lib] show ?thesis by blast
qed

subsection \<open>The resources of a task\<close>

text \<open>The resource a call reconciles, with its outcome.\<close>

fun reconciled :: "event \<Rightarrow> kind \<times> bool" where
  "reconciled (EvCreateOrUpdate ob f ok) = (obj_kind ob, ok)"
| "reconciled e = (NamespaceKind, False)"

text \<open>
  C27: the order in which the resources of a task are made. The pod is always asked for first and
  its NetworkPolicy last, and the first failure ends the sequence: so there are outcomes with
  the pod running and no policy in place, the reverse of what a session does. Nor is the pod
  hardened as a session's pods are: no security context, and the service-account token mounted.
\<close>

theorem ctf_pod_precedes_policy:
  "(\<exists>es. calls (snd (ensureResources L K task flag s)) = calls s @ es \<and>
     map reconciled es \<in> {[(PodKind, False)], [(PodKind, True), (ServiceKind, False)],
       [(PodKind, True), (ServiceKind, True), (NetworkPolicyKind, False)],
       [(PodKind, True), (ServiceKind, True), (NetworkPolicyKind, True)]} \<and>
     (case fst (ensureResources L K task flag s) of Inl e \<Rightarrow> \<not> snd (last (map reconciled es)) | Inr x \<Rightarrow> list_all (snd \<circ> reconciled) es)) \<and>
   \<not> (\<exists>p. ctf_pod_mutate L task flag (new_pod (ct_name task) (m_namespace (ct_meta task))) = Inr p \<and>
        hardened (pod_spec_of p))"
proof -
  have "\<not> (\<exists>p. ctf_pod_mutate L task flag (new_pod (ct_name task) (m_namespace (ct_meta task))) = Inr p \<and>
        hardened (pod_spec_of p))"
    by (auto simp: ctf_pod_mutate_def Let_def bindR_eq_Inr new_pod_def new_pod_spec_def hardened_def)
  moreover have "\<exists>es. calls (snd (ensureResources L K task flag s)) = calls s @ es \<and>
     map reconciled es \<in> {[(PodKind, False)], [(PodKind, True), (ServiceKind, False)],
       [(PodKind, True), (ServiceKind, True), (NetworkPolicyKind, False)],
       [(PodKind, True), (ServiceKind, True), (NetworkPolicyKind, True)]} \<and>
     (case fst (ensureResources L K task flag s) of Inl e \<Rightarrow> \<not> snd (last (map reconciled es)) | Inr x \<Rightarrow> list_all (snd \<circ> reconciled) es)"
    unfolding ensureResources_def ensurePod_def ensureCTFService_def ensureNetworkPolicy_def
    by (auto simp: run_simps wrap_err_def create_or_update_def call_def split: prod.split sum.split)
  ultimately show ?thesis by (rule conjI [rotated])
qed

lemma wrap_err_error: "wrap_err p m s = (Inl e, s') \<Longrightarrow> \<not> is_panic e \<Longrightarrow> \<exists>c. e = Wrapped p c"
  by (auto simp: wrap_err_def split: prod.splits sum.splits if_splits)

lemma bindE_error:
  assumes "bindE m f s = (Inl e, s')"
  obtains "m s = (Inl e, s')" | x s1 where "m s = (Inr x, s1)" "f x s1 = (Inl e, s')"
  using assms by (auto simp: run_bindE split: prod.splits sum.splits)

lemma ensureResources_error:
  assumes "ensureResources L K task flag s = (Inl e, s')" "\<not> is_panic e"
  shows "\<exists>what c. e = Wrapped (''failed to ensure '' @ what) c \<and> what \<in> {''pod'', ''service'', ''network policy''}"
proof -
  have named: ?thesis if "wrap_err (''failed to ensure '' @ what) m t = (Inl e, s')"
    "what \<in> {''pod'', ''service'', ''network policy''}" for what t and m :: "('a kst, unit) prog"
    using wrap_err_error [OF that(1) assms(2)] that(2) by blast
  note named = named [of "''pod''", simplified] named [of "''service''", simplified] named [of "''network policy''", simplified]
  from assms(1) show ?thesis
    unfolding ensureResources_def by (elim bindE_error) (simp_all add: named)
qed

text \<open>
  C24: a failure is reported and not lost. If the resources of a task cannot be made, the status is
  set to Failed with the text of the error as the message, nothing else is called, and whatever
  becomes of that write the reconciliation ends with the original error, which names the
  resource that failed.
\<close>

theorem ctf_failure_reported:
  assumes "plain_errors K" "generateFlag G task (getenv G ''LAB_MASTER_SALT'') = Inr flag"
    and "ensureResources L K task flag s = (Inl e, s1)" "\<not> is_panic e"
  shows "\<exists>ok s2. ctf_sync G L K task s = (Inl e, s2) \<and>
      calls s2 = calls s1 @ [EvStatus (KCTFTask (task\<lparr>ct_status := (ct_status task)\<lparr>ts_phase := ''Failed'',
        ts_message := err_text e\<rparr>\<rparr>)) ok] \<and>
      (\<exists>what cause. e = Wrapped (''failed to ensure '' @ what) cause \<and> what \<in> {''pod'', ''service'', ''network policy''} \<and>
        err_text e = ''failed to ensure '' @ what @ '': '' @ err_text cause)"
proof -
  let ?t = "task\<lparr>ct_status := (ct_status task)\<lparr>ts_phase := ''Failed'', ts_message := err_text e\<rparr>\<rparr>"
  obtain u w where u: "k_status_update K (KCTFTask ?t) (outside s1) = (u, w)" by fastforce
  have upd: "\<exists>r. attempt (status_update_ctf K ?t) s1 =
      (Inr r, s1\<lparr>outside := w, calls := calls s1 @ [EvStatus (KCTFTask ?t) (succeeded u)]\<rparr>)"
    using u by (cases u) (auto simp: attempt_def status_update_ctf_def status_update_def call_def run_simps
        split: kobj.split dest: plain_errorsD(2) [OF assms(1)])
  have "\<exists>s2. ctf_sync G L K task s = (Inl e, s2) \<and> calls s2 = calls s1 @ [EvStatus (KCTFTask ?t) (succeeded u)]"
    using upd assms(2-4) by (auto simp: ctf_sync_def run_simps attempt_def [of "ensureResources L K task flag"])
  then obtain s2 where s2: "ctf_sync G L K task s = (Inl e, s2)"
    "calls s2 = calls s1 @ [EvStatus (KCTFTask ?t) (succeeded u)]" by blast
  obtain what c where c: "e = Wrapped (''failed to ensure '' @ what) c" "what \<in> {''pod'', ''service'', ''network policy''}"
    using ensureResources_error [OF assms(3,4)] by blast
  have "err_text e = ''failed to ensure '' @ what @ '': '' @ err_text c" by (simp add: c(1))
  with s2 c show ?thesis by (intro exI conjI)
qed

abbreviation refusing_kube :: "nat kube" where
  "refusing_kube \<equiv> (ctf_kube idle_ctf)\<lparr>k_create_or_update := (\<lambda>ob f w. (Inl (ApiErr OtherReason ''refused''), w))\<rparr>"

theorem ctf_failure_reported_witness:
  "\<exists>flag e s1 ok s2. ensureResources sample_lib refusing_kube idle_ctf flag \<lparr>outside = 0, calls = []\<rparr> = (Inl e, s1) \<and>
     ctf_sync sample_env sample_lib refusing_kube idle_ctf \<lparr>outside = 0, calls = []\<rparr> = (Inl e, s2) \<and>
     calls s2 = calls s1 @ [EvStatus (KCTFTask (idle_ctf\<lparr>ct_status := (ct_status idle_ctf)\<lparr>ts_phase := ''Failed'',
        ts_message := err_text e\<rparr>\<rparr>)) ok]"
proof -
  have plain: "plain_errors refusing_kube" by (simp add: plain_errors_def sample_kube_def)
  have "flag_length_ok (fc_length (ct_flag_config (ct_spec idle_ctf)))" by (simp add: idle_ctf_def flag_length_ok_def)
  then obtain flag where flag: "generateFlag sample_env idle_ctf (getenv sample_env ''LAB_MASTER_SALT'') = Inr flag"
    using schema_flag_total by blast
  have "\<exists>s1. ensureResources sample_lib refusing_kube idle_ctf flag \<lparr>outside = 0, calls = []\<rparr> =
      (Inl (Wrapped ''failed to ensure pod'' (ApiErr OtherReason ''refused'')), s1)"
    by (simp add: ensureResources_def ensurePod_def run_simps wrap_err_def create_or_update_def call_def)
  then obtain s1 where res: "ensureResources sample_lib refusing_kube idle_ctf flag \<lparr>outside = 0, calls = []\<rparr> =
      (Inl (Wrapped ''failed to ensure pod'' (ApiErr OtherReason ''refused'')), s1)" by blast
  have "\<not> is_panic (Wrapped ''failed to ensure pod'' (ApiErr OtherReason ''refused''))" by simp
  from ctf_failure_reported [OF plain flag res this] res show ?thesis by blast
qed

end
