(* ===== verification/CTFNetwork.thy ===== *)
theory CTFNetwork
  imports CTFTask
begin

section \<open>What a CTFTask's resources mean on the network\<close>

text \<open>
  The NetworkPolicy, the Service and the pod of a CTFTask refer to each other by labels and to the
  network by address blocks written as text. Here the blocks are read, as \<open>net.ParseCIDR\<close> reads
  them, into 32-bit addresses, and a policy is given its documented meaning: which peers a
  direction admits. The theorems say which destinations a challenge can reach, who can reach it,
  and that Service and policy are about the task's own pod.
\<close>

subsection \<open>IPv4 blocks\<close>

type_synonym ipv4 = "32 word"

fun split_at :: "char \<Rightarrow> string \<Rightarrow> string list" where
  "split_at c [] = [[]]"
| "split_at c (x # s) = (if x = c then [] # split_at c s
     else case split_at c s of [] \<Rightarrow> [[x]] | p # ps \<Rightarrow> (x # p) # ps)"

definition parse_number :: "nat \<Rightarrow> string \<Rightarrow> nat option" where
  "parse_number bound s =
     (if s = [] \<or> \<not> list_all is_digit s then None
      else let n = foldl (\<lambda>n c. n * 10 + digit_val c) 0 s in if n \<le> bound then Some n else None)"

definition dotted :: "nat \<Rightarrow> nat \<Rightarrow> nat \<Rightarrow> nat \<Rightarrow> ipv4" where
  "dotted a b c d = of_nat (((a * 256 + b) * 256 + c) * 256 + d)"

definition parse_ipv4 :: "string \<Rightarrow> ipv4 option" where
  "parse_ipv4 s = (case map (parse_number 255) (split_at (CHR ''.'') s) of
       [Some a, Some b, Some c, Some d] \<Rightarrow> Some (dotted a b c d)
     | _ \<Rightarrow> None)"

definition parse_cidr :: "string \<Rightarrow> (ipv4 \<times> nat) option" where
  "parse_cidr s = (case split_at (CHR ''/'') s of
       [addr, len] \<Rightarrow> (case (parse_ipv4 addr, parse_number 32 len) of
          (Some ip, Some n) \<Rightarrow> Some (ip, n)
        | _ \<Rightarrow> None)
     | _ \<Rightarrow> None)"

text \<open>An address lies in a block if it agrees with it on the leading bits.\<close>

definition in_block :: "ipv4 \<times> nat \<Rightarrow> ipv4 \<Rightarrow> bool" where
  "in_block blk ip \<longleftrightarrow> drop_bit (32 - snd blk) ip = drop_bit (32 - snd blk) (fst blk)"

definition in_cidr :: "string \<Rightarrow> ipv4 \<Rightarrow> bool" where
  "in_cidr s ip = (case parse_cidr s of None \<Rightarrow> False | Some blk \<Rightarrow> in_block blk ip)"

lemma drop_bit_eq_iff: "drop_bit k (x :: ipv4) = drop_bit k y \<longleftrightarrow> unat x div 2 ^ k = unat y div 2 ^ k"
  by (metis drop_bit_eq_div unat_drop_bit_eq word_unat_eq_iff)

text \<open>A block is an interval of addresses.\<close>

lemma in_block_interval:
  assumes "unat base = q * 2 ^ (32 - n)" "n \<le> 32"
  shows "in_block (base, n) ip \<longleftrightarrow> q * 2 ^ (32 - n) \<le> unat ip \<and> unat ip < (q + 1) * 2 ^ (32 - n)"
proof -
  have "unat ip div 2 ^ (32 - n) = q \<longleftrightarrow> q \<le> unat ip div 2 ^ (32 - n) \<and> unat ip div 2 ^ (32 - n) < q + 1" by auto
  also have "\<dots> \<longleftrightarrow> q * 2 ^ (32 - n) \<le> unat ip \<and> unat ip < (q + 1) * 2 ^ (32 - n)"
    by (simp only: less_eq_div_iff_mult_less_eq [of "2 ^ (32 - n)", simplified] div_less_iff_less_mult [of "2 ^ (32 - n)", simplified])
  finally have "unat ip div 2 ^ (32 - n) = q \<longleftrightarrow> q * 2 ^ (32 - n) \<le> unat ip \<and> unat ip < (q + 1) * 2 ^ (32 - n)" .
  then show ?thesis using assms by (simp add: in_block_def drop_bit_eq_iff)
qed

definition between :: "ipv4 \<Rightarrow> ipv4 \<Rightarrow> ipv4 \<Rightarrow> bool" where
  "between lo hi ip \<longleftrightarrow> lo \<le> ip \<and> ip \<le> hi"

lemma between_unat: "between lo hi ip \<longleftrightarrow> unat lo \<le> unat ip \<and> unat ip < unat hi + 1"
  by (auto simp: between_def word_le_nat_alt)

lemma ctf_blocks:
  "parse_cidr ''0.0.0.0/0'' = Some (dotted 0 0 0 0, 0)"
  "parse_cidr ''169.254.169.254/32'' = Some (dotted 169 254 169 254, 32)"
  "parse_cidr ''10.0.0.0/8'' = Some (dotted 10 0 0 0, 8)"
  "parse_cidr ''172.16.0.0/12'' = Some (dotted 172 16 0 0, 12)"
  "parse_cidr ''192.168.0.0/16'' = Some (dotted 192 168 0 0, 16)"
  by (simp_all add: parse_cidr_def parse_ipv4_def parse_number_def is_digit_def digit_val_def)

lemma ctf_block_ranges:
  "in_cidr ''0.0.0.0/0'' ip"
  "in_cidr ''169.254.169.254/32'' ip \<longleftrightarrow> ip = dotted 169 254 169 254"
  "in_cidr ''10.0.0.0/8'' ip \<longleftrightarrow> between (dotted 10 0 0 0) (dotted 10 255 255 255) ip"
  "in_cidr ''172.16.0.0/12'' ip \<longleftrightarrow> between (dotted 172 16 0 0) (dotted 172 31 255 255) ip"
  "in_cidr ''192.168.0.0/16'' ip \<longleftrightarrow> between (dotted 192 168 0 0) (dotted 192 168 255 255) ip"
proof -
  show "in_cidr ''10.0.0.0/8'' ip \<longleftrightarrow> between (dotted 10 0 0 0) (dotted 10 255 255 255) ip"
    by (simp add: in_cidr_def ctf_blocks in_block_interval [where q = 10] between_unat dotted_def)
  show "in_cidr ''172.16.0.0/12'' ip \<longleftrightarrow> between (dotted 172 16 0 0) (dotted 172 31 255 255) ip"
    by (simp add: in_cidr_def ctf_blocks in_block_interval [where q = 2753] between_unat dotted_def)
  show "in_cidr ''192.168.0.0/16'' ip \<longleftrightarrow> between (dotted 192 168 0 0) (dotted 192 168 255 255) ip"
    by (simp add: in_cidr_def ctf_blocks in_block_interval [where q = 49320] between_unat dotted_def)
  show "in_cidr ''0.0.0.0/0'' ip"
    using unsigned_less [of ip, where 'a = nat]
    by (simp add: in_cidr_def ctf_blocks in_block_interval [where q = 0] dotted_def)
  show "in_cidr ''169.254.169.254/32'' ip \<longleftrightarrow> ip = dotted 169 254 169 254"
    by (simp add: in_cidr_def ctf_blocks in_block_def)
qed

subsection \<open>Whom a policy admits\<close>

text \<open>
  One end of a connection: its address, and for a pod its labels, the labels of its namespace, and
  whether that is the namespace of the policy.
\<close>

record net_end =
  en_ip :: ipv4
  en_pod :: "(string \<times> string) list option"
  en_namespace :: "(string \<times> string) list"
  en_same_namespace :: bool

definition label_match :: "string gomap \<Rightarrow> (string \<times> string) list \<Rightarrow> bool" where
  "label_match sel labels \<longleftrightarrow> list_all (\<lambda>(k, v). map_of labels k = Some v) (gm_entries sel)"

definition peer_admits :: "net_peer \<Rightarrow> net_end \<Rightarrow> bool" where
  "peer_admits p d = (case pe_ip_block p of
       Some (cidr, except) \<Rightarrow> in_cidr cidr (en_ip d) \<and> \<not> list_ex (\<lambda>c. in_cidr c (en_ip d)) except
     | None \<Rightarrow> (case en_pod d of
         None \<Rightarrow> False
       | Some labels \<Rightarrow>
           (case pe_ns_selector p of None \<Rightarrow> en_same_namespace d | Some sel \<Rightarrow> label_match sel (en_namespace d)) \<and>
           (case pe_pod_selector p of None \<Rightarrow> True | Some sel \<Rightarrow> label_match sel labels)))"

definition direction_admits :: "string \<Rightarrow> network_policy \<Rightarrow> net_peer list list \<Rightarrow> net_end \<Rightarrow> bool" where
  "direction_admits dir np rules d \<longleftrightarrow>
     dir \<notin> set (np_types np) \<or> list_ex (\<lambda>peers. peers = [] \<or> list_ex (\<lambda>p. peer_admits p d) peers) rules"

abbreviation egress_admits :: "network_policy \<Rightarrow> net_end \<Rightarrow> bool" where
  "egress_admits np \<equiv> direction_admits ''Egress'' np (np_egress np)"

abbreviation ingress_admits :: "network_policy \<Rightarrow> net_end \<Rightarrow> bool" where
  "ingress_admits np \<equiv> direction_admits ''Ingress'' np (np_ingress np)"

text \<open>The private address space of RFC 1918.\<close>

definition private_ip :: "ipv4 \<Rightarrow> bool" where
  "private_ip ip \<longleftrightarrow> between (dotted 10 0 0 0) (dotted 10 255 255 255) ip \<or>
     between (dotted 172 16 0 0) (dotted 172 31 255 255) ip \<or> between (dotted 192 168 0 0) (dotted 192 168 255 255) ip"

definition is_pod_of :: "(string \<times> string) \<Rightarrow> (string \<times> string) \<Rightarrow> net_end \<Rightarrow> bool" where
  "is_pod_of ns pod d \<longleftrightarrow> map_of (en_namespace d) (fst ns) = Some (snd ns) \<and>
     (case en_pod d of None \<Rightarrow> False | Some labels \<Rightarrow> map_of labels (fst pod) = Some (snd pod))"

lemma peer_admits_label: "peer_admits (label_peer [ns] [pod]) d \<longleftrightarrow> is_pod_of ns pod d"
  by (auto simp: peer_admits_def label_peer_def is_pod_of_def label_match_def split: option.split)

lemma ctf_policy_fields:
  assumes "ctf_policy_mutate L task np = Inr np'"
  shows "np_pod_selector np' = Some [(''task-name'', ct_name task)]" "np_types np' = [''Ingress'', ''Egress'']"
    "np_ingress np' = ctf_ingress" "np_egress np' = ctf_egress"
  using assms by (auto simp: ctf_policy_mutate_def Let_def bindR_eq_Inr)

text \<open>
  C23: where a challenge can go. Once its NetworkPolicy is in place, whatever the policy was before,
  a task's pod reaches exactly the addresses outside the private space other than the cloud
  metadata address 169.254.169.254, and the cluster's DNS pods; for both, on any port. What it
  admits from is exactly the pods of the gateway controller in the gateway's namespace.
\<close>

theorem ctf_network_reach:
  assumes "ctf_policy_mutate L task np = Inr np'"
  shows "(egress_admits np' d \<longleftrightarrow>
      \<not> private_ip (en_ip d) \<and> en_ip d \<noteq> dotted 169 254 169 254 \<or>
      is_pod_of (''kubernetes.io/metadata.name'', ''kube-system'') (''k8s-app'', ''kube-dns'') d) \<and>
    (ingress_admits np' d \<longleftrightarrow>
      is_pod_of (''kubernetes.io/metadata.name'', ''gateway-system'') (''app'', ''gateway-api-controller'') d)"
  by (auto simp: direction_admits_def ctf_policy_fields [OF assms] ctf_egress_def ctf_ingress_def peer_admits_label
      peer_admits_def [of "\<lparr>pe_ip_block = Some b, pe_ns_selector = n, pe_pod_selector = p\<rparr>" for b n p]
      ctf_block_ranges private_ip_def)

definition internet_host :: "nat \<Rightarrow> nat \<Rightarrow> nat \<Rightarrow> nat \<Rightarrow> net_end" where
  "internet_host a b c d = \<lparr>en_ip = dotted a b c d, en_pod = None, en_namespace = [], en_same_namespace = False\<rparr>"

theorem ctf_network_reach_witness:
  "\<exists>np'. ctf_policy_mutate sample_lib idle_ctf (new_policy ''t'' ''n'') = Inr np' \<and>
     egress_admits np' (internet_host 93 184 216 34) \<and> \<not> egress_admits np' (internet_host 10 0 0 1) \<and>
     \<not> egress_admits np' (internet_host 169 254 169 254) \<and> \<not> ingress_admits np' (internet_host 93 184 216 34)"
proof -
  obtain np' where np': "ctf_policy_mutate sample_lib idle_ctf (new_policy ''t'' ''n'') = Inr np'"
    by (simp add: ctf_policy_mutate_def sample_lib_def new_policy_def new_meta_def idle_ctf_def)
  note reach = ctf_network_reach [OF np']
  have "\<not> is_pod_of ns pod (internet_host a b c d)" for ns pod a b c d
    by (simp add: is_pod_of_def internet_host_def)
  moreover have "\<not> private_ip (dotted 93 184 216 34)" "private_ip (dotted 10 0 0 1)"
    "dotted 93 184 216 34 \<noteq> dotted 169 254 169 254"
    by (simp_all add: private_ip_def between_unat dotted_def)
  ultimately show ?thesis using np' reach by (auto simp: internet_host_def)
qed

subsection \<open>Pod, Service and policy belong together\<close>

definition labels_of :: "meta \<Rightarrow> (string \<times> string) list" where
  "labels_of m = gm_entries (m_labels m)"

lemma ctf_pod_fields:
  assumes "lib_ok L" "ctf_pod_mutate L task flag p = Inr p'"
  shows "labels_of (pod_meta p') =
      [(''app'', ''ctf-task''), (''task-name'', ct_name task), (''student-id'', ct_student_id (ct_spec task))]"
    and "pod_spec_of p' = (if m_creation_ts (pod_meta p) = None
      then (pod_spec_of p)\<lparr>ps_containers := [(new_container ''challenge'' (ct_image (ct_spec task)))\<lparr>
        co_ports := [\<lparr>cp_name = '''', cp_port = ct_port (ct_spec task), cp_protocol = ''''\<rparr>], co_env := [env ''FLAG'' flag]\<rparr>]\<rparr>
      else pod_spec_of p)"
  using assms(2) set_controller_ref_meta(3) [OF assms(1)]
  by (auto simp: ctf_pod_mutate_def Let_def bindR_eq_Inr labels_of_def split: if_splits)

text \<open>
  C28: the resources of a task fit together. The labels the pod gets are selected by the Service and
  by the NetworkPolicy, so both are about this pod. In a pod that is made now, the only container
  listens on the one port the Service leads to and carries the flag. In a pod that exists
  already the containers stay as they are, so that a later change of image, port or salt never
  reaches it, while the Service follows the new port.
\<close>

theorem ctf_resources_fit:
  assumes "lib_ok L" "ctf_pod_mutate L task flag p = Inr p'"
    and "ctf_service_mutate L task v = Inr v'" "ctf_policy_mutate L task np = Inr np'"
  shows "label_match (svc_selector v') (labels_of (pod_meta p')) \<and>
    label_match (np_pod_selector np') (labels_of (pod_meta p')) \<and>
    map svp_target (svc_ports v') = [IntVal (ct_port (ct_spec task))] \<and>
    (if m_creation_ts (pod_meta p) = None
     then map (\<lambda>c. (co_image c, map cp_port (co_ports c), co_env c)) (ps_containers (pod_spec_of p')) =
       [(ct_image (ct_spec task), [ct_port (ct_spec task)], [env ''FLAG'' flag])]
     else ps_containers (pod_spec_of p') = ps_containers (pod_spec_of p))"
  using assms(3)
  by (auto simp: ctf_pod_fields [OF assms(1,2)] ctf_policy_fields(1) [OF assms(4)] label_match_def
      ctf_service_mutate_def Let_def bindR_eq_Inr new_container_def)

theorem ctf_resources_fit_witness:
  "\<exists>p' v'. ctf_pod_mutate sample_lib idle_ctf ''f'' (new_pod ''t'' ''n'') = Inr p' \<and>
     ctf_service_mutate sample_lib idle_ctf (new_service ''t'' ''n'') = Inr v' \<and>
     label_match (svc_selector v') (labels_of (pod_meta p'))"
proof -
  obtain p' where p': "ctf_pod_mutate sample_lib idle_ctf ''f'' (new_pod ''t'' ''n'') = Inr p'"
    by (simp add: ctf_pod_mutate_def sample_lib_def new_pod_def new_meta_def idle_ctf_def)
  obtain v' where v': "ctf_service_mutate sample_lib idle_ctf (new_service ''t'' ''n'') = Inr v'"
    by (simp add: ctf_service_mutate_def sample_lib_def new_service_def new_meta_def idle_ctf_def)
  obtain np' where np': "ctf_policy_mutate sample_lib idle_ctf (new_policy ''t'' ''n'') = Inr np'"
    by (simp add: ctf_policy_mutate_def sample_lib_def new_policy_def new_meta_def idle_ctf_def)
  from ctf_resources_fit [OF sample_lib_ok p' v' np'] p' v' show ?thesis by blast
qed

end
