(* ===== verification/Panics.thy ===== *)
theory Panics
  imports Lifecycle CTFLife
begin

section \<open>No reconciliation panics\<close>

text \<open>
  A panic in a reconciler aborts the reconciliation in the middle, whatever error handling the
  code has. \<open>calm\<close> programs never end that way. The rules follow the program combinators; the
  client is assumed not to panic by itself, except when the mutate function it runs does. What
  remains are the places of the code that can panic: slices of digests, lengths of random
  strings, the first port of a service, writes to nil maps. The theorem says which inputs,
  beyond what the CRDs enforce, are enough to exclude them all.
\<close>

named_theorems calm_intros \<open>introduction rules: a program does not panic\<close>

definition calm :: "('s, 'a) prog \<Rightarrow> bool" where
  "calm m \<longleftrightarrow> (\<forall>s e s'. m s = (Inl e, s') \<longrightarrow> \<not> is_panic e)"

definition calm_result :: "goerr + 'a \<Rightarrow> bool" where
  "calm_result r = (case r of Inl e \<Rightarrow> \<not> is_panic e | Inr x \<Rightarrow> True)"

lemma calm_result_simps [simp]: "calm_result (Inl e) \<longleftrightarrow> \<not> is_panic e" "calm_result (Inr x)"
  by (simp_all add: calm_result_def)

lemma calmD: "calm m \<Longrightarrow> case fst (m s) of Inl e \<Rightarrow> \<not> is_panic e | Inr x \<Rightarrow> True"
  by (cases "m s") (auto simp: calm_def split: sum.split)

lemma calm_ret [calm_intros]: "calm (ret x)"
  by (simp add: calm_def run_simps)

lemma calm_fail [calm_intros]: "\<not> is_panic e \<Longrightarrow> calm (fail e)"
  by (simp add: calm_def run_simps)

lemma calm_liftE [calm_intros]: "calm_result r \<Longrightarrow> calm (liftE r)"
  by (auto simp: calm_def run_simps)

lemma calm_bind_yields:
  assumes "calm m" "yields R m" "\<And>x. R x \<Longrightarrow> calm (f x)"
  shows "calm (bindE m f)"
  using assms by (fastforce simp: calm_def yields_def run_bindE split: prod.splits sum.splits)

lemma calm_bind [calm_intros]: "calm m \<Longrightarrow> (\<And>x. calm (f x)) \<Longrightarrow> calm (bindE m f)"
  by (rule calm_bind_yields [where R = "\<lambda>_. True"]) (simp_all add: yields_def)

lemma calm_attempt [calm_intros]: "calm m \<Longrightarrow> calm (attempt m)"
  by (auto simp: calm_def attempt_def split: prod.splits sum.splits if_splits)

text \<open>What \<open>attempt\<close> hands on is an error value, never a panic.\<close>

lemma attempt_yields: "yields calm_result (attempt m)"
  by (auto simp: yields_def attempt_def split: prod.splits sum.splits if_splits)

lemma calm_bind_attempt [calm_intros]:
  assumes "calm m" "\<And>r. calm_result r \<Longrightarrow> calm (f r)"
  shows "calm (bindE (attempt m) f)"
  by (rule calm_bind_yields [OF calm_attempt [OF assms(1)] attempt_yields assms(2)])

lemma yields_conj: "yields A m \<Longrightarrow> yields B m \<Longrightarrow> yields (\<lambda>x. A x \<and> B x) m"
  by (simp add: yields_def)

lemma calm_wrap [calm_intros]: "calm m \<Longrightarrow> calm (wrap_err p m)"
  by (auto simp: calm_def wrap_err_def split: prod.splits sum.splits if_splits)

lemma calm_forE [calm_intros]: "(\<And>x. x \<in> set xs \<Longrightarrow> calm (f x)) \<Longrightarrow> calm (forE xs f)"
  by (induction xs) (auto intro: calm_intros)

lemma calm_if [calm_intros]: "(b \<Longrightarrow> calm m) \<Longrightarrow> (\<not> b \<Longrightarrow> calm n) \<Longrightarrow> calm (if b then m else n)"
  by simp

lemma calm_case_sum [calm_intros]:
  "(\<And>e. r = Inl e \<Longrightarrow> calm (f e)) \<Longrightarrow> (\<And>x. r = Inr x \<Longrightarrow> calm (g x)) \<Longrightarrow>
   calm (case r of Inl e \<Rightarrow> f e | Inr x \<Rightarrow> g x)"
  by (cases r) auto

lemma calm_case_option [calm_intros]:
  "(r = None \<Longrightarrow> calm f) \<Longrightarrow> (\<And>x. r = Some x \<Longrightarrow> calm (g x)) \<Longrightarrow>
   calm (case r of None \<Rightarrow> f | Some x \<Rightarrow> g x)"
  by (cases r) auto

subsection \<open>The client\<close>

definition calm_call :: "('w \<Rightarrow> (goerr + 'a) \<times> 'w) \<Rightarrow> bool" where
  "calm_call op \<longleftrightarrow> (\<forall>w. calm_result (fst (op w)))"

definition calm_mutate :: "mutate \<Rightarrow> bool" where
  "calm_mutate f \<longleftrightarrow> (\<forall>ob. calm_result (f ob))"

definition client_calm :: "'w kube \<Rightarrow> bool" where
  "client_calm K \<longleftrightarrow>
     (\<forall>n. calm_call (k_get_session K n)) \<and> (\<forall>n. calm_call (k_get_space K n)) \<and>
     (\<forall>n. calm_call (k_get_namespace K n)) \<and> (\<forall>ns n. calm_call (k_get_secret K ns n)) \<and>
     (\<forall>ns n. calm_call (k_get_pod K ns n)) \<and> (\<forall>ns n. calm_call (k_get_ctf_task K ns n)) \<and>
     (\<forall>ns. calm_call (k_list_pods K ns)) \<and> (\<forall>sel. calm_call (k_list_services K sel)) \<and>
     (\<forall>sel. calm_call (k_list_tasks K sel)) \<and> (\<forall>ob. calm_call (k_create K ob)) \<and>
     (\<forall>ob. calm_call (k_update K ob)) \<and> (\<forall>ob. calm_call (k_status_update K ob)) \<and>
     (\<forall>k ns n g. calm_call (k_delete K k ns n g)) \<and>
     (\<forall>ob f. calm_mutate f \<longrightarrow> calm_call (k_create_or_update K ob f))"

lemma sample_kube_calm: "client_calm (sample_kube s sp svcs t)"
proof -
  have "calm_call (\<lambda>w. (map_sum id (\<lambda>_. ()) (f ob), w))" if "calm_mutate f" for f :: mutate and ob
    using that by (cases "f ob") (auto simp: calm_call_def calm_mutate_def dest: spec [of _ ob])
  then show ?thesis
    by (simp add: client_calm_def sample_kube_def missing_def) (simp add: calm_call_def)
qed

lemma calm_callI: "calm_call op \<Longrightarrow> calm (call op ev)"
  by (auto simp: calm_def call_def calm_call_def calm_result_def split: prod.splits sum.splits)
    (metis fst_conv old.sum.simps(5))

lemma calm_clock [calm_intros]: "calm (time_now K)" "calm (rand_intn K n)"
  by (auto simp: calm_def time_now_def rand_intn_def call_def split: prod.splits)

lemma calm_client [calm_intros]:
  assumes "client_calm K"
  shows "calm (get_session K n)" "calm (get_space K n)" "calm (get_namespace K n)" "calm (get_secret K ns n)"
    "calm (get_pod K ns n)" "calm (get_ctf_task K ns n)" "calm (list_pods K ns)" "calm (list_services K sel)"
    "calm (list_tasks K sel)" "calm (create K ob)" "calm (update K ob)" "calm (status_update K ob)"
    "calm (delete K k ns n g)" "calm_mutate f \<Longrightarrow> calm (create_or_update K ob f)"
  using assms by (simp_all add: client_calm_def call_defs calm_callI)

lemma calm_object_updates [calm_intros]:
  assumes "client_calm K"
  shows "calm (update_session K s)" "calm (status_update_session K s)" "calm (status_update_ctf K t)"
  unfolding update_session_def status_update_session_def status_update_ctf_def
  by (intro calm_bind calm_client [OF assms]; auto split: kobj.split intro: calm_intros)+

subsection \<open>The steps of a session\<close>

text \<open>The library functions report failures as errors.\<close>

definition lib_calm :: "lib \<Rightarrow> bool" where
  "lib_calm L \<longleftrightarrow> (\<forall>k o' m. calm_result (set_controller_ref L k o' m)) \<and> (\<forall>s. calm_result (as_selector L s)) \<and>
     (\<forall>j v. calm_result (set_nested_field L j v))"

lemma sample_lib_calm: "lib_calm sample_lib"
  by (simp add: lib_calm_def sample_lib_def)

lemma calm_bindR: "calm_result r \<Longrightarrow> (\<And>x. calm_result (f x)) \<Longrightarrow> calm_result (bindR r f)"
  by (cases r) auto

lemma lib_calm_ref [calm_intros]: "lib_calm L \<Longrightarrow> calm_result (set_controller_ref L k o' m)"
  and lib_calm_selector [calm_intros]: "lib_calm L \<Longrightarrow> calm_result (as_selector L s)"
  and lib_calm_field [calm_intros]: "lib_calm L \<Longrightarrow> calm_result (set_nested_field L j v)"
  by (simp_all add: lib_calm_def)

lemma calm_map [simp]: "calm_result (map_sum id g r) = calm_result r"
  by (cases r) simp_all

lemma calm_on:
  "(\<And>x. calm_result (f1 x)) \<Longrightarrow> calm_mutate (on_cilium f1)"
  "(\<And>x. calm_result (f2 x)) \<Longrightarrow> calm_mutate (on_service f2)"
  "(\<And>x. calm_result (f3 x)) \<Longrightarrow> calm_mutate (on_route f3)"
  "(\<And>x. calm_result (f4 x)) \<Longrightarrow> calm_mutate (on_quota f4)"
  "(\<And>x. calm_result (f5 x)) \<Longrightarrow> calm_mutate (on_limit_range f5)"
  "(\<And>x. calm_result (f6 x)) \<Longrightarrow> calm_mutate (on_pod f6)"
  "(\<And>x. calm_result (f7 x)) \<Longrightarrow> calm_mutate (on_network_policy f7)"
  by (auto simp: calm_mutate_def on_cilium_def on_service_def on_route_def on_quota_def on_limit_range_def on_pod_def
      on_network_policy_def split: kobj.split)

lemma session_mutates_calm [calm_intros]:
  assumes "lib_calm L"
  shows "calm_mutate (on_cilium (cnp_mutate L session spec))"
    and "calm_mutate (on_service (workspace_service_mutate L pn session))"
    and "calm_mutate (on_route (workspace_route_mutate G L session))"
  by (intro calm_on; simp add: cnp_mutate_def workspace_service_mutate_def workspace_route_mutate_def;
      intro calm_bindR lib_calm_ref lib_calm_field assms; simp)+

lemma quota_mutates_calm [calm_intros]:
  "calm_mutate (on_quota (quota_mutate owner hard))" "calm_mutate (on_limit_range (limit_range_mutate owner))"
  by (rule calm_on; auto simp: quota_mutate_def limit_range_mutate_def label_owner_def Let_def split: option.split)+

lemma service_mutate_calm [calm_intros]: "calm_mutate (on_service (service_mutate v))"
  by (intro calm_on) (simp add: service_mutate_def Let_def split: option.split)

text \<open>
  What a LabService needs beyond its CRD: random values of a length that is not negative and that
  a slice can have, and a port where it is exposed over HTTP.
\<close>

definition exposed_ports_ok :: "lab_service \<Rightarrow> bool" where
  "exposed_ports_ok v = (case ls_exposure (sv_spec v) of None \<Rightarrow> True
     | Some ex \<Rightarrow> ex_type ex \<noteq> ''HTTP'' \<or> ls_ports (sv_spec v) \<noteq> [])"

definition length_ok :: "go_env \<Rightarrow> api_env_var \<Rightarrow> bool" where
  "length_ok G e = (case en_dynamic e of None \<Rightarrow> True
     | Some d \<Rightarrow> dv_type d \<noteq> ''random'' \<or> 0 \<le> dv_length d \<and> dv_length d \<le> max_runes G)"

definition lengths_ok :: "go_env \<Rightarrow> lab_service \<Rightarrow> bool" where
  "lengths_ok G v = list_all (length_ok G) (ls_env (sv_spec v))"

lemma random_calm [calm_intros]: "rand_ok K \<Longrightarrow> 0 \<le> n \<Longrightarrow> n \<le> max_runes G \<Longrightarrow> calm (generateRandomString G K n)"
  unfolding calm_def generateRandomString_def
  using random_chars_run [of K "nat n"] by (simp add: run_simps) (metis Inl_Inr_False prod.inject)

lemma env_calm:
  assumes "rand_ok K" "list_all (length_ok G) es"
  shows "calm (env_entries G K v session es)"
  using assms(2)
proof (induction es)
  case (Cons e es)
  have "calm (env_entry G K v session e)"
    unfolding env_entry_def using Cons.prems assms(1)
    by (auto simp: length_ok_def intro!: calm_intros split: option.splits)
  with Cons show ?case by (auto intro!: calm_intros)
qed (simp add: calm_ret)

lemma total_calm: "r = Inr x \<Longrightarrow> calm_result r"
  by simp

lemma pods_calm [calm_intros]:
  "calm_result (workspace_pod G ns space session tasks)" "calm_result (challenge_pod G ns v session es)"
proof -
  obtain p where "workspace_pod G ns space session tasks = Inr p" by (rule workspace_podE)
  then show "calm_result (workspace_pod G ns space session tasks)" by simp
  obtain p where "challenge_pod G ns v session es = Inr p" by (rule challenge_podE)
  then show "calm_result (challenge_pod G ns v session es)" by simp
qed

lemma tenancy_calm [calm_intros]:
  assumes "client_calm K"
  shows "calm (ensureNamespace K n owner)" "calm (createOrUpdatePod K p)"
    "calm (ensureResourceQuota K ns space owner)" "calm (ensureLimitRange K ns space owner)"
    "calm (delete_if_present K k ns n)"
  unfolding ensureNamespace_def createOrUpdatePod_def ensureResourceQuota_def ensureLimitRange_def
    delete_if_present_def Let_def
  by (intro calm_intros assms; simp)+

lemma policies_calm [calm_intros]:
  assumes "client_calm K" "lib_calm L"
  shows "calm (ensurePullSecret G L K ns owner)" "calm (ensureBaselinePolicy L K ns space session)"
    "calm (ensureServiceEgressPolicy L K ns v session)"
  unfolding ensurePullSecret_def ensureBaselinePolicy_def ensureServiceEgressPolicy_def Let_def
  by (intro calm_intros assms; simp)+

lemma workspace_calm [calm_intros]:
  assumes "client_calm K" "lib_calm L"
  shows "calm (reconcileWorkspace G L K ns space session)" "calm (reconcileWorkspaceRoute G L K ns session)"
  unfolding reconcileWorkspace_def reconcileWorkspaceRoute_def getTasksForSpace_def ensureWorkspaceService_def
  by (intro calm_intros assms)+

lemma service_calm [calm_intros]:
  assumes "client_calm K" "lib_calm L" "rand_ok K" "lengths_ok G v" "exposed_ports_ok v"
  shows "calm (reconcile_service G L K ns space session v)"
proof -
  have "calm (buildEnvVars G K v session)"
    unfolding buildEnvVars_def using assms(3,4) by (intro calm_intros env_calm) (simp_all add: lengths_ok_def)
  then have res: "calm (reconcileServiceResources G L K ns v session)"
    unfolding reconcileServiceResources_def ensureService_def by (intro calm_intros assms(1,2))
  have "calm_mutate (on_route (route_mutate G v session))" if "ls_ports (sv_spec v) \<noteq> []"
    using that by (intro calm_on) (simp add: route_mutate_def split: list.split)
  then have "calm (reconcileRoute G K ns v session)"
    using assms(5) unfolding reconcileRoute_def exposed_ports_ok_def
    by (auto split: option.split intro!: calm_intros assms(1))
  with res show ?thesis unfolding reconcile_service_def by (intro calm_intros)
qed

definition services_ok :: "go_env \<Rightarrow> 'w kube \<Rightarrow> bool" where
  "services_ok G K \<longleftrightarrow> (\<forall>sel w vs w'. k_list_services K sel w = (Inr vs, w') \<longrightarrow>
     list_all (\<lambda>v. lengths_ok G v \<and> exposed_ports_ok v) vs)"

lemma services_yields: "services_ok G K \<Longrightarrow> yields (list_all (\<lambda>v. lengths_ok G v \<and> exposed_ports_ok v)) (list_services K sel)"
  unfolding list_services_def by (rule yields_call) (auto simp: services_ok_def)

lemma sync_calm [calm_intros]: "client_calm K \<Longrightarrow> calm (syncStatus G K session ns svcs space)"
  unfolding syncStatus_def schedule_def Let_def by (auto split: prod.splits intro!: calm_intros)

lemma restart_calm [calm_intros]: "client_calm K \<Longrightarrow> calm (maybeRestart K session ns)"
  unfolding maybeRestart_def restart_pods_def Let_def by (intro calm_intros; simp add: mark_handled_eq)

lemma resources_calm:
  assumes "client_calm K" "lib_calm L" "rand_ok K" "services_ok G K"
  shows "calm (reconcile_resources G L K ns space session)"
  unfolding reconcile_resources_def
proof (rule calm_bind_yields [OF _ services_yields [OF assms(4)]])
  fix vs assume "list_all (\<lambda>v. lengths_ok G v \<and> exposed_ports_ok v) vs"
  then show "calm (bindE (reconcileWorkspace G L K ns space session) (\<lambda>_.
     bindE (reconcileWorkspaceRoute G L K ns session) (\<lambda>_.
     bindE (forE vs (reconcile_service G L K ns space session)) (\<lambda>_.
     syncStatus G K session ns vs space))))"
    by (intro calm_intros assms) (auto simp: list_all_iff)
qed (rule calm_client(8) [OF assms(1)])

lemma active_calm:
  assumes "client_calm K" "lib_calm L" "rand_ok K" "services_ok G K"
  shows "calm (reconcile_active G L K space session)"
  unfolding reconcile_active_def setup_namespace_def Let_def
  by (intro calm_intros assms; auto intro!: calm_intros resources_calm assms split: prod.split)

subsection \<open>The steps of a CTFTask\<close>

definition has_valid_length :: "ctf_task \<Rightarrow> bool" where
  "has_valid_length t \<longleftrightarrow> flag_length_ok (fc_length (ct_flag_config (ct_spec t)))"

text \<open>The server only answers with tasks its schema admits, and only to requests about such tasks.\<close>

definition ctf_schema :: "'w kube \<Rightarrow> bool" where
  "ctf_schema K \<longleftrightarrow> (\<forall>ns n w t w'. k_get_ctf_task K ns n w = (Inr t, w') \<longrightarrow> has_valid_length t) \<and>
     (\<forall>t0 w t w'. has_valid_length t0 \<and> k_status_update K (KCTFTask t0) w = (Inr (KCTFTask t), w') \<longrightarrow>
        has_valid_length t)"

lemma ctf_schema_yields:
  assumes "ctf_schema K"
  shows "yields has_valid_length (get_ctf_task K ns n)"
    and "has_valid_length t \<Longrightarrow> yields has_valid_length (status_update_ctf K t)"
  using assms
  by (auto simp: yields_def get_ctf_task_def status_update_ctf_def status_update_def call_def run_simps ctf_schema_def
      split: prod.splits sum.splits kobj.splits) blast+

lemma ctf_mutates_calm [calm_intros]:
  assumes "lib_calm L"
  shows "calm_mutate (on_pod (ctf_pod_mutate L task flag))" "calm_mutate (on_service (ctf_service_mutate L task))"
    "calm_mutate (on_network_policy (ctf_policy_mutate L task))"
  by (intro calm_on; simp add: ctf_pod_mutate_def ctf_service_mutate_def ctf_policy_mutate_def Let_def;
      intro conjI impI calm_bindR lib_calm_ref assms; simp)+

lemma ctf_sync_calm:
  assumes "client_calm K" "lib_calm L" "has_valid_length task"
  shows "calm (ctf_sync G L K task)"
proof -
  obtain flag where "generateFlag G task (getenv G ''LAB_MASTER_SALT'') = Inr flag"
    using schema_flag_total [of task G] assms(3) unfolding has_valid_length_def by blast
  then show ?thesis
    unfolding ctf_sync_def ensureResources_def ensurePod_def ensureCTFService_def ensureNetworkPolicy_def
      ctf_finish_def isPodReady_def Let_def
    by (intro calm_intros assms(1,2)) auto
qed

lemma ctf_fetched_calm:
  assumes "client_calm K" "lib_calm L" "ctf_schema K" "has_valid_length task"
  shows "calm (ctf_fetched G L K task)"
proof -
  have start: "calm (ctf_start K task)" "yields has_valid_length (ctf_start K task)"
    using assms(4) ctf_schema_yields(2) [OF assms(3), of "set_status task ((ct_status task)\<lparr>ts_phase := ''Provisioning''\<rparr>)"]
    by (auto simp: ctf_start_def yields_ret has_valid_length_def intro: calm_intros assms(1))
  have "calm (bindE (ctf_start K task) (ctf_sync G L K))"
    by (rule calm_bind_yields [OF start ctf_sync_calm [OF assms(1,2)]])
  then have "calm (ctf_live G L K task)"
    by (auto simp: ctf_live_def ctf_init_def Let_def intro!: calm_intros assms(1))
  then show ?thesis
    unfolding ctf_fetched_def ctf_expired_def by (intro calm_intros assms(1))
qed

lemma ReconcileCTF_calm:
  assumes "client_calm K" "lib_calm L" "ctf_schema K"
  shows "calm (ReconcileCTF G L K ns n)"
  unfolding ReconcileCTF_def
proof (rule calm_bind_yields [OF _ yields_conj [OF attempt_yields yields_attempt [OF ctf_schema_yields(1) [OF assms(3)]]]])
  show "calm (attempt (get_ctf_task K ns n))" by (intro calm_intros assms)
  show "calm (case r of Inl e \<Rightarrow> if is_not_found e then ret done_result else fail e | Inr task \<Rightarrow> ctf_fetched G L K task)"
    if "calm_result r \<and> case_sum (\<lambda>_. True) has_valid_length r" for r
    using that ctf_fetched_calm [OF assms] by (cases r) (auto intro!: calm_intros)
qed

text \<open>
  C9: a reconciliation never panics, whatever the cluster answers and in whatever state the session
  or the task is, as long as each LabService it is given asks for random values of a length that
  is not negative and not beyond the longest slice that can be made, and has a port if it is
  exposed over HTTP. None of these conditions is in the CRD, and without any of them there is a
  panic; for a CTFTask the CRD's own bounds are enough. Running out of memory, which ends the
  process without a panic, is not modelled.
\<close>

theorem reconcile_never_panics:
  assumes "client_calm K" "lib_calm L" "rand_ok K" "services_ok G K" "ctf_schema K"
  shows "(case fst (Reconcile G L K name s) of Inl e \<Rightarrow> \<not> is_panic e | Inr x \<Rightarrow> True) \<and>
    (case fst (ReconcileCTF G L K ns n s) of Inl e \<Rightarrow> \<not> is_panic e | Inr x \<Rightarrow> True)"
proof -
  have "calm (reconcile_fetched G L K session)" for session
    unfolding reconcile_fetched_def is_expired_def
    by (intro calm_intros assms active_calm)
  then have "calm (Reconcile G L K name)"
    unfolding Reconcile_def by (intro calm_intros assms) simp
  then show ?thesis
    by (intro conjI calmD ReconcileCTF_calm [OF assms(1,2,5)])
qed

theorem reconcile_never_panics_witness:
  "(case fst (Reconcile sample_env sample_lib live_kube ''lab-t3-c1'' \<lparr>outside = 0, calls = []\<rparr>) of
     Inl e \<Rightarrow> \<not> is_panic e | Inr x \<Rightarrow> True) \<and>
   (case fst (ReconcileCTF sample_env sample_lib live_kube ''n'' ''t'' \<lparr>outside = 0, calls = []\<rparr>) of
     Inl e \<Rightarrow> \<not> is_panic e | Inr x \<Rightarrow> True)"
proof -
  have "rand_ok live_kube" by (simp add: rand_ok_def sample_kube_def)
  moreover have "services_ok sample_env live_kube"
    by (simp add: services_ok_def sample_kube_def lengths_ok_def length_ok_def exposed_ports_ok_def sample_service_def)
  moreover have "ctf_schema live_kube"
    by (auto simp: ctf_schema_def sample_kube_def missing_def has_valid_length_def idle_ctf_def flag_length_ok_def
        split: if_splits)
  ultimately show ?thesis
    by (rule reconcile_never_panics [OF sample_kube_calm sample_lib_calm])
qed

end
