(* ===== verification/Startup.thy ===== *)
theory Startup
  imports CTFTask
begin

section \<open>The process: cmd/main.go, the registrations, and the reconcilers without logic\<close>

text \<open>
  \<open>main\<close> reads the flags, refuses to run with insecure secrets, builds the options of the webhook
  and metrics servers, makes a manager, registers the four controllers and the two probes, and
  starts. What the controller-runtime library does with these calls is outside the repository:
  the record \<open>'w boot\<close> gives the outcome of each call. \<open>os.Exit(1)\<close> is an early return, and the
  record of the calls made so far is kept as for the reconcilers.
\<close>

subsection \<open>The reconcilers of LabSpace and LabService\<close>

text \<open>Their \<open>Reconcile\<close> is a scaffold: it makes no call and returns an empty result.\<close>

definition LabSpaceReconcile :: "'w kube \<Rightarrow> string \<Rightarrow> ('w kst, ctrl_result) prog" where
  "LabSpaceReconcile K name = ret \<lparr>cr_requeue = False, cr_after = 0\<rparr>"

definition LabServiceReconcile :: "'w kube \<Rightarrow> string \<Rightarrow> ('w kst, ctrl_result) prog" where
  "LabServiceReconcile K name = ret \<lparr>cr_requeue = False, cr_after = 0\<rparr>"

subsection \<open>Registrations\<close>

record controller_setup =
  su_for :: kind
  su_owns :: "kind list"
  su_named :: string

definition CTFTask_setup :: controller_setup where
  "CTFTask_setup = \<lparr>su_for = CTFTaskKind, su_owns = [PodKind, ServiceKind], su_named = ''ctftask''\<rparr>"

definition LabSession_setup :: controller_setup where
  "LabSession_setup = \<lparr>su_for = SessionKind, su_owns = [], su_named = ''core-labsession''\<rparr>"

definition LabSpace_setup :: controller_setup where
  "LabSpace_setup = \<lparr>su_for = SpaceKind, su_owns = [], su_named = ''infra-labspace''\<rparr>"

definition LabService_setup :: controller_setup where
  "LabService_setup = \<lparr>su_for = ServiceTemplateKind, su_owns = [], su_named = ''infra-labservice''\<rparr>"

subsection \<open>Flags and options\<close>

record flags =
  fl_metrics_addr :: string
  fl_probe_addr :: string
  fl_leader_election :: bool
  fl_secure_metrics :: bool
  fl_webhook_cert_path :: string
  fl_webhook_cert_name :: string
  fl_webhook_cert_key :: string
  fl_metrics_cert_path :: string
  fl_metrics_cert_name :: string
  fl_metrics_cert_key :: string
  fl_enable_http2 :: bool

definition default_flags :: flags where
  "default_flags = \<lparr>fl_metrics_addr = ''0'', fl_probe_addr = '':8081'', fl_leader_election = False,
     fl_secure_metrics = True, fl_webhook_cert_path = '''', fl_webhook_cert_name = ''tls.crt'',
     fl_webhook_cert_key = ''tls.key'', fl_metrics_cert_path = '''', fl_metrics_cert_name = ''tls.crt'',
     fl_metrics_cert_key = ''tls.key'', fl_enable_http2 = False\<rparr>"

text \<open>A TLS option changes the protocols a server offers.\<close>

type_synonym tls_opt = "string list \<Rightarrow> string list"

definition disableHTTP2 :: tls_opt where
  "disableHTTP2 protos = [''http/1.1'']"

definition tlsOpts :: "flags \<Rightarrow> tls_opt list" where
  "tlsOpts fl = (if \<not> fl_enable_http2 fl then [] @ [disableHTTP2] else [])"

record server_certs =
  ce_dir :: string
  ce_cert :: string
  ce_key :: string

definition no_certs :: server_certs where
  "no_certs = \<lparr>ce_dir = '''', ce_cert = '''', ce_key = ''''\<rparr>"

record webhook_options =
  wo_tls :: "tls_opt list"
  wo_certs :: server_certs

definition webhookServerOptions :: "flags \<Rightarrow> webhook_options" where
  "webhookServerOptions fl =
     (let wo = \<lparr>wo_tls = tlsOpts fl, wo_certs = no_certs\<rparr>
      in if 0 < length (fl_webhook_cert_path fl)
         then wo\<lparr>wo_certs := \<lparr>ce_dir = fl_webhook_cert_path fl, ce_cert = fl_webhook_cert_name fl,
                ce_key = fl_webhook_cert_key fl\<rparr>\<rparr>
         else wo)"

text \<open>\<open>mo_filter\<close>: the endpoint authenticates and authorises its callers.\<close>

record metrics_options =
  mo_bind :: string
  mo_secure :: bool
  mo_tls :: "tls_opt list"
  mo_filter :: bool
  mo_certs :: server_certs

definition metricsServerOptions :: "flags \<Rightarrow> metrics_options" where
  "metricsServerOptions fl =
     (let mo = \<lparr>mo_bind = fl_metrics_addr fl, mo_secure = fl_secure_metrics fl, mo_tls = tlsOpts fl,
                mo_filter = False, mo_certs = no_certs\<rparr>;
          mo = (if fl_secure_metrics fl then mo\<lparr>mo_filter := True\<rparr> else mo)
      in if 0 < length (fl_metrics_cert_path fl)
         then mo\<lparr>mo_certs := \<lparr>ce_dir = fl_metrics_cert_path fl, ce_cert = fl_metrics_cert_name fl,
                ce_key = fl_metrics_cert_key fl\<rparr>\<rparr>
         else mo)"

record manager_options =
  ma_metrics :: metrics_options
  ma_webhook :: webhook_options
  ma_probe :: string
  ma_leader_election :: bool
  ma_leader_id :: string

definition manager_options_of :: "flags \<Rightarrow> manager_options" where
  "manager_options_of fl = \<lparr>ma_metrics = metricsServerOptions fl, ma_webhook = webhookServerOptions fl,
     ma_probe = fl_probe_addr fl, ma_leader_election = fl_leader_election fl,
     ma_leader_id = ''d7ef86fb.ctf.school''\<rparr>"

subsection \<open>main\<close>

datatype boot_call =
    GetConfig
  | NewManager manager_options
  | SetupController controller_setup
  | AddHealthz string
  | AddReadyz string
  | StartManager

record 'w boot =
  b_call :: "boot_call \<Rightarrow> 'w \<Rightarrow> (goerr + unit) \<times> 'w"

record 'w bst =
  b_outside :: 'w
  b_log :: "(boot_call \<times> bool) list"

definition boot_step :: "'w boot \<Rightarrow> boot_call \<Rightarrow> ('w bst, unit) prog" where
  "boot_step B c = (\<lambda>s. case b_call B c (b_outside s) of (r, w) \<Rightarrow>
     (r, s\<lparr>b_outside := w, b_log := b_log s @ [(c, succeeded r)]\<rparr>))"

definition main_run :: "go_env \<Rightarrow> bool \<Rightarrow> flags \<Rightarrow> 'w boot \<Rightarrow> ('w bst, unit) prog" where
  "main_run G flag_first fl B =
     bindE (liftE (ValidateSecrets G flag_first)) (\<lambda>_.
     bindE (boot_step B GetConfig) (\<lambda>_.
     bindE (boot_step B (NewManager (manager_options_of fl))) (\<lambda>_.
     bindE (boot_step B (SetupController CTFTask_setup)) (\<lambda>_.
     bindE (boot_step B (SetupController LabSession_setup)) (\<lambda>_.
     bindE (boot_step B (SetupController LabSpace_setup)) (\<lambda>_.
     bindE (boot_step B (SetupController LabService_setup)) (\<lambda>_.
     bindE (boot_step B (AddHealthz ''healthz'')) (\<lambda>_.
     bindE (boot_step B (AddReadyz ''readyz'')) (\<lambda>_.
     boot_step B StartManager)))))))))"

text \<open>The exit status of the process: 1 after any failure.\<close>

definition exit_code :: "goerr + unit \<Rightarrow> int" where
  "exit_code r = (case r of Inl e \<Rightarrow> 1 | Inr x \<Rightarrow> 0)"

subsection \<open>Properties\<close>

definition boot_plan :: "flags \<Rightarrow> boot_call list" where
  "boot_plan fl = [GetConfig, NewManager (manager_options_of fl)] @
     map SetupController [CTFTask_setup, LabSession_setup, LabSpace_setup, LabService_setup] @
     [AddHealthz ''healthz'', AddReadyz ''readyz'', StartManager]"

lemma main_run_plan:
  "main_run G flag_first fl B = bindE (liftE (ValidateSecrets G flag_first)) (\<lambda>_. forE (boot_plan fl) (boot_step B))"
  by (simp add: main_run_def boot_plan_def fun_eq_iff run_simps split: prod.split sum.split)

abbreviation all_ok :: "boot_call list \<Rightarrow> (boot_call \<times> bool) list" where
  "all_ok cs \<equiv> map (\<lambda>c. (c, True)) cs"

text \<open>A list of steps is run to its end, or up to and including the first that fails.\<close>

lemma forE_boot_log:
  "case fst (forE cs (boot_step B) s) of
     Inr x \<Rightarrow> b_log (snd (forE cs (boot_step B) s)) = b_log s @ all_ok cs
   | Inl e \<Rightarrow> \<exists>n < length cs. b_log (snd (forE cs (boot_step B) s)) = b_log s @ all_ok (take n cs) @ [(cs ! n, False)]"
proof (induction cs arbitrary: s)
  case Nil
  show ?case by (simp add: run_simps)
next
  case (Cons c cs)
  obtain r w where r: "b_call B c (b_outside s) = (r, w)" by fastforce
  let ?s = "s\<lparr>b_outside := w, b_log := b_log s @ [(c, succeeded r)]\<rparr>"
  show ?case
  proof (cases r)
    case (Inl e)
    then show ?thesis using r by (auto simp: run_simps boot_step_def intro: exI [of _ 0])
  next
    case (Inr x)
    have run: "forE (c # cs) (boot_step B) s = forE cs (boot_step B) ?s"
      using r Inr by (simp add: run_simps boot_step_def)
    show ?thesis
      using Cons.IH [of ?s] Inr unfolding run by (auto split: sum.splits intro: exI [of _ "Suc n" for n])
  qed
qed

definition secure_environment :: "go_env \<Rightarrow> bool" where
  "secure_environment G \<longleftrightarrow> getenv G ''CTF_ALLOW_DEV_SECRETS'' = ''true'' \<or>
     real_secret G ''CTF_FLAG_SECRET'' \<and> real_secret G ''CTF_JWT_SECRET''"

lemma validated: "ValidateSecrets G flag_first = Inr () \<longleftrightarrow> secure_environment G"
  unfolding secure_environment_def by (rule validate_secrets_iff)

text \<open>
  C16: the process fails closed, and in order. In an environment without real keys and without the
  development override it makes no call at all and exits with status 1. Otherwise it makes the
  calls of the plan in order: configuration, manager, the four controllers, the two probes,
  start. It exits with status 0 only if all of them succeed; otherwise it stops at the first
  that fails, with status 1. So no controller ever runs with an insecure key, and the manager
  is never started with a controller or a probe missing.
\<close>

theorem startup_fails_closed:
  "if secure_environment G
   then (case main_run G flag_first fl B \<lparr>b_outside = w, b_log = []\<rparr> of
       (Inr x, s) \<Rightarrow> exit_code (Inr x) = 0 \<and> b_log s = all_ok (boot_plan fl)
     | (Inl e, s) \<Rightarrow> exit_code (Inl e) = 1 \<and>
         (\<exists>n < length (boot_plan fl). b_log s = all_ok (take n (boot_plan fl)) @ [(boot_plan fl ! n, False)]))
   else (\<exists>e. main_run G flag_first fl B \<lparr>b_outside = w, b_log = []\<rparr> = (Inl e, \<lparr>b_outside = w, b_log = []\<rparr>) \<and>
       exit_code (Inl e) = 1)"
proof (cases "ValidateSecrets G flag_first")
  case (Inl e)
  then have "\<not> secure_environment G" using validated [of G flag_first] by auto
  with Inl show ?thesis by (simp add: main_run_plan run_simps exit_code_def)
next
  case (Inr u)
  then have "secure_environment G" using validated [of G flag_first] by simp
  moreover have "main_run G flag_first fl B \<lparr>b_outside = w, b_log = []\<rparr> =
      forE (boot_plan fl) (boot_step B) \<lparr>b_outside = w, b_log = []\<rparr>"
    using Inr by (simp add: main_run_plan run_simps)
  ultimately show ?thesis
    using forE_boot_log [of "boot_plan fl" B "\<lparr>b_outside = w, b_log = []\<rparr>"]
    by (auto simp: exit_code_def split: prod.split sum.split)
qed

text \<open>
  The servers: unless asked otherwise both only speak HTTP/1.1, and the metrics endpoint is served
  over TLS to authenticated callers; certificates are set exactly where a path is given.
\<close>

lemma server_options:
  "fold (\<lambda>f. f) (wo_tls (webhookServerOptions fl)) protos = (if fl_enable_http2 fl then protos else [''http/1.1''])"
  "fold (\<lambda>f. f) (mo_tls (metricsServerOptions fl)) protos = (if fl_enable_http2 fl then protos else [''http/1.1''])"
  "mo_filter (metricsServerOptions fl) = mo_secure (metricsServerOptions fl)"
  "ce_dir (wo_certs (webhookServerOptions fl)) = fl_webhook_cert_path fl"
  "ce_dir (mo_certs (metricsServerOptions fl)) = fl_metrics_cert_path fl"
  by (simp_all add: webhookServerOptions_def metricsServerOptions_def tlsOpts_def disableHTTP2_def no_certs_def Let_def)

lemma default_servers:
  "mo_secure (metricsServerOptions default_flags)" "mo_filter (metricsServerOptions default_flags)"
  "fold (\<lambda>f. f) (mo_tls (metricsServerOptions default_flags)) protos = [''http/1.1'']"
  unfolding server_options by (simp_all add: metricsServerOptions_def default_flags_def Let_def)

end
