(* ===== verification/Rbac.thy ===== *)
theory Rbac
  imports CTFTask
begin

section \<open>The permissions of the manager (the +kubebuilder:rbac markers)\<close>

text \<open>
  The markers above the reconcilers are the source of the one ClusterRole the manager runs under.
  Here they are data, and every call of the model is given the permissions the API server asks
  for: the default client reads through a cache, so that a \<open>Get\<close> also needs \<open>list\<close> and \<open>watch\<close>;
  \<open>CreateOrUpdate\<close> reads, creates and updates. The theorem composes the two reconcilers with the
  role. The resource a kind is served under is in its CRD, and for \<open>Task\<close> the repository has two:
  the marker of the type and the CRD generated from it say \<open>task\<close>, the kustomization installs an
  older CRD that says \<open>tasks\<close>. The name is a parameter, and the theorem treats both.
\<close>

record rbac_rule =
  ru_groups :: "string list"
  ru_resources :: "string list"
  ru_verbs :: "string list"

definition all_verbs :: "string list" where
  "all_verbs = [''get'', ''list'', ''watch'', ''create'', ''update'', ''patch'', ''delete'']"

definition read_verbs :: "string list" where
  "read_verbs = [''get'', ''list'', ''watch'']"

definition status_verbs :: "string list" where
  "status_verbs = [''get'', ''update'', ''patch'']"

definition marker :: "string \<Rightarrow> string list \<Rightarrow> string list \<Rightarrow> rbac_rule" where
  "marker grp res verbs = \<lparr>ru_groups = [grp], ru_resources = res, ru_verbs = verbs\<rparr>"

definition LabSession_markers :: "rbac_rule list" where
  "LabSession_markers =
     [marker ''core.ctf.school'' [''labsessions''] all_verbs,
      marker ''core.ctf.school'' [''labsessions/status''] status_verbs,
      marker ''core.ctf.school'' [''labspaces''] read_verbs,
      marker ''infra.ctf.school'' [''labservices'', ''tasks''] read_verbs,
      marker '''' [''namespaces'', ''pods'', ''services'', ''configmaps'', ''resourcequotas'', ''limitranges'', ''secrets''] all_verbs,
      marker ''networking.k8s.io'' [''networkpolicies''] all_verbs,
      marker ''cilium.io'' [''ciliumnetworkpolicies''] all_verbs,
      marker ''core.ctf.school'' [''labsessions/finalizers''] [''update'']]"

definition CTFTask_markers :: "rbac_rule list" where
  "CTFTask_markers =
     [marker ''edu.ctf.school'' [''ctftasks''] all_verbs,
      marker ''edu.ctf.school'' [''ctftasks/status''] status_verbs,
      marker ''edu.ctf.school'' [''ctftasks/finalizers''] [''update''],
      marker ''gateway.networking.k8s.io'' [''httproutes''] all_verbs,
      marker ''networking.k8s.io'' [''networkpolicies''] all_verbs,
      marker '''' [''pods'', ''services''] all_verbs]"

definition LabSpace_markers :: "rbac_rule list" where
  "LabSpace_markers =
     [marker ''infra.ctf.school'' [''labspaces''] all_verbs,
      marker ''infra.ctf.school'' [''labspaces/status''] status_verbs,
      marker ''infra.ctf.school'' [''labspaces/finalizers''] [''update'']]"

definition LabService_markers :: "rbac_rule list" where
  "LabService_markers =
     [marker ''infra.ctf.school'' [''labservices''] all_verbs,
      marker ''infra.ctf.school'' [''labservices/status''] status_verbs,
      marker ''infra.ctf.school'' [''labservices/finalizers''] [''update'']]"

definition manager_role :: "rbac_rule list" where
  "manager_role = LabSession_markers @ CTFTask_markers @ LabSpace_markers @ LabService_markers"

subsection \<open>What a call needs\<close>

text \<open>\<open>+kubebuilder:resource:path=task,scope=Cluster\<close> of the type, and the CRD that is installed.\<close>

definition Task_resource :: string where "Task_resource = ''task''"
definition installed_Task_resource :: string where "installed_Task_resource = ''tasks''"

fun api_resource :: "string \<Rightarrow> kind \<Rightarrow> string \<times> string" where
  "api_resource task_resource SessionKind = (''core.ctf.school'', ''labsessions'')"
| "api_resource task_resource SpaceKind = (''infra.ctf.school'', ''labspaces'')"
| "api_resource task_resource ServiceTemplateKind = (''infra.ctf.school'', ''labservices'')"
| "api_resource task_resource TaskKind = (''infra.ctf.school'', task_resource)"
| "api_resource task_resource NamespaceKind = ('''', ''namespaces'')"
| "api_resource task_resource SecretKind = ('''', ''secrets'')"
| "api_resource task_resource QuotaKind = ('''', ''resourcequotas'')"
| "api_resource task_resource LimitRangeKind = ('''', ''limitranges'')"
| "api_resource task_resource NetworkPolicyKind = (''networking.k8s.io'', ''networkpolicies'')"
| "api_resource task_resource CiliumKind = (''cilium.io'', ''ciliumnetworkpolicies'')"
| "api_resource task_resource PodKind = ('''', ''pods'')"
| "api_resource task_resource ServiceKind = ('''', ''services'')"
| "api_resource task_resource RouteKind = (''gateway.networking.k8s.io'', ''httproutes'')"
| "api_resource task_resource CTFTaskKind = (''edu.ctf.school'', ''ctftasks'')"

definition grants :: "rbac_rule list \<Rightarrow> string \<times> string \<Rightarrow> string \<Rightarrow> bool" where
  "grants rules r verb = list_ex (\<lambda>ru. fst r \<in> set (ru_groups ru) \<and> snd r \<in> set (ru_resources ru) \<and>
     verb \<in> set (ru_verbs ru)) rules"

definition may :: "string \<Rightarrow> rbac_rule list \<Rightarrow> string list \<Rightarrow> kind \<Rightarrow> bool" where
  "may task_resource rules verbs k = list_all (grants rules (api_resource task_resource k)) verbs"

fun permitted :: "string \<Rightarrow> rbac_rule list \<Rightarrow> event \<Rightarrow> bool" where
  "permitted tr rules (EvGet k m x ok) = may tr rules read_verbs k"
| "permitted tr rules (EvList k m ok) = may tr rules [''list'', ''watch''] k"
| "permitted tr rules (EvCreate ob ok) = may tr rules [''create''] (obj_kind ob)"
| "permitted tr rules (EvUpdate ob ok) = may tr rules [''update''] (obj_kind ob)"
| "permitted tr rules (EvStatus ob ok) =
     (case api_resource tr (obj_kind ob) of (g, r) \<Rightarrow> grants rules (g, r @ ''/status'') ''update'')"
| "permitted tr rules (EvDelete k m x grace ok) = may tr rules [''delete''] k"
| "permitted tr rules (EvCreateOrUpdate ob f ok) = may tr rules (read_verbs @ [''create'', ''update'']) (obj_kind ob)"
| "permitted tr rules EvNow = True"
| "permitted tr rules (EvRand i) = True"

lemmas role_defs = manager_role_def LabSession_markers_def CTFTask_markers_def LabSpace_markers_def
  LabService_markers_def

lemma grants_simps:
  "\<not> grants [] r v"
  "grants (marker g rs vs # rules) r v \<longleftrightarrow> fst r = g \<and> snd r \<in> set rs \<and> v \<in> set vs \<or> grants rules r v"
  by (simp_all add: grants_def marker_def)

text \<open>
  The role allows everything on the kinds the controllers know but the tasks. On tasks it allows
  to read, if they are served as \<open>tasks\<close>, and nothing at all if they are served as \<open>task\<close>.
\<close>

lemma manager_grants:
  "grants manager_role (api_resource installed_Task_resource k) v \<longleftrightarrow> v \<in> set all_verbs \<and> (k = TaskKind \<longrightarrow> v \<in> set read_verbs)"
  "grants manager_role (api_resource Task_resource k) v \<longleftrightarrow> v \<in> set all_verbs \<and> k \<noteq> TaskKind"
  unfolding installed_Task_resource_def Task_resource_def
  by (cases k; auto simp: role_defs grants_simps; auto simp: all_verbs_def read_verbs_def)+

lemma granted [simp]:
  "may installed_Task_resource manager_role read_verbs k"
  "may installed_Task_resource manager_role [''list'', ''watch''] k"
  "may installed_Task_resource manager_role [''create''] k \<longleftrightarrow> k \<noteq> TaskKind"
  "may installed_Task_resource manager_role [''update''] k \<longleftrightarrow> k \<noteq> TaskKind"
  "may installed_Task_resource manager_role [''delete''] k \<longleftrightarrow> k \<noteq> TaskKind"
  "may installed_Task_resource manager_role (read_verbs @ [''create'', ''update'']) k \<longleftrightarrow> k \<noteq> TaskKind"
  "may Task_resource manager_role read_verbs k \<longleftrightarrow> k \<noteq> TaskKind"
  "may Task_resource manager_role [''list'', ''watch''] k \<longleftrightarrow> k \<noteq> TaskKind"
  "may Task_resource manager_role [''create''] k \<longleftrightarrow> k \<noteq> TaskKind"
  "may Task_resource manager_role [''update''] k \<longleftrightarrow> k \<noteq> TaskKind"
  "may Task_resource manager_role [''delete''] k \<longleftrightarrow> k \<noteq> TaskKind"
  "may Task_resource manager_role (read_verbs @ [''create'', ''update'']) k \<longleftrightarrow> k \<noteq> TaskKind"
  by (auto simp: may_def read_verbs_def manager_grants [unfolded read_verbs_def all_verbs_def])

lemma granted_status [simp]:
  "grants manager_role (''core.ctf.school'', ''labsessions/status'') ''update''"
  "grants manager_role (''edu.ctf.school'', ''ctftasks/status'') ''update''"
  by (simp_all add: role_defs grants_simps status_verbs_def)

lemma obj_not_task [simp]: "obj_kind ob \<noteq> TaskKind"
  by (cases ob) simp_all

text \<open>
  The LabSession reconciler's own markers would not do: they name the LabSpaces under the group
  core.ctf.school, but LabSpace is a resource of infra.ctf.school.
\<close>

lemma own_markers_lack_labspaces:
  "\<not> permitted tr LabSession_markers (EvGet SpaceKind '''' name ok)"
  "grants LabSession_markers (''core.ctf.school'', ''labspaces'') ''get''"
  by (simp_all add: may_def role_defs grants_simps read_verbs_def)

subsection \<open>Which calls are permitted\<close>

text \<open>
  The calls of the two contracts never write a task, and write the status of the two kinds only
  whose status the reconcilers own. What touches tasks at all is their list.
\<close>

fun writes_unowned :: "event \<Rightarrow> bool" where
  "writes_unowned (EvStatus ob ok) = (obj_kind ob \<notin> {SessionKind, CTFTaskKind})"
| "writes_unowned (EvDelete k m x grace ok) = (k = TaskKind)"
| "writes_unowned (EvGet k m x ok) = (k = TaskKind)"
| "writes_unowned _ = False"

fun lists_tasks :: "event \<Rightarrow> bool" where
  "lists_tasks (EvList k m ok) = (k = TaskKind)"
| "lists_tasks _ = False"

lemma permitted_iff:
  "\<not> writes_unowned e \<Longrightarrow> permitted installed_Task_resource manager_role e \<and>
     (permitted Task_resource manager_role e \<longleftrightarrow> \<not> lists_tasks e)"
  by (cases e) auto

lemma lab_call_permitted: "lab_call ns n e \<Longrightarrow> \<not> writes_unowned e"
  by (cases e) (auto split: kobj.splits)

lemma ctf_call_permitted: "ctf_call ns n e \<Longrightarrow> \<not> writes_unowned e \<and> \<not> lists_tasks e"
  by (cases e) (auto split: kobj.splits)

text \<open>
  C15: what the role permits of what the reconcilers do. With the CRD that the kustomization
  installs, which serves Task under \<open>tasks\<close>, every call of a LabSession or a CTFTask
  reconciliation is permitted by the ClusterRole generated from the markers, whatever the
  cluster answers. With the CRD generated from the type, which serves it under \<open>task\<close>, the role
  permits exactly the calls that do not list tasks: a CTFTask reconciliation is not affected, a
  LabSession reconciliation is refused that list.
\<close>

theorem role_permits_all_but_task_list:
  assumes "lib_ok L" "keyed K"
  shows "(\<exists>new. calls (snd (Reconcile G L K name s)) = calls s @ new \<and>
      list_all (permitted installed_Task_resource manager_role) new \<and>
      list_all (\<lambda>e. permitted Task_resource manager_role e \<longleftrightarrow> \<not> lists_tasks e) new) \<and>
    (\<exists>new. calls (snd (ReconcileCTF G L K ns n s)) = calls s @ new \<and>
      list_all (permitted installed_Task_resource manager_role) new \<and>
      list_all (permitted Task_resource manager_role) new)"
proof (rule conjI)
  obtain new where new: "calls (snd (Reconcile G L K name s)) = calls s @ new"
      "list_all (lab_call (''lab-session-'' @ name) name) new"
    using Reconcile_emits [OF assms, of name G] unfolding emits_def by blast
  have "list_all (\<lambda>e. \<not> writes_unowned e) new" by (rule list.pred_mono_strong [OF new(2)]) (erule lab_call_permitted)
  then show "\<exists>new. calls (snd (Reconcile G L K name s)) = calls s @ new \<and>
      list_all (permitted installed_Task_resource manager_role) new \<and>
      list_all (\<lambda>e. permitted Task_resource manager_role e \<longleftrightarrow> \<not> lists_tasks e) new"
    using new(1) permitted_iff by (auto simp: list_all_iff)
  obtain cnew where cnew: "calls (snd (ReconcileCTF G L K ns n s)) = calls s @ cnew" "list_all (ctf_call ns n) cnew"
    using ReconcileCTF_emits [OF assms, of ns n G] unfolding emits_def by blast
  have "list_all (\<lambda>e. \<not> writes_unowned e \<and> \<not> lists_tasks e) cnew"
    by (rule list.pred_mono_strong [OF cnew(2)]) (erule ctf_call_permitted)
  then show "\<exists>new. calls (snd (ReconcileCTF G L K ns n s)) = calls s @ new \<and>
      list_all (permitted installed_Task_resource manager_role) new \<and> list_all (permitted Task_resource manager_role) new"
    using cnew(1) permitted_iff by (auto simp: list_all_iff)
qed

theorem role_permits_all_but_task_list_witness:
  "\<exists>new. calls (snd (Reconcile sample_env sample_lib live_kube ''lab-t3-c1'' \<lparr>outside = 0, calls = []\<rparr>)) = new \<and>
     list_all (permitted installed_Task_resource manager_role) new \<and>
     \<not> permitted Task_resource manager_role (EvList TaskKind '''' True)"
  using role_permits_all_but_task_list [OF sample_lib_ok sample_kube_keyed, of sample_env live_session sample_space "[sample_service]"
      idle_ctf "''lab-t3-c1''" "\<lparr>outside = 0, calls = []\<rparr>"]
  by simp

end
