(* ===== verification/Schema.thy ===== *)
theory Schema
  imports CTFTask
begin

section \<open>Statuses conform to their CRDs\<close>

text \<open>
  The API server refuses an object that violates the validation markers of its Go type. Here the
  markers on the statuses (\<open>labsession_types.go\<close>, \<open>ctftask_types.go\<close>) are a type of calls, \<open>typed\<close>,
  and both reconcilers are shown to make typed calls only, as long as what they read is typed. A
  step that makes the calls of its contract for every session name writes no status at all, which
  spares an analysis of the building steps.
\<close>

subsection \<open>The types\<close>

text \<open>The enumeration of the exposure of a LabService.\<close>

definition exposure_types :: "string list" where
  "exposure_types = [''HTTP'', ''GRPC'', ''Terminal'', ''VNC'']"

definition endpoint_ok :: "endpoint \<Rightarrow> bool" where
  "endpoint_ok e \<longleftrightarrow> ep_type e \<in> set endpoint_types"

definition service_ok :: "lab_service \<Rightarrow> bool" where
  "service_ok v \<longleftrightarrow> (case ls_exposure (sv_spec v) of None \<Rightarrow> True | Some ex \<Rightarrow> ex_type ex \<in> set exposure_types)"

abbreviation endpoints_ok :: "lab_session \<Rightarrow> bool" where
  "endpoints_ok s \<equiv> list_all endpoint_ok (st_endpoints (se_status s))"

fun typed :: "event \<Rightarrow> bool" where
  "typed (EvStatus ob ok) = (case ob of
       KSession s \<Rightarrow> st_phase (se_status s) \<in> set session_phases \<and> endpoints_ok s
     | KCTFTask t \<Rightarrow> ts_phase (ct_status t) \<in> set ctf_phases
     | _ \<Rightarrow> False)"
| "typed _ = True"

text \<open>
  What the server returns has been validated: the endpoints of a session, the exposure of a
  service. The answer to an update of a valid session is valid.
\<close>

definition schema_ok :: "'w kube \<Rightarrow> bool" where
  "schema_ok K \<longleftrightarrow>
     (\<forall>n w s w'. k_get_session K n w = (Inr s, w') \<longrightarrow> endpoints_ok s) \<and>
     (\<forall>sel w vs w'. k_list_services K sel w = (Inr vs, w') \<longrightarrow> list_all service_ok vs) \<and>
     (\<forall>s w s' w'. k_update K (KSession s) w = (Inr (KSession s'), w') \<longrightarrow> endpoints_ok s \<longrightarrow> endpoints_ok s')"

lemma schema_ok_yields:
  assumes "schema_ok K"
  shows "yields endpoints_ok (get_session K n)"
    and "yields (list_all service_ok) (list_services K sel)"
    and "endpoints_ok s \<Longrightarrow> yields endpoints_ok (update_session K s)"
proof -
  show "yields endpoints_ok (get_session K n)"
    unfolding get_session_def by (rule yields_call) (use assms in \<open>unfold schema_ok_def, blast\<close>)
  show "yields (list_all service_ok) (list_services K sel)"
    unfolding list_services_def by (rule yields_call) (use assms in \<open>unfold schema_ok_def, blast\<close>)
  assume s: "endpoints_ok s"
  have "yields (\<lambda>ob. \<forall>s'. ob = KSession s' \<longrightarrow> endpoints_ok s') (update K (KSession s))"
    unfolding update_def by (rule yields_call) (use assms s in \<open>unfold schema_ok_def, blast\<close>)
  then show "yields endpoints_ok (update_session K s)"
    unfolding update_session_def
    by (rule yields_bind2) (auto split: kobj.split intro: yields_ret yields_fail)
qed

subsection \<open>The building steps write no status\<close>

abbreviation no_status :: "event \<Rightarrow> bool" where
  "no_status e \<equiv> (case e of EvStatus ob ok \<Rightarrow> False | _ \<Rightarrow> True)"

lemma no_status_typed: "no_status e \<Longrightarrow> typed e"
  by (cases e) auto

lemma emits_conj: "emits P m \<Longrightarrow> emits Q m \<Longrightarrow> emits (\<lambda>e. P e \<and> Q e) m"
  unfolding emits_def list_all_iff by (metis same_append_eq)

text \<open>A status belongs to one session: calls allowed for two different names are no status writes.\<close>

lemma lab_calls_no_status:
  assumes "\<And>n. emits (lab_call ns n) m"
  shows "emits no_status m"
  by (rule emits_mono [OF emits_conj [OF assms [of "''a''"] assms [of "''b''"]]])
    (auto split: event.split kobj.splits)

lemma building_no_status:
  assumes "lib_ok L" "keyed K"
  shows "emits no_status (setup_namespace G L K ns space session)"
    and "emits no_status (reconcileWorkspace G L K ns space session)"
    and "emits no_status (reconcileWorkspaceRoute G L K ns session)"
    and "emits no_status (forE svcs (reconcile_service G L K ns space session))"
proof -
  note steps = setup_namespace_emits [OF assms] reconcileWorkspace_emits [OF assms(1)]
    reconcileWorkspaceRoute_emits [OF assms(1)] emits_forE [OF reconcile_service_emits [OF assms(1)]]
  show "emits no_status (setup_namespace G L K ns space session)"
    and "emits no_status (reconcileWorkspace G L K ns space session)"
    and "emits no_status (reconcileWorkspaceRoute G L K ns session)"
    and "emits no_status (forE svcs (reconcile_service G L K ns space session))"
    by (rule lab_calls_no_status, rule steps)+
qed

lemma emits_typed: "emits no_status m \<Longrightarrow> emits typed m"
  by (erule emits_mono) (rule no_status_typed)

lemmas building_typed = building_no_status [THEN emits_typed]

subsection \<open>The LabSession reconciler\<close>

lemma new_endpoints_ok:
  "list_all service_ok svcs \<Longrightarrow> list_all endpoint_ok (new_endpoints G space session svcs)"
  by (induction svcs)
    (auto simp: new_endpoints_def workspace_endpoint_def endpoint_ok_def endpoint_types_def service_ok_def
      exposure_types_def split: option.splits)

lemma next_status_typed:
  assumes "endpoints_ok session" "list_all service_ok svcs"
    and "next_status G now space session ns svcs pods = (st, changed)"
  shows "typed (EvStatus (KSession (session\<lparr>se_status := st\<rparr>)) ok)"
  using assms computePhase_enum [of pods] new_endpoints_ok [of svcs G space session]
  by (auto simp: next_status_def init_timers_def set_phase_def set_endpoints_def Let_def split: if_splits prod.splits)

lemma syncStatus_typed:
  assumes "endpoints_ok session" "list_all service_ok svcs"
  shows "emits typed (syncStatus G K session ns svcs space)"
proof -
  have "emits typed (case next_status G now space session ns svcs pods of (st, changed) \<Rightarrow>
      bindE (if changed then status_update_session K (session\<lparr>se_status := st\<rparr>) else ret (session\<lparr>se_status := st\<rparr>))
        (\<lambda>session''. schedule K (se_status session'')))" for now pods
    using next_status_typed [OF assms]
    by (cases "next_status G now space session ns svcs pods")
      (auto simp: schedule_def Let_def simp del: typed.simps(1) intro!: emit_intros)
  then show ?thesis
    unfolding syncStatus_def Let_def by (auto intro!: emit_intros)
qed

lemma maybeRestart_endpoints:
  assumes "schema_ok K" "endpoints_ok session"
  shows "yields (\<lambda>(b, s). endpoints_ok s) (maybeRestart K session ns)"
  unfolding maybeRestart_def Let_def
  apply (intro yields_if yields_ret)
   apply (simp add: assms(2))
  apply (rule yields_bind, rule yields_bind)
  apply (rule yields_bind2 [where Q = endpoints_ok])
   apply (rule yields_liftE, auto simp: mark_handled_def Let_def bindR_eq_Inr assms(2))[1]
  apply (rule yields_bind2 [OF schema_ok_yields(3) [OF assms(1)]], assumption)
  apply (simp add: yields_ret)
  done

lemma maybeRestart_no_status: "emits no_status (maybeRestart K session ns)"
  unfolding maybeRestart_def restart_pods_def Let_def by (intro emit_intros) simp_all

lemma reconcile_active_typed:
  assumes "lib_ok L" "keyed K" "schema_ok K" "endpoints_ok session"
  shows "emits typed (reconcile_active G L K space session)"
  unfolding reconcile_active_def Let_def
proof (rule emits_bind, rule building_typed(1) [OF assms(1,2)])
  let ?ns = "session_namespace session"
  have rest: "emits typed (reconcile_resources G L K ?ns space s)" if "endpoints_ok s" for s
    unfolding reconcile_resources_def
    apply (rule emits_bind_yields [OF _ schema_ok_yields(2) [OF assms(3)]], intro emit_intros, simp)
    apply (rule emits_bind, rule building_typed(2) [OF assms(1,2)])
    apply (rule emits_bind, rule building_typed(3) [OF assms(1,2)])
    apply (rule emits_bind, rule building_typed(4) [OF assms(1,2)])
    apply (rule syncStatus_typed [OF that], assumption)
    done
  show "emits typed (bindE (maybeRestart K session ?ns) (\<lambda>(restarted, session').
         if restarted then
           bindE (attempt (status_update_session K (session'\<lparr>se_status := (se_status session')
                 \<lparr>st_phase := ''Pending'', st_message := ''Restarting lab'' @ ellipsis\<rparr>\<rparr>)))
             (\<lambda>_. ret (requeue_after (2 * Second)))
         else reconcile_resources G L K ?ns space session'))"
    by (rule emits_bind_yields [OF emits_typed [OF maybeRestart_no_status]
          maybeRestart_endpoints [OF assms(3,4)]])
      (auto simp: session_phases_def intro!: emit_intros rest)
qed

lemma Reconcile_typed:
  assumes "lib_ok L" "keyed K" "schema_ok K"
  shows "emits typed (Reconcile G L K name)"
  unfolding Reconcile_def
proof (rule emits_bind_yields [OF _ yields_attempt [OF schema_ok_yields(1) [OF assms(3)]]])
  show "emits typed (attempt (get_session K name))" by (intro emit_intros) simp
next
  fix r :: "goerr + lab_session" assume r: "case_sum (\<lambda>_. True) endpoints_ok r"
  have "emits typed (reconcile_fetched G L K session)" if "endpoints_ok session" for session
    unfolding reconcile_fetched_def is_expired_def
    by (intro emit_intros reconcile_active_typed [OF assms that]) simp_all
  with r show "emits typed (case r of Inl e \<Rightarrow> if is_not_found e then ret done_result else fail e
     | Inr session \<Rightarrow> reconcile_fetched G L K session)"
    by (cases r) (auto intro: emit_intros)
qed

text \<open>
  C5: the statuses both reconcilers write conform to their CRDs. Whatever the cluster answers or
  refuses, as long as the sessions and services it returns are valid themselves, every status
  update is one of a LabSession whose phase is in the enumeration of phases and whose endpoints
  all have a type of the enumeration of endpoint types, or one of a CTFTask with a phase of its
  enumeration; no status of another kind is written. So no reconciliation is stuck on a status
  that the API server refuses.
\<close>

theorem statuses_conform:
  assumes "lib_ok L" "keyed K" "schema_ok K"
  shows "(\<exists>new. calls (snd (Reconcile G L K name s)) = calls s @ new \<and> list_all typed new) \<and>
    (\<exists>new. calls (snd (ReconcileCTF G L K ns n s)) = calls s @ new \<and> list_all typed new)"
proof -
  have "ctf_call ns n e \<Longrightarrow> typed e" for e
    by (cases e) (auto split: kobj.splits)
  then have "emits typed (ReconcileCTF G L K ns n)"
    by (rule emits_mono [OF ReconcileCTF_emits [OF assms(1,2)]])
  with Reconcile_typed [OF assms, of G name] show ?thesis unfolding emits_def by blast
qed

lemma sample_kube_schema:
  "endpoints_ok s \<Longrightarrow> list_all service_ok svcs \<Longrightarrow> schema_ok (sample_kube s sp svcs t)"
  by (auto simp: schema_ok_def sample_kube_def missing_def split: if_splits)

theorem statuses_conform_witness:
  "\<exists>new. calls (snd (Reconcile sample_env sample_lib live_kube ''lab-t3-c1'' \<lparr>outside = 0, calls = []\<rparr>)) = new \<and>
     list_all typed new"
proof -
  have "schema_ok live_kube"
    by (rule sample_kube_schema)
      (simp_all add: live_session_def named_session_def service_ok_def sample_service_def exposure_types_def)
  from statuses_conform [OF sample_lib_ok sample_kube_keyed this] show ?thesis by fastforce
qed

end
