(* ===== verification/Isolation.thy ===== *)
theory Isolation
  imports CTFTask
begin

section \<open>Reconciliations do not interfere\<close>

text \<open>
  The manager runs reconciliations of different objects concurrently, on the same cluster. The
  footprint of a call is the set of the objects it may change, the whole content of a namespace
  when it deletes one. The interface \<open>write_region\<close> bounds the footprints of a contract by a region
  of keys; both contracts provide it, and the regions of different sessions and tasks are
  disjoint. So no object is written by two of them, in whatever order their calls interleave.
\<close>

type_synonym key = "kind \<times> string \<times> string"

text \<open>Namespaces and LabSessions (\<open>scope=Cluster\<close>) are in no namespace.\<close>

definition cluster_scoped :: "kind \<Rightarrow> bool" where
  "cluster_scoped k \<longleftrightarrow> k \<in> {NamespaceKind, SessionKind}"

definition key_of :: "kind \<Rightarrow> string \<Rightarrow> string \<Rightarrow> key" where
  "key_of k ns n = (k, if cluster_scoped k then '''' else ns, n)"

definition obj_key :: "kobj \<Rightarrow> key" where
  "obj_key ob = key_of (obj_kind ob) (obj_ns ob) (obj_name ob)"

definition keys_in :: "string \<Rightarrow> key set" where
  "keys_in ns = {(k, m, n). \<not> cluster_scoped k \<and> m = ns}"

fun footprint :: "event \<Rightarrow> key set" where
  "footprint (EvCreate ob ok) = {obj_key ob}"
| "footprint (EvUpdate ob ok) = {obj_key ob}"
| "footprint (EvStatus ob ok) = {obj_key ob}"
| "footprint (EvCreateOrUpdate ob f ok) = {obj_key ob}"
| "footprint (EvDelete k ns n g ok) = insert (key_of k ns n) (if k = NamespaceKind then keys_in n else {})"
| "footprint _ = {}"

text \<open>What a program started in a state may change: the footprints of the calls it adds.\<close>

definition touched :: "('w kst, 'a) prog \<Rightarrow> 'w kst \<Rightarrow> key set" where
  "touched m s = \<Union> (footprint ` set (drop (length (calls s)) (calls (snd (m s)))))"

locale write_region =
  fixes allowed :: "event \<Rightarrow> bool" and region :: "key set"
  assumes within: "allowed e \<Longrightarrow> footprint e \<subseteq> region"
begin

lemma touched_within:
  assumes "emits allowed m"
  shows "touched m s \<subseteq> region"
proof -
  obtain es where es: "calls (snd (m s)) = calls s @ es" "list_all allowed es"
    using assms unfolding emits_def by blast
  then have "touched m s = \<Union> (footprint ` set es)" by (simp add: touched_def)
  also have "\<dots> \<subseteq> region" using es(2) within by (auto simp: list_all_iff)
  finally show ?thesis .
qed

end

definition session_region :: "string \<Rightarrow> key set" where
  "session_region name = {(SessionKind, '''', name), (NamespaceKind, '''', ''lab-session-'' @ name)} \<union>
     keys_in (''lab-session-'' @ name)"

definition ctf_region :: "string \<Rightarrow> string \<Rightarrow> key set" where
  "ctf_region ns n = {CTFTaskKind, PodKind, ServiceKind, NetworkPolicyKind} \<times> {ns} \<times> {n}"

lemmas key_defs = obj_key_def key_of_def keys_in_def cluster_scoped_def

interpretation session_writes: write_region "lab_call (''lab-session-'' @ name) name" "session_region name" for name
proof
  fix e assume "lab_call (''lab-session-'' @ name) name e"
  then show "footprint e \<subseteq> session_region name"
    by (cases e) (auto simp: key_defs session_region_def split: kobj.splits)
qed

interpretation task_writes: write_region "ctf_call ns n" "ctf_region ns n" for ns n
proof
  fix e assume "ctf_call ns n e"
  then show "footprint e \<subseteq> ctf_region ns n"
    by (cases e) (auto simp: key_defs ctf_region_def split: kobj.splits)
qed

lemma regions_disjoint:
  "n1 \<noteq> n2 \<Longrightarrow> session_region n1 \<inter> session_region n2 = {}"
  "(ns1, n1) \<noteq> (ns2, n2) \<Longrightarrow> ctf_region ns1 n1 \<inter> ctf_region ns2 n2 = {}"
  "ns \<noteq> ''lab-session-'' @ name \<Longrightarrow> session_region name \<inter> ctf_region ns n = {}"
  by (auto simp: session_region_def ctf_region_def keys_in_def cluster_scoped_def)

lemma subsets_disjoint: "A \<inter> B = {} \<Longrightarrow> X \<subseteq> A \<Longrightarrow> Y \<subseteq> B \<Longrightarrow> X \<inter> Y = {}"
  by blast

text \<open>
  C6: reconciliations do not interfere. Whatever the cluster answers to each of them, and from
  whatever states they start, two LabSession reconciliations with different names change no
  object in common, nor do two CTFTask reconciliations with different keys, nor a LabSession and
  a CTFTask reconciliation unless the task lives in the session's own namespace. Deleting a
  namespace counts as changing everything in it.
\<close>

theorem reconciliations_do_not_interfere:
  assumes "lib_ok L" "keyed K"
  shows "(n1 \<noteq> n2 \<longrightarrow> touched (Reconcile G L K n1) s1 \<inter> touched (Reconcile G L K n2) s2 = {}) \<and>
    ((ns, n) \<noteq> (ns', n') \<longrightarrow> touched (ReconcileCTF G L K ns n) s1 \<inter> touched (ReconcileCTF G L K ns' n') s2 = {}) \<and>
    (ns \<noteq> ''lab-session-'' @ n1 \<longrightarrow> touched (Reconcile G L K n1) s1 \<inter> touched (ReconcileCTF G L K ns n) s2 = {})"
proof -
  note session = session_writes.touched_within [OF Reconcile_emits [OF assms]]
    and task = task_writes.touched_within [OF ReconcileCTF_emits [OF assms]]
  show ?thesis
    by (intro conjI impI subsets_disjoint [OF regions_disjoint(1) session session]
        subsets_disjoint [OF regions_disjoint(2) task task] subsets_disjoint [OF regions_disjoint(3) session task])
qed

theorem reconciliations_do_not_interfere_witness:
  "touched (Reconcile sample_env sample_lib live_kube ''lab-t3-c1'') \<lparr>outside = 0, calls = []\<rparr> \<inter>
     touched (ReconcileCTF sample_env sample_lib live_kube ''n'' ''t'') \<lparr>outside = 0, calls = []\<rparr> = {} \<and>
   touched (Reconcile sample_env sample_lib live_kube ''lab-t3-c1'') \<lparr>outside = 0, calls = []\<rparr> \<inter>
     touched (Reconcile sample_env sample_lib live_kube ''lab-t3-c2'') \<lparr>outside = 0, calls = []\<rparr> = {}"
proof -
  note apart = reconciliations_do_not_interfere [OF sample_lib_ok sample_kube_keyed, of "''lab-t3-c1''" "''lab-t3-c2''"
      sample_env live_session sample_space "[sample_service]" idle_ctf "\<lparr>outside = 0, calls = []\<rparr>" "\<lparr>outside = 0, calls = []\<rparr>" "''n''" "''t''"]
  have "''n'' \<noteq> ''lab-session-'' @ ''lab-t3-c1''" "''lab-t3-c1'' \<noteq> ''lab-t3-c2''" by simp_all
  with apart show ?thesis by (iprover)
qed

end
