(* ===== verification/Settling.thy ===== *)
theory Settling
  imports Creation CTFLife Schema
begin

section \<open>Status updates come to an end\<close>

text \<open>
  A reconciler that writes the status of its own object is woken by its own write: the server
  reports every change of an object to the controller that watches it. If each run wrote again,
  the two would run forever. Here each status gets a debt, a bound on the writes still to come
  while the cluster stays as it is, and every status a reconciliation writes has a smaller debt
  than the one before. Runs that follow one another start from a status that was written, so the
  debt of the first status bounds the writes of them all.
\<close>

fun descends :: "('a \<Rightarrow> nat) \<Rightarrow> 'a \<Rightarrow> 'a list \<Rightarrow> bool" where
  "descends f x [] = True"
| "descends f x (y # ys) = (f y < f x \<and> descends f y ys)"

lemma descends_length: "descends f x ys \<Longrightarrow> length ys \<le> f x"
  by (induction f x ys rule: descends.induct) auto

lemma descends_mem: "descends f x ys \<Longrightarrow> y \<in> set ys \<Longrightarrow> f y < f x"
  by (induction f x ys rule: descends.induct) auto

text \<open>
  A write that changes nothing is no event: the server compares the object and keeps its version.
  \<open>changes\<close> are the writes that differ from the status before them.
\<close>

fun changes :: "'a \<Rightarrow> 'a list \<Rightarrow> 'a list" where
  "changes x [] = []"
| "changes x (y # ys) = (if y = x then changes x ys else y # changes y ys)"

fun descends_or_stays :: "('a \<Rightarrow> nat) \<Rightarrow> 'a \<Rightarrow> 'a list \<Rightarrow> bool" where
  "descends_or_stays f x [] = True"
| "descends_or_stays f x (y # ys) = ((y = x \<or> f y < f x) \<and> descends_or_stays f y ys)"

lemma descends_changes: "descends_or_stays f x ys \<Longrightarrow> descends f x (changes x ys)"
  by (induction f x ys rule: descends_or_stays.induct) auto

subsection \<open>LabSession\<close>

text \<open>The statuses of a session that a log of calls writes, in order.\<close>

fun session_status_of :: "event \<Rightarrow> lab_session_status option" where
  "session_status_of (EvStatus (KSession s) ok) = Some (se_status s)"
| "session_status_of _ = None"

definition session_writes :: "event list \<Rightarrow> lab_session_status list" where
  "session_writes log = List.map_filter session_status_of log"

lemma session_writes_simps [simp]:
  "session_writes [] = []" "session_writes (xs @ ys) = session_writes xs @ session_writes ys"
  "session_writes (e # es) = (case session_status_of e of None \<Rightarrow> [] | Some st \<Rightarrow> [st]) @ session_writes es"
  by (simp_all add: session_writes_def map_filter_def split: option.split)

lemma session_writes_none: "list_all no_status es \<Longrightarrow> session_writes es = []"
  by (induction es) (auto split: event.splits)

abbreviation status_writes :: "(lab_session_status list \<Rightarrow> bool) \<Rightarrow> ('w kst, 'a) prog \<Rightarrow> bool" where
  "status_writes Q m \<equiv> appends (\<lambda>es. Q (session_writes es)) m"

lemma status_writes_none: "emits no_status m \<Longrightarrow> Q [] \<Longrightarrow> status_writes Q m"
  unfolding emits_def appends_def using session_writes_none by metis

text \<open>A status written, then nothing; and nothing written, then whatever follows.\<close>

lemma status_writes_after:
  assumes "emits no_status m" "yields R m" "\<And>x. R x \<Longrightarrow> status_writes Q (f x)" "Q []"
  shows "status_writes Q (bindE m f)"
  unfolding appends_def
proof
  fix s
  obtain r s1 where m: "m s = (r, s1)" by fastforce
  then obtain es where es: "calls s1 = calls s @ es" "session_writes es = []"
    using emitsD [OF assms(1) m] session_writes_none by blast
  show "\<exists>es. calls (snd (bindE m f s)) = calls s @ es \<and> Q (session_writes es)"
  proof (cases r)
    case (Inl e)
    with m es assms(4) show ?thesis by (auto simp: run_simps)
  next
    case (Inr x)
    then have "status_writes Q (f x)" using assms(2,3) m by (auto simp: yields_def)
    then obtain fs where "calls (snd (f x s1)) = calls s1 @ fs" "Q (session_writes fs)"
      unfolding appends_def by blast
    with m Inr es show ?thesis by (auto simp: run_simps intro: exI [of _ "es @ fs"])
  qed
qed

lemma status_writes_then:
  assumes "emits no_status m" "\<And>x. status_writes Q (f x)" "Q []"
  shows "status_writes Q (bindE m f)"
  by (rule status_writes_after [where R = "\<lambda>_. True"]) (use assms in \<open>simp_all add: yields_def\<close>)

lemma status_writes_one:
  assumes "Q [se_status session]" "\<And>x. emits no_status (f x)"
  shows "status_writes Q (bindE (status_update_session K session) f)"
  unfolding appends_def
proof
  fix s
  obtain r s1 where m: "status_update_session K session s = (r, s1)" by fastforce
  moreover have "\<exists>ok. calls (snd (status_update_session K session s)) = calls s @ [EvStatus (KSession session) ok]"
    by (auto simp: status_update_session_def run_simps status_update_def call_def
        split: prod.split sum.split kobj.split)
  ultimately obtain ok where ok: "calls s1 = calls s @ [EvStatus (KSession session) ok]" by auto
  show "\<exists>es. calls (snd (bindE (status_update_session K session) f s)) = calls s @ es \<and> Q (session_writes es)"
  proof (cases r)
    case (Inl e)
    with m ok assms(1) show ?thesis by (auto simp: run_simps)
  next
    case (Inr x)
    obtain fs where "calls (snd (f x s1)) = calls s1 @ fs" "session_writes fs = []"
      using assms(2) [of x] session_writes_none unfolding emits_def by blast
    with m ok Inr assms(1) show ?thesis
      by (auto simp: run_simps intro!: exI [of _ "EvStatus (KSession session) ok # fs"])
  qed
qed

text \<open>
  A status is settled when it shows what the pods say, has its instants, and has as many
  endpoints as the services call for.
\<close>

definition endpoint_count :: "lab_space \<Rightarrow> lab_service list \<Rightarrow> nat" where
  "endpoint_count space svcs =
     Suc (if nc_internal_only (network space) then 0 else length (filter (\<lambda>v. ls_exposure (sv_spec v) \<noteq> None) svcs))"

definition settled :: "lab_space \<Rightarrow> lab_service list \<Rightarrow> pod list \<Rightarrow> lab_session_status \<Rightarrow> bool" where
  "settled space svcs pods st \<longleftrightarrow> st_start_time st \<noteq> None \<and> (st_phase st, st_message st) = computePhase pods \<and>
     length (st_endpoints st) = endpoint_count space svcs"

definition status_debt :: "lab_space \<Rightarrow> lab_service list \<Rightarrow> pod list \<Rightarrow> lab_session_status \<Rightarrow> nat" where
  "status_debt space svcs pods st = (if settled space svcs pods st then 0 else 1)"

lemma length_new_endpoints: "length (new_endpoints G space session svcs) = endpoint_count space svcs"
  by (simp add: new_endpoints_def endpoint_count_def service_endpoints_map)

lemma next_status_settles:
  assumes "next_status G now space session ns svcs pods = (st, changed)"
  shows "settled space svcs pods st" "changed \<longleftrightarrow> \<not> settled space svcs pods (se_status session)"
proof -
  have st: "st = fst (next_status G now space session ns svcs pods)"
    "changed = snd (next_status G now space session ns svcs pods)"
    using assms by simp_all
  show "settled space svcs pods st"
    by (simp add: st next_status_stages status_fields Let_def settled_def length_new_endpoints)
  show "changed \<longleftrightarrow> \<not> settled space svcs pods (se_status session)"
    by (cases "st_start_time (se_status session)")
      (auto simp: st next_status_stages status_fields Let_def settled_def length_new_endpoints)
qed

text \<open>The cluster stays as it is: the same LabSpace, services and pods at every read that succeeds.\<close>

definition frozen :: "'w kube \<Rightarrow> lab_session \<Rightarrow> lab_space \<Rightarrow> lab_service list \<Rightarrow> pod list \<Rightarrow> bool" where
  "frozen K session space svcs pods \<longleftrightarrow>
     (\<forall>w x w'. k_get_space K (ss_lab_space_ref (se_spec session)) w = (Inr x, w') \<longrightarrow> x = space) \<and>
     (\<forall>sel w vs w'. k_list_services K sel w = (Inr vs, w') \<longrightarrow> vs = svcs) \<and>
     (\<forall>w ps w'. k_list_pods K (session_namespace session) w = (Inr ps, w') \<longrightarrow> ps = pods)"

lemma frozen_yields:
  assumes "frozen K session space svcs pods"
  shows "yields (\<lambda>x. x = space) (get_space K (ss_lab_space_ref (se_spec session)))"
    and "yields (\<lambda>vs. vs = svcs) (list_services K sel)"
    and "yields (\<lambda>ps. ps = pods) (list_pods K (session_namespace session))"
  unfolding get_space_def list_services_def list_pods_def
  by (rule yields_call; use assms in \<open>unfold frozen_def, blast\<close>)+

lemma syncStatus_descends:
  assumes "frozen K session space svcs pods"
  shows "status_writes (descends (status_debt space svcs pods) (se_status session))
    (syncStatus G K session (session_namespace session) svcs space)"
  unfolding syncStatus_def Let_def
proof (rule status_writes_then)
  fix now
  have quiet: "emits no_status (schedule K st)" for st
    unfolding schedule_def Let_def by (intro emit_intros) simp
  have last: "status_writes (descends (status_debt space svcs pods) (se_status session))
      (case next_status G now space session (session_namespace session) svcs pods of (st, changed) \<Rightarrow>
        bindE (if changed then status_update_session K (session\<lparr>se_status := st\<rparr>) else ret (session\<lparr>se_status := st\<rparr>))
          (\<lambda>session''. schedule K (se_status session'')))"
  proof (cases "next_status G now space session (session_namespace session) svcs pods")
    case (Pair st changed)
    note n = next_status_settles [OF Pair]
    show ?thesis
    proof (cases changed)
      case True
      with n Pair show ?thesis by (auto simp: status_debt_def quiet intro!: status_writes_one)
    next
      case False
      with Pair show ?thesis by (simp add: quiet status_writes_none)
    qed
  qed
  show "status_writes (descends (status_debt space svcs pods) (se_status session))
      (bindE (list_pods K (session_namespace session)) (\<lambda>pods.
        case next_status G now space session (session_namespace session) svcs pods of (st, changed) \<Rightarrow>
        bindE (if changed then status_update_session K (session\<lparr>se_status := st\<rparr>) else ret (session\<lparr>se_status := st\<rparr>))
          (\<lambda>session''. schedule K (se_status session''))))"
    by (rule status_writes_after [OF _ frozen_yields(3) [OF assms]])
      (use last in \<open>auto intro!: emit_intros\<close>)
qed (auto intro!: emit_intros)

lemma no_restart: "\<not> restart_pending session \<Longrightarrow> maybeRestart K session ns = ret (False, session)"
  by (auto simp: maybeRestart_def restart_pending_def Let_def)

lemma reconcile_active_descends:
  assumes "lib_ok L" "keyed K" "\<not> restart_pending session" "frozen K session space svcs pods"
  shows "status_writes (descends (status_debt space svcs pods) (se_status session)) (reconcile_active G L K space session)"
proof -
  let ?Q = "descends (status_debt space svcs pods) (se_status session)"
  note quiet = building_no_status [OF assms(1,2)]
  have "status_writes ?Q (reconcile_resources G L K (session_namespace session) space session)"
    unfolding reconcile_resources_def
    apply (rule status_writes_after [OF _ frozen_yields(2) [OF assms(4)]], intro emit_intros, simp)
     apply (rule status_writes_then [OF quiet(2)])
      apply (rule status_writes_then [OF quiet(3)])
       apply (rule status_writes_then [OF quiet(4)])
        apply (simp_all add: syncStatus_descends [OF assms(4)])
    done
  then show ?thesis
    unfolding reconcile_active_def no_restart [OF assms(3)] Let_def
    by (intro status_writes_then [OF quiet(1)]) simp_all
qed

lemma reconcile_fetched_descends:
  assumes "lib_ok L" "keyed K" "\<not> restart_pending session" "frozen K session space svcs pods"
  shows "status_writes (descends (status_debt space svcs pods) (se_status session)) (reconcile_fetched G L K session)"
proof -
  let ?Q = "descends (status_debt space svcs pods) (se_status session)"
  have expiry: "emits no_status (is_expired K session)"
    unfolding is_expired_def by (intro emit_intros) simp
  have live: "status_writes ?Q (bindE (get_space K (ss_lab_space_ref (se_spec session))) (\<lambda>space.
        bindE (is_expired K session) (\<lambda>expired.
        if expired then bindE (delete K SessionKind '''' (se_name session) None) (\<lambda>_. ret done_result)
        else reconcile_active G L K space session)))"
    apply (rule status_writes_after [OF _ frozen_yields(1) [OF assms(4)]], intro emit_intros, simp)
     apply (rule status_writes_then [OF expiry])
      apply (auto intro!: status_writes_none emit_intros reconcile_active_descends [OF assms])
    done
  show ?thesis
  proof (cases "m_deletion_ts (se_meta session) \<noteq> None \<or> \<not> contains_finalizer L (se_meta session) sessionFinalizer")
    case True
    then show ?thesis
      unfolding reconcile_fetched_def by (auto intro!: status_writes_none emit_intros)
  next
    case False
    with live show ?thesis unfolding reconcile_fetched_def by simp
  qed
qed

text \<open>
  \<open>computePhase\<close> stops at the first pod that is not up, so the order of the list matters: a status
  that is settled for two pods in one order is not settled for the same pods in the other.
\<close>

lemma settled_depends_on_order:
  "\<exists>p q. \<forall>st. \<not> (settled space svcs [p, q] st \<and> settled space svcs [q, p] st)"
proof -
  define q where "q = new_pod ''b'' ''n''"
  define p where "p = (new_pod ''a'' ''n'')\<lparr>pod_status_of := new_pod_status\<lparr>pst_phase := ''Failed''\<rparr>\<rparr>"
  have "computePhase [p, q] \<noteq> computePhase [q, p]"
    by (simp add: p_def q_def new_pod_def new_pod_status_def computePhase_def pod_verdict_def)
  then have "\<not> (settled space svcs [p, q] st \<and> settled space svcs [q, p] st)" for st
    unfolding settled_def by metis
  then show ?thesis by blast
qed

text \<open>
  C7: the status of a session settles. While the LabSpace, the services and the list of the pods
  stay as they are and no restart is requested, the statuses a reconciliation attempts to write
  go down in debt, which is at most one: a settled status is not written again, and any other
  status is followed by a settled one, whichever calls fail and whatever the clock says. So the
  reconciliations that a session's own status updates trigger end after one write. This needs
  the pods to be listed in the same order each time: there are two pods for which no status is
  settled in both orders, so that the two orders in alternation write for ever.
\<close>

theorem session_status_settles:
  assumes "lib_ok L" "keyed K" "k_get_session K n w = (Inr session, w1)"
    and "\<not> restart_pending session" "frozen K session space svcs pods"
  shows "descends (status_debt space svcs pods) (se_status session)
      (session_writes (calls (snd (Reconcile G L K n \<lparr>outside = w, calls = []\<rparr>)))) \<and>
    status_debt space svcs pods (se_status session) \<le> 1 \<and>
    (\<exists>p q. \<forall>st. \<not> (settled space svcs [p, q] st \<and> settled space svcs [q, p] st))"
proof -
  let ?s = "\<lparr>outside = w1, calls = [EvGet SessionKind '''' n True]\<rparr>"
  have run: "Reconcile G L K n \<lparr>outside = w, calls = []\<rparr> = reconcile_fetched G L K session ?s"
    by (simp add: Reconcile_def run_simps attempt_def get_session_def call_def assms(3))
  obtain es where es: "calls (snd (reconcile_fetched G L K session ?s)) = calls ?s @ es"
      "descends (status_debt space svcs pods) (se_status session) (session_writes es)"
    using reconcile_fetched_descends [OF assms(1,2,4,5), of G] unfolding appends_def by blast
  have "session_writes (calls (snd (Reconcile G L K n \<lparr>outside = w, calls = []\<rparr>))) = session_writes es"
    unfolding run es(1) by simp
  moreover have "status_debt space svcs pods (se_status session) \<le> 1" by (simp add: status_debt_def)
  ultimately show ?thesis using es(2) settled_depends_on_order by (simp only: simp_thms)
qed

theorem session_status_settles_witness:
  "length (session_writes (calls (snd (Reconcile sample_env sample_lib live_kube ''lab-t3-c1'' \<lparr>outside = 0, calls = []\<rparr>)))) \<le> 1"
proof -
  have get: "k_get_session live_kube ''lab-t3-c1'' 0 = (Inr live_session, 0)"
    by (simp add: sample_kube_def live_session_def named_session_def new_meta_def)
  have calm: "\<not> restart_pending live_session"
    by (simp add: restart_pending_def live_session_def named_session_def new_meta_def gm_str_def)
  have "frozen live_kube live_session sample_space [sample_service] []"
    by (auto simp: frozen_def sample_kube_def missing_def split: if_splits)
  note settles = session_status_settles [OF sample_lib_ok sample_kube_keyed get calm this, of sample_env]
  show ?thesis
    by (rule le_trans [OF descends_length [OF conjunct1 [OF settles]] conjunct1 [OF conjunct2 [OF settles]]])
qed

subsection \<open>CTFTask\<close>

text \<open>
  The cluster stays as it is: the pod of the task is and stays ready, or does not become it; each
  \<open>CreateOrUpdate\<close> for an object of the task finds the same object, or none and starts from the one
  it is given, or cannot read it (\<open>base\<close>), returns the error of the mutate function if it has one,
  and otherwise its write has the same outcome (\<open>write\<close>); and a status update changes the status
  only.
\<close>

definition readiness_stays :: "'w kube \<Rightarrow> string \<Rightarrow> string \<Rightarrow> bool \<Rightarrow> bool" where
  "readiness_stays K ns n ready \<longleftrightarrow> (\<forall>w r w'. k_get_pod K ns n w = (r, w') \<longrightarrow> (case r of
       Inl e \<Rightarrow> is_not_found e \<longrightarrow> \<not> ready
     | Inr p \<Rightarrow> ready = list_ex (\<lambda>c. pc_type c = ''Ready'' \<and> pc_status c = ''True'') (pst_conditions (pod_status_of p))))"

definition steady ::
  "'w kube \<Rightarrow> string \<Rightarrow> string \<Rightarrow> (kobj \<Rightarrow> goerr + kobj) \<Rightarrow> (kobj \<Rightarrow> goerr + unit) \<Rightarrow> bool" where
  "steady K ns n base write \<longleftrightarrow> (\<forall>ob f w. obj_ns ob = ns \<and> obj_name ob = n \<longrightarrow>
     fst (k_create_or_update K ob f w) = bindR (base ob) (\<lambda>x. bindR (f x) (\<lambda>_. write ob)))"

definition status_only :: "'w kube \<Rightarrow> bool" where
  "status_only K \<longleftrightarrow> (\<forall>t w t' w'. k_status_update K (KCTFTask t) w = (Inr (KCTFTask t'), w') \<longrightarrow>
     ct_meta t' = ct_meta t \<and> ct_spec t' = ct_spec t)"

text \<open>What becomes of the resources of a task then, and the debt of its status: the changes still to come.\<close>

definition wrapR :: "string \<Rightarrow> goerr + 'a \<Rightarrow> goerr + 'a" where
  "wrapR p r = (case r of Inl e \<Rightarrow> Inl (if is_panic e then e else Wrapped p e) | Inr x \<Rightarrow> Inr x)"

definition resource_outcome ::
  "(kobj \<Rightarrow> goerr + kobj) \<Rightarrow> (kobj \<Rightarrow> goerr + unit) \<Rightarrow> kobj \<Rightarrow> mutate \<Rightarrow> goerr + unit" where
  "resource_outcome base write ob f = bindR (base ob) (\<lambda>x. bindR (f x) (\<lambda>_. write ob))"

definition ctf_outcome ::
  "go_env \<Rightarrow> lib \<Rightarrow> (kobj \<Rightarrow> goerr + kobj) \<Rightarrow> (kobj \<Rightarrow> goerr + unit) \<Rightarrow> ctf_task \<Rightarrow> goerr + unit" where
  "ctf_outcome G L base write task =
     (let n = ct_name task; ns = m_namespace (ct_meta task)
      in bindR (generateFlag G task (getenv G ''LAB_MASTER_SALT'')) (\<lambda>flag.
         bindR (wrapR ''failed to ensure pod''
           (resource_outcome base write (KPod (new_pod n ns)) (on_pod (ctf_pod_mutate L task flag)))) (\<lambda>_.
         bindR (wrapR ''failed to ensure service''
           (resource_outcome base write (KService (new_service n ns)) (on_service (ctf_service_mutate L task)))) (\<lambda>_.
         wrapR ''failed to ensure network policy''
           (resource_outcome base write (KNetworkPolicy (new_policy n ns)) (on_network_policy (ctf_policy_mutate L task)))))))"

definition ctf_debt :: "goerr + unit \<Rightarrow> bool \<Rightarrow> ctf_task_status \<Rightarrow> nat" where
  "ctf_debt made ready st =
     (if ts_phase st = '''' then 3 else if ts_phase st = ''Pending'' then 2
      else if (case made of Inr _ \<Rightarrow> ts_phase st = (if ready then ''Ready'' else ''Provisioning'')
               | Inl e \<Rightarrow> ts_phase st = ''Failed'' \<and> ts_message st = err_text e) then 0 else 1)"

lemma isPodReady_stays:
  assumes "readiness_stays K ns n ready" "has_key ns n task"
  shows "yields (\<lambda>b. b = ready) (isPodReady K task)"
proof -
  let ?ready = "\<lambda>p. list_ex (\<lambda>c. pc_type c = ''Ready'' \<and> pc_status c = ''True'') (pst_conditions (pod_status_of p))"
  have "yields (\<lambda>r. case r of Inl e \<Rightarrow> is_not_found e \<longrightarrow> \<not> ready | Inr p \<Rightarrow> ready = ?ready p) (attempt (get_pod K ns n))"
    unfolding yields_def
  proof (intro allI impI)
    fix s r s' assume run: "attempt (get_pod K ns n) s = (Inr r, s')"
    obtain a w' where a: "k_get_pod K ns n (outside s) = (a, w')" by fastforce
    then have "a = r" using run by (auto simp: attempt_def get_pod_def call_def split: sum.splits if_splits)
    with a assms(1) show "case r of Inl e \<Rightarrow> is_not_found e \<longrightarrow> \<not> ready | Inr p \<Rightarrow> ready = ?ready p"
      unfolding readiness_stays_def by blast
  qed
  then have "yields (\<lambda>b. b = ready) (bindE (attempt (get_pod K ns n)) (\<lambda>r. case r of
       Inl e \<Rightarrow> if is_not_found e then ret False else fail e | Inr p \<Rightarrow> ret (?ready p)))"
    by (rule yields_bind2) (auto intro: yields_ret yields_fail split: sum.splits)
  with assms(2) show ?thesis unfolding isPodReady_def by simp
qed

text \<open>The outcome of a program that does not depend on the state.\<close>

lemma fst_bind: "(\<And>s. fst (m s) = a) \<Longrightarrow> (\<And>x s. fst (f x s) = b x) \<Longrightarrow> fst (bindE m f s) = bindR a b"
proof -
  assume m: "\<And>s. fst (m s) = a" and f: "\<And>x s. fst (f x s) = b x"
  obtain s1 where "m s = (a, s1)" using m [of s] by (metis prod.collapse)
  with f show ?thesis by (cases a) (simp_all add: run_simps)
qed

lemma fst_wrap: "fst (wrap_err p m s) = wrapR p (fst (m s))"
  by (auto simp: wrap_err_def wrapR_def split: prod.split sum.split)

lemma fst_create_or_update:
  assumes "steady K ns n base write" "obj_ns ob = ns" "obj_name ob = n"
  shows "fst (create_or_update K ob f s) = resource_outcome base write ob f"
  using assms
  by (simp add: create_or_update_def call_def steady_def resource_outcome_def split: prod.split)
    (metis fst_conv)

lemma ensureResources_outcome:
  assumes "steady K ns n base write" "has_key ns n task"
    and "generateFlag G task (getenv G ''LAB_MASTER_SALT'') = Inr flag"
  shows "fst (ensureResources L K task flag s) = ctf_outcome G L base write task"
proof -
  note c = fst_create_or_update [OF assms(1)]
  have "fst (ensurePod L K task flag s) =
      resource_outcome base write (KPod (new_pod n ns)) (on_pod (ctf_pod_mutate L task flag))"
    "fst (ensureCTFService L K task s) =
      resource_outcome base write (KService (new_service n ns)) (on_service (ctf_service_mutate L task))"
    "fst (ensureNetworkPolicy L K task s) =
      resource_outcome base write (KNetworkPolicy (new_policy n ns)) (on_network_policy (ctf_policy_mutate L task))" for s
    using assms(2)
    by (simp_all add: ensurePod_def ensureCTFService_def ensureNetworkPolicy_def c new_pod_def new_service_def new_policy_def)
  then show ?thesis
    unfolding ensureResources_def ctf_outcome_def assms(3) bindR_simps Let_def
    using assms(2) by (intro fst_bind) (simp_all add: fst_wrap)
qed

lemma attempt_outcome:
  assumes "\<And>s. fst (m s) = r" shows "yields (\<lambda>r'. r' = r) (attempt m)"
  unfolding yields_def
proof (intro allI impI)
  fix s r' s' assume run: "attempt m s = (Inr r', s')"
  obtain s1 where "m s = (r, s1)" using assms [of s] by (metis prod.collapse)
  with run show "r' = r" by (cases r) (auto simp: attempt_def split: if_splits)
qed

text \<open>The outcome is that of the key and the spec of the task, not of its status.\<close>

lemma ctf_outcome_status:
  assumes "ct_meta t = ct_meta task" "ct_spec t = ct_spec task"
  shows "ctf_outcome G L base write t = ctf_outcome G L base write task"
proof -
  have "generateFlag G t salt = generateFlag G task salt" for salt
    unfolding generateFlag_def assms ..
  moreover have "ctf_pod_mutate L t = ctf_pod_mutate L task" "ctf_service_mutate L t = ctf_service_mutate L task"
    "ctf_policy_mutate L t = ctf_policy_mutate L task"
    unfolding fun_eq_iff ctf_pod_mutate_def ctf_service_mutate_def ctf_policy_mutate_def assms by simp_all
  ultimately show ?thesis using assms(1) by (simp add: ctf_outcome_def)
qed

lemma ready_status_debt:
  "past_pending task \<Longrightarrow> ts_phase (ct_status task) \<noteq> ts_phase (ready_status task ready) \<Longrightarrow>
     ctf_debt (Inr ()) ready (ready_status task ready) < ctf_debt (Inr ()) ready (ct_status task)"
  by (auto simp: ready_status_def ctf_debt_def past_pending_def)

lemma failed_status_debt:
  fixes task :: ctf_task and e :: goerr
  assumes "past_pending task"
  defines "st \<equiv> (ct_status task)\<lparr>ts_phase := ''Failed'', ts_message := err_text e\<rparr>"
  shows "st = ct_status task \<or> ctf_debt (Inl e) ready st < ctf_debt (Inl e) ready (ct_status task)"
  using assms by (cases "ct_status task") (auto simp: ctf_debt_def past_pending_def)

lemma ctf_finish_descends:
  assumes "past_pending task" "readiness_stays K ns n ready" "has_key ns n task"
  shows "writes (descends_or_stays (ctf_debt (Inr ()) ready) (ct_status task)) (ctf_finish K task)"
  unfolding ctf_finish_def Let_def
proof (rule writes_bind [where vs = "[]" and R = "\<lambda>b. b = ready"])
  show "writes (\<lambda>ws. ws = []) (isPodReady K task)" by (rule writes_silent [OF isPodReady_silent]) simp
  show "yields (\<lambda>b. b = ready) (isPodReady K task)" by (rule isPodReady_stays [OF assms(2,3)])
  fix b assume b: "b = ready"
  show "writes (\<lambda>ws. descends_or_stays (ctf_debt (Inr ()) ready) (ct_status task) ([] @ ws))
      (bindE (if ts_phase (ct_status task) \<noteq> ts_phase (ready_status task b)
               then bindE (status_update_ctf K (set_status task (ready_status task b))) (\<lambda>_. ret ()) else ret ()) (\<lambda>_.
        ret (requeue_after (30 * Second))))"
  proof (cases "ts_phase (ct_status task) = ts_phase (ready_status task b)")
    case True
    then show ?thesis by (simp add: writes_silent emits_ret)
  next
    case False
    with b ready_status_debt [OF assms(1), of ready] show ?thesis
      by (auto intro!: writes_status_last emits_ret)
  qed
qed simp

lemma liftE_Inr: "liftE (Inr x) = ret x"
  by (simp add: fun_eq_iff run_simps)

lemma ctf_sync_descends:
  fixes G :: go_env and L :: lib
  assumes "past_pending task" "readiness_stays K ns n ready" "has_key ns n task" "steady K ns n base write"
  defines "debt \<equiv> ctf_debt (ctf_outcome G L base write task) ready"
  shows "writes (descends_or_stays debt (ct_status task)) (ctf_sync G L K task)"
proof (cases "generateFlag G task (getenv G ''LAB_MASTER_SALT'')")
  case (Inl e)
  then have "ctf_sync G L K task = fail e" by (simp add: ctf_sync_def fun_eq_iff run_simps)
  then show ?thesis by (simp add: writes_silent emits_fail)
next
  case (Inr flag)
  let ?Q = "descends_or_stays debt (ct_status task)"
  have fail: "writes ?Q (bindE (attempt (status_update_ctf K (set_status task
       ((ct_status task)\<lparr>ts_phase := ''Failed'', ts_message := err_text e\<rparr>)))) (\<lambda>_. fail e))"
    if "ctf_outcome G L base write task = Inl e" for e
    using failed_status_debt [OF assms(1), of e ready] that
    by (auto simp: debt_def intro!: writes_status_last_attempt emit_intros)
  have "writes ?Q (bindE (attempt (ensureResources L K task flag)) (\<lambda>r. case r of
       Inl e \<Rightarrow>
         bindE (attempt (status_update_ctf K (set_status task ((ct_status task)\<lparr>ts_phase := ''Failed'', ts_message := err_text e\<rparr>))))
           (\<lambda>_. fail e)
     | Inr _ \<Rightarrow> ctf_finish K task))"
    by (rule writes_bind [OF writes_silent [OF emits_attempt [OF ensureResources_silent]]
          attempt_outcome [OF ensureResources_outcome [OF assms(4,3) Inr]]])
      (use fail ctf_finish_descends [OF assms(1-3)] in \<open>auto simp: debt_def split: sum.split\<close>)
  then show ?thesis by (simp add: ctf_sync_def Inr liftE_Inr)
qed

lemma status_only_yields:
  assumes "status_only K"
  shows "yields (\<lambda>t'. ct_meta t' = ct_meta t \<and> ct_spec t' = ct_spec t) (status_update_ctf K t)"
proof -
  have "ct_meta t' = ct_meta t \<and> ct_spec t' = ct_spec t"
    if "k_status_update K (KCTFTask t) w = (Inr (KCTFTask t'), w')" for w t' w'
    using assms that unfolding status_only_def by blast
  then show ?thesis
    by (auto simp: yields_def status_update_ctf_def status_update_def call_def run_simps
        split: prod.splits sum.splits kobj.splits)
qed

lemma ctf_live_descends:
  fixes G :: go_env and L :: lib
  assumes "keyed K" "status_kept K" "status_only K" "readiness_stays K ns n ready" "has_key ns n task"
    and "steady K ns n base write" "whole_seconds (ct_status task)"
  defines "debt \<equiv> ctf_debt (ctf_outcome G L base write task) ready"
  shows "writes (descends_or_stays debt (ct_status task)) (ctf_live G L K task)"
proof -
  let ?Q = "descends_or_stays debt (ct_status task)"
  have init: "writes ?Q (ctf_init G K task)" if "ts_phase (ct_status task) = ''''"
    unfolding ctf_init_def Let_def
    by (rule writes_after) (use that in \<open>auto simp: debt_def ctf_debt_def intro!: writes_status_last emit_intros\<close>)
  have later: "writes ?Q (bindE (ctf_start K task) (ctf_sync G L K))" if phase: "ts_phase (ct_status task) \<noteq> ''''"
  proof (cases "ts_phase (ct_status task) = ''Pending''")
    case True
    let ?t = "set_status task ((ct_status task)\<lparr>ts_phase := ''Provisioning''\<rparr>)"
    have step: "debt (ct_status ?t) < debt (ct_status task)" using True by (auto simp: debt_def ctf_debt_def)
    have whole: "whole_seconds (ct_status ?t)" using assms(7) by (simp add: whole_seconds_def)
    have "yields (\<lambda>t. ct_meta t = ct_meta task \<and> ct_spec t = ct_spec task) (status_update_ctf K ?t)"
      using status_only_yields [OF assms(3), of ?t] by simp
    then have "yields (\<lambda>t. ct_status t = ct_status ?t \<and> ct_meta t = ct_meta task \<and> ct_spec t = ct_spec task) (status_update_ctf K ?t)"
      using status_kept_yields [OF assms(2) whole] by (auto simp: yields_def)
    moreover have "writes (\<lambda>ws. ?Q ([ct_status ?t] @ ws)) (ctf_sync G L K t)"
      if t: "ct_status t = ct_status ?t \<and> ct_meta t = ct_meta task \<and> ct_spec t = ct_spec task" for t
      using ctf_sync_descends [of t K ns n ready base _ G L] assms(4-6) step t
      by (simp add: past_pending_def debt_def ctf_outcome_status [of t task])
    ultimately have "writes ?Q (bindE (status_update_ctf K ?t) (ctf_sync G L K))"
      by (rule writes_bind [OF writes_status]) (use step in simp_all)
    with True show ?thesis by (simp add: ctf_start_def)
  next
    case False
    with phase assms(4-6) show ?thesis
      by (simp add: ctf_start_def past_pending_def ctf_sync_descends debt_def)
  qed
  show ?thesis using init later by (simp add: ctf_live_def)
qed

text \<open>
  C8: the status of a CTFTask settles, whether its resources can be made or not. While the cluster
  stays as it is (the pod ready or not, every \<open>CreateOrUpdate\<close> of an object of the task with the
  same outcome, the mutate function's error included), the writes of a reconciliation that change
  the status go down in debt, which is at most three: a fresh task becomes Pending, Provisioning,
  and then Ready, or Failed with the message of the error, each once. A task that keeps failing
  has Failed written again at every run, but that write changes nothing and so wakes nobody; its
  runs are those of the returned error. So the reconciliations that the status updates trigger
  come to an end, whichever of the updates fail.
\<close>

theorem ctf_status_settles:
  assumes "keyed K" "status_kept K" "status_only K" "k_get_ctf_task K ns n w = (Inr task, w1)"
    and "whole_seconds (ct_status task)" "readiness_stays K ns n ready" "steady K ns n base write"
  shows "descends (ctf_debt (ctf_outcome G L base write task) ready) (ct_status task)
      (changes (ct_status task) (written (calls (snd (ReconcileCTF G L K ns n \<lparr>outside = w, calls = []\<rparr>))))) \<and>
    ctf_debt (ctf_outcome G L base write task) ready (ct_status task) \<le> 3"
proof -
  let ?s = "\<lparr>outside = w1, calls = [EvGet CTFTaskKind ns n True]\<rparr>"
  let ?Q = "descends_or_stays (ctf_debt (ctf_outcome G L base write task) ready) (ct_status task)"
  have key: "has_key ns n task" using keyedD(3) [OF assms(1,4)] by simp
  have "writes ?Q (ctf_fetched G L K task)"
    unfolding ctf_fetched_def
  proof (rule writes_after)
    show "emits silent (ctf_expired K task)" unfolding ctf_expired_def by (intro emit_intros) simp
    show "writes ?Q (if expired
        then bindE (delete K CTFTaskKind (m_namespace (ct_meta task)) (ct_name task) None) (\<lambda>_. ret done_result)
        else ctf_live G L K task)" for expired
      using ctf_live_descends [OF assms(1-3,6) key assms(7,5)] by (auto intro!: writes_silent emit_intros)
  qed simp
  then obtain es where "calls (snd (ctf_fetched G L K task ?s)) = calls ?s @ es" "?Q (written es)"
    unfolding writes_def by blast
  moreover have "ctf_debt (ctf_outcome G L base write task) ready (ct_status task) \<le> 3" by (simp add: ctf_debt_def)
  ultimately show ?thesis using descends_changes by (simp add: ReconcileCTF_found [OF assms(4)])
qed

text \<open>
  The sample cluster has no object of the task and accepts every write; the second one refuses
  Services. Both run the mutate functions and return their errors.
\<close>

abbreviation no_services_kube :: "ctf_task \<Rightarrow> nat kube" where
  "no_services_kube task \<equiv> (ctf_kube task)\<lparr>k_create_or_update := \<lambda>ob f w.
     (bindR (f ob) (\<lambda>_. if obj_kind ob = ServiceKind then Inl (ApiErr OtherReason ''refused'') else Inr ()), w)\<rparr>"

definition failing_ctf :: ctf_task where
  "failing_ctf = idle_ctf\<lparr>ct_status := (ct_status idle_ctf)\<lparr>ts_phase := ''Failed'',
     ts_message := ''failed to ensure service: refused''\<rparr>\<rparr>"

theorem ctf_status_settles_witness:
  "length (changes (ct_status idle_ctf)
     (written (calls (snd (ReconcileCTF sample_env sample_lib (ctf_kube idle_ctf) ''n'' ''t'' \<lparr>outside = 0, calls = []\<rparr>))))) \<le> 3 \<and>
   changes (ct_status failing_ctf)
     (written (calls (snd (ReconcileCTF sample_env sample_lib (no_services_kube failing_ctf) ''n'' ''t'' \<lparr>outside = 0, calls = []\<rparr>)))) = []"
proof
  let ?K = "ctf_kube idle_ctf"
  have "k_get_ctf_task ?K ''n'' ''t'' 0 = (Inr idle_ctf, 0)"
    by (simp add: sample_kube_def idle_ctf_def new_meta_def)
  moreover have "status_only ?K" "readiness_stays ?K ''n'' ''t'' False" "steady ?K ''n'' ''t'' Inr (\<lambda>_. Inr ())"
    by (auto simp: status_only_def readiness_stays_def steady_def sample_kube_def missing_def bindR_def split: sum.split)
  moreover have "whole_seconds (ct_status idle_ctf)" by (simp add: whole_seconds_def idle_ctf_def)
  ultimately have settles: "descends (ctf_debt (ctf_outcome sample_env sample_lib Inr (\<lambda>_. Inr ()) idle_ctf) False) (ct_status idle_ctf)
      (changes (ct_status idle_ctf)
        (written (calls (snd (ReconcileCTF sample_env sample_lib ?K ''n'' ''t'' \<lparr>outside = 0, calls = []\<rparr>))))) \<and>
      ctf_debt (ctf_outcome sample_env sample_lib Inr (\<lambda>_. Inr ()) idle_ctf) False (ct_status idle_ctf) \<le> 3"
    by (intro ctf_status_settles [OF sample_kube_keyed sample_kube_status_kept])
  show "length (changes (ct_status idle_ctf)
     (written (calls (snd (ReconcileCTF sample_env sample_lib ?K ''n'' ''t'' \<lparr>outside = 0, calls = []\<rparr>))))) \<le> 3"
    by (rule le_trans [OF descends_length [OF conjunct1 [OF settles]] conjunct2 [OF settles]])
next
  let ?K = "no_services_kube failing_ctf"
  let ?w = "\<lambda>ob. if obj_kind ob = ServiceKind then Inl (ApiErr OtherReason ''refused'') else Inr ()"
  have key: "keyed ?K" by (auto simp: keyed_def sample_kube_def missing_def split: if_splits)
  have kept: "status_kept ?K" by (simp add: status_kept_def sample_kube_def)
  have "k_get_ctf_task ?K ''n'' ''t'' 0 = (Inr failing_ctf, 0)"
    by (simp add: sample_kube_def failing_ctf_def idle_ctf_def new_meta_def)
  moreover have "status_only ?K" "readiness_stays ?K ''n'' ''t'' False" "steady ?K ''n'' ''t'' Inr ?w"
    by (auto simp: status_only_def readiness_stays_def steady_def sample_kube_def missing_def)
  moreover have "whole_seconds (ct_status failing_ctf)" by (simp add: whole_seconds_def failing_ctf_def idle_ctf_def)
  ultimately have settles: "descends (ctf_debt (ctf_outcome sample_env sample_lib Inr ?w failing_ctf) False) (ct_status failing_ctf)
      (changes (ct_status failing_ctf)
        (written (calls (snd (ReconcileCTF sample_env sample_lib ?K ''n'' ''t'' \<lparr>outside = 0, calls = []\<rparr>))))) \<and>
      ctf_debt (ctf_outcome sample_env sample_lib Inr ?w failing_ctf) False (ct_status failing_ctf) \<le> 3"
    by (intro ctf_status_settles [OF key kept])
  have "flag_length_ok (fc_length (ct_flag_config (ct_spec failing_ctf)))"
    by (simp add: failing_ctf_def idle_ctf_def flag_length_ok_def)
  then obtain flag where flag: "generateFlag sample_env failing_ctf (getenv sample_env ''LAB_MASTER_SALT'') = Inr flag"
    using schema_flag_total by blast
  have "ctf_outcome sample_env sample_lib Inr ?w failing_ctf =
      Inl (Wrapped ''failed to ensure service'' (ApiErr OtherReason ''refused''))"
    by (simp add: ctf_outcome_def flag wrapR_def resource_outcome_def on_pod_def on_service_def ctf_pod_mutate_def
        ctf_service_mutate_def sample_lib_def new_pod_def new_service_def new_meta_def Let_def)
  then have "ctf_debt (ctf_outcome sample_env sample_lib Inr ?w failing_ctf) False (ct_status failing_ctf) = 0"
    by (simp add: ctf_debt_def failing_ctf_def)
  then show "changes (ct_status failing_ctf)
      (written (calls (snd (ReconcileCTF sample_env sample_lib ?K ''n'' ''t'' \<lparr>outside = 0, calls = []\<rparr>)))) = []"
    using descends_length [OF conjunct1 [OF settles]] by simp
qed

end
