(* ===== verification/CryptoVectors.thy ===== *)
theory CryptoVectors
  imports Crypto
begin

section \<open>A test vector\<close>

text \<open>The digest of the three bytes \<open>abc\<close> from the standard, evaluated in the kernel.\<close>

lemma sha256_abc: "sha256 [97, 98, 99] =
  [186, 120, 22, 191, 143, 1, 207, 234, 65, 65, 64, 222, 93, 174, 34, 35,
   176, 3, 97, 163, 150, 23, 122, 156, 180, 16, 255, 97, 242, 0, 21, 173]"
  by code_simp

end
