(* ===== verification/GoMemory.thy ===== *)
theory GoMemory
  imports Prelude
begin

section \<open>Memory: references, sharing, and what a deep copy is\<close>

text \<open>
  The other theories treat objects as values. Here is what lies below: a Go object has pointers,
  slices and maps that refer to cells of a memory, and assigning a struct copies the references,
  not the cells. \<open>look\<close> reads a value as the tree a caller sees, \<open>reach\<close> collects the cells it
  depends on, and the frame rule says that nothing else matters to it. A slice is taken to be the
  whole of its array, as it is in objects made by decoding.
\<close>

subsection \<open>Values and cells\<close>

datatype scalar = SStr string | SInt int | SBool bool

text \<open>
  A struct is kept by the names of its fields. A reference is nil or the address of a cell: that
  of a pointer, of the array of a slice, or of a map. \<open>GZero\<close> stands for the zero value that \<open>new\<close>
  and \<open>make\<close> leave in a place until it is written.
\<close>

datatype gval =
    GScalar scalar
  | GStruct "(string \<times> gval) list"
  | GRef "nat option"
  | GZero

datatype cell =
    Pointee gval
  | Backing "gval list"
  | Table "(string \<times> gval) list"

type_synonym memory = "cell list"

abbreviation Nil_ref :: gval where "Nil_ref \<equiv> GRef None"

fun contents :: "cell \<Rightarrow> gval list" where
  "contents (Pointee w) = [w]"
| "contents (Backing ws) = ws"
| "contents (Table kvs) = map snd kvs"

text \<open>What a caller sees. \<open>Broken\<close> is a dangling reference, a cycle, or an unwritten place.\<close>

datatype tree =
    Leaf scalar
  | Node "(string \<times> tree) list"
  | NilT
  | PtrT tree
  | SliceT "tree list"
  | MapT "(string \<times> tree) list"
  | Broken

fun cell_tree :: "cell \<Rightarrow> tree list \<Rightarrow> tree" where
  "cell_tree (Pointee w) ts = PtrT (hd ts)"
| "cell_tree (Backing ws) ts = SliceT ts"
| "cell_tree (Table kvs) ts = MapT (zip (map fst kvs) ts)"

lemma size_field [termination_simp]:
  "f \<in> set fs \<Longrightarrow> size (snd f) < Suc (size_list (size_prod (\<lambda>_. 0) size) fs)"
  by (induction fs) (auto simp: size_prod_def less_Suc_eq_le intro: le_trans)

fun view :: "nat \<Rightarrow> memory \<Rightarrow> gval \<Rightarrow> tree" where
  "view k m (GScalar s) = Leaf s"
| "view k m (GStruct fs) = Node (map (\<lambda>f. (fst f, view k m (snd f))) fs)"
| "view k m (GRef None) = NilT"
| "view k m GZero = Broken"
| "view 0 m (GRef (Some a)) = Broken"
| "view (Suc k) m (GRef (Some a)) =
     (if a < length m then cell_tree (m ! a) (map (view k m) (contents (m ! a))) else Broken)"

text \<open>The cells a value depends on, itself and its referents.\<close>

fun cells_of :: "nat \<Rightarrow> memory \<Rightarrow> gval \<Rightarrow> nat set" where
  "cells_of k m (GScalar s) = {}"
| "cells_of k m (GStruct fs) = (\<Union>f\<in>set fs. cells_of k m (snd f))"
| "cells_of k m (GRef None) = {}"
| "cells_of k m GZero = {}"
| "cells_of 0 m (GRef (Some a)) = {a}"
| "cells_of (Suc k) m (GRef (Some a)) =
     insert a (if a < length m then \<Union>w\<in>set (contents (m ! a)). cells_of k m w else {})"

fun intact :: "tree \<Rightarrow> bool" where
  "intact (Leaf s) = True"
| "intact (Node fs) = list_all (\<lambda>f. intact (snd f)) fs"
| "intact NilT = True"
| "intact (PtrT t) = intact t"
| "intact (SliceT ts) = list_all intact ts"
| "intact (MapT es) = list_all (\<lambda>e. intact (snd e)) es"
| "intact Broken = False"

text \<open>
  The depth of a read is bounded by the number of cells. That is enough: a chain of references
  longer than that comes back to a cell, and a cyclic value has no tree.
\<close>

abbreviation look :: "memory \<Rightarrow> gval \<Rightarrow> tree" where "look m \<equiv> view (length m) m"
abbreviation reach :: "memory \<Rightarrow> gval \<Rightarrow> nat set" where "reach m \<equiv> cells_of (length m) m"

text \<open>\<open>within j t\<close>: no chain of references in \<open>t\<close> is longer than \<open>j\<close>.\<close>

fun within :: "nat \<Rightarrow> tree \<Rightarrow> bool" where
  "within j (Leaf s) = True"
| "within j (Node fs) = list_all (\<lambda>f. within j (snd f)) fs"
| "within j NilT = True"
| "within (Suc j) (PtrT t) = within j t"
| "within (Suc j) (SliceT ts) = list_all (within j) ts"
| "within (Suc j) (MapT es) = list_all (\<lambda>e. within j (snd e)) es"
| "within j _ = False"

subsection \<open>Reading does not see what it does not reach\<close>

lemma cell_tree_all:
  assumes "length ts = length (contents c)"
  shows "intact (cell_tree c ts) \<longleftrightarrow> list_all intact ts" "within (Suc j) (cell_tree c ts) \<longleftrightarrow> list_all (within j) ts"
    "\<not> within 0 (cell_tree c ts)"
proof -
  have "list_all (\<lambda>e. P (snd e)) (zip ks ts) = list_all P ts" if "length ks = length ts" for P and ks :: "string list"
    using that by (induction ks ts rule: list_induct2) simp_all
  then show "intact (cell_tree c ts) \<longleftrightarrow> list_all intact ts" "within (Suc j) (cell_tree c ts) \<longleftrightarrow> list_all (within j) ts"
    "\<not> within 0 (cell_tree c ts)"
    using assms by (cases c; cases ts; simp)+
qed

lemma within_mono: "within j t \<Longrightarrow> j \<le> l \<Longrightarrow> within l t"
proof (induction j t arbitrary: l rule: within.induct)
  case (4 j t)
  then show ?case by (cases l) simp_all
next
  case (5 j ts)
  then show ?case by (cases l) (auto simp: list_all_iff)
next
  case (6 j es)
  then show ?case by (cases l) (auto simp: list_all_iff)
qed (auto simp: list_all_iff)

lemma within_intact: "within j t \<Longrightarrow> intact t"
  by (induction j t rule: within.induct) (auto simp: list_all_iff)

lemma intact_within: "intact (view k m v) \<Longrightarrow> within k (view k m v)"
proof (induction k m v rule: view.induct)
  case (6 k m a)
  then show ?case by (simp add: cell_tree_all list_all_iff split: if_splits)
qed (simp_all add: list_all_iff)

text \<open>A read that is deep enough reads the same as a deeper one.\<close>

lemma view_within:
  "within j (view k m v) \<Longrightarrow> view j m v = view k m v \<and> cells_of j m v = cells_of k m v"
proof (induction k m v arbitrary: j rule: view.induct)
  case (6 k m a)
  have a: "a < length m" using 6(2) by (cases "a < length m") simp_all
  obtain i where j: "j = Suc i" using 6(2) a by (cases j) (simp_all add: cell_tree_all)
  have "view i m w = view k m w \<and> cells_of i m w = cells_of k m w" if "w \<in> set (contents (m ! a))" for w
    by (rule 6(1) [OF a that]) (use 6(2) a that in \<open>simp add: j cell_tree_all list_all_iff\<close>)
  with a j show ?case by (simp cong: map_cong)
next
  case (2 k m fs)
  then show ?case by (simp add: list_all_iff cong: map_cong)
qed simp_all

text \<open>The frame rule: memories that agree on the cells a value depends on show the same value.\<close>

lemma view_frame:
  assumes "\<And>a. a \<in> cells_of k m v \<Longrightarrow> a < length m \<and> a < length m' \<and> m' ! a = m ! a"
  shows "view k m' v = view k m v \<and> cells_of k m' v = cells_of k m v"
  using assms
proof (induction k m v rule: view.induct)
  case (6 k m a)
  have a: "a < length m" "a < length m'" "m' ! a = m ! a" using 6(2) [of a] by simp_all
  have "view k m' w = view k m w \<and> cells_of k m' w = cells_of k m w" if "w \<in> set (contents (m ! a))" for w
    by (rule 6(1) [OF a(1) that]) (use 6(2) a that in auto)
  with a show ?case by (simp cong: map_cong)
next
  case (2 k m fs)
  have "view k m' (snd f) = view k m (snd f) \<and> cells_of k m' (snd f) = cells_of k m (snd f)" if "f \<in> set fs" for f
    by (rule 2(1) [OF that]) (use 2(2) that in auto)
  then show ?case by (simp cong: map_cong)
qed simp_all

lemma cells_in_memory: "intact (view k m v) \<Longrightarrow> cells_of k m v \<subseteq> {..<length m}"
proof (induction k m v rule: view.induct)
  case (6 k m a)
  then show ?case by (fastforce simp: cell_tree_all list_all_iff split: if_splits)
qed (fastforce simp: list_all_iff)+

lemma look_frame:
  assumes "intact (look m v)" "length m \<le> length m'" "\<And>a. a \<in> reach m v \<Longrightarrow> m' ! a = m ! a"
  shows "look m' v = look m v" "reach m' v = reach m v"
proof -
  have same: "view (length m) m' v = look m v \<and> cells_of (length m) m' v = reach m v"
    by (rule view_frame) (use cells_in_memory [OF assms(1)] assms(2,3) in auto)
  moreover have "within (length m') (view (length m) m' v)"
    using same intact_within [OF assms(1)] within_mono assms(2) by simp
  ultimately show "look m' v = look m v" "reach m' v = reach m v"
    using view_within [of "length m'" "length m" m' v] by simp_all
qed

lemma look_append:
  assumes "intact (look m v)"
  shows "look (m @ new) v = look m v" "reach (m @ new) v = reach m v"
  by (rule look_frame [OF assms]; use cells_in_memory [OF assms] in \<open>auto simp: nth_append\<close>)+

text \<open>Reading through a reference, and making one.\<close>

lemma look_ref:
  assumes "intact (look m (GRef (Some a)))"
  shows "a < length m" "look m (GRef (Some a)) = cell_tree (m ! a) (map (look m) (contents (m ! a)))"
    "w \<in> set (contents (m ! a)) \<Longrightarrow> within (length m - 1) (look m w)"
    "reach m (GRef (Some a)) = insert a (\<Union>w\<in>set (contents (m ! a)). reach m w)"
proof -
  obtain k where k: "length m = Suc k" using assms by (cases "length m") auto
  show a: "a < length m" using assms by (simp add: k split: if_splits)
  have *: "within k (view k m w)" if "w \<in> set (contents (m ! a))" for w
    using assms a that by (intro intact_within) (simp add: k cell_tree_all list_all_iff)
  then have more: "look m w = view k m w \<and> reach m w = cells_of k m w" if "w \<in> set (contents (m ! a))" for w
    using view_within [of "length m" k m w] within_mono [OF * [OF that], of "Suc k"] k by simp
  show "w \<in> set (contents (m ! a)) \<Longrightarrow> within (length m - 1) (look m w)" using * more k by simp
  show "look m (GRef (Some a)) = cell_tree (m ! a) (map (look m) (contents (m ! a)))"
    "reach m (GRef (Some a)) = insert a (\<Union>w\<in>set (contents (m ! a)). reach m w)"
    using more a by (simp_all add: k cong: map_cong)
qed

lemma look_new:
  assumes "a < length m" "\<And>w. w \<in> set (contents (m ! a)) \<Longrightarrow> within (length m - 1) (look m w)"
  shows "look m (GRef (Some a)) = cell_tree (m ! a) (map (look m) (contents (m ! a)))"
    "reach m (GRef (Some a)) = insert a (\<Union>w\<in>set (contents (m ! a)). reach m w)"
proof -
  obtain k where k: "length m = Suc k" using assms(1) by (cases "length m") auto
  have "view k m w = look m w \<and> cells_of k m w = reach m w" if "w \<in> set (contents (m ! a))" for w
    using view_within [of k "length m" m w] assms(2) [OF that] k by simp
  then show "look m (GRef (Some a)) = cell_tree (m ! a) (map (look m) (contents (m ! a)))"
    "reach m (GRef (Some a)) = insert a (\<Union>w\<in>set (contents (m ! a)). reach m w)"
    using assms(1) by (simp_all add: k cong: map_cong)
qed

text \<open>A value that can be read to its end has no cycle: its cell is none of those its contents reach.\<close>

lemma within_referent:
  "within j (view k m v) \<Longrightarrow> a \<in> cells_of k m v \<Longrightarrow> within j (view j m (GRef (Some a)))"
proof (induction k m v arbitrary: j rule: view.induct)
  case (6 k m b)
  have b: "b < length m" using 6(2) by (cases "b < length m") simp_all
  obtain i where j: "j = Suc i" using 6(2) b by (cases j) (simp_all add: cell_tree_all)
  show ?case
  proof (cases "a = b")
    case True
    with view_within [OF 6(2)] 6(2) show ?thesis by simp
  next
    case False
    then obtain w where w: "w \<in> set (contents (m ! b))" "a \<in> cells_of k m w" using 6(3) b by auto
    have "within i (view k m w)" using 6(2) b w(1) by (simp add: j cell_tree_all list_all_iff)
    then have "within i (view i m (GRef (Some a)))" by (rule 6(1) [OF b w(1) _ w(2)])
    then have "within (Suc i) (view i m (GRef (Some a)))" by (rule within_mono) simp
    with view_within [OF this] show ?thesis by (simp only: j)
  qed
qed (auto simp: list_all_iff)

lemma contents_without_cell:
  assumes "intact (look m (GRef (Some a)))" "w \<in> set (contents (m ! a))"
  shows "a \<notin> reach m w"
proof
  assume a: "a \<in> reach m w"
  let ?t = "look m (GRef (Some a))" and ?n = "length m"
  define k where "k = (LEAST k. within k ?t)"
  have n: "within ?n ?t" by (rule intact_within [OF assms(1)])
  then have k: "within k ?t" "k \<le> ?n" unfolding k_def by (rule LeastI, rule Least_le)
  have "a < ?n" by (rule look_ref(1) [OF assms(1)])
  then obtain i where i: "k = Suc i" using k(1) by (cases k; cases ?n) (simp_all add: cell_tree_all)
  have "within (Suc i) (view (Suc i) m (GRef (Some a)))" using view_within [OF k(1)] k(1) i by simp
  then have w: "within i (view i m w)" using \<open>a < ?n\<close> assms(2) by (simp add: cell_tree_all list_all_iff)
  then have "within ?n (view i m w)" by (rule within_mono) (use k(2) i in simp)
  then have "within i (look m w)" using view_within w by metis
  from within_referent [OF this a] have t: "within i (view i m (GRef (Some a)))" .
  then have "within ?n (view i m (GRef (Some a)))" by (rule within_mono) (use k(2) i in simp)
  then have "within i ?t" using view_within t by metis
  then show False using i unfolding k_def by (metis Least_le Suc_n_not_le_n)
qed

end
