(* ===== verification/Copying.thy ===== *)
theory Copying
  imports GoMemory
begin

section \<open>The statements of a deep copy, and their contract\<close>

text \<open>
  The generated functions are made of a few kinds of statements. Each is an operation on the
  memory here, and the interface \<open>deep_copier T f\<close> is the contract of a function \<open>f\<close> that copies
  values of the type \<open>T\<close>: it returns a value with the same tree whose cells did not exist before,
  and changes no cell that did. One lemma per kind of statement builds the contract of a
  function from those of the functions it calls. Copying between structs returns the new
  content of \<open>*out\<close>, which the caller puts in its place.
\<close>

subsection \<open>Types\<close>

text \<open>
  \<open>TPlain\<close> is a type without references: strings, numbers, booleans, and structs of them. \<open>TLib\<close> is
  a type of a library, whose layout is not part of the program.
\<close>

datatype ty = TPlain | TStruct "(string \<times> ty) list" | TPtr ty | TSlice ty | TMap ty | TLib string

fun plain :: "tree \<Rightarrow> bool" where
  "plain (Leaf s) = True"
| "plain (Node fs) = list_all (\<lambda>f. plain (snd f)) fs"
| "plain _ = False"

lemma size_zip_field [termination_simp]:
  "((a, b), c, d) \<in> set (zip fts fs) \<Longrightarrow> size b < Suc (size_list (\<lambda>x. Suc (size (snd x))) fts)"
proof -
  assume "((a, b), c, d) \<in> set (zip fts fs)"
  then have "(a, b) \<in> set fts" by (rule set_zip_leftD)
  then show ?thesis by (induction fts) auto
qed

fun has_type :: "ty \<Rightarrow> tree \<Rightarrow> bool" where
  "has_type TPlain t = plain t"
| "has_type (TStruct fts) (Node fs) \<longleftrightarrow> map fst fts = map fst fs \<and>
     (\<forall>x\<in>set (zip fts fs). has_type (snd (fst x)) (snd (snd x)))"
| "has_type (TPtr T) NilT = True"
| "has_type (TPtr T) (PtrT t) = has_type T t"
| "has_type (TSlice T) NilT = True"
| "has_type (TSlice T) (SliceT ts) = (\<forall>t\<in>set ts. has_type T t)"
| "has_type (TMap T) NilT = True"
| "has_type (TMap T) (MapT es) \<longleftrightarrow> distinct (map fst es) \<and> (\<forall>e\<in>set es. has_type T (snd e))"
| "has_type (TLib n) t = intact t"
| "has_type _ _ = False"

text \<open>Types without references: their values are copied by assignment.\<close>

fun flat :: "ty \<Rightarrow> bool" where
  "flat TPlain = True"
| "flat (TStruct fts) = list_all (\<lambda>ft. flat (snd ft)) fts"
| "flat _ = False"

lemma flat_plain: "has_type T t \<Longrightarrow> flat T \<Longrightarrow> plain t"
proof (induction T t rule: has_type.induct)
  case (2 fts fs)
  have "plain (snd f)" if "f \<in> set fs" for f
  proof -
    have "length fts = length fs" using 2(2) by (metis has_type.simps(2) length_map)
    with that obtain ft where ft: "(ft, f) \<in> set (zip fts fs)" by (metis in_set_impl_in_set_zip2)
    then have "flat (snd ft)" using 2(3) by (auto simp: list_all_iff dest: set_zip_leftD)
    with 2(1) [OF ft] 2(2) ft show ?thesis by fastforce
  qed
  then show ?case by (simp add: list_all_iff)
qed auto

lemma plain_intact: "plain t \<Longrightarrow> intact t"
  by (induction t rule: plain.induct) (auto simp: list_all_iff)

lemma has_type_intact: "has_type T t \<Longrightarrow> intact t"
proof (induction T t rule: has_type.induct)
  case (2 fts fs)
  have "intact (snd f)" if "f \<in> set fs" for f
  proof -
    have "length fts = length fs" using 2(2) by (metis has_type.simps(2) length_map)
    with that obtain ft where "(ft, f) \<in> set (zip fts fs)" by (metis in_set_impl_in_set_zip2)
    with 2 show ?thesis by fastforce
  qed
  then show ?case by (simp add: list_all_iff)
qed (auto simp: list_all_iff plain_intact)

lemma plain_view: "plain (view k m v) \<Longrightarrow> cells_of k m v = {} \<and> view l m' v = view k m v"
proof (induction k m v rule: view.induct)
  case (6 k m a)
  then show ?case by (cases "m ! a") (auto split: if_splits)
qed (auto simp: list_all_iff)

subsection \<open>Operations on the memory\<close>

definition nil_deref :: goerr where
  "nil_deref = Panic ''invalid memory address or nil pointer dereference''"

definition alloc :: "cell \<Rightarrow> (memory, gval) prog" where
  "alloc c = (\<lambda>m. (Inr (GRef (Some (length m))), m @ [c]))"

definition deref :: "gval \<Rightarrow> (memory, cell) prog" where
  "deref p = (\<lambda>m. case p of
       GRef (Some a) \<Rightarrow> if a < length m then (Inr (m ! a), m) else (Inl nil_deref, m)
     | _ \<Rightarrow> (Inl nil_deref, m))"

definition modify :: "gval \<Rightarrow> (cell \<Rightarrow> cell) \<Rightarrow> (memory, unit) prog" where
  "modify p g = (\<lambda>m. case p of
       GRef (Some a) \<Rightarrow> if a < length m then (Inr (), m[a := g (m ! a)]) else (Inl nil_deref, m)
     | _ \<Rightarrow> (Inl nil_deref, m))"

definition store :: "gval \<Rightarrow> cell \<Rightarrow> (memory, unit) prog" where
  "store p c = modify p (\<lambda>_. c)"

text \<open>\<open>if in.F != nil { ... }\<close>, where \<open>out.F\<close> is \<open>in.F\<close> already.\<close>

definition unless_nil :: "(gval \<Rightarrow> (memory, gval) prog) \<Rightarrow> gval \<Rightarrow> (memory, gval) prog" where
  "unless_nil f v = (if v = Nil_ref then ret v else f v)"

text \<open>The kinds of cells that Go's types keep apart.\<close>

definition pointee :: "cell \<Rightarrow> (memory, gval) prog" where
  "pointee c = (case c of Pointee w \<Rightarrow> ret w | _ \<Rightarrow> fail nil_deref)"

definition backing :: "cell \<Rightarrow> (memory, gval list) prog" where
  "backing c = (case c of Backing ws \<Rightarrow> ret ws | _ \<Rightarrow> fail nil_deref)"

definition table :: "cell \<Rightarrow> (memory, (string \<times> gval) list) prog" where
  "table c = (case c of Table kvs \<Rightarrow> ret kvs | _ \<Rightarrow> fail nil_deref)"

text \<open>\<open>*out = new(T); (*in).DeepCopyInto(*out)\<close>, and \<open>*out = new(T); **out = **in\<close> with \<open>f = ret\<close>.\<close>

definition new_into :: "(gval \<Rightarrow> (memory, gval) prog) \<Rightarrow> gval \<Rightarrow> (memory, gval) prog" where
  "new_into f inp =
     bindE (alloc (Pointee GZero)) (\<lambda>out.
     bindE (bindE (deref inp) pointee) (\<lambda>v.
     bindE (f v) (\<lambda>w.
     bindE (store out (Pointee w)) (\<lambda>_. ret out))))"

text \<open>\<open>x := (*in).DeepCopy(); *out = &x\<close>\<close>

definition address_of_copy :: "(gval \<Rightarrow> (memory, gval) prog) \<Rightarrow> gval \<Rightarrow> (memory, gval) prog" where
  "address_of_copy f inp =
     bindE (bindE (deref inp) pointee) (\<lambda>v.
     bindE (f v) (\<lambda>x.
     alloc (Pointee x)))"

text \<open>\<open>*out = make([]T, len(*in)); copy(*out, *in)\<close>\<close>

definition make_copy :: "gval \<Rightarrow> (memory, gval) prog" where
  "make_copy inp =
     bindE (bindE (deref inp) backing) (\<lambda>ws.
     bindE (alloc (Backing (replicate (length ws) GZero))) (\<lambda>out.
     bindE (store out (Backing ws)) (\<lambda>_. ret out)))"

text \<open>\<open>for i := range *in { (*in)[i].DeepCopyInto(&(*out)[i]) }\<close> and \<open>for key, val := range *in { (*out)[key] = val.DeepCopy() }\<close>\<close>

definition fill ::
  "(gval \<Rightarrow> (memory, gval) prog) \<Rightarrow> ('i \<Rightarrow> gval \<Rightarrow> cell \<Rightarrow> cell) \<Rightarrow> gval \<Rightarrow> ('i \<times> gval) list \<Rightarrow> (memory, unit) prog" where
  "fill f put out items = forE items (\<lambda>item. bindE (f (snd item)) (\<lambda>w. modify out (put (fst item) w)))"

fun set_element :: "nat \<Rightarrow> gval \<Rightarrow> cell \<Rightarrow> cell" where
  "set_element i w (Backing ws) = Backing (ws[i := w])"
| "set_element i w c = c"

fun set_entry :: "string \<Rightarrow> gval \<Rightarrow> cell \<Rightarrow> cell" where
  "set_entry k w (Table kvs) = Table (AList.update k w kvs)"
| "set_entry k w c = c"

text \<open>\<open>*out = make([]T, len(*in))\<close> and the loop; the iteration order of a map is that of its list.\<close>

definition make_each :: "(gval \<Rightarrow> (memory, gval) prog) \<Rightarrow> gval \<Rightarrow> (memory, gval) prog" where
  "make_each f inp =
     bindE (bindE (deref inp) backing) (\<lambda>ws.
     bindE (alloc (Backing (replicate (length ws) GZero))) (\<lambda>out.
     bindE (fill f set_element out (enumerate 0 ws)) (\<lambda>_. ret out)))"

definition make_table :: "(gval \<Rightarrow> (memory, gval) prog) \<Rightarrow> gval \<Rightarrow> (memory, gval) prog" where
  "make_table f inp =
     bindE (bindE (deref inp) table) (\<lambda>kvs.
     bindE (alloc (Table [])) (\<lambda>out.
     bindE (fill f set_entry out kvs) (\<lambda>_. ret out)))"

text \<open>Fields of a struct, and \<open>*out = *in\<close> followed by assignments to fields of \<open>*out\<close>.\<close>

fun field :: "gval \<Rightarrow> string \<Rightarrow> gval" where
  "field (GStruct fs) n = (case map_of fs n of Some w \<Rightarrow> w | None \<Rightarrow> GZero)"
| "field _ n = GZero"

fun set_field :: "string \<Rightarrow> gval \<Rightarrow> gval \<Rightarrow> gval" where
  "set_field n w (GStruct fs) = GStruct (map (\<lambda>f. (fst f, if fst f = n then w else snd f)) fs)"
| "set_field n w v = v"

type_synonym assignment = "string \<times> (gval \<Rightarrow> (memory, gval) prog)"

fun assign :: "gval \<Rightarrow> assignment list \<Rightarrow> gval \<Rightarrow> (memory, gval) prog" where
  "assign inp [] out = ret out"
| "assign inp (s # ss) out = bindE (snd s (field inp (fst s))) (\<lambda>w. assign inp ss (set_field (fst s) w out))"

definition copy_struct :: "assignment list \<Rightarrow> gval \<Rightarrow> (memory, gval) prog" where
  "copy_struct ss inp = assign inp ss inp"

subsection \<open>The contract\<close>

text \<open>\<open>copied m v v' m'\<close>: in \<open>m'\<close>, which extends \<open>m\<close>, \<open>v'\<close> shows what \<open>v\<close> shows in \<open>m\<close>, in new cells.\<close>

definition copied :: "memory \<Rightarrow> gval \<Rightarrow> gval \<Rightarrow> memory \<Rightarrow> bool" where
  "copied m v v' m' \<longleftrightarrow> look m' v' = look m v \<and> reach m' v' \<subseteq> {length m..}"

locale deep_copier =
  fixes T :: ty and f :: "gval \<Rightarrow> (memory, gval) prog"
  assumes copies: "has_type T (look m v) \<Longrightarrow> \<exists>v' new. f v m = (Inr v', m @ new) \<and> copied m v v' (m @ new)"
begin

lemma copy_typed: "has_type T (look m v) \<Longrightarrow> f v m = (Inr v', m') \<Longrightarrow> has_type T (look m' v')"
  using copies [of m v] by (auto simp: copied_def)

text \<open>Whatever is written later to cells the copy brought, the original shows the same.\<close>

lemma original_kept:
  assumes "has_type T (look m v)" "f v m = (Inr v', m')" "length m' \<le> length m''"
    and "\<And>a. a < length m \<Longrightarrow> m'' ! a = m' ! a"
  shows "look m'' v = look m v"
proof -
  obtain new where m': "m' = m @ new" using copies [OF assms(1)] assms(2) by auto
  have i: "intact (look m v)" by (rule has_type_intact [OF assms(1)])
  show ?thesis
    by (rule look_frame(1) [OF i]) (use assms(3,4) cells_in_memory [OF i] m' in \<open>auto simp: nth_append\<close>)
qed

text \<open>Whatever is written later to older cells, the copy shows the same.\<close>

lemma copy_kept:
  assumes "has_type T (look m v)" "f v m = (Inr v', m')" "length m' \<le> length m''"
    and "\<And>a. length m \<le> a \<Longrightarrow> a < length m' \<Longrightarrow> m'' ! a = m' ! a"
  shows "look m'' v' = look m v"
proof -
  have c: "look m' v' = look m v" "reach m' v' \<subseteq> {length m..}"
    using copies [OF assms(1)] assms(2) by (auto simp: copied_def)
  then have i: "intact (look m' v')" using has_type_intact [OF assms(1)] by simp
  show ?thesis
    using look_frame(1) [OF i assms(3)] cells_in_memory [OF i] c assms(4) by fastforce
qed

end

text \<open>Whoever copies every intact value copies the values of any type.\<close>

lemma lib_copier: "deep_copier (TLib n) f \<Longrightarrow> deep_copier T f"
  unfolding deep_copier_def using has_type_intact by simp

text \<open>A copy stays one while the memory grows and the cells that existed before it change.\<close>

lemma copied_frame:
  assumes "copied m v v' m'" "intact (look m v)" "length m' \<le> length m''"
    and "\<And>a. length m \<le> a \<Longrightarrow> a < length m' \<Longrightarrow> m'' ! a = m' ! a"
  shows "copied m v v' m''"
proof -
  have i: "intact (look m' v')" using assms(1,2) by (simp add: copied_def)
  have "m'' ! a = m' ! a" if "a \<in> reach m' v'" for a
    using that assms(1,4) cells_in_memory [OF i] by (auto simp: copied_def)
  then show ?thesis
    using look_frame [OF i assms(3)] assms(1) by (simp add: copied_def)
qed

lemma copied_append: "copied m v v' m' \<Longrightarrow> intact (look m v) \<Longrightarrow> copied m v v' (m' @ new)"
  by (erule copied_frame) (simp_all add: nth_append)

subsection \<open>References to new cells\<close>

text \<open>
  A new cell at the end of the old memory whose contents are copies of the contents of the cell
  that \<open>v\<close> refers to.
\<close>

lemma copied_ref:
  assumes "intact (look m (GRef (Some a)))"
    and "cell_tree c = cell_tree (m ! a)" "length (contents c) = length (contents (m ! a))"
    and "\<And>i. i < length (contents c) \<Longrightarrow>
      look (m @ c # rest) (contents c ! i) = look m (contents (m ! a) ! i) \<and>
      reach (m @ c # rest) (contents c ! i) \<subseteq> {length m..}"
  shows "copied m (GRef (Some a)) (GRef (Some (length m))) (m @ c # rest)"
proof -
  let ?m = "m @ c # rest"
  note r = look_ref [OF assms(1)]
  have eq: "map (look ?m) (contents c) = map (look m) (contents (m ! a))"
    by (rule nth_equalityI) (use assms(3,4) in simp_all)
  have "within (length ?m - 1) (look ?m w)" if w: "w \<in> set (contents c)" for w
  proof -
    obtain i where i: "i < length (contents c)" "w = contents c ! i" using w by (metis in_set_conv_nth)
    have "within (length m - 1) (look m (contents (m ! a) ! i))"
      by (rule r(3)) (use i assms(3) in simp)
    then show ?thesis using i assms(4) [OF i(1)] by (auto elim: within_mono)
  qed
  then have "look ?m (GRef (Some (length m))) = cell_tree c (map (look ?m) (contents c))"
    "reach ?m (GRef (Some (length m))) = insert (length m) (\<Union>w\<in>set (contents c). reach ?m w)"
    using look_new [of "length m" ?m] by simp_all
  moreover have "reach ?m w \<subseteq> {length m..}" if "w \<in> set (contents c)" for w
    using that assms(4) by (metis in_set_conv_nth)
  ultimately show ?thesis
    using r(2) assms(2) eq by (auto simp: copied_def)
qed

text \<open>The cell behind a typed reference.\<close>

lemma typed_ref:
  shows typed_ptr: "has_type (TPtr T) (look m (GRef (Some a))) \<Longrightarrow>
      \<exists>w. a < length m \<and> m ! a = Pointee w \<and> has_type T (look m w)"
    and typed_slice: "has_type (TSlice T) (look m (GRef (Some a))) \<Longrightarrow>
      \<exists>ws. a < length m \<and> m ! a = Backing ws \<and> (\<forall>w\<in>set ws. has_type T (look m w))"
    and typed_map: "has_type (TMap T) (look m (GRef (Some a))) \<Longrightarrow>
      \<exists>kvs. a < length m \<and> m ! a = Table kvs \<and> distinct (map fst kvs) \<and> (\<forall>e\<in>set kvs. has_type T (look m (snd e)))"
proof -
  note r = look_ref [OF has_type_intact]
  show "has_type (TPtr T) (look m (GRef (Some a))) \<Longrightarrow> \<exists>w. a < length m \<and> m ! a = Pointee w \<and> has_type T (look m w)"
    using r(1,2) [of "TPtr T" m a] by (cases "m ! a") auto
  show "has_type (TSlice T) (look m (GRef (Some a))) \<Longrightarrow>
      \<exists>ws. a < length m \<and> m ! a = Backing ws \<and> (\<forall>w\<in>set ws. has_type T (look m w))"
    using r(1,2) [of "TSlice T" m a] by (cases "m ! a") auto
  have zip: "map (\<lambda>e. (fst e, g (snd e))) kvs = zip (map fst kvs) (map (g \<circ> snd) kvs)" for g :: "gval \<Rightarrow> tree" and kvs
    by (induction kvs) auto
  show "has_type (TMap T) (look m (GRef (Some a))) \<Longrightarrow>
      \<exists>kvs. a < length m \<and> m ! a = Table kvs \<and> distinct (map fst kvs) \<and> (\<forall>e\<in>set kvs. has_type T (look m (snd e)))"
    using r(1,2) [of "TMap T" m a] by (cases "m ! a") (auto simp: zip [symmetric, unfolded comp_def] comp_def)
qed

text \<open>Enough to copy references that are not nil.\<close>

lemma unless_nil_copier:
  assumes "T' \<in> {TPtr T, TSlice T, TMap T}"
    and "\<And>m a. has_type T' (look m (GRef (Some a))) \<Longrightarrow>
      \<exists>v' new. g (GRef (Some a)) m = (Inr v', m @ new) \<and> copied m (GRef (Some a)) v' (m @ new)"
  shows "deep_copier T' (unless_nil g)"
proof
  fix m v assume v: "has_type T' (look m v)"
  show "\<exists>v' new. unless_nil g v m = (Inr v', m @ new) \<and> copied m v v' (m @ new)"
  proof (cases v)
    case (GRef r)
    show ?thesis
    proof (cases r)
      case None
      then show ?thesis
        using GRef by (auto simp: unless_nil_def run_simps copied_def intro!: exI [of _ Nil_ref] exI [of _ "[]"])
    next
      case (Some a)
      with GRef v assms(2) [of m a] show ?thesis by (simp add: unless_nil_def)
    qed
  qed (use v assms(1) in auto)
qed

subsection \<open>Plain values\<close>

lemma plain_copied:
  assumes "plain (look m v)" shows "copied m v v m'"
proof -
  have same: "look m' v = look m v" using plain_view [OF assms] by blast
  then have "reach m' v = {}" using plain_view [of "length m'" m' v] assms by simp
  with same show ?thesis by (simp add: copied_def)
qed

lemma flat_copier:
  assumes "flat T" shows "deep_copier T ret"
proof
  fix m v assume "has_type T (look m v)"
  then have "plain (look m v)" using assms by (rule flat_plain)
  then show "\<exists>v' new. ret v m = (Inr v', m @ new) \<and> copied m v v' (m @ new)"
    by (auto simp: run_simps plain_copied intro!: exI [of _ "[]"])
qed

subsection \<open>Pointers\<close>

lemma new_into_copier:
  assumes "deep_copier T f"
  shows "deep_copier (TPtr T) (unless_nil (new_into f))"
proof (rule unless_nil_copier [of _ T])
  fix m a assume v: "has_type (TPtr T) (look m (GRef (Some a)))"
  obtain w where w: "a < length m" "m ! a = Pointee w" "has_type T (look m w)" using typed_ptr [OF v] by blast
  let ?m1 = "m @ [Pointee GZero]"
  have "look ?m1 w = look m w" by (rule look_append(1) [OF has_type_intact [OF w(3)]])
  then obtain x new where x: "f w ?m1 = (Inr x, ?m1 @ new)" "copied ?m1 w x (?m1 @ new)"
    using deep_copier.copies [OF assms, of ?m1 w] w(3) by auto
  let ?m2 = "m @ Pointee x # new"
  have run: "new_into f (GRef (Some a)) m = (Inr (GRef (Some (length m))), ?m2)"
    using w x(1) by (simp add: new_into_def run_simps alloc_def deref_def pointee_def store_def modify_def nth_append)
  have "copied ?m1 w x ?m2"
    by (rule copied_frame [OF x(2)]) (use w(3) \<open>look ?m1 w = look m w\<close> in \<open>auto simp: has_type_intact nth_append nth_Cons split: nat.split\<close>)
  then have "look ?m2 x = look m w" "reach ?m2 x \<subseteq> {length m..}"
    using \<open>look ?m1 w = look m w\<close> by (auto simp: copied_def)
  then have "copied m (GRef (Some a)) (GRef (Some (length m))) ?m2"
    by (intro copied_ref has_type_intact [OF v]) (simp_all add: w(2) fun_eq_iff)
  with run show "\<exists>v' new. new_into f (GRef (Some a)) m = (Inr v', m @ new) \<and> copied m (GRef (Some a)) v' (m @ new)"
    by blast
qed simp

lemma address_of_copier:
  assumes "deep_copier T f"
  shows "deep_copier (TPtr T) (unless_nil (address_of_copy f))"
proof (rule unless_nil_copier [of _ T])
  fix m a assume v: "has_type (TPtr T) (look m (GRef (Some a)))"
  obtain w where w: "a < length m" "m ! a = Pointee w" "has_type T (look m w)" using typed_ptr [OF v] by blast
  obtain x new where x: "f w m = (Inr x, m @ new)" "copied m w x (m @ new)"
    using deep_copier.copies [OF assms w(3)] by blast
  let ?m2 = "m @ new @ [Pointee x]" and ?b = "length m + length new"
  have run: "address_of_copy f (GRef (Some a)) m = (Inr (GRef (Some ?b)), ?m2)"
    using w x(1) by (simp add: address_of_copy_def run_simps alloc_def deref_def pointee_def)
  have c: "copied m w x ?m2" using copied_append [OF x(2) has_type_intact [OF w(3)], of "[Pointee x]"] by simp
  have "within (length m - 1) (look m w)"
    using look_ref(3) [OF has_type_intact [OF v], of w] w(2) by simp
  then have "within (length ?m2 - 1) (look ?m2 x)" using c by (auto simp: copied_def elim: within_mono)
  then have "look ?m2 (GRef (Some ?b)) = PtrT (look ?m2 x)" "reach ?m2 (GRef (Some ?b)) = insert ?b (reach ?m2 x)"
    using look_new [of ?b ?m2] by (simp_all add: nth_append)
  then have "copied m (GRef (Some a)) (GRef (Some ?b)) ?m2"
    using c look_ref(2) [OF has_type_intact [OF v]] w(2) by (auto simp: copied_def)
  with run show "\<exists>v' new. address_of_copy f (GRef (Some a)) m = (Inr v', m @ new) \<and> copied m (GRef (Some a)) v' (m @ new)"
    by blast
qed simp

subsection \<open>Slices and maps\<close>

lemma make_copy_copier:
  assumes "flat T" shows "deep_copier (TSlice T) (unless_nil make_copy)"
proof (rule unless_nil_copier [of _ T])
  fix m a assume v: "has_type (TSlice T) (look m (GRef (Some a)))"
  obtain ws where ws: "a < length m" "m ! a = Backing ws" "\<forall>w\<in>set ws. plain (look m w)"
    using typed_slice [OF v] flat_plain [OF _ assms] by blast
  have run: "make_copy (GRef (Some a)) m = (Inr (GRef (Some (length m))), m @ [Backing ws])"
    using ws by (simp add: make_copy_def run_simps alloc_def deref_def backing_def store_def modify_def nth_append)
  have "copied m w w (m @ [Backing ws])" if "w \<in> set ws" for w
    by (rule plain_copied) (use ws(3) that in blast)
  then have "copied m (GRef (Some a)) (GRef (Some (length m))) (m @ [Backing ws])"
    by (intro copied_ref [OF has_type_intact [OF v]]) (use ws in \<open>auto simp: fun_eq_iff copied_def\<close>)
  with run show "\<exists>v' new. make_copy (GRef (Some a)) m = (Inr v', m @ new) \<and> copied m (GRef (Some a)) v' (m @ new)"
    by blast
qed simp

text \<open>
  The loop. It copies the items one after the other behind the new cell, and puts each copy into
  the cell; what was copied first stays what it is.
\<close>

lemma fill_run:
  assumes "deep_copier T f" "\<forall>x\<in>set items. has_type T (look m (snd x))"
  shows "\<exists>ys rest'. fill f put (GRef (Some (length m))) items (m @ c # rest) =
      (Inr (), m @ fold (\<lambda>(x, y). put (fst x) y) (zip items ys) c # rest @ rest') \<and>
    length ys = length items \<and>
    (\<forall>i<length items. copied m (snd (items ! i)) (ys ! i)
       (m @ fold (\<lambda>(x, y). put (fst x) y) (zip items ys) c # rest @ rest'))"
  using assms(2)
proof (induction items arbitrary: c rest)
  case Nil
  then show ?case by (auto simp: fill_def run_simps)
next
  case (Cons x items)
  let ?M = "m @ c # rest"
  have t: "has_type T (look m (snd x))" using Cons.prems by simp
  have same: "look ?M (snd x) = look m (snd x)" by (rule look_append(1) [OF has_type_intact [OF t]])
  then obtain y new where y: "f (snd x) ?M = (Inr y, ?M @ new)" "copied ?M (snd x) y (?M @ new)"
    using deep_copier.copies [OF assms(1), of ?M "snd x"] t by auto
  let ?c = "put (fst x) y c"
  obtain ys rest' where ys: "fill f put (GRef (Some (length m))) items (m @ ?c # rest @ new) =
        (Inr (), m @ fold (\<lambda>(x, y). put (fst x) y) (zip items ys) ?c # (rest @ new) @ rest')"
      "length ys = length items"
      "\<forall>i<length items. copied m (snd (items ! i)) (ys ! i)
         (m @ fold (\<lambda>(x, y). put (fst x) y) (zip items ys) ?c # (rest @ new) @ rest')"
    using Cons.IH [of ?c "rest @ new"] Cons.prems by auto
  let ?F = "m @ fold (\<lambda>(x, y). put (fst x) y) (zip items ys) ?c # (rest @ new) @ rest'"
  have "copied ?M (snd x) y ?F"
    by (rule copied_frame [OF y(2)])
      (use t same in \<open>auto simp: has_type_intact nth_append nth_Cons split: nat.split\<close>)
  then have "copied m (snd x) y ?F" using same by (auto simp: copied_def)
  moreover have "fill f put (GRef (Some (length m))) (x # items) ?M = (Inr (), ?F)"
    using y(1) ys(1) by (simp add: fill_def run_simps modify_def nth_append)
  ultimately show ?case
    using ys(2,3) by (intro exI [of _ "y # ys"] exI [of _ "new @ rest'"]) (auto simp: nth_Cons split: nat.split)
qed

lemma fold_elements:
  "length ys = length ws \<Longrightarrow>
   fold (\<lambda>(x, y). set_element (fst x) y) (zip (enumerate (length xs) ws) ys) (Backing (xs @ replicate (length ws) z)) =
     Backing (xs @ ys)"
proof (induction ws ys arbitrary: xs rule: list_induct2')
  case (4 w ws y ys)
  then show ?case using 4(1) [of "xs @ [y]"] by (simp add: list_update_append)
qed simp_all

lemma fold_entries:
  "length ys = length kvs \<Longrightarrow> distinct (map fst xs @ map fst kvs) \<Longrightarrow>
   fold (\<lambda>(x, y). set_entry (fst x) y) (zip kvs ys) (Table xs) = Table (xs @ zip (map fst kvs) ys)"
proof (induction kvs ys arbitrary: xs rule: list_induct2')
  case (4 kv kvs y ys)
  have "AList.update k v xs = xs @ [(k, v)]" if "k \<notin> fst ` set xs" for k and v :: gval
    using that by (induction xs) auto
  with 4 show ?case by (auto simp: image_iff)
qed simp_all

lemma make_each_copier:
  assumes "deep_copier T f"
  shows "deep_copier (TSlice T) (unless_nil (make_each f))"
proof (rule unless_nil_copier [of _ T])
  fix m a assume v: "has_type (TSlice T) (look m (GRef (Some a)))"
  obtain ws where ws: "a < length m" "m ! a = Backing ws" "\<forall>w\<in>set ws. has_type T (look m w)"
    using typed_slice [OF v] by blast
  have items: "\<forall>x\<in>set (enumerate 0 ws). has_type T (look m (snd x))"
    using ws(3) by (metis imageI list.set_map map_snd_enumerate)
  obtain ys rest where ys: "length ys = length ws"
      "fill f set_element (GRef (Some (length m))) (enumerate 0 ws) (m @ [Backing (replicate (length ws) GZero)]) =
        (Inr (), m @ Backing ys # rest)"
      "\<forall>i<length ws. copied m (ws ! i) (ys ! i) (m @ Backing ys # rest)"
    using fill_run [OF assms items, of set_element "Backing (replicate (length ws) GZero)" "[]"]
      fold_elements [of _ ws "[]" GZero] by (auto simp: nth_enumerate_eq)
  have "make_each f (GRef (Some a)) m = (Inr (GRef (Some (length m))), m @ Backing ys # rest)"
    using ws ys(2) by (simp add: make_each_def run_simps alloc_def deref_def backing_def)
  moreover have "copied m (GRef (Some a)) (GRef (Some (length m))) (m @ Backing ys # rest)"
    by (rule copied_ref [OF has_type_intact [OF v]]) (use ws ys in \<open>auto simp: fun_eq_iff copied_def\<close>)
  ultimately show "\<exists>v' new. make_each f (GRef (Some a)) m = (Inr v', m @ new) \<and> copied m (GRef (Some a)) v' (m @ new)"
    by blast
qed simp

lemma make_table_copier:
  assumes "deep_copier T f"
  shows "deep_copier (TMap T) (unless_nil (make_table f))"
proof (rule unless_nil_copier [of _ T])
  fix m a assume v: "has_type (TMap T) (look m (GRef (Some a)))"
  obtain kvs where kvs: "a < length m" "m ! a = Table kvs" "distinct (map fst kvs)" "\<forall>e\<in>set kvs. has_type T (look m (snd e))"
    using typed_map [OF v] by blast
  obtain ys rest where ys: "length ys = length kvs"
      "fill f set_entry (GRef (Some (length m))) kvs (m @ [Table []]) = (Inr (), m @ Table (zip (map fst kvs) ys) # rest)"
      "\<forall>i<length kvs. copied m (snd (kvs ! i)) (ys ! i) (m @ Table (zip (map fst kvs) ys) # rest)"
    using fill_run [OF assms kvs(4), of set_entry "Table []" "[]"] fold_entries [of _ kvs "[]"] kvs(3) by auto
  let ?m = "m @ Table (zip (map fst kvs) ys) # rest"
  have "make_table f (GRef (Some a)) m = (Inr (GRef (Some (length m))), ?m)"
    using kvs ys(2) by (simp add: make_table_def run_simps alloc_def deref_def table_def)
  moreover have "copied m (GRef (Some a)) (GRef (Some (length m))) ?m"
    by (rule copied_ref [OF has_type_intact [OF v]]) (use kvs ys in \<open>auto simp: fun_eq_iff copied_def\<close>)
  ultimately show "\<exists>v' new. make_table f (GRef (Some a)) m = (Inr v', m @ new) \<and> copied m (GRef (Some a)) v' (m @ new)"
    by blast
qed simp

subsection \<open>Structs\<close>

lemma field_nth: "distinct (map fst fs) \<Longrightarrow> i < length fs \<Longrightarrow> field (GStruct fs) (fst (fs ! i)) = snd (fs ! i)"
  by (metis (no_types, lifting) field.simps(1) map_of_eq_Some_iff nth_mem option.simps(5) prod.collapse)

lemma field_set_field:
  "n \<in> fst ` set fs \<Longrightarrow> field (set_field n w (GStruct fs)) k = (if k = n then w else field (GStruct fs) k)"
proof -
  have "map_of (map (\<lambda>f. (fst f, if fst f = n then w else snd f)) fs) k =
      (if k = n then if n \<in> fst ` set fs then Some w else None else map_of fs k)"
    by (induction fs) (auto simp: rev_image_eqI)
  moreover assume "n \<in> fst ` set fs"
  ultimately show ?thesis by simp
qed

declare field.simps [simp del]

lemma view_ref_no_struct: "view k m (GRef r) \<noteq> Node x"
  by (cases r; cases k; simp; cases "m ! the r"; simp)

lemma typed_struct:
  assumes "has_type (TStruct fts) (look m v)" "distinct (map fst fts)"
  obtains fs where "v = GStruct fs" "map fst fs = map fst fts"
    "\<And>n T. (n, T) \<in> set fts \<Longrightarrow> has_type T (look m (field v n))"
proof (cases v)
  case (GStruct fs)
  have names: "map fst fs = map fst fts" and len: "length fs = length fts"
    using assms(1) GStruct by (simp_all add: comp_def) (metis length_map)
  have "has_type T (look m (field v n))" if nT: "(n, T) \<in> set fts" for n T
  proof -
    obtain i where i: "i < length fts" "fts ! i = (n, T)" using nT by (metis in_set_conv_nth)
    have "fst (fs ! i) = n" using names i len by (metis fst_conv nth_map)
    then have "field v n = snd (fs ! i)" using field_nth [of fs i] assms(2) names i(1) len GStruct by simp
    moreover have "(fts ! i, map (\<lambda>f. (fst f, look m (snd f))) fs ! i) \<in> set (zip fts (map (\<lambda>f. (fst f, look m (snd f))) fs))"
      using i(1) len by (auto simp: set_zip)
    ultimately show ?thesis using assms(1) GStruct i len by fastforce
  qed
  with GStruct names that show ?thesis by blast
next
  case (GRef r)
  then show ?thesis
    using assms(1) view_ref_no_struct [of "length m" m r] by (cases "look m v") simp_all
qed (use assms(1) in simp_all)

text \<open>Assigning copies to fields, one after the other.\<close>

lemma assign_run:
  assumes "\<And>n f. (n, f) \<in> set ss \<Longrightarrow> n \<in> names \<and>
      (\<exists>T. has_type T (look m (field v n)) \<and> deep_copier T f)"
    and "\<And>n. n \<in> names \<Longrightarrow> intact (look m (field v n))"
    and "\<And>n. n \<in> names \<Longrightarrow> n \<notin> fst ` set ss \<Longrightarrow> copied m (field v n) (field (GStruct os) n) (m @ rest)"
    and "fst ` set os = names" "distinct (map fst ss)"
  shows "\<exists>os' new. assign v ss (GStruct os) (m @ rest) = (Inr (GStruct os'), m @ rest @ new) \<and> map fst os' = map fst os \<and>
     (\<forall>n\<in>names. copied m (field v n) (field (GStruct os') n) (m @ rest @ new))"
  using assms
proof (induction ss arbitrary: os rest)
  case Nil
  then show ?case by (auto simp: run_simps)
next
  case (Cons s ss)
  obtain n f where s: "s = (n, f)" by fastforce
  obtain T where n: "n \<in> names" and T: "has_type T (look m (field v n))" "deep_copier T f"
    using Cons.prems(1) [of n f] s by auto
  have same: "look (m @ rest) (field v n) = look m (field v n)" by (rule look_append(1) [OF has_type_intact [OF T(1)]])
  then obtain w new where w: "f (field v n) (m @ rest) = (Inr w, (m @ rest) @ new)" "copied (m @ rest) (field v n) w ((m @ rest) @ new)"
    using deep_copier.copies [OF T(2), of "m @ rest" "field v n"] T(1) by auto
  have cw: "copied m (field v n) w (m @ rest @ new)" using w(2) same by (auto simp: copied_def)
  define os1 where "os1 = map (\<lambda>f. (fst f, if fst f = n then w else snd f)) os"
  have f1: "field (GStruct os1) k = (if k = n then w else field (GStruct os) k)" for k
    using field_set_field [of n os w k] n Cons.prems(4) by (simp add: os1_def)
  have names1: "map fst os1 = map fst os" by (simp add: os1_def)
  then have names1': "fst ` set os1 = names" using Cons.prems(4) by (metis image_set)
  have "copied m (field v k) (field (GStruct os1) k) (m @ rest @ new)" if "k \<in> names" "k \<notin> fst ` set ss" for k
  proof (cases "k = n")
    case True
    then show ?thesis using cw by (simp add: f1)
  next
    case False
    then show ?thesis
      using copied_append [OF Cons.prems(3) [OF that(1)] Cons.prems(2) [OF that(1)], of new] that(2) s by (simp add: f1)
  qed
  then have "\<exists>os' new'. assign v ss (GStruct os1) (m @ rest @ new) = (Inr (GStruct os'), m @ (rest @ new) @ new') \<and>
      map fst os' = map fst os1 \<and> (\<forall>n\<in>names. copied m (field v n) (field (GStruct os') n) (m @ (rest @ new) @ new'))"
  proof (intro Cons.IH)
    fix k g assume "(k, g) \<in> set ss"
    then show "k \<in> names \<and> (\<exists>T. has_type T (look m (field v k)) \<and> deep_copier T g)"
      by (intro Cons.prems(1)) simp
  qed (use Cons.prems(2,5) names1' in simp_all)
  then obtain os' new' where "assign v ss (GStruct os1) (m @ rest @ new) = (Inr (GStruct os'), m @ (rest @ new) @ new')"
      "map fst os' = map fst os1" "\<forall>n\<in>names. copied m (field v n) (field (GStruct os') n) (m @ (rest @ new) @ new')"
    by blast
  moreover have "assign v (s # ss) (GStruct os) (m @ rest) = assign v ss (GStruct os1) (m @ rest @ new)"
    using w(1) by (simp add: s run_simps os1_def)
  ultimately show ?case using names1 by (intro exI [of _ os'] exI [of _ "new @ new'"]) simp
qed

text \<open>
  The contract of a struct's function: every field is of a type without references, or is
  assigned a copy by a function that copies its type.
\<close>

lemma copy_struct_copier:
  assumes "distinct (map fst fts)" "distinct (map fst ss)"
    and "\<And>n f. (n, f) \<in> set ss \<Longrightarrow> \<exists>T. (n, T) \<in> set fts \<and> deep_copier T f"
    and "\<And>n T. (n, T) \<in> set fts \<Longrightarrow> n \<notin> fst ` set ss \<Longrightarrow> flat T"
  shows "deep_copier (TStruct fts) (copy_struct ss)"
proof
  fix m v assume v: "has_type (TStruct fts) (look m v)"
  obtain fs where fs: "v = GStruct fs" "map fst fs = map fst fts"
      "\<And>n T. (n, T) \<in> set fts \<Longrightarrow> has_type T (look m (field v n))"
    using typed_struct [OF v assms(1)] by blast
  let ?names = "fst ` set fs"
  have names: "\<exists>T. (n, T) \<in> set fts \<and> has_type T (look m (field v n))" if "n \<in> ?names" for n
  proof -
    have "n \<in> fst ` set fts" using that fs(2) by (metis image_set)
    then show ?thesis using fs(3) by auto
  qed
  have "\<exists>os' new. assign v ss (GStruct fs) (m @ []) = (Inr (GStruct os'), m @ [] @ new) \<and> map fst os' = map fst fs \<and>
     (\<forall>n\<in>?names. copied m (field v n) (field (GStruct os') n) (m @ [] @ new))"
  proof (rule assign_run)
    fix n f assume nf: "(n, f) \<in> set ss"
    then obtain T where T: "(n, T) \<in> set fts" "deep_copier T f" using assms(3) by blast
    then have "n \<in> set (map fst fts)" by force
    then have "n \<in> ?names" using fs(2) by (metis image_set)
    with T fs(3) [OF T(1)] show "n \<in> ?names \<and> (\<exists>T. has_type T (look m (field v n)) \<and> deep_copier T f)"
      by blast
  next
    fix n assume n: "n \<in> ?names"
    then show "intact (look m (field v n))" using names has_type_intact by blast
    assume "n \<notin> fst ` set ss"
    then have "plain (look m (field v n))" using names [OF n] assms(4) flat_plain by blast
    then show "copied m (field v n) (field (GStruct fs) n) (m @ [])" using plain_copied fs(1) by simp
  qed (simp_all add: assms(2))
  then obtain os' new where run: "copy_struct ss v m = (Inr (GStruct os'), m @ new)" and os': "map fst os' = map fst fs"
      "\<forall>n\<in>?names. copied m (field v n) (field (GStruct os') n) (m @ new)"
    by (auto simp: copy_struct_def fs(1))
  have len: "length os' = length fs" using os'(1) by (metis length_map)
  have elem: "fst (os' ! i) = fst (fs ! i) \<and> copied m (snd (fs ! i)) (snd (os' ! i)) (m @ new)" if i: "i < length fs" for i
  proof -
    have nm: "fst (os' ! i) = fst (fs ! i)" using os'(1) i len by (metis nth_map)
    have "field v (fst (fs ! i)) = snd (fs ! i)" using field_nth [of fs i] i fs(1,2) assms(1) by simp
    moreover have "field (GStruct os') (fst (fs ! i)) = snd (os' ! i)"
      using field_nth [of os' i] i len nm os'(1) fs(2) assms(1) by simp
    moreover have "fst (fs ! i) \<in> ?names" using i by simp
    ultimately show ?thesis using os'(2) nm by metis
  qed
  have "map (\<lambda>f. (fst f, look (m @ new) (snd f))) os' = map (\<lambda>f. (fst f, look m (snd f))) fs"
  proof (rule nth_equalityI)
    fix i assume "i < length (map (\<lambda>f. (fst f, look (m @ new) (snd f))) os')"
    then have "i < length os'" "i < length fs" using len by simp_all
    then show "map (\<lambda>f. (fst f, look (m @ new) (snd f))) os' ! i = map (\<lambda>f. (fst f, look m (snd f))) fs ! i"
      using elem [of i] unfolding copied_def by (simp only: nth_map)
  qed (simp add: len)
  moreover have "reach (m @ new) (snd f) \<subseteq> {length m..}" if "f \<in> set os'" for f
  proof -
    obtain i where "i < length fs" "f = os' ! i" using \<open>f \<in> set os'\<close> len by (metis in_set_conv_nth)
    then show ?thesis using elem [of i] by (simp add: copied_def)
  qed
  ultimately have "copied m v (GStruct os') (m @ new)" by (auto simp: copied_def fs(1))
  with run show "\<exists>v' new. copy_struct ss v m = (Inr v', m @ new) \<and> copied m v v' (m @ new)" by blast
qed

text \<open>The same with conditions that the simplifier decides; the rules for statements as rewrite rules.\<close>

lemma copy_structI:
  assumes "distinct (map fst fts)" "distinct (map fst ss)"
    and "list_all (\<lambda>s. case map_of fts (fst s) of None \<Rightarrow> False | Some T \<Rightarrow> deep_copier T (snd s)) ss"
    and "list_all (\<lambda>ft. fst ft \<in> set (map fst ss) \<or> flat (snd ft)) fts"
  shows "deep_copier (TStruct fts) (copy_struct ss)"
proof (rule copy_struct_copier [OF assms(1,2)])
  fix n f assume "(n, f) \<in> set ss"
  then have "case map_of fts n of None \<Rightarrow> False | Some T \<Rightarrow> deep_copier T f"
    using assms(3) unfolding list_all_iff by (metis fst_conv snd_conv)
  then show "\<exists>T. (n, T) \<in> set fts \<and> deep_copier T f" by (auto split: option.splits dest: map_of_SomeD)
next
  fix n T assume "(n, T) \<in> set fts" "n \<notin> fst ` set ss"
  then show "flat T" using assms(4) by (force simp: list_all_iff)
qed

named_theorems copiers \<open>contracts of copying functions and which types are flat\<close>

declare new_into_copier [copiers] address_of_copier [copiers] make_copy_copier [copiers] make_each_copier [copiers]
  make_table_copier [copiers] flat_copier [copiers]

subsection \<open>A reference implementation\<close>

text \<open>
  \<open>rebuild\<close> knows no types: it reads the whole tree of a value and builds it again from nothing. It
  meets the contract for every type, so the contract can be met, by the library types too.
\<close>

lemma size_snd_map [termination_simp]: "size_list size (map snd es) \<le> size_list (size_prod (\<lambda>_. 0) size) es"
  by (induction es) auto

fun build :: "tree \<Rightarrow> memory \<Rightarrow> gval \<times> memory"
and builds :: "tree list \<Rightarrow> memory \<Rightarrow> gval list \<times> memory" where
  "build (Leaf s) m = (GScalar s, m)"
| "build (Node fs) m = (let (vs, m') = builds (map snd fs) m in (GStruct (zip (map fst fs) vs), m'))"
| "build NilT m = (Nil_ref, m)"
| "build (PtrT t) m = (let (v, m') = build t m in (GRef (Some (length m')), m' @ [Pointee v]))"
| "build (SliceT ts) m = (let (vs, m') = builds ts m in (GRef (Some (length m')), m' @ [Backing vs]))"
| "build (MapT es) m =
     (let (vs, m') = builds (map snd es) m in (GRef (Some (length m')), m' @ [Table (zip (map fst es) vs)]))"
| "build Broken m = (GZero, m)"
| "builds [] m = ([], m)"
| "builds (t # ts) m = (let (v, m1) = build t m; (vs, m2) = builds ts m1 in (v # vs, m2))"

definition built :: "tree \<Rightarrow> memory \<Rightarrow> gval \<Rightarrow> memory \<Rightarrow> bool" where
  "built t m v m' \<longleftrightarrow> (\<forall>k. within k t \<longrightarrow> view k m' v = t \<and> cells_of k m' v \<subseteq> {length m..})"

lemma built_append: "built t m v m' \<Longrightarrow> built t m v (m' @ new)"
  unfolding built_def
proof (intro allI impI)
  fix k assume b: "\<forall>k. within k t \<longrightarrow> view k m' v = t \<and> cells_of k m' v \<subseteq> {length m..}" and k: "within k t"
  then have v: "view k m' v = t" "cells_of k m' v \<subseteq> {length m..}" by simp_all
  then have "cells_of k m' v \<subseteq> {..<length m'}" using cells_in_memory within_intact [OF k] by simp
  then have "view k (m' @ new) v = view k m' v \<and> cells_of k (m' @ new) v = cells_of k m' v"
    by (intro view_frame) (auto simp: nth_append)
  with v show "view k (m' @ new) v = t \<and> cells_of k (m' @ new) v \<subseteq> {length m..}" by simp
qed

lemma built_later: "built t m1 v m' \<Longrightarrow> length m \<le> length m1 \<Longrightarrow> built t m v m'"
  by (fastforce simp: built_def)

text \<open>A reference to a cell whose contents are built.\<close>

lemma built_ref:
  assumes "list_all2 (\<lambda>t v. built t m v (m' @ [c])) ts (contents c)" "length m \<le> length m'"
    and "length ts = length (contents c)"
  shows "built (cell_tree c ts) m (GRef (Some (length m'))) (m' @ [c])"
  unfolding built_def
proof (intro allI impI)
  fix k assume k: "within k (cell_tree c ts)"
  then obtain j where j: "k = Suc j" using cell_tree_all(3) [OF assms(3)] by (cases k) auto
  then have w: "list_all (within j) ts" using k cell_tree_all(2) [OF assms(3)] by simp
  have e: "view j (m' @ [c]) (contents c ! i) = ts ! i \<and> cells_of j (m' @ [c]) (contents c ! i) \<subseteq> {length m..}"
    if "i < length ts" for i
    using list_all2_nthD [OF assms(1) that] w that by (simp add: built_def list_all_length)
  have "map (view j (m' @ [c])) (contents c) = ts"
    by (rule nth_equalityI) (use assms(3) e in simp_all)
  moreover have "cells_of j (m' @ [c]) w \<subseteq> {length m..}" if "w \<in> set (contents c)" for w
    using that e assms(3) by (metis in_set_conv_nth)
  ultimately show "view k (m' @ [c]) (GRef (Some (length m'))) = cell_tree c ts \<and>
      cells_of k (m' @ [c]) (GRef (Some (length m'))) \<subseteq> {length m..}"
    using assms(2) by (auto simp: j)
qed

lemma build_built:
  "\<exists>new. snd (build t m) = m @ new \<and> built t m (fst (build t m)) (m @ new)"
  "\<exists>new. snd (builds ts m) = m @ new \<and> list_all2 (\<lambda>t v. built t m v (m @ new)) ts (fst (builds ts m))"
proof (induction t m and ts m rule: build_builds.induct)
  case (2 fs m)
  then obtain new where n: "snd (builds (map snd fs) m) = m @ new"
      "list_all2 (\<lambda>t v. built t m v (m @ new)) (map snd fs) (fst (builds (map snd fs) m))" by blast
  obtain vs where b: "builds (map snd fs) m = (vs, m @ new)" using n(1) by (cases "builds (map snd fs) m") simp
  then have l: "list_all2 (\<lambda>t v. built t m v (m @ new)) (map snd fs) vs" using n(2) by simp
  then have len: "length fs = length vs" using list_all2_lengthD by fastforce
  have "built (Node fs) m (GStruct (zip (map fst fs) vs)) (m @ new)"
    unfolding built_def
  proof (intro allI impI)
    fix k assume "within k (Node fs)"
    then have w: "list_all (\<lambda>f. within k (snd f)) fs" by simp
    have e: "view k (m @ new) (vs ! i) = snd (fs ! i) \<and> cells_of k (m @ new) (vs ! i) \<subseteq> {length m..}" if "i < length fs" for i
      using list_all2_nthD [OF l, of i] w that by (simp add: built_def list_all_length)
    have "map (\<lambda>f. (fst f, view k (m @ new) (snd f))) (zip (map fst fs) vs) = fs"
      by (rule nth_equalityI) (use len e in \<open>simp_all add: prod_eq_iff\<close>)
    moreover have "cells_of k (m @ new) w \<subseteq> {length m..}" if "w \<in> set vs" for w
      using that e len by (metis in_set_conv_nth)
    ultimately show "view k (m @ new) (GStruct (zip (map fst fs) vs)) = Node fs \<and>
        cells_of k (m @ new) (GStruct (zip (map fst fs) vs)) \<subseteq> {length m..}"
      by (fastforce dest: set_zip_rightD)
  qed
  with b show ?case by simp
next
  case (4 t m)
  then obtain new where n: "snd (build t m) = m @ new" "built t m (fst (build t m)) (m @ new)" by blast
  obtain v where b: "build t m = (v, m @ new)" using n(1) by (cases "build t m") simp
  then have "built (cell_tree (Pointee v) [t]) m (GRef (Some (length (m @ new)))) ((m @ new) @ [Pointee v])"
    using n(2) built_append [of t m v "m @ new"] by (intro built_ref) simp_all
  with b show ?case by simp
next
  case (5 ts m)
  then obtain new where n: "snd (builds ts m) = m @ new" "list_all2 (\<lambda>t v. built t m v (m @ new)) ts (fst (builds ts m))" by blast
  obtain vs where b: "builds ts m = (vs, m @ new)" using n(1) by (cases "builds ts m") simp
  then have l: "list_all2 (\<lambda>t v. built t m v ((m @ new) @ [Backing vs])) ts vs"
    using n(2) by (auto elim: list_all2_mono intro: built_append simp del: append_assoc)
  then have "built (cell_tree (Backing vs) ts) m (GRef (Some (length (m @ new)))) ((m @ new) @ [Backing vs])"
    by (intro built_ref) (simp_all add: list_all2_lengthD)
  with b show ?case by simp
next
  case (6 es m)
  then obtain new where n: "snd (builds (map snd es) m) = m @ new"
      "list_all2 (\<lambda>t v. built t m v (m @ new)) (map snd es) (fst (builds (map snd es) m))" by blast
  obtain vs where b: "builds (map snd es) m = (vs, m @ new)" using n(1) by (cases "builds (map snd es) m") simp
  let ?c = "Table (zip (map fst es) vs)"
  have len: "length vs = length es" using n(2) b list_all2_lengthD by fastforce
  then have c: "contents ?c = vs" "cell_tree ?c (map snd es) = MapT es" by (simp_all add: zip_map_fst_snd)
  have l: "list_all2 (\<lambda>t v. built t m v ((m @ new) @ [?c])) (map snd es) vs"
    using n(2) b by (auto elim: list_all2_mono intro: built_append simp del: append_assoc)
  have "built (cell_tree ?c (map snd es)) m (GRef (Some (length (m @ new)))) ((m @ new) @ [?c])"
    by (rule built_ref) (use l c(1) len in simp_all)
  with b c(2) show ?case by simp
next
  case (9 t ts m)
  obtain v n1 where v: "build t m = (v, m @ n1)" "built t m v (m @ n1)"
    using 9(1) by (cases "build t m") auto
  obtain vs n2 where vs: "builds ts (m @ n1) = (vs, (m @ n1) @ n2)"
      "list_all2 (\<lambda>t v. built t (m @ n1) v ((m @ n1) @ n2)) ts vs"
    using 9(2) [of "(v, m @ n1)" v "m @ n1"] v(1) by (cases "builds ts (m @ n1)") auto
  have "list_all2 (\<lambda>t v. built t m v ((m @ n1) @ n2)) ts vs"
    by (rule list_all2_mono [OF vs(2)]) (erule built_later, simp)
  moreover have "built t m v ((m @ n1) @ n2)" by (rule built_append [OF v(2)])
  ultimately show ?case using v(1) vs(1) by simp
qed (auto simp: built_def)

definition rebuild :: "gval \<Rightarrow> (memory, gval) prog" where
  "rebuild v = (\<lambda>m. let (v', m') = build (look m v) m in (Inr v', m'))"

lemma rebuild_copier: "deep_copier T rebuild"
proof
  fix m v assume "has_type T (look m v)"
  then have w: "within (length m) (look m v)" by (rule intact_within [OF has_type_intact])
  obtain new where n: "snd (build (look m v) m) = m @ new" "built (look m v) m (fst (build (look m v) m)) (m @ new)"
    using build_built(1) by blast
  obtain v' where b: "build (look m v) m = (v', m @ new)" using n(1) by (cases "build (look m v) m") simp
  have "within (length (m @ new)) (look m v)" by (rule within_mono [OF w]) simp
  then have "copied m v v' (m @ new)" using n(2) b by (simp add: built_def copied_def)
  with b show "\<exists>v' new. rebuild v m = (Inr v', m @ new) \<and> copied m v v' (m @ new)"
    by (simp add: rebuild_def)
qed

end
