(* ===== verification/DeepCopies.thy ===== *)
theory DeepCopies
  imports Copying
begin

section \<open>The generated deep copies (zz\_generated.deepcopy.go)\<close>

text \<open>
  For each struct of the API packages: its type, field by field, the generated \<open>DeepCopyInto\<close>
  statement by statement, \<open>DeepCopy\<close>, and \<open>DeepCopyObject\<close> for the kinds. The contracts say that
  the generated code matches the types: no field that holds a reference is forgotten. The
  functions of the libraries are the parameter \<open>L\<close>, by their names; each is assumed to keep the
  contract itself. An instant (\<open>time.Time\<close>) counts as a scalar: what its pointer to a time zone
  refers to is never written.
\<close>

type_synonym golib = "string \<Rightarrow> gval \<Rightarrow> (memory, gval) prog"

definition lib_copies :: "golib \<Rightarrow> bool" where
  "lib_copies L \<longleftrightarrow> (\<forall>n. deep_copier (TLib n) (L n))"

lemma lib_copies_any [copiers]: "lib_copies L \<Longrightarrow> deep_copier T (L n)"
  using lib_copier unfolding lib_copies_def by blast

lemma unless_nil_lib [copiers]: "lib_copies L \<Longrightarrow> deep_copier (TPtr T) (unless_nil (L n))"
  by (rule unless_nil_copier [of _ T]) (auto intro: deep_copier.copies lib_copies_any)

text \<open>The reference implementation in the place of every function of the libraries.\<close>

definition reference_lib :: golib where
  "reference_lib = (\<lambda>_. rebuild)"

lemma reference_lib_copies: "lib_copies reference_lib"
  by (simp add: lib_copies_def reference_lib_def rebuild_copier)

text \<open>
  \<open>if in == nil { return nil }; out := new(T); in.DeepCopyInto(out); return out\<close> is
  \<open>unless_nil (new_into T_DeepCopyInto)\<close>; \<open>as_object\<close> is the end of a \<open>DeepCopyObject\<close>.
\<close>

definition as_object :: "gval \<Rightarrow> (memory, gval) prog" where
  "as_object c = (if c \<noteq> Nil_ref then ret c else ret Nil_ref)"

text \<open>The library structs of which the program reads fields.\<close>

definition ty_TypeMeta :: ty where
  "ty_TypeMeta = TStruct [(''Kind'', TPlain), (''APIVersion'', TPlain)]"

lemma flat_TypeMeta [copiers]: "flat ty_TypeMeta"
  by (simp add: ty_TypeMeta_def)

definition ty_ResourceList :: ty where
  "ty_ResourceList = TMap (TLib ''Quantity'')"

definition ty_ResourceRequirements :: ty where
  "ty_ResourceRequirements = TStruct
    [(''Limits'', ty_ResourceList), (''Requests'', ty_ResourceList), (''Claims'', TSlice TPlain)]"

lemma resource_list_copier [copiers]: "lib_copies L \<Longrightarrow> deep_copier ty_ResourceList (unless_nil (make_table (L n)))"
  unfolding ty_ResourceList_def by (intro make_table_copier lib_copies_any)

subsection \<open>LabSession (api/core/v1)\<close>

definition ty_Endpoint :: ty where
  "ty_Endpoint = TStruct
    [(''ServiceName'', TPlain), (''Type'', TPlain), (''Address'', TPlain)]"

lemma flat_Endpoint [copiers]: "flat ty_Endpoint"
  by (simp add: ty_Endpoint_def)

definition Endpoint_DeepCopyInto :: "gval \<Rightarrow> (memory, gval) prog" where
  "Endpoint_DeepCopyInto = copy_struct []"

definition Endpoint_DeepCopy :: "gval \<Rightarrow> (memory, gval) prog" where
  "Endpoint_DeepCopy = unless_nil (new_into Endpoint_DeepCopyInto)"

lemma Endpoint_copier [copiers]: "deep_copier ty_Endpoint Endpoint_DeepCopyInto"
  unfolding ty_Endpoint_def Endpoint_DeepCopyInto_def by (rule copy_structI) (simp_all add: copiers)

definition ty_SessionSummary :: ty where
  "ty_SessionSummary = TStruct
    [(''ActiveServices'', TPlain), (''TotalServices'', TPlain), (''Namespace'', TPlain)]"

lemma flat_SessionSummary [copiers]: "flat ty_SessionSummary"
  by (simp add: ty_SessionSummary_def)

definition SessionSummary_DeepCopyInto :: "gval \<Rightarrow> (memory, gval) prog" where
  "SessionSummary_DeepCopyInto = copy_struct []"

definition SessionSummary_DeepCopy :: "gval \<Rightarrow> (memory, gval) prog" where
  "SessionSummary_DeepCopy = unless_nil (new_into SessionSummary_DeepCopyInto)"

lemma SessionSummary_copier [copiers]: "deep_copier ty_SessionSummary SessionSummary_DeepCopyInto"
  unfolding ty_SessionSummary_def SessionSummary_DeepCopyInto_def by (rule copy_structI) (simp_all add: copiers)

definition ty_LabSessionSpec :: ty where
  "ty_LabSessionSpec = TStruct
    [(''UserId'', TPlain), (''LabSpaceRef'', TPlain)]"

lemma flat_LabSessionSpec [copiers]: "flat ty_LabSessionSpec"
  by (simp add: ty_LabSessionSpec_def)

definition LabSessionSpec_DeepCopyInto :: "gval \<Rightarrow> (memory, gval) prog" where
  "LabSessionSpec_DeepCopyInto = copy_struct []"

definition LabSessionSpec_DeepCopy :: "gval \<Rightarrow> (memory, gval) prog" where
  "LabSessionSpec_DeepCopy = unless_nil (new_into LabSessionSpec_DeepCopyInto)"

lemma LabSessionSpec_copier [copiers]: "deep_copier ty_LabSessionSpec LabSessionSpec_DeepCopyInto"
  unfolding ty_LabSessionSpec_def LabSessionSpec_DeepCopyInto_def by (rule copy_structI) (simp_all add: copiers)

definition ty_LabSessionStatus :: ty where
  "ty_LabSessionStatus = TStruct
    [(''Phase'', TPlain), (''Conditions'', TSlice (TLib ''Condition'')), (''Message'', TPlain),
     (''Summary'', ty_SessionSummary), (''Endpoints'', TSlice ty_Endpoint),
     (''StartTime'', TPtr (TLib ''Time'')), (''ExpiredTime'', TPtr (TLib ''Time''))]"

definition LabSessionStatus_DeepCopyInto :: "golib \<Rightarrow> gval \<Rightarrow> (memory, gval) prog" where
  "LabSessionStatus_DeepCopyInto L = copy_struct
    [(''Conditions'', unless_nil (make_each (L ''Condition.DeepCopyInto''))), (''Summary'', ret),
     (''Endpoints'', unless_nil make_copy), (''StartTime'', unless_nil (L ''Time.DeepCopy'')),
     (''ExpiredTime'', unless_nil (L ''Time.DeepCopy''))]"

definition LabSessionStatus_DeepCopy :: "golib \<Rightarrow> gval \<Rightarrow> (memory, gval) prog" where
  "LabSessionStatus_DeepCopy L = unless_nil (new_into (LabSessionStatus_DeepCopyInto L))"

lemma LabSessionStatus_copier [copiers]: "lib_copies L \<Longrightarrow> deep_copier ty_LabSessionStatus (LabSessionStatus_DeepCopyInto L)"
  unfolding ty_LabSessionStatus_def LabSessionStatus_DeepCopyInto_def by (rule copy_structI) (simp_all add: copiers)

definition ty_LabSession :: ty where
  "ty_LabSession = TStruct
    [(''TypeMeta'', ty_TypeMeta), (''ObjectMeta'', TLib ''ObjectMeta''), (''Spec'', ty_LabSessionSpec),
     (''Status'', ty_LabSessionStatus)]"

definition LabSession_DeepCopyInto :: "golib \<Rightarrow> gval \<Rightarrow> (memory, gval) prog" where
  "LabSession_DeepCopyInto L = copy_struct
    [(''TypeMeta'', ret), (''ObjectMeta'', L ''ObjectMeta.DeepCopyInto''), (''Spec'', ret),
     (''Status'', LabSessionStatus_DeepCopyInto L)]"

definition LabSession_DeepCopy :: "golib \<Rightarrow> gval \<Rightarrow> (memory, gval) prog" where
  "LabSession_DeepCopy L = unless_nil (new_into (LabSession_DeepCopyInto L))"

definition LabSession_DeepCopyObject :: "golib \<Rightarrow> gval \<Rightarrow> (memory, gval) prog" where
  "LabSession_DeepCopyObject L p = bindE (LabSession_DeepCopy L p) as_object"

lemma LabSession_copier [copiers]: "lib_copies L \<Longrightarrow> deep_copier ty_LabSession (LabSession_DeepCopyInto L)"
  unfolding ty_LabSession_def LabSession_DeepCopyInto_def by (rule copy_structI) (simp_all add: copiers)

definition ty_LabSessionList :: ty where
  "ty_LabSessionList = TStruct
    [(''TypeMeta'', ty_TypeMeta), (''ListMeta'', TLib ''ListMeta''), (''Items'', TSlice ty_LabSession)]"

definition LabSessionList_DeepCopyInto :: "golib \<Rightarrow> gval \<Rightarrow> (memory, gval) prog" where
  "LabSessionList_DeepCopyInto L = copy_struct
    [(''TypeMeta'', ret), (''ListMeta'', L ''ListMeta.DeepCopyInto''),
     (''Items'', unless_nil (make_each (LabSession_DeepCopyInto L)))]"

definition LabSessionList_DeepCopy :: "golib \<Rightarrow> gval \<Rightarrow> (memory, gval) prog" where
  "LabSessionList_DeepCopy L = unless_nil (new_into (LabSessionList_DeepCopyInto L))"

definition LabSessionList_DeepCopyObject :: "golib \<Rightarrow> gval \<Rightarrow> (memory, gval) prog" where
  "LabSessionList_DeepCopyObject L p = bindE (LabSessionList_DeepCopy L p) as_object"

lemma LabSessionList_copier [copiers]: "lib_copies L \<Longrightarrow> deep_copier ty_LabSessionList (LabSessionList_DeepCopyInto L)"
  unfolding ty_LabSessionList_def LabSessionList_DeepCopyInto_def by (rule copy_structI) (simp_all add: copiers)

subsection \<open>LabService, LabSpace and Task (api/infra/v1)\<close>

definition ty_DynamicValue :: ty where
  "ty_DynamicValue = TStruct
    [(''Type'', TPlain), (''Length'', TPlain), (''Template'', TPlain)]"

lemma flat_DynamicValue [copiers]: "flat ty_DynamicValue"
  by (simp add: ty_DynamicValue_def)

definition DynamicValue_DeepCopyInto :: "gval \<Rightarrow> (memory, gval) prog" where
  "DynamicValue_DeepCopyInto = copy_struct []"

definition DynamicValue_DeepCopy :: "gval \<Rightarrow> (memory, gval) prog" where
  "DynamicValue_DeepCopy = unless_nil (new_into DynamicValue_DeepCopyInto)"

lemma DynamicValue_copier [copiers]: "deep_copier ty_DynamicValue DynamicValue_DeepCopyInto"
  unfolding ty_DynamicValue_def DynamicValue_DeepCopyInto_def by (rule copy_structI) (simp_all add: copiers)

definition ty_EnvVar :: ty where
  "ty_EnvVar = TStruct
    [(''Name'', TPlain), (''Value'', TPlain), (''DynamicValue'', TPtr ty_DynamicValue)]"

definition EnvVar_DeepCopyInto :: "gval \<Rightarrow> (memory, gval) prog" where
  "EnvVar_DeepCopyInto = copy_struct
    [(''DynamicValue'', unless_nil (new_into ret))]"

definition EnvVar_DeepCopy :: "gval \<Rightarrow> (memory, gval) prog" where
  "EnvVar_DeepCopy = unless_nil (new_into EnvVar_DeepCopyInto)"

lemma EnvVar_copier [copiers]: "deep_copier ty_EnvVar EnvVar_DeepCopyInto"
  unfolding ty_EnvVar_def EnvVar_DeepCopyInto_def by (rule copy_structI) (simp_all add: copiers)

definition ty_Exposure :: ty where
  "ty_Exposure = TStruct
    [(''Type'', TPlain), (''TargetPort'', TPlain)]"

lemma flat_Exposure [copiers]: "flat ty_Exposure"
  by (simp add: ty_Exposure_def)

definition Exposure_DeepCopyInto :: "gval \<Rightarrow> (memory, gval) prog" where
  "Exposure_DeepCopyInto = copy_struct []"

definition Exposure_DeepCopy :: "gval \<Rightarrow> (memory, gval) prog" where
  "Exposure_DeepCopy = unless_nil (new_into Exposure_DeepCopyInto)"

lemma Exposure_copier [copiers]: "deep_copier ty_Exposure Exposure_DeepCopyInto"
  unfolding ty_Exposure_def Exposure_DeepCopyInto_def by (rule copy_structI) (simp_all add: copiers)

definition ty_EgressPort :: ty where
  "ty_EgressPort = TStruct
    [(''Protocol'', TPlain), (''Port'', TPlain)]"

lemma flat_EgressPort [copiers]: "flat ty_EgressPort"
  by (simp add: ty_EgressPort_def)

definition EgressPort_DeepCopyInto :: "gval \<Rightarrow> (memory, gval) prog" where
  "EgressPort_DeepCopyInto = copy_struct []"

definition EgressPort_DeepCopy :: "gval \<Rightarrow> (memory, gval) prog" where
  "EgressPort_DeepCopy = unless_nil (new_into EgressPort_DeepCopyInto)"

lemma EgressPort_copier [copiers]: "deep_copier ty_EgressPort EgressPort_DeepCopyInto"
  unfolding ty_EgressPort_def EgressPort_DeepCopyInto_def by (rule copy_structI) (simp_all add: copiers)

definition ty_EgressRule :: ty where
  "ty_EgressRule = TStruct
    [(''FQDNs'', TSlice TPlain), (''CIDRs'', TSlice TPlain), (''Ports'', TSlice ty_EgressPort)]"

definition EgressRule_DeepCopyInto :: "gval \<Rightarrow> (memory, gval) prog" where
  "EgressRule_DeepCopyInto = copy_struct
    [(''FQDNs'', unless_nil make_copy), (''CIDRs'', unless_nil make_copy), (''Ports'', unless_nil make_copy)]"

definition EgressRule_DeepCopy :: "gval \<Rightarrow> (memory, gval) prog" where
  "EgressRule_DeepCopy = unless_nil (new_into EgressRule_DeepCopyInto)"

lemma EgressRule_copier [copiers]: "deep_copier ty_EgressRule EgressRule_DeepCopyInto"
  unfolding ty_EgressRule_def EgressRule_DeepCopyInto_def by (rule copy_structI) (simp_all add: copiers)

definition ty_SecurityProfile :: ty where
  "ty_SecurityProfile = TStruct
    [(''AllowRunAsRoot'', TPlain), (''RunAsUser'', TPtr TPlain), (''AllowPrivilegeEscalation'', TPlain),
     (''Privileged'', TPlain), (''WritableRootFilesystem'', TPlain), (''KeepDefaultCapabilities'', TPlain),
     (''AddCapabilities'', TSlice TPlain), (''SeccompUnconfined'', TPlain)]"

definition SecurityProfile_DeepCopyInto :: "gval \<Rightarrow> (memory, gval) prog" where
  "SecurityProfile_DeepCopyInto = copy_struct
    [(''RunAsUser'', unless_nil (new_into ret)), (''AddCapabilities'', unless_nil make_copy)]"

definition SecurityProfile_DeepCopy :: "gval \<Rightarrow> (memory, gval) prog" where
  "SecurityProfile_DeepCopy = unless_nil (new_into SecurityProfile_DeepCopyInto)"

lemma SecurityProfile_copier [copiers]: "deep_copier ty_SecurityProfile SecurityProfile_DeepCopyInto"
  unfolding ty_SecurityProfile_def SecurityProfile_DeepCopyInto_def by (rule copy_structI) (simp_all add: copiers)

definition ty_LabServiceSpec :: ty where
  "ty_LabServiceSpec = TStruct
    [(''Image'', TPlain), (''ImagePullPolicy'', TPlain), (''Ports'', TSlice TPlain),
     (''Liveness'', TPtr (TLib ''Probe'')), (''Readiness'', TPtr (TLib ''Probe'')),
     (''Exposure'', TPtr ty_Exposure), (''Env'', TSlice ty_EnvVar), (''Command'', TSlice TPlain),
     (''Args'', TSlice TPlain), (''Resources'', ty_ResourceRequirements),
     (''StorageLimit'', TPtr (TLib ''Quantity'')), (''Egress'', TSlice ty_EgressRule),
     (''Security'', TPtr ty_SecurityProfile)]"

definition LabServiceSpec_DeepCopyInto :: "golib \<Rightarrow> gval \<Rightarrow> (memory, gval) prog" where
  "LabServiceSpec_DeepCopyInto L = copy_struct
    [(''Ports'', unless_nil make_copy), (''Liveness'', unless_nil (new_into (L ''Probe.DeepCopyInto''))),
     (''Readiness'', unless_nil (new_into (L ''Probe.DeepCopyInto''))),
     (''Exposure'', unless_nil (new_into ret)), (''Env'', unless_nil (make_each EnvVar_DeepCopyInto)),
     (''Command'', unless_nil make_copy), (''Args'', unless_nil make_copy),
     (''Resources'', L ''ResourceRequirements.DeepCopyInto''),
     (''StorageLimit'', unless_nil (address_of_copy (L ''Quantity.DeepCopy''))),
     (''Egress'', unless_nil (make_each EgressRule_DeepCopyInto)),
     (''Security'', unless_nil (new_into SecurityProfile_DeepCopyInto))]"

definition LabServiceSpec_DeepCopy :: "golib \<Rightarrow> gval \<Rightarrow> (memory, gval) prog" where
  "LabServiceSpec_DeepCopy L = unless_nil (new_into (LabServiceSpec_DeepCopyInto L))"

lemma LabServiceSpec_copier [copiers]: "lib_copies L \<Longrightarrow> deep_copier ty_LabServiceSpec (LabServiceSpec_DeepCopyInto L)"
  unfolding ty_LabServiceSpec_def LabServiceSpec_DeepCopyInto_def by (rule copy_structI) (simp_all add: copiers)

definition ty_LabService :: ty where
  "ty_LabService = TStruct
    [(''TypeMeta'', ty_TypeMeta), (''ObjectMeta'', TLib ''ObjectMeta''), (''Spec'', ty_LabServiceSpec)]"

definition LabService_DeepCopyInto :: "golib \<Rightarrow> gval \<Rightarrow> (memory, gval) prog" where
  "LabService_DeepCopyInto L = copy_struct
    [(''TypeMeta'', ret), (''ObjectMeta'', L ''ObjectMeta.DeepCopyInto''),
     (''Spec'', LabServiceSpec_DeepCopyInto L)]"

definition LabService_DeepCopy :: "golib \<Rightarrow> gval \<Rightarrow> (memory, gval) prog" where
  "LabService_DeepCopy L = unless_nil (new_into (LabService_DeepCopyInto L))"

definition LabService_DeepCopyObject :: "golib \<Rightarrow> gval \<Rightarrow> (memory, gval) prog" where
  "LabService_DeepCopyObject L p = bindE (LabService_DeepCopy L p) as_object"

lemma LabService_copier [copiers]: "lib_copies L \<Longrightarrow> deep_copier ty_LabService (LabService_DeepCopyInto L)"
  unfolding ty_LabService_def LabService_DeepCopyInto_def by (rule copy_structI) (simp_all add: copiers)

definition ty_LabServiceList :: ty where
  "ty_LabServiceList = TStruct
    [(''TypeMeta'', ty_TypeMeta), (''ListMeta'', TLib ''ListMeta''), (''Items'', TSlice ty_LabService)]"

definition LabServiceList_DeepCopyInto :: "golib \<Rightarrow> gval \<Rightarrow> (memory, gval) prog" where
  "LabServiceList_DeepCopyInto L = copy_struct
    [(''TypeMeta'', ret), (''ListMeta'', L ''ListMeta.DeepCopyInto''),
     (''Items'', unless_nil (make_each (LabService_DeepCopyInto L)))]"

definition LabServiceList_DeepCopy :: "golib \<Rightarrow> gval \<Rightarrow> (memory, gval) prog" where
  "LabServiceList_DeepCopy L = unless_nil (new_into (LabServiceList_DeepCopyInto L))"

definition LabServiceList_DeepCopyObject :: "golib \<Rightarrow> gval \<Rightarrow> (memory, gval) prog" where
  "LabServiceList_DeepCopyObject L p = bindE (LabServiceList_DeepCopy L p) as_object"

lemma LabServiceList_copier [copiers]: "lib_copies L \<Longrightarrow> deep_copier ty_LabServiceList (LabServiceList_DeepCopyInto L)"
  unfolding ty_LabServiceList_def LabServiceList_DeepCopyInto_def by (rule copy_structI) (simp_all add: copiers)

definition ty_WorkspaceConfig :: ty where
  "ty_WorkspaceConfig = TStruct
    [(''Type'', TPlain), (''Image'', TPlain), (''Tasks'', TPlain), (''Port'', TPlain),
     (''Security'', TPtr ty_SecurityProfile), (''Resources'', TPtr ty_ResourceRequirements),
     (''StorageLimit'', TPtr (TLib ''Quantity''))]"

definition WorkspaceConfig_DeepCopyInto :: "golib \<Rightarrow> gval \<Rightarrow> (memory, gval) prog" where
  "WorkspaceConfig_DeepCopyInto L = copy_struct
    [(''Security'', unless_nil (new_into SecurityProfile_DeepCopyInto)),
     (''Resources'', unless_nil (new_into (L ''ResourceRequirements.DeepCopyInto''))),
     (''StorageLimit'', unless_nil (address_of_copy (L ''Quantity.DeepCopy'')))]"

definition WorkspaceConfig_DeepCopy :: "golib \<Rightarrow> gval \<Rightarrow> (memory, gval) prog" where
  "WorkspaceConfig_DeepCopy L = unless_nil (new_into (WorkspaceConfig_DeepCopyInto L))"

lemma WorkspaceConfig_copier [copiers]: "lib_copies L \<Longrightarrow> deep_copier ty_WorkspaceConfig (WorkspaceConfig_DeepCopyInto L)"
  unfolding ty_WorkspaceConfig_def WorkspaceConfig_DeepCopyInto_def by (rule copy_structI) (simp_all add: copiers)

definition ty_NetworkConfig :: ty where
  "ty_NetworkConfig = TStruct
    [(''AllowInternet'', TPlain), (''InternalOnly'', TPlain)]"

lemma flat_NetworkConfig [copiers]: "flat ty_NetworkConfig"
  by (simp add: ty_NetworkConfig_def)

definition NetworkConfig_DeepCopyInto :: "gval \<Rightarrow> (memory, gval) prog" where
  "NetworkConfig_DeepCopyInto = copy_struct []"

definition NetworkConfig_DeepCopy :: "gval \<Rightarrow> (memory, gval) prog" where
  "NetworkConfig_DeepCopy = unless_nil (new_into NetworkConfig_DeepCopyInto)"

lemma NetworkConfig_copier [copiers]: "deep_copier ty_NetworkConfig NetworkConfig_DeepCopyInto"
  unfolding ty_NetworkConfig_def NetworkConfig_DeepCopyInto_def by (rule copy_structI) (simp_all add: copiers)

definition ty_ResourceQuotaConfig :: ty where
  "ty_ResourceQuotaConfig = TStruct
    [(''Requests'', ty_ResourceList), (''Limits'', ty_ResourceList)]"

definition ResourceQuotaConfig_DeepCopyInto :: "golib \<Rightarrow> gval \<Rightarrow> (memory, gval) prog" where
  "ResourceQuotaConfig_DeepCopyInto L = copy_struct
    [(''Requests'', unless_nil (make_table (L ''Quantity.DeepCopy''))),
     (''Limits'', unless_nil (make_table (L ''Quantity.DeepCopy'')))]"

definition ResourceQuotaConfig_DeepCopy :: "golib \<Rightarrow> gval \<Rightarrow> (memory, gval) prog" where
  "ResourceQuotaConfig_DeepCopy L = unless_nil (new_into (ResourceQuotaConfig_DeepCopyInto L))"

lemma ResourceQuotaConfig_copier [copiers]: "lib_copies L \<Longrightarrow> deep_copier ty_ResourceQuotaConfig (ResourceQuotaConfig_DeepCopyInto L)"
  unfolding ty_ResourceQuotaConfig_def ResourceQuotaConfig_DeepCopyInto_def by (rule copy_structI) (simp_all add: copiers)

definition ty_LabSpaceSpec :: ty where
  "ty_LabSpaceSpec = TStruct
    [(''ServiceSelector'', TLib ''LabelSelector''), (''Network'', ty_NetworkConfig),
     (''Resources'', ty_ResourceQuotaConfig), (''Workspace'', ty_WorkspaceConfig), (''DefaultTTL'', TPlain)]"

definition LabSpaceSpec_DeepCopyInto :: "golib \<Rightarrow> gval \<Rightarrow> (memory, gval) prog" where
  "LabSpaceSpec_DeepCopyInto L = copy_struct
    [(''ServiceSelector'', L ''LabelSelector.DeepCopyInto''), (''Network'', ret),
     (''Resources'', ResourceQuotaConfig_DeepCopyInto L), (''Workspace'', WorkspaceConfig_DeepCopyInto L)]"

definition LabSpaceSpec_DeepCopy :: "golib \<Rightarrow> gval \<Rightarrow> (memory, gval) prog" where
  "LabSpaceSpec_DeepCopy L = unless_nil (new_into (LabSpaceSpec_DeepCopyInto L))"

lemma LabSpaceSpec_copier [copiers]: "lib_copies L \<Longrightarrow> deep_copier ty_LabSpaceSpec (LabSpaceSpec_DeepCopyInto L)"
  unfolding ty_LabSpaceSpec_def LabSpaceSpec_DeepCopyInto_def by (rule copy_structI) (simp_all add: copiers)

definition ty_LabSpace :: ty where
  "ty_LabSpace = TStruct
    [(''TypeMeta'', ty_TypeMeta), (''ObjectMeta'', TLib ''ObjectMeta''), (''Spec'', ty_LabSpaceSpec)]"

definition LabSpace_DeepCopyInto :: "golib \<Rightarrow> gval \<Rightarrow> (memory, gval) prog" where
  "LabSpace_DeepCopyInto L = copy_struct
    [(''TypeMeta'', ret), (''ObjectMeta'', L ''ObjectMeta.DeepCopyInto''),
     (''Spec'', LabSpaceSpec_DeepCopyInto L)]"

definition LabSpace_DeepCopy :: "golib \<Rightarrow> gval \<Rightarrow> (memory, gval) prog" where
  "LabSpace_DeepCopy L = unless_nil (new_into (LabSpace_DeepCopyInto L))"

definition LabSpace_DeepCopyObject :: "golib \<Rightarrow> gval \<Rightarrow> (memory, gval) prog" where
  "LabSpace_DeepCopyObject L p = bindE (LabSpace_DeepCopy L p) as_object"

lemma LabSpace_copier [copiers]: "lib_copies L \<Longrightarrow> deep_copier ty_LabSpace (LabSpace_DeepCopyInto L)"
  unfolding ty_LabSpace_def LabSpace_DeepCopyInto_def by (rule copy_structI) (simp_all add: copiers)

definition ty_LabSpaceList :: ty where
  "ty_LabSpaceList = TStruct
    [(''TypeMeta'', ty_TypeMeta), (''ListMeta'', TLib ''ListMeta''), (''Items'', TSlice ty_LabSpace)]"

definition LabSpaceList_DeepCopyInto :: "golib \<Rightarrow> gval \<Rightarrow> (memory, gval) prog" where
  "LabSpaceList_DeepCopyInto L = copy_struct
    [(''TypeMeta'', ret), (''ListMeta'', L ''ListMeta.DeepCopyInto''),
     (''Items'', unless_nil (make_each (LabSpace_DeepCopyInto L)))]"

definition LabSpaceList_DeepCopy :: "golib \<Rightarrow> gval \<Rightarrow> (memory, gval) prog" where
  "LabSpaceList_DeepCopy L = unless_nil (new_into (LabSpaceList_DeepCopyInto L))"

definition LabSpaceList_DeepCopyObject :: "golib \<Rightarrow> gval \<Rightarrow> (memory, gval) prog" where
  "LabSpaceList_DeepCopyObject L p = bindE (LabSpaceList_DeepCopy L p) as_object"

lemma LabSpaceList_copier [copiers]: "lib_copies L \<Longrightarrow> deep_copier ty_LabSpaceList (LabSpaceList_DeepCopyInto L)"
  unfolding ty_LabSpaceList_def LabSpaceList_DeepCopyInto_def by (rule copy_structI) (simp_all add: copiers)

definition ty_TaskFile :: ty where
  "ty_TaskFile = TStruct
    [(''Source'', TPlain)]"

lemma flat_TaskFile [copiers]: "flat ty_TaskFile"
  by (simp add: ty_TaskFile_def)

definition TaskFile_DeepCopyInto :: "gval \<Rightarrow> (memory, gval) prog" where
  "TaskFile_DeepCopyInto = copy_struct []"

definition TaskFile_DeepCopy :: "gval \<Rightarrow> (memory, gval) prog" where
  "TaskFile_DeepCopy = unless_nil (new_into TaskFile_DeepCopyInto)"

lemma TaskFile_copier [copiers]: "deep_copier ty_TaskFile TaskFile_DeepCopyInto"
  unfolding ty_TaskFile_def TaskFile_DeepCopyInto_def by (rule copy_structI) (simp_all add: copiers)

definition ty_TaskCheck :: ty where
  "ty_TaskCheck = TStruct
    [(''Source'', TPlain)]"

lemma flat_TaskCheck [copiers]: "flat ty_TaskCheck"
  by (simp add: ty_TaskCheck_def)

definition TaskCheck_DeepCopyInto :: "gval \<Rightarrow> (memory, gval) prog" where
  "TaskCheck_DeepCopyInto = copy_struct []"

definition TaskCheck_DeepCopy :: "gval \<Rightarrow> (memory, gval) prog" where
  "TaskCheck_DeepCopy = unless_nil (new_into TaskCheck_DeepCopyInto)"

lemma TaskCheck_copier [copiers]: "deep_copier ty_TaskCheck TaskCheck_DeepCopyInto"
  unfolding ty_TaskCheck_def TaskCheck_DeepCopyInto_def by (rule copy_structI) (simp_all add: copiers)

definition ty_TaskSpec :: ty where
  "ty_TaskSpec = TStruct
    [(''Files'', TSlice ty_TaskFile), (''Checks'', TSlice ty_TaskCheck), (''Env'', TSlice ty_EnvVar)]"

definition TaskSpec_DeepCopyInto :: "gval \<Rightarrow> (memory, gval) prog" where
  "TaskSpec_DeepCopyInto = copy_struct
    [(''Files'', unless_nil make_copy), (''Checks'', unless_nil make_copy),
     (''Env'', unless_nil (make_each EnvVar_DeepCopyInto))]"

definition TaskSpec_DeepCopy :: "gval \<Rightarrow> (memory, gval) prog" where
  "TaskSpec_DeepCopy = unless_nil (new_into TaskSpec_DeepCopyInto)"

lemma TaskSpec_copier [copiers]: "deep_copier ty_TaskSpec TaskSpec_DeepCopyInto"
  unfolding ty_TaskSpec_def TaskSpec_DeepCopyInto_def by (rule copy_structI) (simp_all add: copiers)

definition ty_TaskStatus :: ty where
  "ty_TaskStatus = TStruct
    [(''Conditions'', TSlice (TLib ''Condition''))]"

definition TaskStatus_DeepCopyInto :: "golib \<Rightarrow> gval \<Rightarrow> (memory, gval) prog" where
  "TaskStatus_DeepCopyInto L = copy_struct
    [(''Conditions'', unless_nil (make_each (L ''Condition.DeepCopyInto'')))]"

definition TaskStatus_DeepCopy :: "golib \<Rightarrow> gval \<Rightarrow> (memory, gval) prog" where
  "TaskStatus_DeepCopy L = unless_nil (new_into (TaskStatus_DeepCopyInto L))"

lemma TaskStatus_copier [copiers]: "lib_copies L \<Longrightarrow> deep_copier ty_TaskStatus (TaskStatus_DeepCopyInto L)"
  unfolding ty_TaskStatus_def TaskStatus_DeepCopyInto_def by (rule copy_structI) (simp_all add: copiers)

definition ty_Task :: ty where
  "ty_Task = TStruct
    [(''TypeMeta'', ty_TypeMeta), (''ObjectMeta'', TLib ''ObjectMeta''), (''Spec'', ty_TaskSpec),
     (''Status'', ty_TaskStatus)]"

definition Task_DeepCopyInto :: "golib \<Rightarrow> gval \<Rightarrow> (memory, gval) prog" where
  "Task_DeepCopyInto L = copy_struct
    [(''TypeMeta'', ret), (''ObjectMeta'', L ''ObjectMeta.DeepCopyInto''),
     (''Spec'', TaskSpec_DeepCopyInto), (''Status'', TaskStatus_DeepCopyInto L)]"

definition Task_DeepCopy :: "golib \<Rightarrow> gval \<Rightarrow> (memory, gval) prog" where
  "Task_DeepCopy L = unless_nil (new_into (Task_DeepCopyInto L))"

definition Task_DeepCopyObject :: "golib \<Rightarrow> gval \<Rightarrow> (memory, gval) prog" where
  "Task_DeepCopyObject L p = bindE (Task_DeepCopy L p) as_object"

lemma Task_copier [copiers]: "lib_copies L \<Longrightarrow> deep_copier ty_Task (Task_DeepCopyInto L)"
  unfolding ty_Task_def Task_DeepCopyInto_def by (rule copy_structI) (simp_all add: copiers)

definition ty_TaskList :: ty where
  "ty_TaskList = TStruct
    [(''TypeMeta'', ty_TypeMeta), (''ListMeta'', TLib ''ListMeta''), (''Items'', TSlice ty_Task)]"

definition TaskList_DeepCopyInto :: "golib \<Rightarrow> gval \<Rightarrow> (memory, gval) prog" where
  "TaskList_DeepCopyInto L = copy_struct
    [(''TypeMeta'', ret), (''ListMeta'', L ''ListMeta.DeepCopyInto''),
     (''Items'', unless_nil (make_each (Task_DeepCopyInto L)))]"

definition TaskList_DeepCopy :: "golib \<Rightarrow> gval \<Rightarrow> (memory, gval) prog" where
  "TaskList_DeepCopy L = unless_nil (new_into (TaskList_DeepCopyInto L))"

definition TaskList_DeepCopyObject :: "golib \<Rightarrow> gval \<Rightarrow> (memory, gval) prog" where
  "TaskList_DeepCopyObject L p = bindE (TaskList_DeepCopy L p) as_object"

lemma TaskList_copier [copiers]: "lib_copies L \<Longrightarrow> deep_copier ty_TaskList (TaskList_DeepCopyInto L)"
  unfolding ty_TaskList_def TaskList_DeepCopyInto_def by (rule copy_structI) (simp_all add: copiers)

subsection \<open>CTFTask (api/v1)\<close>

definition ty_FlagConfig :: ty where
  "ty_FlagConfig = TStruct
    [(''Format'', TPlain), (''Scope'', TPlain), (''Length'', TPlain)]"

lemma flat_FlagConfig [copiers]: "flat ty_FlagConfig"
  by (simp add: ty_FlagConfig_def)

definition FlagConfig_DeepCopyInto :: "gval \<Rightarrow> (memory, gval) prog" where
  "FlagConfig_DeepCopyInto = copy_struct []"

definition FlagConfig_DeepCopy :: "gval \<Rightarrow> (memory, gval) prog" where
  "FlagConfig_DeepCopy = unless_nil (new_into FlagConfig_DeepCopyInto)"

lemma FlagConfig_copier [copiers]: "deep_copier ty_FlagConfig FlagConfig_DeepCopyInto"
  unfolding ty_FlagConfig_def FlagConfig_DeepCopyInto_def by (rule copy_structI) (simp_all add: copiers)

definition ty_CTFTaskSpec :: ty where
  "ty_CTFTaskSpec = TStruct
    [(''Image'', TPlain), (''Port'', TPlain), (''StudentID'', TPlain), (''Duration'', TPlain),
     (''FlagConfig'', ty_FlagConfig)]"

lemma flat_CTFTaskSpec [copiers]: "flat ty_CTFTaskSpec"
  by (simp add: ty_CTFTaskSpec_def flat_FlagConfig)

definition CTFTaskSpec_DeepCopyInto :: "gval \<Rightarrow> (memory, gval) prog" where
  "CTFTaskSpec_DeepCopyInto = copy_struct
    [(''FlagConfig'', ret)]"

definition CTFTaskSpec_DeepCopy :: "gval \<Rightarrow> (memory, gval) prog" where
  "CTFTaskSpec_DeepCopy = unless_nil (new_into CTFTaskSpec_DeepCopyInto)"

lemma CTFTaskSpec_copier [copiers]: "deep_copier ty_CTFTaskSpec CTFTaskSpec_DeepCopyInto"
  unfolding ty_CTFTaskSpec_def CTFTaskSpec_DeepCopyInto_def by (rule copy_structI) (simp_all add: copiers)

definition ty_CTFTaskStatus :: ty where
  "ty_CTFTaskStatus = TStruct
    [(''Phase'', TPlain), (''Message'', TPlain), (''Endpoint'', TPlain),
     (''ExpiryTime'', TPtr (TLib ''Time'')), (''SolvedAt'', TPtr (TLib ''Time'')),
     (''Conditions'', TSlice (TLib ''Condition''))]"

definition CTFTaskStatus_DeepCopyInto :: "golib \<Rightarrow> gval \<Rightarrow> (memory, gval) prog" where
  "CTFTaskStatus_DeepCopyInto L = copy_struct
    [(''ExpiryTime'', unless_nil (L ''Time.DeepCopy'')), (''SolvedAt'', unless_nil (L ''Time.DeepCopy'')),
     (''Conditions'', unless_nil (make_each (L ''Condition.DeepCopyInto'')))]"

definition CTFTaskStatus_DeepCopy :: "golib \<Rightarrow> gval \<Rightarrow> (memory, gval) prog" where
  "CTFTaskStatus_DeepCopy L = unless_nil (new_into (CTFTaskStatus_DeepCopyInto L))"

lemma CTFTaskStatus_copier [copiers]: "lib_copies L \<Longrightarrow> deep_copier ty_CTFTaskStatus (CTFTaskStatus_DeepCopyInto L)"
  unfolding ty_CTFTaskStatus_def CTFTaskStatus_DeepCopyInto_def by (rule copy_structI) (simp_all add: copiers)

definition ty_CTFTask :: ty where
  "ty_CTFTask = TStruct
    [(''TypeMeta'', ty_TypeMeta), (''ObjectMeta'', TLib ''ObjectMeta''), (''Spec'', ty_CTFTaskSpec),
     (''Status'', ty_CTFTaskStatus)]"

definition CTFTask_DeepCopyInto :: "golib \<Rightarrow> gval \<Rightarrow> (memory, gval) prog" where
  "CTFTask_DeepCopyInto L = copy_struct
    [(''TypeMeta'', ret), (''ObjectMeta'', L ''ObjectMeta.DeepCopyInto''), (''Spec'', ret),
     (''Status'', CTFTaskStatus_DeepCopyInto L)]"

definition CTFTask_DeepCopy :: "golib \<Rightarrow> gval \<Rightarrow> (memory, gval) prog" where
  "CTFTask_DeepCopy L = unless_nil (new_into (CTFTask_DeepCopyInto L))"

definition CTFTask_DeepCopyObject :: "golib \<Rightarrow> gval \<Rightarrow> (memory, gval) prog" where
  "CTFTask_DeepCopyObject L p = bindE (CTFTask_DeepCopy L p) as_object"

lemma CTFTask_copier [copiers]: "lib_copies L \<Longrightarrow> deep_copier ty_CTFTask (CTFTask_DeepCopyInto L)"
  unfolding ty_CTFTask_def CTFTask_DeepCopyInto_def by (rule copy_structI) (simp_all add: copiers)

definition ty_CTFTaskList :: ty where
  "ty_CTFTaskList = TStruct
    [(''TypeMeta'', ty_TypeMeta), (''ListMeta'', TLib ''ListMeta''), (''Items'', TSlice ty_CTFTask)]"

definition CTFTaskList_DeepCopyInto :: "golib \<Rightarrow> gval \<Rightarrow> (memory, gval) prog" where
  "CTFTaskList_DeepCopyInto L = copy_struct
    [(''TypeMeta'', ret), (''ListMeta'', L ''ListMeta.DeepCopyInto''),
     (''Items'', unless_nil (make_each (CTFTask_DeepCopyInto L)))]"

definition CTFTaskList_DeepCopy :: "golib \<Rightarrow> gval \<Rightarrow> (memory, gval) prog" where
  "CTFTaskList_DeepCopy L = unless_nil (new_into (CTFTaskList_DeepCopyInto L))"

definition CTFTaskList_DeepCopyObject :: "golib \<Rightarrow> gval \<Rightarrow> (memory, gval) prog" where
  "CTFTaskList_DeepCopyObject L p = bindE (CTFTaskList_DeepCopy L p) as_object"

lemma CTFTaskList_copier [copiers]: "lib_copies L \<Longrightarrow> deep_copier ty_CTFTaskList (CTFTaskList_DeepCopyInto L)"
  unfolding ty_CTFTaskList_def CTFTaskList_DeepCopyInto_def by (rule copy_structI) (simp_all add: copiers)

end
