(* ===== verification/Sharing.thy ===== *)
theory Sharing
  imports DeepCopies
begin

section \<open>Copies share nothing\<close>

text \<open>
  What the deep copies are for. The client keeps one cache of objects for all reconcilers and
  hands out deep copies, which the reconcilers then write to; the services of a LabSpace are
  used for every session. The properties say that the generated functions keep the contract,
  and that a copied object and its original live apart whatever is written to either.
\<close>

subsection \<open>The generated functions\<close>

definition into_copiers :: "golib \<Rightarrow> (ty \<times> (gval \<Rightarrow> (memory, gval) prog)) list" where
  "into_copiers L =
    [(ty_Endpoint, Endpoint_DeepCopyInto), (ty_SessionSummary, SessionSummary_DeepCopyInto),
     (ty_LabSessionSpec, LabSessionSpec_DeepCopyInto),
     (ty_LabSessionStatus, LabSessionStatus_DeepCopyInto L), (ty_LabSession, LabSession_DeepCopyInto L),
     (ty_LabSessionList, LabSessionList_DeepCopyInto L), (ty_DynamicValue, DynamicValue_DeepCopyInto),
     (ty_EnvVar, EnvVar_DeepCopyInto), (ty_Exposure, Exposure_DeepCopyInto),
     (ty_EgressPort, EgressPort_DeepCopyInto), (ty_EgressRule, EgressRule_DeepCopyInto),
     (ty_SecurityProfile, SecurityProfile_DeepCopyInto), (ty_LabServiceSpec, LabServiceSpec_DeepCopyInto L),
     (ty_LabService, LabService_DeepCopyInto L), (ty_LabServiceList, LabServiceList_DeepCopyInto L),
     (ty_WorkspaceConfig, WorkspaceConfig_DeepCopyInto L), (ty_NetworkConfig, NetworkConfig_DeepCopyInto),
     (ty_ResourceQuotaConfig, ResourceQuotaConfig_DeepCopyInto L),
     (ty_LabSpaceSpec, LabSpaceSpec_DeepCopyInto L), (ty_LabSpace, LabSpace_DeepCopyInto L),
     (ty_LabSpaceList, LabSpaceList_DeepCopyInto L), (ty_TaskFile, TaskFile_DeepCopyInto),
     (ty_TaskCheck, TaskCheck_DeepCopyInto), (ty_TaskSpec, TaskSpec_DeepCopyInto),
     (ty_TaskStatus, TaskStatus_DeepCopyInto L), (ty_Task, Task_DeepCopyInto L),
     (ty_TaskList, TaskList_DeepCopyInto L), (ty_FlagConfig, FlagConfig_DeepCopyInto),
     (ty_CTFTaskSpec, CTFTaskSpec_DeepCopyInto), (ty_CTFTaskStatus, CTFTaskStatus_DeepCopyInto L),
     (ty_CTFTask, CTFTask_DeepCopyInto L), (ty_CTFTaskList, CTFTaskList_DeepCopyInto L)]"

definition pointer_copiers :: "golib \<Rightarrow> (ty \<times> (gval \<Rightarrow> (memory, gval) prog)) list" where
  "pointer_copiers L =
    [(TPtr ty_Endpoint, Endpoint_DeepCopy), (TPtr ty_SessionSummary, SessionSummary_DeepCopy),
     (TPtr ty_LabSessionSpec, LabSessionSpec_DeepCopy),
     (TPtr ty_LabSessionStatus, LabSessionStatus_DeepCopy L),
     (TPtr ty_LabSession, LabSession_DeepCopy L),
     (TPtr ty_LabSessionList, LabSessionList_DeepCopy L),
     (TPtr ty_DynamicValue, DynamicValue_DeepCopy), (TPtr ty_EnvVar, EnvVar_DeepCopy),
     (TPtr ty_Exposure, Exposure_DeepCopy), (TPtr ty_EgressPort, EgressPort_DeepCopy),
     (TPtr ty_EgressRule, EgressRule_DeepCopy),
     (TPtr ty_SecurityProfile, SecurityProfile_DeepCopy),
     (TPtr ty_LabServiceSpec, LabServiceSpec_DeepCopy L),
     (TPtr ty_LabService, LabService_DeepCopy L),
     (TPtr ty_LabServiceList, LabServiceList_DeepCopy L),
     (TPtr ty_WorkspaceConfig, WorkspaceConfig_DeepCopy L),
     (TPtr ty_NetworkConfig, NetworkConfig_DeepCopy),
     (TPtr ty_ResourceQuotaConfig, ResourceQuotaConfig_DeepCopy L),
     (TPtr ty_LabSpaceSpec, LabSpaceSpec_DeepCopy L), (TPtr ty_LabSpace, LabSpace_DeepCopy L),
     (TPtr ty_LabSpaceList, LabSpaceList_DeepCopy L), (TPtr ty_TaskFile, TaskFile_DeepCopy),
     (TPtr ty_TaskCheck, TaskCheck_DeepCopy), (TPtr ty_TaskSpec, TaskSpec_DeepCopy),
     (TPtr ty_TaskStatus, TaskStatus_DeepCopy L), (TPtr ty_Task, Task_DeepCopy L),
     (TPtr ty_TaskList, TaskList_DeepCopy L), (TPtr ty_FlagConfig, FlagConfig_DeepCopy),
     (TPtr ty_CTFTaskSpec, CTFTaskSpec_DeepCopy),
     (TPtr ty_CTFTaskStatus, CTFTaskStatus_DeepCopy L), (TPtr ty_CTFTask, CTFTask_DeepCopy L),
     (TPtr ty_CTFTaskList, CTFTaskList_DeepCopy L)]"

definition object_copiers :: "golib \<Rightarrow> (ty \<times> (gval \<Rightarrow> (memory, gval) prog)) list" where
  "object_copiers L =
    [(ty_LabSession, LabSession_DeepCopyObject L), (ty_LabSessionList, LabSessionList_DeepCopyObject L),
     (ty_LabService, LabService_DeepCopyObject L), (ty_LabServiceList, LabServiceList_DeepCopyObject L),
     (ty_LabSpace, LabSpace_DeepCopyObject L), (ty_LabSpaceList, LabSpaceList_DeepCopyObject L),
     (ty_Task, Task_DeepCopyObject L), (ty_TaskList, TaskList_DeepCopyObject L),
     (ty_CTFTask, CTFTask_DeepCopyObject L), (ty_CTFTaskList, CTFTaskList_DeepCopyObject L)]"

lemma into_copiers_ok: "lib_copies L \<Longrightarrow> list_all (\<lambda>(T, f). deep_copier T f) (into_copiers L)"
  by (simp add: into_copiers_def copiers)

lemma as_object_ret: "as_object = ret"
  by (simp add: as_object_def fun_eq_iff)

lemmas DeepCopyObject_defs = LabSession_DeepCopyObject_def LabSessionList_DeepCopyObject_def
  LabService_DeepCopyObject_def LabServiceList_DeepCopyObject_def LabSpace_DeepCopyObject_def
  LabSpaceList_DeepCopyObject_def Task_DeepCopyObject_def TaskList_DeepCopyObject_def
  CTFTask_DeepCopyObject_def CTFTaskList_DeepCopyObject_def

lemmas DeepCopy_defs = Endpoint_DeepCopy_def SessionSummary_DeepCopy_def
  LabSessionSpec_DeepCopy_def LabSessionStatus_DeepCopy_def LabSession_DeepCopy_def
  LabSessionList_DeepCopy_def DynamicValue_DeepCopy_def EnvVar_DeepCopy_def Exposure_DeepCopy_def
  EgressPort_DeepCopy_def EgressRule_DeepCopy_def SecurityProfile_DeepCopy_def
  LabServiceSpec_DeepCopy_def LabService_DeepCopy_def LabServiceList_DeepCopy_def
  WorkspaceConfig_DeepCopy_def NetworkConfig_DeepCopy_def ResourceQuotaConfig_DeepCopy_def
  LabSpaceSpec_DeepCopy_def LabSpace_DeepCopy_def LabSpaceList_DeepCopy_def TaskFile_DeepCopy_def
  TaskCheck_DeepCopy_def TaskSpec_DeepCopy_def TaskStatus_DeepCopy_def Task_DeepCopy_def
  TaskList_DeepCopy_def FlagConfig_DeepCopy_def CTFTaskSpec_DeepCopy_def
  CTFTaskStatus_DeepCopy_def CTFTask_DeepCopy_def CTFTaskList_DeepCopy_def

lemma pointer_copiers_ok: "lib_copies L \<Longrightarrow> list_all (\<lambda>(T, f). deep_copier T f) (pointer_copiers L)"
  by (simp add: pointer_copiers_def DeepCopy_defs [abs_def] copiers)

lemma object_copiers_ok: "lib_copies L \<Longrightarrow> list_all (\<lambda>(T, f). deep_copier (TPtr T) f) (object_copiers L)"
  by (simp add: object_copiers_def DeepCopyObject_defs [abs_def] as_object_ret DeepCopy_defs copiers)

interpretation egress_rule: deep_copier ty_EgressRule EgressRule_DeepCopyInto
  by (simp add: copiers)

interpretation env_var: deep_copier ty_EnvVar EnvVar_DeepCopyInto
  by (simp add: copiers)

interpretation security_profile: deep_copier ty_SecurityProfile SecurityProfile_DeepCopyInto
  by (simp add: copiers)

interpretation task_spec: deep_copier ty_TaskSpec TaskSpec_DeepCopyInto
  by (simp add: copiers)

interpretation reference_copy: deep_copier T rebuild for T
  by (rule rebuild_copier)

text \<open>
  C20: every generated \<open>DeepCopyInto\<close> is a deep copy, and every \<open>DeepCopy\<close> one
  behind a pointer. On any value of its type, in any memory, it returns without a panic, changes
  no cell that exists, and its result shows the same tree as the value, and as what the
  reference implementation \<open>rebuild\<close> makes of it, in cells that are all new: no slice, map or
  pointer field of any of the types is forgotten.
\<close>

theorem generated_copies_are_deep:
  assumes "lib_copies L" "(T, f) \<in> set (into_copiers L @ pointer_copiers L)" "has_type T (look m v)"
  shows "\<exists>v' new r m'. f v m = (Inr v', m @ new) \<and>
    look (m @ new) v' = look m v \<and> reach (m @ new) v' \<subseteq> {length m..<length m + length new} \<and>
    rebuild v m = (Inr r, m') \<and> look m' r = look (m @ new) v'"
proof -
  have "deep_copier T f" using into_copiers_ok [OF assms(1)] pointer_copiers_ok [OF assms(1)] assms(2) by (auto simp: list_all_iff)
  then obtain v' new where f: "f v m = (Inr v', m @ new)" "copied m v v' (m @ new)"
    using deep_copier.copies assms(3) by blast
  obtain r new' where r: "rebuild v m = (Inr r, m @ new')" "copied m v r (m @ new')"
    using reference_copy.copies [OF assms(3)] by blast
  have "intact (look (m @ new) v')" using f(2) has_type_intact [OF assms(3)] by (simp add: copied_def)
  then have "reach (m @ new) v' \<subseteq> {length m..<length m + length new}"
    using f(2) cells_in_memory [of "length (m @ new)" "m @ new" v'] by (fastforce simp: copied_def)
  then show ?thesis using f r unfolding copied_def by (metis (no_types))
qed

definition example_memory :: memory where
  "example_memory =
    [Backing [GScalar (SStr ''git.example.org''), GScalar (SStr ''*.example.net'')],
     Backing [GStruct [(''Protocol'', GScalar (SStr ''TCP'')), (''Port'', GScalar (SInt 443))]],
     Pointee (GStruct
       [(''TypeMeta'', GStruct [(''Kind'', GScalar (SStr ''LabSession'')), (''APIVersion'', GScalar (SStr ''core/v1''))]),
        (''ObjectMeta'', GStruct [(''Name'', GScalar (SStr ''ada-web'')), (''Finalizers'', GRef (Some 0))]),
        (''Spec'', GStruct [(''UserId'', GScalar (SStr ''ada'')), (''LabSpaceRef'', GScalar (SStr ''web''))]),
        (''Status'', GStruct
          [(''Phase'', GScalar (SStr ''Running'')), (''Conditions'', Nil_ref), (''Message'', GScalar (SStr '''')),
           (''Summary'', GStruct [(''ActiveServices'', GScalar (SInt 1)), (''TotalServices'', GScalar (SInt 1)),
              (''Namespace'', GScalar (SStr ''lab-session-ada-web''))]),
           (''Endpoints'', GRef (Some 3)), (''StartTime'', GRef (Some 4)), (''ExpiredTime'', Nil_ref)])]),
     Backing [GStruct [(''ServiceName'', GScalar (SStr ''shop'')), (''Type'', GScalar (SStr ''HTTP'')),
       (''Address'', GScalar (SStr ''shop.example.org''))]],
     Pointee (GScalar (SInt 1700000000))]"

definition example_rule :: gval where
  "example_rule = GStruct [(''FQDNs'', GRef (Some 0)), (''CIDRs'', Nil_ref), (''Ports'', GRef (Some 1))]"

theorem generated_copies_are_deep_witness:
  "\<exists>v' new r m'. EgressRule_DeepCopyInto example_rule example_memory = (Inr v', example_memory @ new) \<and>
    look (example_memory @ new) v' = look example_memory example_rule \<and>
    reach (example_memory @ new) v' \<subseteq> {length example_memory..<length example_memory + length new} \<and>
    rebuild example_rule example_memory = (Inr r, m') \<and> look m' r = look (example_memory @ new) v'"
proof (rule generated_copies_are_deep [OF reference_lib_copies])
  show "(ty_EgressRule, EgressRule_DeepCopyInto) \<in> set (into_copiers reference_lib @ pointer_copiers reference_lib)"
    by (simp add: into_copiers_def)
  show "has_type ty_EgressRule (look example_memory example_rule)"
    by (simp add: example_memory_def example_rule_def ty_EgressRule_def ty_EgressPort_def eval_nat_numeral)
qed

text \<open>
  C21: an object and its copy live apart. \<open>DeepCopyObject\<close> of each kind, and of each list of a kind,
  returns nil for nil and otherwise a pointer; from then on the original shows the same object
  as long as no older cell is written, whatever the holder of the copy writes to the new ones,
  and the copy shows the same object whatever is written to the older ones.
\<close>

theorem copied_objects_are_isolated:
  assumes "lib_copies L" "(T, f) \<in> set (object_copiers L)" "has_type (TPtr T) (look m p)"
  shows "\<exists>p' m'. f p m = (Inr p', m') \<and> (p' = Nil_ref \<longleftrightarrow> p = Nil_ref) \<and>
    (\<forall>m''. length m' \<le> length m'' \<and> (\<forall>a<length m. m'' ! a = m' ! a) \<longrightarrow> look m'' p = look m p) \<and>
    (\<forall>m''. length m' \<le> length m'' \<and> (\<forall>a. length m \<le> a \<and> a < length m' \<longrightarrow> m'' ! a = m' ! a) \<longrightarrow> look m'' p' = look m p)"
proof -
  have c: "deep_copier (TPtr T) f" using object_copiers_ok [OF assms(1)] assms(2) by (auto simp: list_all_iff)
  then obtain p' new where f: "f p m = (Inr p', m @ new)" "copied m p p' (m @ new)"
    using deep_copier.copies assms(3) by blast
  have nil: "view k m' q = NilT \<longleftrightarrow> q = Nil_ref" for k m' q
    by (cases q; cases k; cases "case q of GRef r \<Rightarrow> r | _ \<Rightarrow> None"; simp; cases "m' ! the (case q of GRef r \<Rightarrow> r | _ \<Rightarrow> None)"; simp)
  have "p' = Nil_ref \<longleftrightarrow> p = Nil_ref" using f(2) nil by (metis copied_def)
  moreover have "look m'' p = look m p" if "length (m @ new) \<le> length m''" "\<forall>a<length m. m'' ! a = (m @ new) ! a" for m''
    by (rule deep_copier.original_kept [OF c assms(3) f(1) that(1)]) (use that(2) in blast)
  moreover have "look m'' p' = look m p"
    if "length (m @ new) \<le> length m''" "\<forall>a. length m \<le> a \<and> a < length (m @ new) \<longrightarrow> m'' ! a = (m @ new) ! a" for m''
    by (rule deep_copier.copy_kept [OF c assms(3) f(1) that(1)]) (use that(2) in blast)
  ultimately show ?thesis using f(1) by blast
qed

theorem copied_objects_are_isolated_witness:
  "\<exists>p' m'. LabSession_DeepCopyObject reference_lib (GRef (Some 2)) example_memory = (Inr p', m') \<and> p' \<noteq> Nil_ref \<and>
    look m' (GRef (Some 2)) = look example_memory (GRef (Some 2)) \<and>
    look (m'[2 := Pointee GZero]) p' = look example_memory (GRef (Some 2))"
proof -
  let ?p = "GRef (Some 2)" and ?m = example_memory
  have kind: "(ty_LabSession, LabSession_DeepCopyObject reference_lib) \<in> set (object_copiers reference_lib)"
    by (simp add: object_copiers_def)
  have typed: "has_type (TPtr ty_LabSession) (look ?m ?p)"
    by (simp add: example_memory_def ty_LabSession_def ty_TypeMeta_def ty_LabSessionSpec_def ty_LabSessionStatus_def
        ty_SessionSummary_def ty_Endpoint_def eval_nat_numeral)
  obtain p' m' where c: "LabSession_DeepCopyObject reference_lib ?p ?m = (Inr p', m')" "p' = Nil_ref \<longleftrightarrow> ?p = Nil_ref"
    and original: "\<forall>m''. length m' \<le> length m'' \<and> (\<forall>a<length ?m. m'' ! a = m' ! a) \<longrightarrow> look m'' ?p = look ?m ?p"
    and copy: "\<forall>m''. length m' \<le> length m'' \<and> (\<forall>a. length ?m \<le> a \<and> a < length m' \<longrightarrow> m'' ! a = m' ! a) \<longrightarrow>
      look m'' p' = look ?m ?p"
    using copied_objects_are_isolated [OF reference_lib_copies kind typed] by blast
  have "look (m'[2 := Pointee GZero]) p' = look ?m ?p"
    by (rule copy [rule_format]) (simp add: example_memory_def)
  moreover have "look m' ?p = look ?m ?p" by (rule original [rule_format]) simp
  moreover have "p' \<noteq> Nil_ref" using c(2) by simp
  ultimately show ?thesis using c(1) by blast
qed

end
