(* ===== verification/Templates.thy ===== *)
theory Templates
  imports DeepCopies
begin

section \<open>Defaults are filled into copies (labsession\_controller.go)\<close>

text \<open>
  \<open>serviceResources\<close> and \<open>setDefaultQty\<close> over the memory: theory \<open>Resources\<close> models what they
  compute, this one what they write. The LabService is the one the reconciler was handed, used
  for the pods of every session of the LabSpace, so the default must not end up in its map.
\<close>

subsection \<open>Trees by paths\<close>

fun entry :: "tree \<Rightarrow> string \<Rightarrow> tree option" where
  "entry (Node fs) n = map_of fs n"
| "entry (MapT es) n = map_of es n"
| "entry (PtrT t) n = entry t n"
| "entry _ n = None"

fun path :: "tree \<Rightarrow> string list \<Rightarrow> tree option" where
  "path t [] = Some t"
| "path t (n # ns) = (case entry t n of Some u \<Rightarrow> path u ns | None \<Rightarrow> None)"

lemma map_of_looks: "map_of (map (\<lambda>e. (fst e, g (snd e))) es) n = map_option g (map_of es n)"
  by (induction es) auto

lemma look_table: "look m (GRef (Some b)) = cell_tree c (map (look m) (contents c)) \<Longrightarrow> c = Table kvs \<Longrightarrow>
    entry (look m (GRef (Some b))) n = map_option (look m) (map_of kvs n)"
proof -
  have "zip (map fst kvs) (map (look m) (map snd kvs)) = map (\<lambda>e. (fst e, look m (snd e))) kvs"
    by (induction kvs) auto
  moreover assume "look m (GRef (Some b)) = cell_tree c (map (look m) (contents c))" "c = Table kvs"
  ultimately show ?thesis by (simp add: map_of_looks comp_def del: map_map)
qed

lemma entry_struct:
  assumes "n \<in> fst ` set fs"
  shows "entry (look m (GStruct fs)) n = Some (look m (field (GStruct fs) n))"
    "reach m (field (GStruct fs) n) \<subseteq> reach m (GStruct fs)"
proof -
  obtain w where w: "map_of fs n = Some w" using assms by (metis map_of_eq_None_iff not_None_eq)
  then show "entry (look m (GStruct fs)) n = Some (look m (field (GStruct fs) n))"
    by (simp add: field.simps map_of_looks)
  show "reach m (field (GStruct fs) n) \<subseteq> reach m (GStruct fs)" using w map_of_SomeD [OF w] by (force simp: field.simps)
qed

lemma typed_field:
  assumes "has_type (TStruct fts) (look m v)" "distinct (map fst fts)" "(n, T) \<in> set fts"
  obtains fs where "v = GStruct fs" "n \<in> fst ` set fs" "has_type T (look m (field v n))"
proof -
  obtain fs where fs: "v = GStruct fs" "map fst fs = map fst fts" "has_type T (look m (field v n))"
    using typed_struct [OF assms(1,2)] assms(3) by metis
  moreover have "n \<in> fst ` set fs" using assms(3) fs(2) by (metis fst_conv image_eqI image_set)
  ultimately show ?thesis using that by blast
qed

subsection \<open>The code\<close>

text \<open>Reading a nil map finds nothing, writing to one panics.\<close>

definition map_entries :: "gval \<Rightarrow> (memory, (string \<times> gval) list) prog" where
  "map_entries r = (if r = Nil_ref then ret [] else bindE (deref r) table)"

definition map_assign :: "gval \<Rightarrow> string \<Rightarrow> gval \<Rightarrow> (memory, unit) prog" where
  "map_assign r k w =
     (if r = Nil_ref then fail (Panic ''assignment to entry in nil map'') else modify r (set_entry k w))"

definition setDefaultQty_at :: "golib \<Rightarrow> gval \<Rightarrow> string \<Rightarrow> gval \<Rightarrow> (memory, unit) prog" where
  "setDefaultQty_at L list name def =
     bindE (map_entries list) (\<lambda>kvs.
     if map_of kvs name = None then bindE (L ''Quantity.DeepCopy'' def) (\<lambda>q. map_assign list name q)
     else ret ())"

text \<open>
  \<open>res := *r.DeepCopy(); if res.Limits == nil { res.Limits = corev1.ResourceList{} }\<close>: the library's
  \<open>DeepCopy\<close> is taken with the dereference of its result, so it gives the struct.
\<close>

definition own_requirements :: "golib \<Rightarrow> gval \<Rightarrow> (memory, gval) prog" where
  "own_requirements L r =
     bindE (L ''ResourceRequirements.DeepCopy'' r) (\<lambda>res.
     if field res ''Limits'' = Nil_ref
     then bindE (alloc (Table [])) (\<lambda>limits. ret (set_field ''Limits'' limits res))
     else ret res)"

definition serviceResources_at :: "golib \<Rightarrow> gval \<Rightarrow> gval \<Rightarrow> (memory, gval) prog" where
  "serviceResources_at L defaultLimit labSvc =
     bindE (bindE (deref labSvc) pointee) (\<lambda>svc.
     bindE (own_requirements L (field (field svc ''Spec'') ''Resources'')) (\<lambda>res.
     bindE (setDefaultQty_at L (field res ''Limits'') ''ephemeral-storage'' defaultLimit) (\<lambda>_.
     ret res)))"

subsection \<open>Writing an entry of a map\<close>

lemma look_update:
  assumes "intact (look m v)" "b \<notin> reach m v" shows "look (m[b := c]) v = look m v"
  by (rule look_frame(1) [OF assms(1)]) (use assms(2) in \<open>auto intro!: nth_list_update_neq\<close>)

lemma look_put:
  assumes "intact (look m (GRef (Some b)))" "m ! b = Table kvs"
    and "intact (look m q)" "b \<notin> reach m q" "within (length m - 1) (look m q)"
  shows "entry (look (m[b := Table (AList.update k q kvs)]) (GRef (Some b))) n =
    (if n = k then Some (look m q) else entry (look m (GRef (Some b))) n)"
proof -
  let ?c = "Table (AList.update k q kvs)"
  let ?m = "m[b := ?c]"
  note r = look_ref [OF assms(1)]
  have old: "w \<in> set (contents (m ! b))" if "w \<in> snd ` set kvs" for w using that assms(2) by simp
  have same: "look ?m w = look m w \<and> within (length m - 1) (look m w)" if w: "w \<in> set (contents ?c)" for w
  proof -
    have "w = q \<or> w \<in> snd ` set kvs" using w by (induction kvs) (auto split: if_splits)
    then show ?thesis
      using look_update assms(3-5) within_intact [OF r(3)] r(3) contents_without_cell [OF assms(1)] old by metis
  qed
  have "look ?m (GRef (Some b)) = cell_tree ?c (map (look ?m) (contents ?c))"
    using look_new(1) [of b ?m] same r(1) by simp
  moreover have "map (look ?m) (contents ?c) = map (look m) (contents ?c)"
    by (rule map_cong [OF refl]) (use same in blast)
  ultimately have "entry (look ?m (GRef (Some b))) n = map_option (look ?m) (map_of (AList.update k q kvs) n)"
    by (intro look_table) simp_all
  also have "\<dots> = map_option (look m) (map_of (AList.update k q kvs) n)"
  proof (cases "map_of (AList.update k q kvs) n")
    case (Some w)
    then have "w \<in> set (contents ?c)" using map_of_SomeD [OF Some] by (force simp del: update_conv)
    with Some same show ?thesis by simp
  qed simp
  also have "\<dots> = (if n = k then Some (look m q) else entry (look m (GRef (Some b))) n)"
    using look_table [OF r(2) assms(2), of n] by (simp add: update_conv)
  finally show ?thesis .
qed


lemma setDefaultQty_run:
  assumes "lib_copies L" "m = m0 @ new" "intact (look m0 def)" "length m0 \<le> b"
    and "intact (look m (GRef (Some b)))" "m ! b = Table kvs"
  shows "\<exists>m'. setDefaultQty_at L (GRef (Some b)) k def m = (Inr (), m') \<and> (\<forall>v. intact (look m0 v) \<longrightarrow> look m' v = look m0 v) \<and>
    (\<forall>n. entry (look m' (GRef (Some b))) n = (case entry (look m (GRef (Some b))) n of
       Some t \<Rightarrow> Some t | None \<Rightarrow> if n = k then Some (look m0 def) else None))"
proof -
  note r = look_ref [OF assms(5)]
  have b: "b < length m" by (rule r(1))
  have e: "entry (look m (GRef (Some b))) n = map_option (look m) (map_of kvs n)" for n
    by (rule look_table [OF r(2) assms(6)])
  have read: "map_entries (GRef (Some b)) m = (Inr kvs, m)"
    using b assms(6) by (simp add: map_entries_def run_simps deref_def table_def)
  show ?thesis
  proof (cases "map_of kvs k")
    case (Some t)
    then have "setDefaultQty_at L (GRef (Some b)) k def m = (Inr (), m)"
      by (simp add: setDefaultQty_at_def run_simps read)
    moreover have "look m v = look m0 v" if "intact (look m0 v)" for v
      using look_append(1) [OF that] assms(2) by simp
    ultimately show ?thesis using Some by (auto simp: e split: option.split)
  next
    case None
    have same: "look m def = look m0 def" using look_append(1) [OF assms(3)] assms(2) by simp
    then obtain q more where q: "L ''Quantity.DeepCopy'' def m = (Inr q, m @ more)" "copied m def q (m @ more)"
      using deep_copier.copies [of "TLib ''Quantity''" "L ''Quantity.DeepCopy''" m def] lib_copies_any [OF assms(1)] assms(3) by auto
    let ?m = "m @ more" and ?m' = "(m @ more)[b := Table (AList.update k q kvs)]"
    have "setDefaultQty_at L (GRef (Some b)) k def m = (Inr (), ?m')"
      using None b assms(6) by (simp add: setDefaultQty_at_def run_simps read q(1) map_assign_def modify_def nth_append)
    moreover have "look ?m' v = look m0 v" if v: "intact (look m0 v)" for v
    proof -
      have "look ?m v = look m0 v" "reach ?m v = reach m0 v"
        using look_append [OF v, of "new @ more"] assms(2) by simp_all
      then show ?thesis using look_update [of ?m v b] v cells_in_memory [OF v] assms(4) by fastforce
    qed
    moreover have "entry (look ?m' (GRef (Some b))) n = (if n = k then Some (look ?m q) else entry (look ?m (GRef (Some b))) n)" for n
    proof (rule look_put)
      have "within (length m0) (look m0 def)" by (rule intact_within [OF assms(3)])
      then show "within (length ?m - 1) (look ?m q)"
        using q(2) same b assms(2,4) by (auto simp: copied_def elim: within_mono)
    qed (use q(2) same assms b look_append(1) [OF assms(5), of more] in \<open>auto simp: copied_def nth_append\<close>)
    moreover have "look ?m (GRef (Some b)) = look m (GRef (Some b))" by (rule look_append(1) [OF assms(5)])
    ultimately show ?thesis using q(2) same None by (auto simp: copied_def e split: option.split)
  qed
qed


text \<open>The copy of the requirements, with a map of limits that is never nil.\<close>

lemma requirements_copy:
  assumes "lib_copies L" "has_type ty_ResourceRequirements (look m v)"
  shows "\<exists>res new b kvs. own_requirements L v m = (Inr res, m @ new) \<and>
     field res ''Limits'' = GRef (Some b) \<and> length m \<le> b \<and> intact (look (m @ new) (GRef (Some b))) \<and>
     (m @ new) ! b = Table kvs \<and> (\<forall>n. entry (look (m @ new) (GRef (Some b))) n = path (look m v) [''Limits'', n]) \<and>
     (\<forall>m'. entry (look m' res) ''Limits'' = Some (look m' (GRef (Some b))))"
proof -
  obtain res0 new where c: "L ''ResourceRequirements.DeepCopy'' v m = (Inr res0, m @ new)" "copied m v res0 (m @ new)"
    using deep_copier.copies [OF lib_copies_any [OF assms(1)] assms(2)] by blast
  let ?m = "m @ new"
  have "has_type ty_ResourceRequirements (look ?m res0)" using c(2) assms(2) by (simp add: copied_def)
  then obtain fs where fs: "res0 = GStruct fs" "''Limits'' \<in> fst ` set fs"
     and t: "has_type ty_ResourceList (look ?m (field res0 ''Limits''))"
    unfolding ty_ResourceRequirements_def by (rule typed_field [of _ _ _ "''Limits''" ty_ResourceList]) simp_all
  note l = entry_struct [OF fs(2), folded fs(1)]
  have tree: "path (look m v) [''Limits'', n] = entry (look ?m (field res0 ''Limits'')) n" for n
    using c(2) l(1) [of ?m] by (simp add: copied_def split: option.split)
  show ?thesis
  proof (cases "field res0 ''Limits'' = Nil_ref")
    case True
    let ?r = "GRef (Some (length ?m))" and ?M = "?m @ [Table []]"
    have f: "set_field ''Limits'' ?r res0 = GStruct (map (\<lambda>f. (fst f, if fst f = ''Limits'' then ?r else snd f)) fs)"
      by (simp add: fs(1))
    have f1: "field (set_field ''Limits'' ?r res0) ''Limits'' = ?r" using field_set_field [OF fs(2)] by (simp add: fs(1))
    have F: "''Limits'' \<in> fst ` set (map (\<lambda>f. (fst f, if fst f = ''Limits'' then ?r else snd f)) fs)"
      using fs(2) by force
    have "entry (look m' (set_field ''Limits'' ?r res0)) ''Limits'' = Some (look m' ?r)" for m'
      using entry_struct(1) [OF F, folded f] f1 by (simp del: set_field.simps)
    moreover have "look ?M ?r = MapT []" using look_new(1) [of "length ?m" ?M] by (simp add: nth_append)
    moreover have "path (look m v) [''Limits'', n] = None" for n using tree True by simp
    moreover have "own_requirements L v m =
       (Inr (set_field ''Limits'' ?r res0), m @ new @ [Table []])"
      using True c(1) by (simp add: own_requirements_def run_simps alloc_def del: set_field.simps)
    ultimately show ?thesis
      using f1 by (intro exI [of _ "set_field ''Limits'' ?r res0"] exI [of _ "new @ [Table []]"] exI [of _ "length ?m"] exI [of _ "[]"])
        (simp add: nth_append del: set_field.simps path.simps)
  next
    case False
    obtain r where "field res0 ''Limits'' = GRef r" using t by (cases "field res0 ''Limits''") (simp_all add: ty_ResourceList_def)
    with False obtain b where b: "field res0 ''Limits'' = GRef (Some b)" by (cases r) simp_all
    with t obtain kvs where "?m ! b = Table kvs" using typed_map unfolding ty_ResourceList_def by metis
    moreover have "intact (look ?m (GRef (Some b)))" using has_type_intact [OF t] b by simp
    moreover have "length m \<le> b"
      using l(2) [of ?m] look_ref(4) [OF \<open>intact (look ?m (GRef (Some b)))\<close>] c(2) b by (auto simp: copied_def)
    ultimately show ?thesis
      using False c(1) tree l(1) b
      by (intro exI [of _ res0] exI [of _ new] exI [of _ b] exI [of _ kvs]) (simp add: own_requirements_def run_simps)
  qed
qed

subsection \<open>The template is read only\<close>

text \<open>
  C22: filling in the default writes to no template. For a LabService that is not nil, in any
  memory, \<open>serviceResources\<close> returns without a panic, everything that could be read before
  reads the same afterwards, the LabService included, and the limits it returns are those of the
  LabService by every name, with the default for the ephemeral storage if there was none, also
  where the map of limits is nil.
\<close>

theorem defaults_go_to_the_copy:
  assumes "lib_copies L" "has_type (TPtr ty_LabService) (look m p)" "p \<noteq> Nil_ref" "intact (look m defaultLimit)"
  shows "\<exists>res m'. serviceResources_at L defaultLimit p m = (Inr res, m') \<and>
    (\<forall>v. intact (look m v) \<longrightarrow> look m' v = look m v) \<and>
    (\<forall>n. path (look m' res) [''Limits'', n] =
      (case path (look m p) [''Spec'', ''Resources'', ''Limits'', n] of Some t \<Rightarrow> Some t
       | None \<Rightarrow> if n = ''ephemeral-storage'' then Some (look m defaultLimit) else None))"
proof -
  obtain a where a: "p = GRef (Some a)"
    using assms(2,3) by (cases p; cases "case p of GRef r \<Rightarrow> r | _ \<Rightarrow> None") simp_all
  obtain svc where svc: "a < length m" "m ! a = Pointee svc" "has_type ty_LabService (look m svc)"
    using typed_ptr assms(2) unfolding a by blast
  obtain fs where fs: "svc = GStruct fs" "''Spec'' \<in> fst ` set fs" "has_type ty_LabServiceSpec (look m (field svc ''Spec''))"
    using svc(3) unfolding ty_LabService_def by (rule typed_field [of _ _ _ "''Spec''" ty_LabServiceSpec]) simp_all
  let ?spec = "field svc ''Spec''"
  obtain gs where gs: "?spec = GStruct gs" "''Resources'' \<in> fst ` set gs"
     and t: "has_type ty_ResourceRequirements (look m (field ?spec ''Resources''))"
    using fs(3) unfolding ty_LabServiceSpec_def by (rule typed_field [of _ _ _ "''Resources''" ty_ResourceRequirements]) simp_all
  let ?v = "field ?spec ''Resources''"
  have "look m p = PtrT (look m svc)"
    using look_ref(2) [OF has_type_intact [OF assms(2) [unfolded a]]] svc(2) a by simp
  then have tree: "path (look m p) [''Spec'', ''Resources'', ''Limits'', n] = path (look m ?v) [''Limits'', n]" for n
    using entry_struct(1) [OF fs(2), of m] entry_struct(1) [OF gs(2), of m] fs(1) gs(1) by simp
  obtain res new b kvs where copy: "own_requirements L ?v m = (Inr res, m @ new)"
     "field res ''Limits'' = GRef (Some b)" "length m \<le> b" "intact (look (m @ new) (GRef (Some b)))" "(m @ new) ! b = Table kvs"
     and limits: "\<And>n. entry (look (m @ new) (GRef (Some b))) n = path (look m ?v) [''Limits'', n]"
       "\<And>m'. entry (look m' res) ''Limits'' = Some (look m' (GRef (Some b)))"
    using requirements_copy [OF assms(1) t] by blast
  obtain m' where m': "setDefaultQty_at L (GRef (Some b)) ''ephemeral-storage'' defaultLimit (m @ new) = (Inr (), m')"
     "\<And>v. intact (look m v) \<Longrightarrow> look m' v = look m v"
     "\<And>n. entry (look m' (GRef (Some b))) n = (case path (look m ?v) [''Limits'', n] of
        Some t \<Rightarrow> Some t | None \<Rightarrow> if n = ''ephemeral-storage'' then Some (look m defaultLimit) else None)"
    using setDefaultQty_run [OF assms(1) refl assms(4) copy(3,4,5), of "''ephemeral-storage''"] limits(1) by auto
  have "serviceResources_at L defaultLimit p m = (Inr res, m')"
    using svc(1,2) copy(1,2) m'(1)
    by (simp add: serviceResources_at_def a run_simps deref_def pointee_def)
  moreover have "path (look m' res) [''Limits'', n] = entry (look m' (GRef (Some b))) n" for n
    by (simp add: limits(2) split: option.split)
  ultimately show ?thesis using m'(2,3) tree by auto
qed

definition example_template :: memory where
  "example_template =
    [Pointee (GStruct
       [(''TypeMeta'', GStruct [(''Kind'', GScalar (SStr ''LabService'')), (''APIVersion'', GScalar (SStr ''infra/v1''))]),
        (''ObjectMeta'', GStruct [(''Name'', GScalar (SStr ''shop''))]),
        (''Spec'', GStruct
          [(''Image'', GScalar (SStr ''shop:1'')), (''ImagePullPolicy'', GScalar (SStr '''')), (''Ports'', Nil_ref),
           (''Liveness'', Nil_ref), (''Readiness'', Nil_ref), (''Exposure'', Nil_ref), (''Env'', Nil_ref),
           (''Command'', Nil_ref), (''Args'', Nil_ref),
           (''Resources'', GStruct [(''Limits'', GRef (Some 1)), (''Requests'', Nil_ref), (''Claims'', Nil_ref)]),
           (''StorageLimit'', Nil_ref), (''Egress'', Nil_ref), (''Security'', Nil_ref)])]),
     Table [(''cpu'', GScalar (SStr ''500m''))]]"

theorem defaults_go_to_the_copy_witness:
  "\<exists>res m'. serviceResources_at reference_lib (GScalar (SStr ''512Mi'')) (GRef (Some 0)) example_template = (Inr res, m') \<and>
    look m' (GRef (Some 1)) = MapT [(''cpu'', Leaf (SStr ''500m''))] \<and>
    path (look m' res) [''Limits'', ''cpu''] = Some (Leaf (SStr ''500m'')) \<and>
    path (look m' res) [''Limits'', ''ephemeral-storage''] = Some (Leaf (SStr ''512Mi''))"
proof -
  note look0 = example_template_def eval_nat_numeral
  have "has_type (TPtr ty_LabService) (look example_template (GRef (Some 0)))"
    by (simp add: look0 ty_LabService_def ty_TypeMeta_def ty_LabServiceSpec_def ty_ResourceRequirements_def ty_ResourceList_def)
  then obtain res m' where r:
      "serviceResources_at reference_lib (GScalar (SStr ''512Mi'')) (GRef (Some 0)) example_template = (Inr res, m')"
      "\<And>v. intact (look example_template v) \<Longrightarrow> look m' v = look example_template v"
      "\<And>n. path (look m' res) [''Limits'', n] =
        (case path (look example_template (GRef (Some 0))) [''Spec'', ''Resources'', ''Limits'', n] of Some t \<Rightarrow> Some t
         | None \<Rightarrow> if n = ''ephemeral-storage'' then Some (look example_template (GScalar (SStr ''512Mi''))) else None)"
    using defaults_go_to_the_copy [OF reference_lib_copies, of example_template "GRef (Some 0)" "GScalar (SStr ''512Mi'')"]
    by auto
  have "look example_template (GRef (Some 1)) = MapT [(''cpu'', Leaf (SStr ''500m''))]" by (simp add: look0)
  moreover have "path (look example_template (GRef (Some 0))) [''Spec'', ''Resources'', ''Limits'', n] =
      map_of [(''cpu'', Leaf (SStr ''500m''))] n" for n
    by (simp add: look0)
  ultimately show ?thesis using r by (intro exI [of _ res] exI [of _ m']) simp
qed

end
