(* ===== verification/Spec2Isabelle.thy ===== *)
theory Spec2Isabelle
  imports Lifecycle Creation CTFLife CTFNetwork Panics Startup Rbac Schema Isolation Settling CryptoVectors
    Sharing Templates
begin

text \<open>
  The CTF school controller: a Kubernetes controller, in Go, that gives students isolated
  challenge environments. This development models its reconcilers, its startup and its
  permissions, and proves what they do to the cluster whatever the cluster answers.

  \<^bold>\<open>The program.\<close> One process (\<open>cmd/main.go\<close>) registers four reconcilers with a manager of the
  controller-runtime library. \<open>LabSession\<close> (\<open>internal/controller/core\<close>) is the main one: from a
  session, the LabSpace it refers to, and the LabServices and Tasks the LabSpace selects, it
  builds a namespace with a quota, limits, a pull secret and a network policy, a workspace pod
  behind a guard sidecar, the challenge pods with their Services and routes; it keeps the
  status, restarts, expires and cleans up. \<open>CTFTask\<close> (\<open>ctftask_controller.go\<close>) is the older
  single-pod challenge. \<open>LabSpace\<close> and \<open>LabService\<close> (\<open>internal/controller/infra\<close>) have empty
  reconcilers. The reconcilers interact through the API server only. The objects they read are
  deep copies, made by generated functions (\<open>zz_generated.deepcopy.go\<close>), of what the client caches.

  \<^bold>\<open>How the code is modelled.\<close> A Go function that talks to the cluster is a program in the sense of
  \<open>Prelude\<close>: a function from a state to an error or a result, and a new state. The state is the
  outside world, of any type \<open>'w\<close>, with the list of the calls made so far. The client library,
  the API server, the clock and the random source are the parameter \<open>'w kube\<close>, one function per
  kind of call, so that each call may fail in any way and everything may change between two
  calls. The pure library functions are the parameter \<open>lib\<close>, with their documented behaviour
  \<open>lib_ok\<close>; \<open>keyed\<close>, \<open>schema_ok\<close>, \<open>plain_errors\<close>, \<open>status_kept\<close>, \<open>status_only\<close>, \<open>client_calm\<close> and \<open>rand_ok\<close>
  state the documented behaviour of the client; each is shown to hold of a concrete instance, on
  which the witnesses run. That the cluster stays as it is between reconciliations is \<open>frozen\<close> for
  a session, \<open>readiness_stays\<close> and \<open>steady\<close> for a task; \<open>steady\<close> keeps the contract of
  \<open>CreateOrUpdate\<close>, which returns the error of its mutate function. The environment and the corners
  of the standard library and of the runtime that are left open, the longest slice that can be
  made among them, are the parameter \<open>go_env\<close>. Panics are errors that \<open>attempt\<close> (the Go code that inspects \<open>err\<close>) cannot catch. A
  \<open>CreateOrUpdate\<close> is a call that carries its object and its mutate function. Loops are
  structural recursions, \<open>time.ParseDuration\<close> and SHA-256 recursions with a measure: every
  definition is total, and no fuel is used. Durations and instants are unbounded integers of
  nanoseconds, with the saturation and the \<open>uint64\<close> wrap-around of the code written out where it
  occurs; bytes and the words of SHA-256 are machine words.

  In these theories an object is a value. That this is sound, although Go's objects share what
  their pointers, slices and maps refer to, is the subject of a second, lower model: a memory of
  cells, in which the deep copies are programs that read, allocate and write. There a type is a
  tree of fields (\<open>ty\<close>); the functions of the libraries that copy library types are the parameter
  \<open>golib\<close>, assumed to keep the same contract (\<open>lib_copies\<close>). A slice is the whole of its array, the
  iteration order of a map is that of its list, and an instant is a scalar. Reading a value
  follows as many references as the memory has cells, which is enough unless it is cyclic.

  \<^bold>\<open>The theories.\<close>
  \<^item> \<open>Prelude\<close>: errors, Go maps, programs, a Hoare logic with an error postcondition.
  \<^item> \<open>GoStd\<close>: what is used of \<open>strings\<close>, \<open>fmt\<close>, \<open>os\<close>, \<open>time\<close>. Round trip of durations in hours,
    minutes and seconds.
  \<^item> \<open>Crypto\<close>, \<open>CryptoVectors\<close>: SHA-256, HMAC, base64url and hexadecimal, with the interface
    \<open>byte_encoder\<close> (and \<open>group_encoder\<close>) that both encodings provide, and a published test vector.
  \<^item> \<open>KubeTypes\<close>, \<open>ApiTypes\<close>: the Kubernetes objects, and the API of \<open>api/core\<close>, \<open>api/infra\<close>, \<open>api/v1\<close>.
  \<^item> \<open>Kube\<close>: the client; which calls a program issues (\<open>emits\<close>), what it returns (\<open>yields\<close>); the
    interfaces \<open>confined_step\<close> and \<open>settling_mutate\<close>.
  \<^item> \<open>Secrets\<close>: key resolution, the startup guard, the flag body and the VNC password.
  \<^item> \<open>Security\<close>: container and pod security contexts from a profile.
  \<^item> \<open>Resources\<close>: quantities, container budgets, quota and limit range.
  \<^item> \<open>Naming\<close>: host names and where they collide.
  \<^item> \<open>NetPolicy\<close>: the Cilium policies, read back and refined to what an author declares.
  \<^item> \<open>Contract\<close>: \<open>lab_call\<close>, the calls a reconciler of one session may make.
  \<^item> \<open>Tenancy\<close>: namespace, pull secret, pod creation.
  \<^item> \<open>Workspace\<close>: the workspace pod, the guard (\<open>workspace_guard.go\<close>), its Service and route.
  \<^item> \<open>Services\<close>: challenge environment, pod, Service and route.
  \<^item> \<open>Phase\<close>: \<open>computePhase\<close>.
  \<^item> \<open>Session\<close>, \<open>Lifecycle\<close>: \<open>Reconcile\<close> of LabSession with \<open>maybeRestart\<close> and \<open>syncStatus\<close>; confinement,
    isolation before execution, and each stage of a session's life.
  \<^item> \<open>Creation\<close>: a create follows a read that found nothing.
  \<^item> \<open>CTFTask\<close>: \<open>Reconcile\<close> of CTFTask with its helpers, and its contract \<open>ctf_call\<close>.
  \<^item> \<open>CTFLife\<close>: the state machine \<open>status_step\<close> of the status of a CTFTask as an inductive relation,
    that the reconciler implements it, what holds of reachable statuses; flag, expiry, failures.
  \<^item> \<open>CTFNetwork\<close>: the meaning of the task's NetworkPolicy on 32-bit addresses; that pod, Service and
    policy fit together.
  \<^item> \<open>Panics\<close>: neither reconciler panics, and on which inputs.
  \<^item> \<open>Startup\<close>: \<open>main\<close>, its flags and server options, the registrations, the two empty reconcilers.
  \<^item> \<open>Schema\<close>: the validation markers of the statuses as a type of calls; both reconcilers write
    conforming statuses.
  \<^item> \<open>Isolation\<close>: footprints of calls; the interface \<open>write_region\<close>, provided by both contracts;
    reconciliations of different objects write disjoint sets of objects.
  \<^item> \<open>Settling\<close>: the debt of a status, which every write reduces: status updates come to an end.
  \<^item> \<open>GoMemory\<close>: the memory, what a caller sees of it (\<open>look\<close>), what that depends on (\<open>reach\<close>), frame rules.
  \<^item> \<open>Copying\<close>: the statements of a deep copy as operations on the memory, the interface
    \<open>deep_copier\<close>, one rule per statement, and a reference implementation.
  \<^item> \<open>DeepCopies\<close>: the types of the API and the three \<open>zz_generated.deepcopy.go\<close>, function by function.
  \<^item> \<open>Sharing\<close>: all of them keep the contract; an object and its copy live apart.
  \<^item> \<open>Templates\<close>: \<open>serviceResources\<close> and \<open>setDefaultQty\<close> over the memory write to no LabService.
  \<^item> \<open>Rbac\<close>: the role the markers generate, composed with the contracts of both reconcilers.

  \<^bold>\<open>What is proved.\<close> Safety of both reconcilers as contracts on their calls; for LabSession that no
  pod is created before the policy of its namespace, for CTFTask that this order is reversed.
  Functional behaviour of every stage, errors included. Refinement: rendered policies against
  declared egress, the CTFTask reconciler against its state machine. That machine is the code's: the
  phases Active and Expired, which \<open>ctftask_controller_test.go\<close> waits for, are never entered, and a
  task is deleted when it expires. Bounds and panics: slices
  of digests, random strings of negative or excessive length, routes without ports. Settling: every mutate function is
  idempotent and keeps the key. Status updates settle: while the cluster stays as it is, and
  is listed in the same order, the writes that a reconciler's own writes trigger are bounded (one
  for a session, three for a task, whether its resources can be made or not). Statuses are typed: they conform to the validation markers of the CRDs. Reconciliations
  of different objects do not interfere. Startup fails closed. The role of the markers
  permits every call while Task is served as \<open>tasks\<close>, and all but the list of tasks when it is served
  as the marker of the type says. The published addresses are the host names of the routes, and it is
  characterised when two host names are the same.
  The generated deep copies forget no field that holds a reference, so a copied object shares
  nothing with its original, and defaults filled into a copy do not reach the template.

  \<^bold>\<open>Not modelled.\<close> The registration of schemes (\<open>groupversion_info.go\<close>, \<open>init\<close> of \<open>main.go\<close>):
  declarations for the library, without logic. Logging. Parsing of command-line flags: the library's; the model starts from the
  parsed values. What controller-runtime does between reconciliations (queues, caches, back-off,
  leader election). Tests, their utilities, and the guard's own program, which is not in the
  repository. Instants are stored with a precision of one second: \<open>status_kept\<close> promises a status
  back only if its instants are whole seconds, and what happens to the rest is left open.
\<close>

end
